(* ===== verification/GoLib.thy ===== *)
theory GoLib
  imports Main "HOL-Library.Word"
begin

text \<open>
  The prelude of the development: what the Go language and its standard library give the
  program.  A Go string or byte slice is a \<open>string\<close> (a list of 8-bit characters, so
  \<open>length\<close> is Go's \<open>len\<close>), an \<open>error\<close> is its message, a function returning
  \<open>(T, error)\<close> has the type \<open>goerr + 't\<close>, and a function that may panic has the type
  \<open>'t go\<close>.  A \<open>time.Time\<close> and a \<open>time.Duration\<close> are numbers of nanoseconds.
\<close>

section \<open>Errors and panics\<close>

type_synonym goerr = string
type_synonym time = int
type_synonym duration = int

datatype 'a go = Ret 'a | Panic string

definition gbind :: "'a go \<Rightarrow> ('a \<Rightarrow> 'b go) \<Rightarrow> 'b go" where
  "gbind m k = (case m of Ret x \<Rightarrow> k x | Panic p \<Rightarrow> Panic p)"

lemma gbind_simps [simp]:
  "gbind (Ret x) k = k x"
  "gbind (Panic p) k = Panic p"
  by (simp_all add: gbind_def)

lemma gbind_Ret_iff: "gbind m k = Ret y \<longleftrightarrow> (\<exists>x. m = Ret x \<and> k x = Ret y)"
  by (cases m) auto

definition is_panic :: "'a go \<Rightarrow> bool" where
  "is_panic m = (case m of Ret _ \<Rightarrow> False | Panic _ \<Rightarrow> True)"

lemma is_panic_simps [simp]: "\<not> is_panic (Ret x)" "is_panic (Panic p)"
  by (simp_all add: is_panic_def)

definition nanosecond :: duration where "nanosecond = 1"
definition second :: duration where "second = 1000000000"
definition minute :: duration where "minute = 60 * second"
definition hour :: duration where "hour = 60 * minute"

named_theorems dur_defs
declare nanosecond_def [dur_defs] second_def [dur_defs] minute_def [dur_defs] hour_def [dur_defs]

section \<open>Slices of a string\<close>

text \<open>\<open>s[:n]\<close>, \<open>s[n:]\<close> and \<open>s[n]\<close> panic out of range.\<close>

definition slice_to :: "string \<Rightarrow> int \<Rightarrow> string go" where
  "slice_to s n = (if 0 \<le> n \<and> n \<le> int (length s) then Ret (take (nat n) s)
                   else Panic ''slice bounds out of range'')"

definition slice_from :: "string \<Rightarrow> int \<Rightarrow> string go" where
  "slice_from s n = (if 0 \<le> n \<and> n \<le> int (length s) then Ret (drop (nat n) s)
                     else Panic ''slice bounds out of range'')"

definition byte_at :: "string \<Rightarrow> int \<Rightarrow> char go" where
  "byte_at s n = (if 0 \<le> n \<and> n < int (length s) then Ret (s ! nat n)
                  else Panic ''index out of range'')"

section \<open>Package strings\<close>

definition HasPrefix :: "string \<Rightarrow> string \<Rightarrow> bool" where
  "HasPrefix s p = (take (length p) s = p)"

definition HasSuffix :: "string \<Rightarrow> string \<Rightarrow> bool" where
  "HasSuffix s p = (length p \<le> length s \<and> drop (length s - length p) s = p)"

fun Contains :: "string \<Rightarrow> string \<Rightarrow> bool" where
  "Contains [] sub = (sub = [])"
| "Contains (c # s) sub = (HasPrefix (c # s) sub \<or> Contains s sub)"

text \<open>\<open>strings.SplitN(s, sep, 2)\<close> for a one-byte separator.\<close>

fun cut_at :: "char \<Rightarrow> string \<Rightarrow> (string \<times> string) option" where
  "cut_at c [] = None"
| "cut_at c (x # xs) = (if x = c then Some ([], xs)
                     else map_option (\<lambda>(a, b). (x # a, b)) (cut_at c xs))"

definition SplitN2 :: "string \<Rightarrow> char \<Rightarrow> string list" where
  "SplitN2 s c = (case cut_at c s of None \<Rightarrow> [s] | Some (a, b) \<Rightarrow> [a, b])"

text \<open>\<open>strings.LastIndex(s, c)\<close> for a one-byte separator; \<open>None\<close> is \<open>-1\<close>.\<close>

fun LastIndex :: "string \<Rightarrow> char \<Rightarrow> nat option" where
  "LastIndex [] c = None"
| "LastIndex (x # xs) c = (case LastIndex xs c of
      Some i \<Rightarrow> Some (Suc i) | None \<Rightarrow> if x = c then Some 0 else None)"

fun Join :: "string list \<Rightarrow> string \<Rightarrow> string" where
  "Join [] sep = []"
| "Join [x] sep = x"
| "Join (x # y # xs) sep = x @ sep @ Join (y # xs) sep"

definition ReplaceAll :: "string \<Rightarrow> char \<Rightarrow> string \<Rightarrow> string" where
  "ReplaceAll s c r = concat (map (\<lambda>x. if x = c then r else [x]) s)"

subsection \<open>TrimSpace\<close>

text \<open>
  The encodings of the code points that \<open>unicode.IsSpace\<close> accepts: six ASCII bytes, U+0085,
  U+00A0, U+1680, U+2000 to U+200A, U+2028, U+2029, U+202F, U+205F, U+3000.
\<close>

definition space_encodings :: "string list" where
  "space_encodings =
     map (\<lambda>n. [char_of (n::nat)]) [9, 10, 11, 12, 13, 32] @
     map (map char_of)
      ([[194, 133], [194, 160], [225, 154, 128]] @
       map (\<lambda>n. [226, 128, n]) [128, 129, 130, 131, 132, 133, 134, 135, 136, 137, 138, 168, 169, 175] @
       [[226, 129, 159], [227, 128, 128::nat]])"

fun strip_prefix :: "string list \<Rightarrow> string \<Rightarrow> string option" where
  "strip_prefix [] s = None"
| "strip_prefix (p # ps) s =
     (if p \<noteq> [] \<and> HasPrefix s p then Some (drop (length p) s) else strip_prefix ps s)"

lemma strip_prefix_length: "strip_prefix ps s = Some t \<Longrightarrow> length t < length s"
proof (induction ps)
  case Nil
  then show ?case by simp
next
  case (Cons p ps)
  show ?case
  proof (cases "p \<noteq> [] \<and> HasPrefix s p")
    case True
    with Cons.prems have "t = drop (length p) s" and "s \<noteq> []"
      by (auto simp: HasPrefix_def)
    with True show ?thesis by simp
  next
    case False
    with Cons show ?thesis by auto
  qed
qed

function TrimLeftSpace :: "string list \<Rightarrow> string \<Rightarrow> string" where
  "TrimLeftSpace ps s = (case strip_prefix ps s of None \<Rightarrow> s | Some t \<Rightarrow> TrimLeftSpace ps t)"
  by pat_completeness auto
termination
  by (relation "measure (\<lambda>(ps, s). length s)") (auto simp: strip_prefix_length)

declare TrimLeftSpace.simps [simp del]

definition TrimSpace :: "string \<Rightarrow> string" where
  "TrimSpace s = rev (TrimLeftSpace (map rev space_encodings)
                       (rev (TrimLeftSpace space_encodings s)))"

subsection \<open>ToLower, EqualFold\<close>

definition is_ascii :: "char \<Rightarrow> bool" where
  "is_ascii c = ((of_char c :: nat) < 128)"

definition lower_ascii :: "char \<Rightarrow> char" where
  "lower_ascii c = (let n = (of_char c :: nat) in
      if 65 \<le> n \<and> n \<le> 90 then char_of (n + 32) else c)"

text \<open>
  \<open>strings.ToLower\<close> maps an ASCII string bytewise; for any other string it maps Unicode code
  points by the tables of package unicode, the argument \<open>ul\<close> here.
\<close>

definition ToLower :: "(string \<Rightarrow> string) \<Rightarrow> string \<Rightarrow> string" where
  "ToLower ul s = (if list_all is_ascii s then map lower_ascii s else ul s)"

text \<open>
  \<open>strings.EqualFold(s, t)\<close> for an ASCII \<open>t\<close> in lower case: besides the letter itself, \<open>s\<close> also
  folds from U+017F and \<open>k\<close> from U+212A.
\<close>

fun EqualFold :: "string \<Rightarrow> string \<Rightarrow> bool" where
  "EqualFold s [] = (s = [])"
| "EqualFold s (c # t) =
     ((s \<noteq> [] \<and> lower_ascii (hd s) = c \<and> EqualFold (tl s) t) \<or>
      (c = CHR ''s'' \<and> HasPrefix s (map char_of [197, 191::nat]) \<and> EqualFold (drop 2 s) t) \<or>
      (c = CHR ''k'' \<and> HasPrefix s (map char_of [226, 132, 170::nat]) \<and> EqualFold (drop 3 s) t))"

section \<open>Numbers as text\<close>

definition digit_char :: "nat \<Rightarrow> char" where
  "digit_char d = char_of (48 + d)"

fun show_nat :: "nat \<Rightarrow> string" where
  "show_nat n = (if n < 10 then [digit_char n] else show_nat (n div 10) @ [digit_char (n mod 10)])"

declare show_nat.simps [simp del]

definition show_int :: "int \<Rightarrow> string" where
  "show_int i = (if i < 0 then ''-'' @ show_nat (nat (- i)) else show_nat (nat i))"

definition is_digit :: "char \<Rightarrow> bool" where
  "is_digit c = (48 \<le> (of_char c :: nat) \<and> (of_char c :: nat) \<le> 57)"

definition digits_value :: "string \<Rightarrow> nat" where
  "digits_value s = foldl (\<lambda>a c. 10 * a + ((of_char c :: nat) - 48)) 0 s"

text \<open>\<open>strconv.Atoi\<close>: an optional sign, decimal digits, and the value within an int64.\<close>

definition Atoi :: "string \<Rightarrow> int option" where
  "Atoi s =
     (let neg = (s \<noteq> [] \<and> hd s = CHR ''-'');
          ds = (if s \<noteq> [] \<and> (hd s = CHR ''-'' \<or> hd s = CHR ''+'') then tl s else s);
          v = (if neg then - int (digits_value ds) else int (digits_value ds))
      in if ds \<noteq> [] \<and> list_all is_digit ds \<and> - (2^63) \<le> v \<and> v < 2^63 then Some v else None)"

section \<open>Lemmas on the string functions\<close>

lemma slice_to_Ret [simp]: "n \<le> length s \<Longrightarrow> slice_to s (int n) = Ret (take n s)"
  by (simp add: slice_to_def)

lemma is_panic_slice_to [simp]: "is_panic (slice_to s n) \<longleftrightarrow> n < 0 \<or> int (length s) < n"
  by (auto simp: slice_to_def)

lemma HasPrefix_append [simp]: "HasPrefix (p @ s) p"
  by (simp add: HasPrefix_def)

lemma HasPrefix_iff: "HasPrefix s p \<longleftrightarrow> (\<exists>r. s = p @ r)"
  by (auto simp: HasPrefix_def) (metis append_take_drop_id)

lemma HasPrefix_trans: "HasPrefix s t \<Longrightarrow> HasPrefix t p \<Longrightarrow> HasPrefix s p"
  by (auto simp: HasPrefix_iff)

lemma HasSuffix_iff: "HasSuffix s p \<longleftrightarrow> (\<exists>r. s = r @ p)"
  unfolding HasSuffix_def by (metis append_eq_conv_conj append_take_drop_id diff_add_inverse2
      le_add2 length_append)

lemma Contains_iff: "Contains s p \<longleftrightarrow> (\<exists>a b. s = a @ p @ b)"
proof (induction s)
  case Nil
  then show ?case by auto
next
  case (Cons c s)
  show ?case
  proof
    assume "Contains (c # s) p"
    then consider b where "c # s = p @ b" | a b where "s = a @ p @ b"
      using Cons by (auto simp: HasPrefix_iff)
    then show "\<exists>a b. c # s = a @ p @ b" by cases (metis append_Nil, metis append_Cons)
  next
    assume "\<exists>a b. c # s = a @ p @ b"
    then obtain a b where "c # s = a @ p @ b" by blast
    show "Contains (c # s) p"
    proof (cases a)
      case Nil
      with \<open>c # s = a @ p @ b\<close> have "HasPrefix (c # s) p" by simp
      then show ?thesis by simp
    next
      case Cons': (Cons d a')
      with \<open>c # s = a @ p @ b\<close> have "s = a' @ p @ b" by simp
      with Cons show ?thesis by auto
    qed
  qed
qed

lemma Contains_char: "Contains s [c] \<longleftrightarrow> c \<in> set s"
  by (auto simp: Contains_iff in_set_conv_decomp)

lemma cut_at_None_iff: "cut_at c s = None \<longleftrightarrow> c \<notin> set s"
  by (induction s) (auto split: if_splits)

lemma cut_at_Some_iff: "cut_at c s = Some (a, b) \<longleftrightarrow> s = a @ c # b \<and> c \<notin> set a"
proof (induction s arbitrary: a)
  case Nil
  then show ?case by simp
next
  case (Cons x s)
  show ?case
  proof (cases "x = c")
    case True
    then show ?thesis by (cases a) auto
  next
    case False
    then show ?thesis using Cons by (cases a) auto
  qed
qed

lemma cut_at_append [simp]: "c \<notin> set a \<Longrightarrow> cut_at c (a @ c # b) = Some (a, b)"
  by (simp add: cut_at_Some_iff)

lemma SplitN2_append [simp]: "c \<notin> set a \<Longrightarrow> SplitN2 (a @ c # b) c = [a, b]"
  by (simp add: SplitN2_def)

lemma SplitN2_notin [simp]: "c \<notin> set a \<Longrightarrow> SplitN2 a c = [a]"
  by (simp add: SplitN2_def cut_at_None_iff [THEN iffD2])

lemma SplitN2_cases:
  obtains (one) "c \<notin> set s" "SplitN2 s c = [s]"
  | (two) a b where "s = a @ c # b" "c \<notin> set a" "SplitN2 s c = [a, b]"
proof (cases "cut_at c s")
  case None
  then show ?thesis using one by (simp add: cut_at_None_iff)
next
  case (Some ab)
  obtain a b where "ab = (a, b)" by (cases ab)
  with Some have "cut_at c s = Some (a, b)" by simp
  then show ?thesis using two by (auto simp: SplitN2_def cut_at_Some_iff)
qed

lemma strip_prefix_suffix: "strip_prefix ps s = Some t \<Longrightarrow> \<exists>p \<in> set ps. p \<noteq> [] \<and> s = p @ t"
  by (induction ps) (auto simp: HasPrefix_def split: if_splits intro: append_take_drop_id [symmetric]
      elim!: bexE, metis append_take_drop_id)

lemma strip_prefix_None: "strip_prefix ps s = None \<longleftrightarrow> (\<forall>p \<in> set ps. p \<noteq> [] \<longrightarrow> \<not> HasPrefix s p)"
  by (induction ps) auto

lemma TrimLeftSpace_stop: "strip_prefix ps (TrimLeftSpace ps s) = None"
proof (induction ps s rule: TrimLeftSpace.induct)
  case (1 ps s)
  then show ?case by (subst TrimLeftSpace.simps) (auto split: option.splits)
qed

lemma TrimLeftSpace_fix: "strip_prefix ps s = None \<Longrightarrow> TrimLeftSpace ps s = s"
  by (subst TrimLeftSpace.simps) simp

lemma TrimLeftSpace_suffix: "\<exists>r. s = r @ TrimLeftSpace ps s"
proof (induction ps s rule: TrimLeftSpace.induct)
  case (1 ps s)
  show ?case
  proof (cases "strip_prefix ps s")
    case None
    then show ?thesis by (simp add: TrimLeftSpace_fix)
  next
    case (Some t)
    with 1 obtain r where "t = r @ TrimLeftSpace ps t" by blast
    moreover obtain p where "s = p @ t" using strip_prefix_suffix [OF Some] by blast
    moreover have "TrimLeftSpace ps s = TrimLeftSpace ps t"
      using Some by (subst TrimLeftSpace.simps) simp
    ultimately show ?thesis by (metis append.assoc)
  qed
qed

text \<open>Text between visible ASCII characters is kept as it is.\<close>

definition visible :: "char \<Rightarrow> bool" where
  "visible c \<longleftrightarrow> 33 \<le> (of_char c :: nat) \<and> (of_char c :: nat) \<le> 126"

lemma space_ends: "list_all (\<lambda>p. p \<noteq> [] \<and> \<not> visible (hd p) \<and> \<not> visible (last p)) space_encodings"
  by (simp add: space_encodings_def visible_def)

lemma TrimSpace_visible:
  assumes "s \<noteq> []" and "visible (hd s)" and "visible (last s)"
  shows "TrimSpace s = s"
proof -
  have ends: "p \<noteq> [] \<and> \<not> visible (hd p) \<and> \<not> visible (last p)" if "p \<in> set space_encodings" for p
    using space_ends that by (simp add: list_all_iff)
  have "strip_prefix space_encodings s = None"
    unfolding strip_prefix_None HasPrefix_iff
  proof (intro ballI impI notI)
    fix p assume "p \<in> set space_encodings" and "p \<noteq> []" and "\<exists>r. s = p @ r"
    then show False using ends assms(2) by (auto simp: hd_append)
  qed
  then have l: "TrimLeftSpace space_encodings s = s" by (rule TrimLeftSpace_fix)
  have "strip_prefix (map rev space_encodings) (rev s) = None"
    unfolding strip_prefix_None HasPrefix_iff
  proof (intro ballI impI notI)
    fix p assume "p \<in> set (map rev space_encodings)" and "p \<noteq> []" and "\<exists>r. rev s = p @ r"
    then obtain q r where q: "q \<in> set space_encodings" and "rev s = rev q @ r" by auto
    then have "s = rev r @ q" by (metis rev_append rev_rev_ident)
    then show False using ends [OF q] assms(3) by (auto simp: last_append)
  qed
  then show ?thesis by (simp add: TrimSpace_def l TrimLeftSpace_fix)
qed

lemma TrimSpace_idem [simp]: "TrimSpace (TrimSpace s) = TrimSpace s"
proof -
  let ?sp = space_encodings and ?rp = "map rev space_encodings"
  let ?l = "TrimLeftSpace ?sp s"
  let ?t = "rev (TrimLeftSpace ?rp (rev ?l))"
  obtain r where r: "rev ?l = r @ TrimLeftSpace ?rp (rev ?l)" using TrimLeftSpace_suffix by blast
  then have l: "?l = ?t @ rev r" by (metis rev_append rev_rev_ident)
  have "strip_prefix ?sp ?l = None" by (rule TrimLeftSpace_stop)
  then have "strip_prefix ?sp ?t = None"
    by (subst (asm) l, auto simp: strip_prefix_None HasPrefix_iff)
  then have "TrimLeftSpace ?sp ?t = ?t" by (rule TrimLeftSpace_fix)
  moreover have "TrimLeftSpace ?rp (rev ?t) = rev ?t"
    by (rule TrimLeftSpace_fix) (simp add: TrimLeftSpace_stop)
  ultimately show ?thesis by (simp add: TrimSpace_def)
qed

lemma lower_ascii_idem [simp]: "lower_ascii (lower_ascii c) = lower_ascii c"
  by (simp add: lower_ascii_def Let_def)

lemma is_ascii_lower [simp]: "is_ascii (lower_ascii c) = is_ascii c"
  by (simp add: is_ascii_def lower_ascii_def Let_def)

lemma ToLower_ascii: "list_all is_ascii s \<Longrightarrow> ToLower ul s = map lower_ascii s"
  by (simp add: ToLower_def)

lemma ToLower_idem_ascii: "list_all is_ascii s \<Longrightarrow> ToLower ul (ToLower ul s) = ToLower ul s"
  by (simp add: ToLower_def list_all_iff)

lemma digit_char_value: "d < 10 \<Longrightarrow> (of_char (digit_char d) :: nat) = 48 + d"
  by (simp add: digit_char_def)

lemma digits_value_snoc: "digits_value (s @ [c]) = 10 * digits_value s + (of_char c - 48)"
  by (simp add: digits_value_def)

lemma digits_value_show [simp]: "digits_value (show_nat n) = n"
proof (induction n rule: show_nat.induct)
  case (1 n)
  show ?case
  proof (cases "n < 10")
    case True
    then show ?thesis
      by (subst show_nat.simps) (simp add: digits_value_def digit_char_value)
  next
    case False
    with 1 show ?thesis
      by (subst show_nat.simps) (simp add: digits_value_snoc digit_char_value)
  qed
qed

lemma is_digit_char: "d < 10 \<Longrightarrow> is_digit (digit_char d)"
  by (simp add: is_digit_def digit_char_value)

lemma show_nat_digits: "list_all is_digit (show_nat n) \<and> show_nat n \<noteq> []"
proof (induction n rule: show_nat.induct)
  case (1 n)
  show ?case
  proof (cases "n < 10")
    case True
    then show ?thesis
      by (subst (1 2) show_nat.simps) (simp add: is_digit_char)
  next
    case False
    with 1 show ?thesis
      by (subst (1 2) show_nat.simps) (simp add: is_digit_char)
  qed
qed

lemma show_nat_inj: "show_nat m = show_nat n \<longleftrightarrow> m = n"
  by (metis digits_value_show)


lemma find_snoc: "find P (xs @ [y]) = (case find P xs of Some x \<Rightarrow> Some x | None \<Rightarrow> if P y then Some y else None)"
  by (induction xs) auto

end
