(* ===== verification/GoCodec.thy ===== *)
theory GoCodec
  imports GoLib
begin

text \<open>
  Packages encoding/hex and encoding/base64, as far as the program uses them: lower-case hex
  (also what \<open>%x\<close> prints for a byte array), padded standard base64 and unpadded URL-safe base64.
  The lemmas are the round trips, the lengths and the alphabets of the encodings.
\<close>

section \<open>Bytes\<close>

definition byte :: "nat \<Rightarrow> char" where "byte n = char_of n"
definition ord :: "char \<Rightarrow> nat" where "ord c = of_char c"

lemma ord_less [simp]: "ord c < 256"
proof -
  have "(of_char c :: nat) mod 256 = of_char c" by simp
  then show ?thesis unfolding ord_def by (metis mod_less_divisor zero_less_numeral)
qed

lemma byte_ord [simp]: "byte (ord c) = c"
  by (simp add: byte_def ord_def)

lemma ord_byte: "n < 256 \<Longrightarrow> ord (byte n) = n"
  by (simp add: byte_def ord_def)

lemma ord_div [simp]: "ord c div 4 < 64" "ord c div 16 < 16" "ord c div 64 < 4"
  using ord_less [of c] by (simp_all add: div_less_iff_less_mult)

lemma ord_div_simps [simp]:
  "ord c div 16 div 16 = 0" "ord c div 16 mod 16 = ord c div 16"
  "ord c div 64 div 4 = 0" "ord c div 64 mod 4 = ord c div 64"
  by (simp_all del: div_mult2_eq add: div_less mod_less)

section \<open>Hex\<close>

definition hex_digit :: "nat \<Rightarrow> char" where
  "hex_digit n = ''0123456789abcdef'' ! n"

definition hex_EncodeToString :: "string \<Rightarrow> string" where
  "hex_EncodeToString bs = concat (map (\<lambda>b. [hex_digit (ord b div 16), hex_digit (ord b mod 16)]) bs)"

lemma hex_simps [simp]:
  "hex_EncodeToString [] = []"
  "hex_EncodeToString (b # bs) = hex_digit (ord b div 16) # hex_digit (ord b mod 16) # hex_EncodeToString bs"
  by (simp_all add: hex_EncodeToString_def)

lemma hex_length [simp]: "length (hex_EncodeToString bs) = 2 * length bs"
  by (induction bs) auto

lemma hex_digit_inj: "m < 16 \<Longrightarrow> n < 16 \<Longrightarrow> hex_digit m = hex_digit n \<Longrightarrow> m = n"
proof -
  have "distinct ''0123456789abcdef''" by simp
  moreover assume "m < 16" "n < 16" "hex_digit m = hex_digit n"
  ultimately show ?thesis
    unfolding hex_digit_def by (subst (asm) nth_eq_iff_index_eq) auto
qed

lemma hex_byte_inj:
  assumes "hex_digit (ord b div 16) = hex_digit (ord c div 16)"
    and "hex_digit (ord b mod 16) = hex_digit (ord c mod 16)"
  shows "b = c"
proof -
  have "ord b div 16 = ord c div 16"
    using assms(1) by (intro hex_digit_inj) simp_all
  moreover have "ord b mod 16 = ord c mod 16"
    using assms(2) by (intro hex_digit_inj) simp_all
  ultimately have "ord b = ord c" by (metis div_mod_decomp)
  then show ?thesis by (metis byte_ord)
qed

lemma hex_inj: "hex_EncodeToString as = hex_EncodeToString bs \<Longrightarrow> as = bs"
proof (induction as arbitrary: bs)
  case Nil
  then show ?case by (cases bs) auto
next
  case (Cons a as)
  then show ?case by (cases bs) (auto dest: hex_byte_inj)
qed

lemma hex_eq_iff [simp]: "hex_EncodeToString as = hex_EncodeToString bs \<longleftrightarrow> as = bs"
  by (auto dest: hex_inj)

lemma hex_digit_in: "n < 16 \<Longrightarrow> hex_digit n \<in> set ''0123456789abcdef''"
  unfolding hex_digit_def by (intro nth_mem) simp

lemma hex_alphabet: "set (hex_EncodeToString bs) \<subseteq> set ''0123456789abcdef''"
proof (induction bs)
  case Nil
  then show ?case by simp
next
  case (Cons b bs)
  have "hex_digit (ord b div 16) \<in> set ''0123456789abcdef''"
    by (intro hex_digit_in) simp
  moreover have "hex_digit (ord b mod 16) \<in> set ''0123456789abcdef''"
    by (intro hex_digit_in) simp
  ultimately show ?case using Cons by simp
qed

section \<open>Base64\<close>

datatype b64 = StdEncoding | RawURLEncoding

definition b64_alphabet :: "b64 \<Rightarrow> string" where
  "b64_alphabet e = ''ABCDEFGHIJKLMNOPQRSTUVWXYZabcdefghijklmnopqrstuvwxyz0123456789'' @
     (case e of StdEncoding \<Rightarrow> ''+/'' | RawURLEncoding \<Rightarrow> ''-_'')"

definition b64_char :: "b64 \<Rightarrow> nat \<Rightarrow> char" where
  "b64_char e v = b64_alphabet e ! v"

fun index_of :: "char \<Rightarrow> string \<Rightarrow> nat option" where
  "index_of c [] = None"
| "index_of c (x # xs) = (if x = c then Some 0 else map_option Suc (index_of c xs))"

definition b64_value :: "b64 \<Rightarrow> char \<Rightarrow> nat option" where
  "b64_value e c = index_of c (b64_alphabet e)"

lemma index_of_nth: "distinct xs \<Longrightarrow> i < length xs \<Longrightarrow> index_of (xs ! i) xs = Some i"
  by (induction xs arbitrary: i) (auto simp: nth_Cons' Suc_diff_Suc)

lemma b64_length_alphabet: "length (b64_alphabet e) = 64"
  by (cases e) (simp_all add: b64_alphabet_def)

lemma b64_distinct: "distinct (b64_alphabet e)"
  by (cases e) (simp_all add: b64_alphabet_def)

lemma b64_value_char [simp]: "v < 64 \<Longrightarrow> b64_value e (b64_char e v) = Some v"
  unfolding b64_value_def b64_char_def
  by (rule index_of_nth [OF b64_distinct]) (simp add: b64_length_alphabet)

text \<open>The encoder: three bytes to four characters, with \<open>=\<close> padding in the standard encoding.\<close>

definition b64_pad :: "b64 \<Rightarrow> nat \<Rightarrow> string" where
  "b64_pad e n = (case e of StdEncoding \<Rightarrow> replicate n CHR ''='' | RawURLEncoding \<Rightarrow> [])"

fun b64_EncodeToString :: "b64 \<Rightarrow> string \<Rightarrow> string" where
  "b64_EncodeToString e [] = []"
| "b64_EncodeToString e [x] =
     [b64_char e (ord x div 4), b64_char e (ord x mod 4 * 16)] @ b64_pad e 2"
| "b64_EncodeToString e [x, y] =
     [b64_char e (ord x div 4), b64_char e (ord x mod 4 * 16 + ord y div 16),
      b64_char e (ord y mod 16 * 4)] @ b64_pad e 1"
| "b64_EncodeToString e (x # y # z # r) =
     b64_char e (ord x div 4) # b64_char e (ord x mod 4 * 16 + ord y div 16) #
     b64_char e (ord y mod 16 * 4 + ord z div 64) # b64_char e (ord z mod 64) #
     b64_EncodeToString e r"

text \<open>
  The decoder skips carriage returns and newlines, takes four characters at a time, and accepts a
  padded last group in the standard encoding and a short last group in the raw one; the
  unused low bits of a short group are ignored, as they are outside strict mode.
\<close>

fun b64_quanta :: "b64 \<Rightarrow> string \<Rightarrow> string option" where
  "b64_quanta e [] = Some []"
| "b64_quanta e [a] = None"
| "b64_quanta e [a, b] =
     (case (e, b64_value e a, b64_value e b) of
        (RawURLEncoding, Some x, Some y) \<Rightarrow> Some [byte (x * 4 + y div 16)]
      | _ \<Rightarrow> None)"
| "b64_quanta e [a, b, c] =
     (case (e, b64_value e a, b64_value e b, b64_value e c) of
        (RawURLEncoding, Some x, Some y, Some z) \<Rightarrow>
          Some [byte (x * 4 + y div 16), byte (y mod 16 * 16 + z div 4)]
      | _ \<Rightarrow> None)"
| "b64_quanta e (a # b # c # d # r) =
     (case (b64_value e a, b64_value e b) of
        (Some x, Some y) \<Rightarrow>
          (case (b64_value e c, b64_value e d) of
             (Some z, Some w) \<Rightarrow>
               map_option (\<lambda>bs. byte (x * 4 + y div 16) # byte (y mod 16 * 16 + z div 4)
                                # byte (z mod 4 * 64 + w) # bs) (b64_quanta e r)
           | (Some z, None) \<Rightarrow>
               if e = StdEncoding \<and> d = CHR ''='' \<and> r = []
               then Some [byte (x * 4 + y div 16), byte (y mod 16 * 16 + z div 4)] else None
           | (None, _) \<Rightarrow>
               if e = StdEncoding \<and> c = CHR ''='' \<and> d = CHR ''='' \<and> r = []
               then Some [byte (x * 4 + y div 16)] else None)
      | _ \<Rightarrow> None)"

definition is_newline :: "char \<Rightarrow> bool" where
  "is_newline c = (ord c = 10 \<or> ord c = 13)"

text \<open>The message of \<open>CorruptInputError\<close> also names the offset, which is left out here.\<close>

definition b64_DecodeString :: "b64 \<Rightarrow> string \<Rightarrow> goerr + string" where
  "b64_DecodeString e s =
     (case b64_quanta e (filter (\<lambda>c. \<not> is_newline c) s) of
        Some bs \<Rightarrow> Inr bs | None \<Rightarrow> Inl ''illegal base64 data'')"

lemma b64_pad_value: "b64_value StdEncoding (CHR ''='') = None"
  by (simp add: b64_value_def b64_alphabet_def)

lemma b64_bounds:
  "ord x div 4 < 64" "ord x mod 4 * 16 < 64" "ord x mod 4 * 16 + ord y div 16 < 64"
  "ord y mod 16 * 4 < 64" "ord y mod 16 * 4 + ord z div 64 < 64" "ord z mod 64 < 64"
proof -
  have m: "n mod 4 \<le> (3::nat)" "n mod 16 \<le> (15::nat)" "n mod 64 < (64::nat)" for n
    using mod_less_divisor [of 4 n] mod_less_divisor [of 16 n] by simp_all
  show "ord x div 4 < 64" by simp
  show "ord x mod 4 * 16 < 64" using m(1) [of "ord x"] by linarith
  show "ord x mod 4 * 16 + ord y div 16 < 64" using m(1) [of "ord x"] ord_div(2) [of y] by linarith
  show "ord y mod 16 * 4 < 64" using m(2) [of "ord y"] by linarith
  show "ord y mod 16 * 4 + ord z div 64 < 64" using m(2) [of "ord y"] ord_div(3) [of z] by linarith
  show "ord z mod 64 < 64" by simp
qed

lemma b64_quanta_encode: "b64_quanta e (b64_EncodeToString e bs) = Some bs"
proof (induction e bs rule: b64_EncodeToString.induct)
  case (2 e x)
  then show ?case
    by (cases e) (simp_all add: b64_pad_def b64_bounds b64_pad_value numeral_2_eq_2 del: mult_Suc_right)
next
  case (3 e x y)
  then show ?case
    by (cases e) (simp_all add: b64_pad_def b64_bounds b64_pad_value del: mult_Suc_right)
qed (simp_all add: b64_bounds)

lemma b64_char_not_newline: "v < 64 \<Longrightarrow> \<not> is_newline (b64_char e v)"
proof -
  assume "v < 64"
  then have "b64_char e v \<in> set (b64_alphabet e)"
    unfolding b64_char_def by (intro nth_mem) (simp add: b64_length_alphabet)
  moreover have "\<forall>c \<in> set (b64_alphabet e). \<not> is_newline c"
    by (cases e) (simp_all add: b64_alphabet_def is_newline_def ord_def)
  ultimately show ?thesis by blast
qed

lemma b64_encode_no_newline:
  "filter (\<lambda>c. \<not> is_newline c) (b64_EncodeToString e bs) = b64_EncodeToString e bs"
proof -
  have [simp]: "\<not> is_newline CHR ''=''" by (simp add: is_newline_def ord_def)
  show ?thesis
    by (induction e bs rule: b64_EncodeToString.induct)
      (simp_all add: b64_char_not_newline b64_bounds b64_pad_def split: b64.splits)
qed

lemma b64_roundtrip [simp]: "b64_DecodeString e (b64_EncodeToString e bs) = Inr bs"
  by (simp add: b64_DecodeString_def b64_encode_no_newline b64_quanta_encode)

lemma b64_inj: "b64_EncodeToString e as = b64_EncodeToString e bs \<longleftrightarrow> as = bs"
  by (metis b64_quanta_encode option.inject)

lemma b64_encode_chars:
  "set (b64_EncodeToString e bs) \<subseteq> insert (CHR ''='') (set (b64_alphabet e))"
proof -
  have c: "v < 64 \<Longrightarrow> b64_char e v \<in> set (b64_alphabet e)" for v e
    unfolding b64_char_def by (intro nth_mem) (simp add: b64_length_alphabet)
  show ?thesis
    by (induction e bs rule: b64_EncodeToString.induct)
      (auto simp: c b64_bounds b64_pad_def split: b64.splits)
qed

end
