(* ===== verification/GoVal.thy ===== *)
theory GoVal
  imports GoCodec
begin

text \<open>
  Dynamic values, contexts and the outside world.  A value of Go's type \<open>any\<close> is an \<open>any\<close>: the
  database driver returns rows of them and the context carries them.  The record \<open>golib\<close> holds
  the functions the program calls that this development does not define: the cryptographic
  primitives and Unicode tables of the standard library, and Argon2id.
\<close>

section \<open>Values of type any\<close>

text \<open>
  \<open>AFloat m e\<close> is the float64 \<open>m * 2 powr e\<close>; \<open>AOther t v\<close> is a value of any other type, with what
  \<open>%v\<close> prints for it.  A nil pointer is \<open>None\<close>.
\<close>

datatype any =
    ANil
  | AStr string
  | ABytes string
  | ABool bool
  | AFloat int int
  | AInt int
  | AUint32 "32 word"
  | ATime time
  | ATimePtr "time option"
  | ACustomTime time
  | ACustomTimePtr "time option"
  | AStrings "string list"
  | AList "any list"
  | AMap "(string \<times> any) list"
  | AStringer string
  | AOther string string

type_synonym row = "(string \<times> any) list"

definition get :: "row \<Rightarrow> string \<Rightarrow> any" where
  "get rm k = (case map_of rm k of None \<Rightarrow> ANil | Some v \<Rightarrow> v)"

lemma get_simps [simp]:
  "get [] k = ANil"
  "get ((k', v) # rm) k = (if k = k' then v else get rm k)"
  by (simp_all add: get_def)

text \<open>The type assertions \<open>v.(T)\<close> in their two-valued form.\<close>

fun as_string :: "any \<Rightarrow> string option" where
  "as_string (AStr s) = Some s" | "as_string _ = None"

fun as_bool :: "any \<Rightarrow> bool option" where
  "as_bool (ABool b) = Some b" | "as_bool _ = None"

fun as_list :: "any \<Rightarrow> any list option" where
  "as_list (AList vs) = Some vs" | "as_list _ = None"

fun as_map :: "any \<Rightarrow> row option" where
  "as_map (AMap m) = Some m" | "as_map _ = None"

fun as_time :: "any \<Rightarrow> time option" where
  "as_time (ATime t) = Some t" | "as_time _ = None"

text \<open>\<open>int(v)\<close> of a finite float64 truncates towards zero.\<close>

definition float_to_int :: "int \<Rightarrow> int \<Rightarrow> int" where
  "float_to_int m e = (if 0 \<le> e then m * 2 ^ nat e else sgn m * (\<bar>m\<bar> div 2 ^ nat (- e)))"

fun as_float_int :: "any \<Rightarrow> int option" where
  "as_float_int (AFloat m e) = Some (float_to_int m e)" | "as_float_int _ = None"

text \<open>The value or the zero value: \<open>x, _ = v.(string)\<close>.\<close>

definition str_or_empty :: "any \<Rightarrow> string" where
  "str_or_empty v = (case as_string v of Some s \<Rightarrow> s | None \<Rightarrow> [])"

definition strings_of :: "any list \<Rightarrow> string list" where
  "strings_of vs = List.map_filter as_string vs"

lemma str_or_empty_simps [simp]:
  "str_or_empty (AStr s) = s" "str_or_empty ANil = []"
  by (simp_all add: str_or_empty_def)

lemma strings_of_simps [simp]:
  "strings_of [] = []"
  "strings_of (v # vs) = (case as_string v of Some s \<Rightarrow> s # strings_of vs | None \<Rightarrow> strings_of vs)"
  by (simp_all add: strings_of_def map_filter_simps split: option.splits)

lemma strings_of_AStr [simp]: "strings_of (map AStr ss) = ss"
  by (induction ss) auto

section \<open>Contexts\<close>

text \<open>A context key is a value of a named string type: the type's name and the string.\<close>

type_synonym ctxkey = "string \<times> string"

record ctx =
  ctx_vals :: "(ctxkey \<times> any) list"
  ctx_err :: "goerr option"
  ctx_deadline :: "time option"

definition Background :: ctx where
  "Background = \<lparr>ctx_vals = [], ctx_err = None, ctx_deadline = None\<rparr>"

definition WithValue :: "ctx \<Rightarrow> ctxkey \<Rightarrow> any \<Rightarrow> ctx" where
  "WithValue c k v = c\<lparr>ctx_vals := (k, v) # ctx_vals c\<rparr>"

definition ctx_Value :: "ctx \<Rightarrow> ctxkey \<Rightarrow> any" where
  "ctx_Value c k = (case map_of (ctx_vals c) k of None \<Rightarrow> ANil | Some v \<Rightarrow> v)"

lemma ctx_Value_WithValue [simp]:
  "ctx_Value (WithValue c k v) k' = (if k' = k then v else ctx_Value c k')"
  by (simp add: ctx_Value_def WithValue_def)

lemma ctx_Value_Background [simp]: "ctx_Value Background k = ANil"
  by (simp add: ctx_Value_def Background_def)

section \<open>Randomness and libraries\<close>

text \<open>
  One call of \<open>crypto/rand\<close> is a function from the number of bytes asked for to the bytes or an
  error.
\<close>

type_synonym rand = "nat \<Rightarrow> goerr + string"

definition rand_ok :: "rand \<Rightarrow> bool" where
  "rand_ok r \<longleftrightarrow> (\<forall>n bs. r n = Inr bs \<longrightarrow> length bs = n)"

record golib =
  UniLower :: "string \<Rightarrow> string"
  Sha256 :: "string \<Rightarrow> string"
  AesSeal :: "string \<Rightarrow> string \<Rightarrow> string \<Rightarrow> string"
  AesOpen :: "string \<Rightarrow> string \<Rightarrow> string \<Rightarrow> string option"
  Argon2id :: "string \<Rightarrow> string \<Rightarrow> string"
  ParseRFC3339 :: "string \<Rightarrow> time option"
  FormatRFC3339 :: "time \<Rightarrow> string"
  Sprint :: "any \<Rightarrow> string"

text \<open>SHA-256 returns 32 bytes; AES-GCM opens what it sealed with the same key and nonce.\<close>

definition sha_ok :: "golib \<Rightarrow> bool" where
  "sha_ok L \<longleftrightarrow> (\<forall>m. length (Sha256 L m) = 32)"

definition gcm_ok :: "golib \<Rightarrow> bool" where
  "gcm_ok L \<longleftrightarrow> (\<forall>k n p. length n = 12 \<longrightarrow> AesOpen L k n (AesSeal L k n p) = Some p)"

text \<open>\<open>hex(sha256(s))\<close>, which the source writes in several places.\<close>

definition sha_hex :: "golib \<Rightarrow> string \<Rightarrow> string" where
  "sha_hex L s = hex_EncodeToString (Sha256 L s)"

lemma sha_hex_length: "sha_ok L \<Longrightarrow> length (sha_hex L s) = 64"
  by (simp add: sha_hex_def sha_ok_def)

lemma sha_hex_nonempty: "sha_ok L \<Longrightarrow> sha_hex L s \<noteq> []"
  using sha_hex_length [of L s] by auto

lemma sha_hex_eq_iff: "sha_hex L s = sha_hex L t \<longleftrightarrow> Sha256 L s = Sha256 L t"
  by (simp add: sha_hex_def)

text \<open>
  A concrete instance for the closed examples: a toy digest (the input, cut or filled to 32
  bytes), a sealed text that is the key, the nonce and the plaintext, and simple printers.
\<close>

definition fill :: "nat \<Rightarrow> string \<Rightarrow> string" where
  "fill n s = take n (s @ replicate n CHR ''.'')"

definition demo_open :: "string \<Rightarrow> string \<Rightarrow> string \<Rightarrow> string option" where
  "demo_open k n c = (if HasPrefix c (k @ n) then Some (drop (length k + length n) c) else None)"

definition demo :: golib where
  "demo = \<lparr>UniLower = id, Sha256 = fill 32, AesSeal = (\<lambda>k n p. k @ n @ p), AesOpen = demo_open,
     Argon2id = (\<lambda>p s. fill 32 (p @ s)), ParseRFC3339 = (\<lambda>s. Some 0),
     FormatRFC3339 = (\<lambda>t. show_int t), Sprint = (\<lambda>v. '''')\<rparr>"

lemma sha_ok_demo [simp]: "sha_ok demo"
  by (auto simp: sha_ok_def demo_def fill_def)

lemma gcm_ok_demo [simp]: "gcm_ok demo"
  by (simp add: gcm_ok_def demo_def demo_open_def HasPrefix_def)

end
