(* ===== verification/Email.thy ===== *)
theory Email
  imports GoVal
begin

text \<open>
  E-mail addresses: the lookup hash and the masked form (internal/security/crypto.go,
  internal/core/identity/user.go, internal/shared/httputil/http.go, and
  internal/interfaces/http/handlers/tenant_resolver.go for the domain).  The lemmas relate the
  three hash functions and the three masking functions, and characterise the domains accepted.
\<close>

section \<open>Hashes\<close>

definition HashEmail :: "golib \<Rightarrow> string \<Rightarrow> string \<Rightarrow> string" where
  "HashEmail L email pepper =
     hex_EncodeToString (Sha256 L (ToLower (UniLower L) (TrimSpace email) @ pepper))"

definition EmailHash :: "golib \<Rightarrow> string \<Rightarrow> string" where
  "EmailHash L email = hex_EncodeToString (Sha256 L (ToLower (UniLower L) (TrimSpace email)))"

definition EmailHashWithPepper :: "golib \<Rightarrow> string \<Rightarrow> string \<Rightarrow> string" where
  "EmailHashWithPepper L email pepper =
     hex_EncodeToString (Sha256 L (ToLower (UniLower L) (TrimSpace email) @ pepper))"

lemma EmailHashWithPepper_eq: "EmailHashWithPepper L = HashEmail L"
  by (simp add: fun_eq_iff EmailHashWithPepper_def HashEmail_def)

lemma HashEmail_no_pepper: "HashEmail L email [] = EmailHash L email"
  by (simp add: HashEmail_def EmailHash_def)

lemma HashEmail_length: "sha_ok L \<Longrightarrow> length (HashEmail L email pepper) = 64"
  by (simp add: HashEmail_def sha_ok_def)

lemma HashEmail_trim: "HashEmail L (TrimSpace email) pepper = HashEmail L email pepper"
  by (simp add: HashEmail_def)

text \<open>Two ASCII addresses that differ in case only have the same hash.\<close>

lemma HashEmail_case:
  assumes "list_all is_ascii (TrimSpace a)" and "list_all is_ascii (TrimSpace b)"
    and "map lower_ascii (TrimSpace a) = map lower_ascii (TrimSpace b)"
  shows "HashEmail L a pepper = HashEmail L b pepper"
  using assms by (simp add: HashEmail_def ToLower_ascii)

section \<open>Masks\<close>

text \<open>\<open>security.MaskEmail\<close>: the guard makes the slices of the local part safe.\<close>

definition MaskEmail :: "string \<Rightarrow> string" where
  "MaskEmail email =
     (case SplitN2 (TrimSpace email) CHR ''@'' of
        [loc, dmn] \<Rightarrow>
          if length loc = 0 then ''***''
          else if length loc \<le> 2 then take 1 loc @ ''***@'' @ dmn
          else take 1 loc @ ''***'' @ drop (length loc - 1) loc @ ''@'' @ dmn
      | _ \<Rightarrow> ''***'')"

definition MaskEmailString :: "string \<Rightarrow> string" where
  "MaskEmailString email =
     (case SplitN2 (TrimSpace email) CHR ''@'' of
        [loc, dmn] \<Rightarrow>
          if length loc = 0 then ''***''
          else if length loc \<le> 2 then take 1 loc @ ''***@'' @ dmn
          else take 1 loc @ ''***'' @ drop (length loc - 1) loc @ ''@'' @ dmn
      | _ \<Rightarrow> ''***'')"

text \<open>
  \<open>httputil.MaskEmail\<close> neither trims nor checks that the local part is non-empty, so its slice
  \<open>local[:1]\<close> can panic.
\<close>

definition httputil_MaskEmail :: "string \<Rightarrow> string go" where
  "httputil_MaskEmail email =
     (if email = '''' then Ret ''''
      else case SplitN2 email CHR ''@'' of
        [loc, dmn] \<Rightarrow>
          if length loc \<le> 2
          then gbind (slice_to loc 1) (\<lambda>a. Ret (a @ ''***@'' @ dmn))
          else gbind (slice_to loc 1) (\<lambda>a.
               gbind (slice_from loc (int (length loc) - 1)) (\<lambda>z.
               Ret (a @ ''***'' @ z @ ''@'' @ dmn)))
      | _ \<Rightarrow> Ret email)"

lemma MaskEmailString_eq: "MaskEmailString = MaskEmail"
  by (simp add: fun_eq_iff MaskEmailString_def MaskEmail_def)

text \<open>The masked address as an equation on its parts.\<close>

lemma MaskEmail_parts:
  assumes "TrimSpace email = loc @ CHR ''@'' # dmn" and "CHR ''@'' \<notin> set loc" and "loc \<noteq> []"
  shows "MaskEmail email =
    [hd loc] @ ''***'' @ (if length loc \<le> 2 then [] else [last loc]) @ ''@'' @ dmn"
proof -
  have "drop (length loc - 1) loc = [last loc]"
    using assms(3) by (metis One_nat_def append_butlast_last_id append_eq_conv_conj length_butlast)
  moreover have "take 1 loc = [hd loc]" using assms(3) by (cases loc) auto
  ultimately show ?thesis using assms by (simp add: MaskEmail_def)
qed

lemma MaskEmail_else:
  assumes "CHR ''@'' \<notin> set (TrimSpace email) \<or> HasPrefix (TrimSpace email) ''@''"
  shows "MaskEmail email = ''***''"
proof -
  consider "CHR ''@'' \<notin> set (TrimSpace email)" | r where "TrimSpace email = [] @ CHR ''@'' # r"
    using assms by (auto simp: HasPrefix_iff)
  then show ?thesis
  proof cases
    case 1
    then show ?thesis by (simp add: MaskEmail_def)
  next
    case 2
    then have "SplitN2 (TrimSpace email) CHR ''@'' = [[], r]"
      by (metis SplitN2_append empty_iff empty_set)
    then show ?thesis by (simp add: MaskEmail_def)
  qed
qed

text \<open>The mask depends on the local part through its first and last byte and its length only.\<close>

lemma MaskEmail_hides:
  assumes "TrimSpace a = l1 @ CHR ''@'' # dmn" and "TrimSpace b = l2 @ CHR ''@'' # dmn"
    and "CHR ''@'' \<notin> set l1" and "CHR ''@'' \<notin> set l2" and "l1 \<noteq> []" and "l2 \<noteq> []"
    and "hd l1 = hd l2" and "last l1 = last l2" and "length l1 > 2" and "length l2 > 2"
  shows "MaskEmail a = MaskEmail b"
  using MaskEmail_parts [OF assms(1,3,5)] MaskEmail_parts [OF assms(2,4,6)] assms(7-10) by simp

lemma httputil_MaskEmail_parts:
  assumes "CHR ''@'' \<notin> set loc" and "loc \<noteq> []"
  shows "httputil_MaskEmail (loc @ CHR ''@'' # dmn) =
    Ret ([hd loc] @ ''***'' @ (if length loc \<le> 2 then [] else [last loc]) @ ''@'' @ dmn)"
proof -
  have "drop (length loc - 1) loc = [last loc]"
    using assms(2) by (metis One_nat_def append_butlast_last_id append_eq_conv_conj length_butlast)
  moreover have "take 1 loc = [hd loc]" using assms(2) by (cases loc) auto
  moreover have "1 \<le> length loc" using assms(2) by (cases loc) auto
  moreover have "nat (int (length loc) - 1) = length loc - 1" by simp
  ultimately show ?thesis
    using assms by (simp add: httputil_MaskEmail_def slice_to_def slice_from_def)
qed

lemma httputil_MaskEmail_panics: "is_panic (httputil_MaskEmail email) \<longleftrightarrow> HasPrefix email ''@''"
proof (cases rule: SplitN2_cases [of "CHR ''@''" email])
  case one
  then have "\<not> HasPrefix email ''@''" by (auto simp: HasPrefix_iff)
  with one show ?thesis by (simp add: httputil_MaskEmail_def)
next
  case (two loc dmn)
  show ?thesis
  proof (cases "loc = []")
    case True
    with two show ?thesis
      by (simp add: httputil_MaskEmail_def slice_to_def HasPrefix_def)
  next
    case False
    with two have "\<not> HasPrefix email ''@''" by (cases loc) (auto simp: HasPrefix_def)
    with two False show ?thesis by (simp add: httputil_MaskEmail_parts)
  qed
qed

text \<open>On a trimmed address with a non-empty local part the three masks agree.\<close>

lemma mask_agree:
  assumes "TrimSpace email = email" and "CHR ''@'' \<in> set email" and "\<not> HasPrefix email ''@''"
  shows "httputil_MaskEmail email = Ret (MaskEmail email)"
proof (cases rule: SplitN2_cases [of "CHR ''@''" email])
  case one
  with assms(2) show ?thesis by simp
next
  case (two loc dmn)
  with assms(3) have "loc \<noteq> []" by (auto simp: HasPrefix_def)
  with two assms(1) show ?thesis
    using MaskEmail_parts [of email loc dmn] httputil_MaskEmail_parts [of loc dmn] by simp
qed

section \<open>Domains\<close>

definition extractDomain :: "golib \<Rightarrow> string \<Rightarrow> string" where
  "extractDomain L email0 =
     (let email = TrimSpace email0 in
      if email = '''' \<or> length email > 254 then ''''
      else case SplitN2 email CHR ''@'' of
        [loc, dmn] \<Rightarrow>
          if loc = '''' \<or> dmn = '''' then ''''
          else if \<not> Contains dmn ''.'' \<or> HasPrefix dmn ''.'' \<or> HasSuffix dmn ''.'' then ''''
          else ToLower (UniLower L) dmn
      | _ \<Rightarrow> '''')"

definition good_domain :: "string \<Rightarrow> bool" where
  "good_domain dmn \<longleftrightarrow> CHR ''.'' \<in> set dmn \<and> \<not> HasPrefix dmn ''.'' \<and> \<not> HasSuffix dmn ''.''"

lemma good_domain_nonempty: "good_domain dmn \<Longrightarrow> dmn \<noteq> []"
  by (auto simp: good_domain_def)

text \<open>A domain comes out exactly for a bounded address with two non-empty parts and a dotted domain.\<close>

lemma extractDomain_good:
  assumes "TrimSpace email = loc @ CHR ''@'' # dmn" and "CHR ''@'' \<notin> set loc" and "loc \<noteq> []"
    and "length (TrimSpace email) \<le> 254" and "good_domain dmn"
  shows "extractDomain L email = ToLower (UniLower L) dmn"
  using assms good_domain_nonempty [OF assms(5)]
  by (simp add: extractDomain_def good_domain_def Contains_char)

lemma extractDomain_Some:
  assumes "extractDomain L email \<noteq> ''''"
  obtains loc dmn where "TrimSpace email = loc @ CHR ''@'' # dmn" "CHR ''@'' \<notin> set loc"
    "loc \<noteq> []" "length (TrimSpace email) \<le> 254" "good_domain dmn"
    "extractDomain L email = ToLower (UniLower L) dmn"
proof (cases rule: SplitN2_cases [of "CHR ''@''" "TrimSpace email"])
  case one
  with assms show ?thesis by (simp add: extractDomain_def Let_def split: if_splits)
next
  case (two loc dmn)
  with assms that [of loc dmn] show ?thesis
    by (auto simp: extractDomain_def Let_def good_domain_def Contains_char split: if_splits)
qed

end
