(* ===== verification/User.thy ===== *)
theory User
  imports Email
begin

text \<open>
  The domain entities: users, passkey principals and credentials
  (internal/core/identity/user.go), tenants (tenant.go) and the context accessors (context.go).
  The lemmas cover the role, permission and skill tests, the display address, and the
  round trip of the tenant-prefixed WebAuthn handle.
\<close>

section \<open>Users\<close>

record User =
  u_UserID :: string
  u_UserIDHash :: string
  u_TenantID :: string
  u_Status :: string
  u_EncryptedDEK :: "string option"
  u_EmailCiphertext :: "string option"
  u_NameCiphertext :: "string option"
  u_SurnameCiphertext :: "string option"
  u_PhoneCiphertext :: "string option"
  u_DOBCiphertext :: "string option"
  u_EmployeeIDCiphertext :: "string option"
  u_EmailHash :: string
  u_MaskedEmail :: string
  u_EmployeeIDHash :: string
  u_Role :: string
  u_Permissions :: "string list"
  u_Department :: string
  u_Section :: string
  u_Base :: string
  u_Skills :: "string list"
  u_IsActive :: bool
  u_RegistrationAttempts :: int
  u_LoginCount :: int
  u_FailedLoginCount :: int
  u_LastLoginAt :: "time option"
  u_LockedUntil :: "time option"
  u_HireDate :: "time option"
  u_CreatedAt :: time
  u_UpdatedAt :: time

text \<open>
  The zero value of the struct. A nil byte slice is \<open>None\<close>, and \<open>bytes\<close> reads a slice as its
  content, nil as empty.  The zero \<open>time.Time\<close> is year 1, written \<open>zero_time\<close>.
\<close>

definition zero_time :: time where "zero_time = - 62135596800 * second"

definition bytes :: "string option \<Rightarrow> string" where
  "bytes b = (case b of None \<Rightarrow> [] | Some s \<Rightarrow> s)"

lemma bytes_simps [simp]: "bytes None = []" "bytes (Some s) = s"
  by (simp_all add: bytes_def)

definition zero_user :: User where
  "zero_user = \<lparr>u_UserID = [], u_UserIDHash = [], u_TenantID = [], u_Status = [],
     u_EncryptedDEK = None, u_EmailCiphertext = None, u_NameCiphertext = None,
     u_SurnameCiphertext = None, u_PhoneCiphertext = None, u_DOBCiphertext = None,
     u_EmployeeIDCiphertext = None, u_EmailHash = [], u_MaskedEmail = [], u_EmployeeIDHash = [],
     u_Role = [], u_Permissions = [], u_Department = [], u_Section = [], u_Base = [],
     u_Skills = [], u_IsActive = False, u_RegistrationAttempts = 0, u_LoginCount = 0,
     u_FailedLoginCount = 0, u_LastLoginAt = None, u_LockedUntil = None, u_HireDate = None,
     u_CreatedAt = zero_time, u_UpdatedAt = zero_time\<rparr>"

subsection \<open>Decryption helpers\<close>

text \<open>The package variable \<open>DecryptPIIFn\<close> is the first argument; \<open>None\<close> before main has set it.\<close>

type_synonym decrypt_fn = "string \<Rightarrow> string \<Rightarrow> goerr + string"

definition decryptPIICompat :: "decrypt_fn option \<Rightarrow> string \<Rightarrow> string \<Rightarrow> goerr + string" where
  "decryptPIICompat fn ciphertext dek =
     (case fn of
        Some f \<Rightarrow> f ciphertext dek
      | None \<Rightarrow> Inl ''decryptPIICompat: not wired'')"

definition DecryptEmail :: "decrypt_fn option \<Rightarrow> User \<Rightarrow> string \<Rightarrow> goerr + string" where
  "DecryptEmail fn u dek =
     (if length (bytes (u_EmailCiphertext u)) = 0 then Inr ''''
      else decryptPIICompat fn (bytes (u_EmailCiphertext u)) dek)"

definition DecryptName :: "decrypt_fn option \<Rightarrow> User \<Rightarrow> string \<Rightarrow> goerr + string" where
  "DecryptName fn u dek =
     (if length (bytes (u_NameCiphertext u)) = 0 then Inr ''''
      else decryptPIICompat fn (bytes (u_NameCiphertext u)) dek)"

definition DecryptSurname :: "decrypt_fn option \<Rightarrow> User \<Rightarrow> string \<Rightarrow> goerr + string" where
  "DecryptSurname fn u dek =
     (if length (bytes (u_SurnameCiphertext u)) = 0 then Inr ''''
      else decryptPIICompat fn (bytes (u_SurnameCiphertext u)) dek)"

definition MaskedEmailOrCompute :: "decrypt_fn option \<Rightarrow> User \<Rightarrow> string \<Rightarrow> string" where
  "MaskedEmailOrCompute fn u dek =
     (if u_MaskedEmail u \<noteq> '''' then u_MaskedEmail u
      else case DecryptEmail fn u dek of
        Inl e \<Rightarrow> ''***''
      | Inr email \<Rightarrow> if email = '''' then ''***'' else MaskEmailString email)"

text \<open>Without a stored mask the display form is the mask of the decrypted address.\<close>

lemma MaskedEmailOrCompute_cases:
  "MaskedEmailOrCompute fn u dek =
     (if u_MaskedEmail u \<noteq> '''' then u_MaskedEmail u
      else case DecryptEmail fn u dek of Inl _ \<Rightarrow> ''***'' | Inr email \<Rightarrow> MaskEmail email)"
proof -
  have "strip_prefix space_encodings [] = None"
    by (simp add: strip_prefix_None HasPrefix_def)
  moreover have "strip_prefix (map rev space_encodings) [] = None"
    by (simp add: strip_prefix_None HasPrefix_def)
  ultimately have "TrimSpace [] = []"
    by (simp add: TrimSpace_def TrimLeftSpace_fix)
  then have "MaskEmail [] = ''***''" by (simp add: MaskEmail_else)
  then show ?thesis by (simp add: MaskedEmailOrCompute_def MaskEmailString_eq split: sum.splits)
qed

subsection \<open>Roles, permissions, skills\<close>

text \<open>The methods take a pointer receiver and answer false on nil.\<close>

definition HasRole :: "User option \<Rightarrow> string \<Rightarrow> bool" where
  "HasRole u role = (case u of None \<Rightarrow> False | Some x \<Rightarrow> role \<noteq> '''' \<and> u_Role x = role)"

fun any_eq :: "string list \<Rightarrow> string \<Rightarrow> bool" where
  "any_eq [] x = False"
| "any_eq (p # ps) x = (if p = x then True else any_eq ps x)"

definition HasPermission :: "User option \<Rightarrow> string \<Rightarrow> bool" where
  "HasPermission u perm =
     (case u of None \<Rightarrow> False | Some x \<Rightarrow> if perm = '''' then False else any_eq (u_Permissions x) perm)"

definition HasSkill :: "User option \<Rightarrow> string \<Rightarrow> bool" where
  "HasSkill u skill =
     (case u of None \<Rightarrow> False | Some x \<Rightarrow> if skill = '''' then False else any_eq (u_Skills x) skill)"

lemma any_eq_iff [simp]: "any_eq ps x \<longleftrightarrow> x \<in> set ps"
  by (induction ps) auto

lemma HasPermission_iff:
  "HasPermission u p \<longleftrightarrow> p \<noteq> '''' \<and> (\<exists>x. u = Some x \<and> p \<in> set (u_Permissions x))"
  by (auto simp: HasPermission_def split: option.splits)

lemma HasSkill_iff: "HasSkill u p \<longleftrightarrow> p \<noteq> '''' \<and> (\<exists>x. u = Some x \<and> p \<in> set (u_Skills x))"
  by (auto simp: HasSkill_def split: option.splits)

section \<open>Passkey principals and credentials\<close>

text \<open>A credential as the WebAuthn library has it, with the fields the program reads or writes.\<close>

record WaCredential =
  wc_ID :: string
  wc_PublicKey :: string
  wc_SignCount :: "32 word"
  wc_AAGUID :: string
  wc_BackupEligible :: bool
  wc_BackupState :: bool
  wc_Transport :: "string list"

record PasskeyUser =
  pu_UserID :: string
  pu_TenantID :: string
  pu_Email :: string
  pu_Handle :: string
  pu_Credentials :: "WaCredential list"

definition WebAuthnID :: "PasskeyUser \<Rightarrow> string" where "WebAuthnID u = pu_Handle u"
definition WebAuthnName :: "PasskeyUser \<Rightarrow> string" where "WebAuthnName u = pu_Email u"
definition WebAuthnDisplayName :: "PasskeyUser \<Rightarrow> string" where "WebAuthnDisplayName u = pu_Email u"
definition WebAuthnCredentials :: "PasskeyUser \<Rightarrow> WaCredential list" where
  "WebAuthnCredentials u = pu_Credentials u"

record PasskeyCredential =
  pc_CredentialID :: string
  pc_UserID :: string
  pc_PublicKey :: string
  pc_SignCount :: "32 word"
  pc_Transports :: "string list"
  pc_AAGUID :: string
  pc_BackupEligible :: bool
  pc_BackupState :: bool
  pc_CreatedAt :: time

section \<open>WebAuthn handles\<close>

definition GenerateHandle :: "rand \<Rightarrow> goerr + string" where
  "GenerateHandle r = (case r 64 of Inl e \<Rightarrow> Inl (''generate handle: '' @ e) | Inr b \<Rightarrow> Inr b)"

definition GenerateHandleWithTenant :: "rand \<Rightarrow> string \<Rightarrow> goerr + string" where
  "GenerateHandleWithTenant r tenantID =
     (case r 32 of
        Inl e \<Rightarrow> Inl (''generate handle: '' @ e)
      | Inr b \<Rightarrow> Inr (tenantID @ '':'' @ b64_EncodeToString RawURLEncoding b))"

definition ParseHandle :: "string \<Rightarrow> goerr + (string \<times> string)" where
  "ParseHandle handle =
     (case SplitN2 handle CHR '':'' of
        [t, h] \<Rightarrow> if t = '''' \<or> h = '''' then Inl ''invalid handle format: missing tenantID''
                  else Inr (t, h)
      | _ \<Rightarrow> Inl ''invalid handle format: missing tenantID'')"

lemma ParseHandle_iff:
  "ParseHandle s = Inr (t, h) \<longleftrightarrow> s = t @ CHR '':'' # h \<and> CHR '':'' \<notin> set t \<and> t \<noteq> '''' \<and> h \<noteq> ''''"
proof (cases rule: SplitN2_cases [of "CHR '':''" s])
  case one
  then show ?thesis by (auto simp: ParseHandle_def)
next
  case (two a b)
  then have "cut_at CHR '':'' s = Some (a, b)" by simp
  then show ?thesis using two(3) by (auto simp: ParseHandle_def dest: cut_at_Some_iff [THEN iffD1]
      cut_at_Some_iff [THEN iffD2])
qed

lemma GenerateHandle_roundtrip:
  assumes "rand_ok r" and "GenerateHandleWithTenant r t = Inr h"
    and "t \<noteq> ''''" and "CHR '':'' \<notin> set t"
  shows "\<exists>b. r 32 = Inr b \<and> ParseHandle h = Inr (t, b64_EncodeToString RawURLEncoding b)
    \<and> b64_DecodeString RawURLEncoding (b64_EncodeToString RawURLEncoding b) = Inr b"
proof -
  from assms(2) obtain b where b: "r 32 = Inr b"
    and h: "h = t @ CHR '':'' # b64_EncodeToString RawURLEncoding b"
    by (auto simp: GenerateHandleWithTenant_def split: sum.splits)
  from b assms(1) have "length b = 32" by (simp add: rand_ok_def)
  then have "b64_EncodeToString RawURLEncoding b \<noteq> []"
    using b64_inj [of RawURLEncoding b "[]"] by auto
  with b h assms(3,4) show ?thesis by (simp add: ParseHandle_iff)
qed

section \<open>Tenants\<close>

record SecurityPolicy =
  sp_MFARequired :: bool
  sp_PinEnabled :: bool
  sp_AccessTokenTimeoutMinutes :: int
  sp_RefreshTokenTimeoutMinutes :: int

record Tenant =
  t_TenantID :: string
  t_Name :: string
  t_Type :: string
  t_DomainWhitelist :: "string list"
  t_Features :: "string list"
  t_SecurityPolicy :: SecurityPolicy
  t_MaxUsers :: int

definition DefaultSecurityPolicy :: SecurityPolicy where
  "DefaultSecurityPolicy = \<lparr>sp_MFARequired = False, sp_PinEnabled = False,
     sp_AccessTokenTimeoutMinutes = 15, sp_RefreshTokenTimeoutMinutes = 43200\<rparr>"

definition DefaultQuotas :: int where "DefaultQuotas = 1000"

section \<open>Context accessors\<close>

definition TenantIDKey :: ctxkey where "TenantIDKey = (''identity.ctxKey'', ''tenant_id'')"
definition UserIDHashKey :: ctxkey where "UserIDHashKey = (''identity.ctxKey'', ''user_id_hash'')"

definition GetTenantID :: "ctx \<Rightarrow> string" where
  "GetTenantID c = (case ctx_Value c TenantIDKey of AStr i \<Rightarrow> i | _ \<Rightarrow> '''')"

definition GetUserIDHash :: "ctx \<Rightarrow> string" where
  "GetUserIDHash c = (case ctx_Value c UserIDHashKey of AStr h \<Rightarrow> h | _ \<Rightarrow> '''')"

lemma ctx_keys_distinct [simp]: "TenantIDKey \<noteq> UserIDHashKey" "UserIDHashKey \<noteq> TenantIDKey"
  by (simp_all add: TenantIDKey_def UserIDHashKey_def)

lemma GetTenantID_WithValue [simp]:
  "GetTenantID (WithValue c TenantIDKey (AStr t)) = t"
  "k \<noteq> TenantIDKey \<Longrightarrow> GetTenantID (WithValue c k v) = GetTenantID c"
  by (auto simp: GetTenantID_def)

lemma GetUserIDHash_WithValue [simp]:
  "GetUserIDHash (WithValue c UserIDHashKey (AStr h)) = h"
  "k \<noteq> UserIDHashKey \<Longrightarrow> GetUserIDHash (WithValue c k v) = GetUserIDHash c"
  by (auto simp: GetUserIDHash_def)

lemma GetTenantID_Background [simp]: "GetTenantID Background = []"
  by (simp add: GetTenantID_def)

section \<open>Properties\<close>

text \<open>A WebAuthn handle made for a tenant is parsed back into that tenant, and its random part decodes
  to the 32 bytes it was made from.\<close>

theorem handle_roundtrip:
  assumes "rand_ok r" and "GenerateHandleWithTenant r t = Inr h" and "t \<noteq> ''''" and "CHR '':'' \<notin> set t"
  shows "\<exists>b x. r 32 = Inr b \<and> ParseHandle h = Inr (t, x) \<and> b64_DecodeString RawURLEncoding x = Inr b"
  using GenerateHandle_roundtrip [OF assms] by blast

lemma handle_roundtrip_witness:
  "\<exists>x. ParseHandle (''acme:'' @ b64_EncodeToString RawURLEncoding (replicate 32 CHR ''z'')) = Inr (''acme'', x)"
proof -
  have "rand_ok (\<lambda>n. Inr (replicate n CHR ''z''))" by (simp add: rand_ok_def)
  from handle_roundtrip [OF this, of "''acme''"] show ?thesis
    by (fastforce simp: GenerateHandleWithTenant_def)
qed

end
