(* ===== verification/Pool.thy ===== *)
theory Pool
  imports User
begin

text \<open>
  The SurrealDB connection pool (internal/adapters/persistence/surrealdb/pool.go).  The driver
  (surrealdb.go, not under src/) is the record \<open>driver\<close> over its own state.  A call that
  waits on a channel may block for ever: its outcome is \<open>Block\<close>.  The functions here run a call from
  its beginning to its end with no other caller in between; theory PoolRuns takes the calls apart into the
  steps that other callers can come between.  The lemmas say that a call of \<open>Query\<close> puts back what it took
  while redialling works, and what becomes of connections whose socket is dead.
\<close>

section \<open>The driver and the pool\<close>

type_synonym conn = nat
type_synonym vars = "(string \<times> any) list"

record 'd driver =
  dr_New :: "string \<Rightarrow> 'd \<Rightarrow> (goerr + conn) \<times> 'd"
  dr_SignIn :: "ctx \<Rightarrow> string \<Rightarrow> string \<Rightarrow> conn \<Rightarrow> 'd \<Rightarrow> goerr option \<times> 'd"
  dr_Use :: "ctx \<Rightarrow> string \<Rightarrow> string \<Rightarrow> conn \<Rightarrow> 'd \<Rightarrow> goerr option \<times> 'd"
  dr_Query :: "ctx \<Rightarrow> conn \<Rightarrow> string \<Rightarrow> vars \<Rightarrow> 'd \<Rightarrow> (goerr + any list) \<times> 'd"
  dr_Create :: "ctx \<Rightarrow> conn \<Rightarrow> string \<Rightarrow> vars \<Rightarrow> 'd \<Rightarrow> (goerr + row) \<times> 'd"
  dr_Close :: "conn \<Rightarrow> 'd \<Rightarrow> 'd"

record Config =
  cf_Endpoint :: string
  cf_Username :: string
  cf_Password :: string
  cf_Namespace :: string
  cf_Database :: string
  cf_MaxConns :: int

text \<open>The channel is the list of idle connections; \<open>po_chan_closed\<close> says that it was closed.\<close>

record Pool =
  po_conns :: "conn list"
  po_chan_closed :: bool
  po_endpoint :: string
  po_username :: string
  po_password :: string
  po_defaultNS :: string
  po_defaultDB :: string
  po_maxConns :: int
  po_closed :: bool

datatype 'a outcome = Done 'a | Crash string | Block

definition newConn :: "'d driver \<Rightarrow> Pool \<Rightarrow> ctx \<Rightarrow> 'd \<Rightarrow> (goerr + conn) \<times> 'd" where
  "newConn D p c d =
     (case dr_New D (po_endpoint p) d of
        (Inl e, d1) \<Rightarrow> (Inl (''dial: '' @ e), d1)
      | (Inr conn, d1) \<Rightarrow>
          (case dr_SignIn D c (po_username p) (po_password p) conn d1 of
             (Some e, d2) \<Rightarrow> (Inl (''signin: '' @ e), dr_Close D conn d2)
           | (None, d2) \<Rightarrow>
               (case dr_Use D c (po_defaultNS p) (po_defaultDB p) conn d2 of
                  (Some e, d3) \<Rightarrow> (Inl (''use: '' @ e), dr_Close D conn d3)
                | (None, d3) \<Rightarrow> (Inr conn, d3))))"

definition Close :: "'d driver \<Rightarrow> Pool \<times> 'd \<Rightarrow> Pool \<times> 'd" where
  "Close D = (\<lambda>(p, d).
     if po_closed p then (p, d)
     else (p\<lparr>po_closed := True, po_conns := [], po_chan_closed := True\<rparr>,
           fold (dr_Close D) (po_conns p) d))"

primrec fill_pool :: "'d driver \<Rightarrow> ctx \<Rightarrow> nat \<Rightarrow> nat \<Rightarrow> Pool \<times> 'd \<Rightarrow> goerr option \<times> Pool \<times> 'd" where
  "fill_pool D c 0 i s = (None, s)"
| "fill_pool D c (Suc n) i s =
     (case newConn D (fst s) c (snd s) of
        (Inl e, d1) \<Rightarrow> (Some (''pool init conn '' @ show_nat i @ '': '' @ e), Close D (fst s, d1))
      | (Inr conn, d1) \<Rightarrow>
          fill_pool D c n (Suc i) ((fst s)\<lparr>po_conns := po_conns (fst s) @ [conn]\<rparr>, d1))"

definition NewPool :: "'d driver \<Rightarrow> ctx \<Rightarrow> Config \<Rightarrow> 'd \<Rightarrow> (goerr + Pool) \<times> 'd" where
  "NewPool D c cfg d =
     (let maxConns = (if cf_MaxConns cfg \<le> 0 then 10 else cf_MaxConns cfg) in
      if cf_Endpoint cfg = '''' then (Inl ''surrealdb: empty Endpoint'', d)
      else (let p = \<lparr>po_conns = [], po_chan_closed = False, po_endpoint = cf_Endpoint cfg,
                po_username = cf_Username cfg, po_password = cf_Password cfg,
                po_defaultNS = cf_Namespace cfg, po_defaultDB = cf_Database cfg,
                po_maxConns = maxConns, po_closed = False\<rparr>
            in case fill_pool D c (nat maxConns) 0 (p, d) of
                 (Some e, p', d') \<Rightarrow> (Inl e, d')
               | (None, p', d') \<Rightarrow> (Inr p', d')))"

text \<open>
  \<open>borrow\<close> selects between the channel and \<open>ctx.Done()\<close>; \<open>pick\<close> is Go's choice when both are
  ready.  Receiving from the closed channel gives a nil connection, and using it panics.
\<close>

definition borrow :: "bool \<Rightarrow> ctx \<Rightarrow> Pool \<Rightarrow> (goerr + conn) outcome \<times> Pool" where
  "borrow pick c p =
     (case po_conns p of
        conn # rest \<Rightarrow>
          (case ctx_err c of
             Some e \<Rightarrow> if pick then (Done (Inl e), p) else (Done (Inr conn), p\<lparr>po_conns := rest\<rparr>)
           | None \<Rightarrow> (Done (Inr conn), p\<lparr>po_conns := rest\<rparr>))
      | [] \<Rightarrow>
          (case ctx_err c of
             Some e \<Rightarrow> if po_chan_closed p \<and> \<not> pick then (Crash ''nil connection'', p) else (Done (Inl e), p)
           | None \<Rightarrow> if po_chan_closed p then (Crash ''nil connection'', p) else (Block, p)))"

text \<open>\<open>p.conns <- conn\<close>: it panics on the closed channel and waits while the buffer is full.\<close>

definition chan_send :: "conn \<Rightarrow> Pool \<Rightarrow> unit outcome \<times> Pool" where
  "chan_send conn p =
     (if po_chan_closed p then (Crash ''send on closed channel'', p)
      else if int (length (po_conns p)) \<ge> po_maxConns p then (Block, p)
      else (Done (), p\<lparr>po_conns := po_conns p @ [conn]\<rparr>))"

definition returnConn :: "'d driver \<Rightarrow> conn \<Rightarrow> Pool \<times> 'd \<Rightarrow> unit outcome \<times> Pool \<times> 'd" where
  "returnConn D conn = (\<lambda>(p, d).
     if po_closed p then (Done (), p, dr_Close D conn d)
     else (case chan_send conn p of (r, p1) \<Rightarrow> (r, p1, d)))"

definition reconnect :: "'d driver \<Rightarrow> ctx \<Rightarrow> conn \<Rightarrow> Pool \<times> 'd \<Rightarrow> unit outcome \<times> Pool \<times> 'd" where
  "reconnect D c dead = (\<lambda>(p, d).
     case newConn D p c (dr_Close D dead d) of
       (Inl e, d1) \<Rightarrow> (Done (), p, d1)
     | (Inr conn, d1) \<Rightarrow> (case chan_send conn p of (r, p1) \<Rightarrow> (r, p1, d1)))"

definition connError :: "goerr \<Rightarrow> bool" where
  "connError s =
     (Contains s ''broken pipe'' \<or> Contains s ''connection reset'' \<or> Contains s ''EOF'' \<or>
      Contains s ''use of closed network connection'' \<or> Contains s ''i/o timeout'')"

text \<open>Running a step that may panic or wait before the rest of a function.\<close>

definition andThen :: "'a outcome \<times> 's \<Rightarrow> ('a \<Rightarrow> 's \<Rightarrow> 'b outcome \<times> 's) \<Rightarrow> 'b outcome \<times> 's" where
  "andThen m k = (case m of (Done x, s) \<Rightarrow> k x s | (Crash e, s) \<Rightarrow> (Crash e, s) | (Block, s) \<Rightarrow> (Block, s))"

definition lift_pool :: "'a outcome \<times> Pool \<Rightarrow> 'd \<Rightarrow> 'a outcome \<times> Pool \<times> 'd" where
  "lift_pool m d = (fst m, snd m, d)"

definition WithTimeout :: "ctx \<Rightarrow> time \<Rightarrow> duration \<Rightarrow> ctx" where
  "WithTimeout c now t = c\<lparr>ctx_deadline := Some (case ctx_deadline c of
      None \<Rightarrow> now + t | Some e \<Rightarrow> min e (now + t))\<rparr>"

text \<open>The two picks are those of the first borrow and of the one after a reconnect.\<close>

definition Query :: "'d driver \<Rightarrow> bool \<times> bool \<Rightarrow> time \<Rightarrow> ctx \<Rightarrow> string \<Rightarrow> string \<Rightarrow> string \<Rightarrow> vars
    \<Rightarrow> Pool \<times> 'd \<Rightarrow> (goerr + any list) outcome \<times> Pool \<times> 'd" where
  "Query D picks now c ns dbName sql vs s0 =
     andThen (lift_pool (borrow (fst picks) c (fst s0)) (snd s0)) (\<lambda>b s1.
       case b of Inl e \<Rightarrow> (Done (Inl (''borrow: '' @ e)), s1)
       | Inr conn \<Rightarrow>
         (case dr_Use D c ns dbName conn (snd s1) of
            (Some e, d2) \<Rightarrow> andThen (returnConn D conn (fst s1, d2)) (\<lambda>_ s2.
               (Done (Inl (''use ns='' @ ns @ '' db='' @ dbName @ '': '' @ e)), s2))
          | (None, d2) \<Rightarrow>
             (let c' = WithTimeout c now (10 * second) in
              case dr_Query D c' conn sql vs d2 of
                (Inr results, d3) \<Rightarrow> andThen (returnConn D conn (fst s1, d3)) (\<lambda>_ s2.
                   (Done (Inr results), s2))
              | (Inl err, d3) \<Rightarrow>
                 if connError err then
                   andThen (reconnect D c' conn (fst s1, d3)) (\<lambda>_ s3.
                     andThen (lift_pool (borrow (snd picks) c (fst s3)) (snd s3)) (\<lambda>b2 s4.
                       case b2 of
                         Inl newErr \<Rightarrow> (Done (Inl (''borrow after reconnect: '' @ newErr
                            @ '' (original: '' @ err @ '')'')), s4)
                       | Inr newC \<Rightarrow>
                          (case dr_Use D c ns dbName newC (snd s4) of
                             (Some err2, d5) \<Rightarrow> andThen (returnConn D newC (fst s4, d5)) (\<lambda>_ s5.
                                (Done (Inl (''use after reconnect: '' @ err2 @ '' (original: '' @ err @ '')'')), s5))
                           | (None, d5) \<Rightarrow>
                              (case dr_Query D c' newC sql vs d5 of
                                 (Inl retryErr, d6) \<Rightarrow> andThen (returnConn D newC (fst s4, d6)) (\<lambda>_ s6.
                                    (Done (Inl (''db query (retry failed): '' @ retryErr)), s6))
                               | (Inr retry, d6) \<Rightarrow> andThen (returnConn D newC (fst s4, d6)) (\<lambda>_ s6.
                                    (Done (Inr retry), s6))))))
                 else andThen (returnConn D conn (fst s1, d3)) (\<lambda>_ s2.
                        (Done (Inl (''db query: '' @ err)), s2)))))"

definition CreateRecord :: "'d driver \<Rightarrow> bool \<Rightarrow> time \<Rightarrow> ctx \<Rightarrow> string \<Rightarrow> string \<Rightarrow> string \<Rightarrow> vars
    \<Rightarrow> Pool \<times> 'd \<Rightarrow> (goerr + row) outcome \<times> Pool \<times> 'd" where
  "CreateRecord D pick now c ns dbName table data s0 =
     andThen (lift_pool (borrow pick c (fst s0)) (snd s0)) (\<lambda>b s1.
       case b of Inl e \<Rightarrow> (Done (Inl (''borrow: '' @ e)), s1)
       | Inr conn \<Rightarrow>
         (case dr_Use D c ns dbName conn (snd s1) of
            (Some e, d2) \<Rightarrow> andThen (returnConn D conn (fst s1, d2)) (\<lambda>_ s2.
               (Done (Inl (''use ns='' @ ns @ '' db='' @ dbName @ '': '' @ e)), s2))
          | (None, d2) \<Rightarrow>
             (let c' = WithTimeout c now (10 * second) in
              case dr_Create D c' conn table data d2 of
                (Inl err, d3) \<Rightarrow>
                  if connError err then
                    andThen (reconnect D c' conn (fst s1, d3)) (\<lambda>_ s2.
                      (Done (Inl (''create record: '' @ err)), s2))
                  else andThen (returnConn D conn (fst s1, d3)) (\<lambda>_ s2.
                      (Done (Inl (''create record: '' @ err)), s2))
              | (Inr result, d3) \<Rightarrow> andThen (returnConn D conn (fst s1, d3)) (\<lambda>_ s2.
                      (Done (Inr result), s2)))))"

definition TenantNS :: "string \<Rightarrow> ctx \<Rightarrow> string" where
  "TenantNS defaultNS c = (let tenantID = GetTenantID c in if tenantID \<noteq> '''' then tenantID else defaultNS)"

section \<open>Rows and record ids\<close>

definition firstRows :: "any list \<Rightarrow> any list" where
  "firstRows results =
     (case results of [] \<Rightarrow> []
      | r # _ \<Rightarrow> (case r of AList rows \<Rightarrow> rows | AMap m \<Rightarrow> [AMap m] | _ \<Rightarrow> []))"

definition getRecordID :: "string \<Rightarrow> (string \<times> string) option" where
  "getRecordID idStr =
     (if idStr = '''' \<or> Contains idStr ''{'' then None
      else case SplitN2 idStr CHR '':'' of
        [a, b] \<Rightarrow> if a = '''' \<or> b = '''' then None else Some (a, b)
      | _ \<Rightarrow> None)"

text \<open>\<open>strings.IndexAny\<close>: the first position of a character of the set; \<open>None\<close> is -1.\<close>

fun IndexAny :: "string \<Rightarrow> char list \<Rightarrow> nat option" where
  "IndexAny [] cs = None"
| "IndexAny (x # xs) cs = (if x \<in> set cs then Some 0 else map_option Suc (IndexAny xs cs))"

text \<open>
  The values of \<open>any\<close> with a \<open>String\<close> method; a call through a nil pointer panics.  \<open>Sprint L\<close> is
  what \<open>%v\<close> prints.
\<close>

definition as_stringer :: "golib \<Rightarrow> any \<Rightarrow> string go option" where
  "as_stringer L v = (case v of
       AStringer s \<Rightarrow> Some (Ret s)
     | ATime _ \<Rightarrow> Some (Ret (Sprint L v))
     | ACustomTime _ \<Rightarrow> Some (Ret (Sprint L v))
     | ATimePtr t \<Rightarrow> Some (if t = None then Panic ''nil pointer dereference'' else Ret (Sprint L v))
     | ACustomTimePtr t \<Rightarrow> Some (if t = None then Panic ''nil pointer dereference'' else Ret (Sprint L v))
     | _ \<Rightarrow> None)"

definition braces :: "string \<Rightarrow> string" where
  "braces s =
     (if length s > 2 \<and> hd s = CHR ''{'' \<and> last s = CHR ''}'' then
        (let inner = butlast (tl s) in
         case IndexAny inner '' ,'' of
           Some idx \<Rightarrow> if idx > 0 then take idx inner @ '':'' @ TrimSpace (drop (idx + 1) inner) else s
         | None \<Rightarrow> s)
      else s)"

definition map_record_id :: "golib \<Rightarrow> row \<Rightarrow> string option" where
  "map_record_id L m =
     (let tb0 = str_or_empty (get m ''tb'');
          tb = (if tb0 = '''' then str_or_empty (get m ''Table'') else tb0);
          idVal = (if get m ''id'' = ANil then get m ''ID'' else get m ''id'')
      in if tb \<noteq> '''' \<and> idVal \<noteq> ANil then Some (tb @ '':'' @ Sprint L idVal) else None)"

definition formatRecordID :: "golib \<Rightarrow> any \<Rightarrow> string go" where
  "formatRecordID L i =
     (if i = ANil then Ret ''''
      else case i of AStr s \<Rightarrow> Ret s
      | _ \<Rightarrow> (case as_stringer L i of
          Some r \<Rightarrow> r
        | None \<Rightarrow> (case i of
            AMap m \<Rightarrow> (case map_record_id L m of Some s \<Rightarrow> Ret s | None \<Rightarrow> Ret (braces (Sprint L i)))
          | _ \<Rightarrow> Ret (braces (Sprint L i)))))"

lemma getRecordID_iff:
  "getRecordID s = Some (a, b) \<longleftrightarrow>
     s = a @ CHR '':'' # b \<and> CHR '':'' \<notin> set a \<and> a \<noteq> [] \<and> b \<noteq> [] \<and> CHR ''{'' \<notin> set s"
proof (cases rule: SplitN2_cases [of "CHR '':''" s])
  case one
  then show ?thesis by (auto simp: getRecordID_def Contains_char)
next
  case (two x y)
  then have "cut_at CHR '':'' s = Some (x, y)" by simp
  then show ?thesis using two(3)
    by (auto simp: getRecordID_def Contains_char dest: cut_at_Some_iff [THEN iffD1] cut_at_Some_iff [THEN iffD2])
qed

text \<open>A record id that the pool formats is one it can read back.\<close>

lemma formatRecordID_getRecordID:
  assumes "getRecordID s = Some (a, b)"
  shows "formatRecordID L (AStr s) = Ret (a @ '':'' @ b)"
  using assms by (simp add: formatRecordID_def getRecordID_iff)

lemma firstRows_simps [simp]:
  "firstRows [] = []" "firstRows (AList rows # rs) = rows" "firstRows (AMap m # rs) = [AMap m]"
  by (simp_all add: firstRows_def)

lemma TenantNS_set [simp]: "GetTenantID c \<noteq> [] \<Longrightarrow> TenantNS d c = GetTenantID c"
  by (simp add: TenantNS_def Let_def)

section \<open>One call\<close>

lemma andThen_simps [simp]:
  "andThen (Done x, s) k = k x s" "andThen (Crash e, s) k = (Crash e, s)" "andThen (Block, s) k = (Block, s)"
  by (simp_all add: andThen_def)

definition pool_open :: "Pool \<Rightarrow> bool" where
  "pool_open p \<longleftrightarrow> \<not> po_closed p \<and> \<not> po_chan_closed p \<and> int (length (po_conns p)) \<le> po_maxConns p"

lemma newConn_conns [simp]: "newConn D (p\<lparr>po_conns := xs\<rparr>) c d = newConn D p c d"
  by (auto simp: newConn_def split: sum.splits prod.splits option.splits)

lemma borrow_first:
  assumes "po_conns p = conn # rest" and "ctx_err c = None"
  shows "borrow pick c p = (Done (Inr conn), p\<lparr>po_conns := rest\<rparr>)"
  using assms by (simp add: borrow_def)

lemma borrow_empty:
  assumes "po_conns p = []" and "\<not> po_chan_closed p" and "ctx_err c = None"
  shows "borrow pick c p = (Block, p)"
  using assms by (simp add: borrow_def)

lemma returnConn_open:
  assumes "pool_open p" and "int (length (po_conns p)) < po_maxConns p"
  shows "returnConn D conn (p, d) = (Done (), p\<lparr>po_conns := po_conns p @ [conn]\<rparr>, d)"
  using assms by (simp add: returnConn_def chan_send_def pool_open_def)

lemma reconnect_open:
  assumes "pool_open p" and "int (length (po_conns p)) < po_maxConns p"
  shows "reconnect D c dead (p, d) = (Done (), (case newConn D p c (dr_Close D dead d) of
     (Inl e, d1) \<Rightarrow> (p, d1) | (Inr conn, d1) \<Rightarrow> (p\<lparr>po_conns := po_conns p @ [conn]\<rparr>, d1)))"
  using assms by (auto simp: reconnect_def chan_send_def pool_open_def split: sum.splits prod.splits)

lemma upd_conns_ex: "length ys = n \<Longrightarrow> \<exists>xs. p\<lparr>po_conns := ys\<rparr> = p\<lparr>po_conns := xs\<rparr> \<and> length xs = n"
  by blast

text \<open>While redialling works, a call answers and puts back as many connections as it took.\<close>

lemma Query_conserves:
  assumes "pool_open p" and "po_conns p = conn # rest" and "ctx_err c = None"
    and redial: "\<And>c d. \<exists>cn d'. newConn D p c d = (Inr cn, d')"
  shows "\<exists>r xs d'. Query D picks now c ns db sql vs (p, d) = (Done r, p\<lparr>po_conns := xs\<rparr>, d')
    \<and> length xs = length (po_conns p)"
proof -
  let ?p = "p\<lparr>po_conns := rest\<rparr>"
  have op: "pool_open ?p" and room: "int (length rest) < po_maxConns p"
    using assms(1,2) by (auto simp: pool_open_def)
  have bk: "returnConn D x (?p, d) = (Done (), p\<lparr>po_conns := rest @ [x]\<rparr>, d)" for x d
    using returnConn_open [OF op, of D x d] room by simp
  obtain u d2 where u: "dr_Use D c ns db conn d = (u, d2)" by (cases "dr_Use D c ns db conn d")
  note start = borrow_first [OF assms(2,3)]
  show ?thesis
  proof (cases u)
    case (Some e)
    with u bk show ?thesis
      by (auto simp: Query_def start lift_pool_def assms(2) intro!: upd_conns_ex)
  next
    case None
    let ?c = "WithTimeout c now (10 * second)"
    obtain r d3 where q: "dr_Query D ?c conn sql vs d2 = (r, d3)" by (cases "dr_Query D ?c conn sql vs d2")
    show ?thesis
    proof (cases "\<exists>err. r = Inl err \<and> connError err")
      case False
      with u None q bk show ?thesis
        by (cases r) (auto simp: Query_def start lift_pool_def Let_def assms(2) intro!: upd_conns_ex)
    next
      case True
      then obtain err where err: "r = Inl err" "connError err" by blast
      obtain cn d4 where nc: "newConn D p ?c (dr_Close D conn d3) = (Inr cn, d4)" using redial by blast
      then have rc: "reconnect D ?c conn (?p, d3) = (Done (), p\<lparr>po_conns := rest @ [cn]\<rparr>, d4)"
        using reconnect_open [OF op, of D ?c conn d3] room by simp
      obtain y ys where ys: "rest @ [cn] = y # ys" by (cases "rest @ [cn]") auto
      let ?q = "p\<lparr>po_conns := ys\<rparr>"
      have ly: "length ys = length rest" using ys by (metis length_append_singleton length_Cons nat.inject)
      have b2: "borrow pk c (p\<lparr>po_conns := rest @ [cn]\<rparr>) = (Done (Inr y), ?q)" for pk
        using ys assms(3) by (simp add: borrow_def)
      have opq: "pool_open ?q" using op ly by (simp add: pool_open_def)
      have bk2: "returnConn D y (?q, d) = (Done (), p\<lparr>po_conns := ys @ [y]\<rparr>, d)" for d
        using returnConn_open [OF opq, of D y d] room ly by simp
      obtain u2 d5 where u2: "dr_Use D c ns db y d4 = (u2, d5)" by (cases "dr_Use D c ns db y d4")
      obtain r2 d6 where r2: "dr_Query D ?c y sql vs d5 = (r2, d6)" by (cases "dr_Query D ?c y sql vs d5")
      show ?thesis
        using u None q err rc b2 bk2 u2 r2 ly
        by (cases u2; cases r2)
           (auto simp: Query_def start lift_pool_def Let_def assms(2) intro!: upd_conns_ex)
    qed
  qed
qed

section \<open>A new pool\<close>

lemma fill_pool_ok:
  assumes "fill_pool D c n i (p, d) = (None, p', d')"
  shows "length (po_conns p') = length (po_conns p) + n \<and> p' = p\<lparr>po_conns := po_conns p'\<rparr>"
  using assms
proof (induction n arbitrary: i p d)
  case 0
  then show ?case by simp
next
  case (Suc n)
  then obtain cn d1 where "newConn D p c d = (Inr cn, d1)"
    and "fill_pool D c n (Suc i) (p\<lparr>po_conns := po_conns p @ [cn]\<rparr>, d1) = (None, p', d')"
    by (auto split: sum.splits prod.splits)
  from Suc.IH [OF this(2)] show ?case by simp
qed

lemma NewPool_open:
  assumes "NewPool D c cfg d = (Inr p, d')"
  shows "pool_open p" and "po_conns p \<noteq> []" and "int (length (po_conns p)) = po_maxConns p"
proof -
  let ?m = "if cf_MaxConns cfg \<le> 0 then 10 else cf_MaxConns cfg"
  obtain p0 d0 where "fill_pool D c (nat ?m) 0 (p0, d0) = (None, p, d')"
    and p0: "po_conns p0 = []" "po_maxConns p0 = ?m" "\<not> po_closed p0" "\<not> po_chan_closed p0"
    using assms by (fastforce simp: NewPool_def Let_def split: if_splits option.splits prod.splits)
  from fill_pool_ok [OF this(1)] p0 have len: "length (po_conns p) = nat ?m"
    and p: "p = p0\<lparr>po_conns := po_conns p\<rparr>" by simp_all
  have "po_maxConns p = ?m" "\<not> po_closed p" "\<not> po_chan_closed p" by (subst p, simp add: p0)+
  with len show "pool_open p" "po_conns p \<noteq> []" "int (length (po_conns p)) = po_maxConns p"
    by (auto simp: pool_open_def split: if_splits)
qed

section \<open>Properties\<close>

text \<open>A driver that numbers its connections and answers every query with no rows.\<close>

definition demo_driver :: "nat driver" where
  "demo_driver = \<lparr>dr_New = (\<lambda>ep d. (Inr d, Suc d)), dr_SignIn = (\<lambda>c u p cn d. (None, d)),
     dr_Use = (\<lambda>c ns db cn d. (None, d)), dr_Query = (\<lambda>c cn sql vs d. (Inr [AList []], d)),
     dr_Create = (\<lambda>c cn t vs d. (Inr [], d)), dr_Close = (\<lambda>cn d. d)\<rparr>"

definition demo_cfg :: Config where
  "demo_cfg = \<lparr>cf_Endpoint = ''ws://db'', cf_Username = ''u'', cf_Password = ''p'', cf_Namespace = ''n'',
     cf_Database = ''d'', cf_MaxConns = 2\<rparr>"

definition demo_pool :: Pool where
  "demo_pool = \<lparr>po_conns = [0, 1], po_chan_closed = False, po_endpoint = ''ws://db'', po_username = ''u'',
     po_password = ''p'', po_defaultNS = ''n'', po_defaultDB = ''d'', po_maxConns = 2, po_closed = False\<rparr>"

lemma demo_NewPool: "NewPool demo_driver Background demo_cfg 0 = (Inr demo_pool, 2)"
  by (simp add: NewPool_def demo_cfg_def demo_driver_def demo_pool_def newConn_def numeral_2_eq_2)

text \<open>While redialling works, a query on a live context is answered, with a result or an error, and
  leaves as many idle connections as it found, on every path of \<open>Query\<close>.\<close>

theorem query_conserves:
  assumes "pool_open p" and "po_conns p = conn # rest" and "ctx_err c = None"
    and "\<forall>c d. \<exists>cn d'. newConn D p c d = (Inr cn, d')"
  shows "\<exists>r xs d'. Query D picks now c ns db sql vs (p, d) = (Done r, p\<lparr>po_conns := xs\<rparr>, d')
    \<and> length xs = length (po_conns p)"
  by (rule Query_conserves [OF assms(1-3)]) (use assms(4) in blast)

lemma query_conserves_witness:
  "\<exists>r xs d'. Query demo_driver (True, True) 0 Background ''n'' ''d'' ''INFO'' [] (demo_pool, 2)
     = (Done r, demo_pool\<lparr>po_conns := xs\<rparr>, d') \<and> length xs = length (po_conns demo_pool)"
proof (rule query_conserves)
  show "\<forall>c d. \<exists>cn d'. newConn demo_driver demo_pool c d = (Inr cn, d')"
    by (simp add: newConn_def demo_driver_def)
qed (simp_all add: demo_pool_def pool_open_def Background_def)

text \<open>The calls of one caller, one after the other.\<close>

record query_call =
  qc_picks :: "bool \<times> bool"
  qc_now :: time
  qc_ctx :: ctx
  qc_ns :: string
  qc_db :: string
  qc_sql :: string
  qc_vars :: vars

fun queries :: "'d driver \<Rightarrow> query_call list \<Rightarrow> Pool \<times> 'd \<Rightarrow> (goerr + any list) outcome list \<times> Pool \<times> 'd" where
  "queries D [] s = ([], s)"
| "queries D (q # qs) s =
     (case Query D (qc_picks q) (qc_now q) (qc_ctx q) (qc_ns q) (qc_db q) (qc_sql q) (qc_vars q) s of
        (r, s1) \<Rightarrow> (case queries D qs s1 of (rs, s2) \<Rightarrow> (r # rs, s2)))"

text \<open>A connection whose socket is dead: every \<open>Use\<close> on it fails.\<close>

definition dead_conn :: "'d driver \<Rightarrow> conn \<Rightarrow> bool" where
  "dead_conn D cn \<longleftrightarrow> (\<forall>c ns db d. fst (dr_Use D c ns db cn d) \<noteq> None)"

lemma Query_dead:
  assumes "pool_open p" and "po_conns p = conn # rest" and "ctx_err c = None" and "dead_conn D conn"
  shows "\<exists>e d'. Query D picks now c ns db sql vs (p, d) =
    (Done (Inl (''use ns='' @ ns @ '' db='' @ db @ '': '' @ e)), p\<lparr>po_conns := rest @ [conn]\<rparr>, d')"
proof -
  let ?p = "p\<lparr>po_conns := rest\<rparr>"
  have "pool_open ?p" "int (length (po_conns ?p)) < po_maxConns ?p"
    using assms(1,2) by (auto simp: pool_open_def)
  note ret = returnConn_open [OF this, of D conn]
  obtain u d2 where "dr_Use D c ns db conn d = (u, d2)" by (rule prod.exhaust)
  moreover from this assms(4) obtain e where "u = Some e" unfolding dead_conn_def by (metis fst_conv not_Some_eq)
  ultimately show ?thesis using ret
    by (simp add: Query_def borrow_first [OF assms(2,3)] lift_pool_def)
qed

text \<open>C40: The pool does not recover from an outage.  Once the sockets of its idle connections are dead, every
  query is answered with an error and puts its dead connection back: however many queries follow, and although
  redialling would work, the pool holds the same dead connections, none of them is closed or replaced.\<close>

theorem dead_connections_stay:
  assumes "pool_open p" and "po_conns p \<noteq> []" and "\<And>cn. cn \<in> set (po_conns p) \<Longrightarrow> dead_conn D cn"
    and "\<And>q. q \<in> set qs \<Longrightarrow> ctx_err (qc_ctx q) = None"
  shows "\<exists>rs d'. queries D qs (p, d) = (rs, p\<lparr>po_conns := rotate (length qs) (po_conns p)\<rparr>, d') \<and>
    length rs = length qs \<and> (\<forall>r \<in> set rs. \<exists>e. r = Done (Inl (''use ns='' @ e)))"
  using assms
proof (induction qs arbitrary: p d)
  case (Cons q qs)
  obtain cn rest where cr: "po_conns p = cn # rest" using Cons.prems(2) by (cases "po_conns p") auto
  let ?p = "p\<lparr>po_conns := rest @ [cn]\<rparr>"
  have "ctx_err (qc_ctx q) = None" "dead_conn D cn" using Cons.prems(3,4) cr by simp_all
  from Query_dead [OF Cons.prems(1) cr this] obtain e d1 where one:
    "Query D (qc_picks q) (qc_now q) (qc_ctx q) (qc_ns q) (qc_db q) (qc_sql q) (qc_vars q) (p, d)
      = (Done (Inl (''use ns='' @ e)), ?p, d1)" by blast
  have "pool_open ?p" using Cons.prems(1) cr by (simp add: pool_open_def)
  from Cons.IH [OF this, of d1] Cons.prems(3,4) cr obtain rs d'
    where "queries D qs (?p, d1) = (rs, ?p\<lparr>po_conns := rotate (length qs) (rest @ [cn])\<rparr>, d')"
      and "length rs = length qs" "\<forall>r \<in> set rs. \<exists>e. r = Done (Inl (''use ns='' @ e))" by auto
  with one cr show ?case by (simp add: rotate1_rotate_swap)
qed simp

text \<open>Both connections of the pool are dead, and new ones would work.\<close>

definition stale_driver :: "nat driver" where
  "stale_driver = demo_driver\<lparr>dr_Use := (\<lambda>c ns db cn d. (if cn < 2 then Some ''use of closed network connection'' else None, d))\<rparr>"

lemma dead_connections_stay_witness:
  "\<exists>rs d'. queries stale_driver (replicate 3 \<lparr>qc_picks = (True, True), qc_now = 0, qc_ctx = Background, qc_ns = ''n'', qc_db = ''d'',
       qc_sql = ''INFO'', qc_vars = []\<rparr>) (demo_pool, 2) = (rs, demo_pool\<lparr>po_conns := [1, 0]\<rparr>, d') \<and>
     length rs = 3 \<and> (\<forall>r \<in> set rs. \<exists>e. r = Done (Inl (''use ns='' @ e))) \<and>
     newConn stale_driver demo_pool Background 2 = (Inr 2, 3)"
proof -
  let ?q = "\<lparr>qc_picks = (True, True), qc_now = 0, qc_ctx = Background, qc_ns = ''n'', qc_db = ''d'', qc_sql = ''INFO'', qc_vars = []\<rparr>"
  have "\<exists>rs d'. queries stale_driver (replicate 3 ?q) (demo_pool, 2 :: nat)
      = (rs, demo_pool\<lparr>po_conns := rotate (length (replicate 3 ?q)) (po_conns demo_pool)\<rparr>, d') \<and>
    length rs = length (replicate 3 ?q) \<and> (\<forall>r \<in> set rs. \<exists>e. r = Done (Inl (''use ns='' @ e)))"
    by (rule dead_connections_stay)
      (auto simp: demo_pool_def pool_open_def Background_def dead_conn_def stale_driver_def demo_driver_def)
  moreover have "newConn stale_driver demo_pool Background 2 = (Inr 2, 3)"
    by (simp add: newConn_def stale_driver_def demo_driver_def demo_pool_def)
  ultimately show ?thesis by (simp add: demo_pool_def numeral_3_eq_3)
qed

end
