(* ===== verification/Surreal.thy ===== *)
theory Surreal
  imports Pool
begin

text \<open>
  What the SurrealDB repositories (internal/adapters/persistence/surrealdb/*_repo.go) share: the
  pool as they call it, a query in the namespace of the tenant, and the decoding of bytes and
  times.  A statement's text is the one of the source, whitespace included.
\<close>

text \<open>
  \<open>db_Query\<close> stands for \<open>Pool.Query\<close> with a context, a namespace, a database, the statement and
  its variables; a result is the \<open>Result\<close> of one statement.  A repository without a pool is
  \<open>None\<close>.
\<close>

record 'd db =
  db_Query :: "ctx \<Rightarrow> string \<Rightarrow> string \<Rightarrow> string \<Rightarrow> vars \<Rightarrow> 'd \<Rightarrow> (goerr + any list) \<times> 'd"
  db_defaultNS :: string

definition ns_of :: "'d db \<Rightarrow> ctx \<Rightarrow> string" where
  "ns_of db c = TenantNS (db_defaultNS db) c"

definition tenant_Query :: "'d db \<Rightarrow> ctx \<Rightarrow> string \<Rightarrow> vars \<Rightarrow> 'd \<Rightarrow> (goerr + any list) \<times> 'd" where
  "tenant_Query db c sql vs d = db_Query db c (ns_of db c) (ns_of db c) sql vs d"

definition no_db :: goerr where "no_db = ''db not connected''"

text \<open>The first row of an answer, when it is a map.\<close>

definition first_map :: "any list \<Rightarrow> row option option" where
  "first_map results =
     (case firstRows results of [] \<Rightarrow> None | r # _ \<Rightarrow> Some (as_map r))"

lemma first_map_simps [simp]:
  "first_map [AList []] = None" "first_map [AList (AMap m # rs)] = Some (Some m)"
  "first_map [] = None"
  by (simp_all add: first_map_def)

definition parseTime :: "golib \<Rightarrow> any \<Rightarrow> time \<times> bool" where
  "parseTime L v = (case v of
       ATime t \<Rightarrow> (t, True)
     | AStr s \<Rightarrow> (case ParseRFC3339 L s of Some t \<Rightarrow> (t, True) | None \<Rightarrow> (zero_time, False))
     | _ \<Rightarrow> (zero_time, False))"

definition asBytes :: "any \<Rightarrow> string option" where
  "asBytes v = (case v of ABytes b \<Rightarrow> Some b | AStr s \<Rightarrow> Some s | _ \<Rightarrow> None)"

definition asBytesV2 :: "any \<Rightarrow> string option" where
  "asBytesV2 v = (case v of ABytes b \<Rightarrow> Some b | AStr s \<Rightarrow> Some s | _ \<Rightarrow> None)"

text \<open>\<open>case float64: int(v); case int64: int(v)\<close>.\<close>

definition as_counter :: "any \<Rightarrow> int" where
  "as_counter v = (case v of AFloat m e \<Rightarrow> float_to_int m e | AInt i \<Rightarrow> i | _ \<Rightarrow> 0)"

definition bytes_var :: "string option \<Rightarrow> any" where
  "bytes_var b = (case b of None \<Rightarrow> ANil | Some s \<Rightarrow> ABytes s)"

text \<open>A failed statement with a prefix to its error.\<close>

definition wrap_err :: "string \<Rightarrow> (goerr + 'a) \<times> 'd \<Rightarrow> goerr option \<times> 'd" where
  "wrap_err p r = ((case fst r of Inl e \<Rightarrow> Some (p @ e) | Inr _ \<Rightarrow> None), snd r)"

lemma wrap_err_simps [simp]:
  "wrap_err p (Inl e, d) = (Some (p @ e), d)" "wrap_err p (Inr x, d) = (None, d)"
  by (simp_all add: wrap_err_def)

lemma wrap_err_snd [simp]: "snd (wrap_err p r) = snd r"
  by (simp add: wrap_err_def)

end
