(* ===== verification/Sql.thy ===== *)
theory Sql
  imports Surreal
begin

text \<open>
  The part of the statement language that the repositories write: \<open>CREATE table SET ...\<close> and
  \<open>UPDATE table SET ... WHERE column = $name\<close>.  The text of a statement is read into its assignments, and
  what an assignment makes of a row is a function of them; so a law about the database speaks of every
  statement of the form, and what one of them does follows from its text.
\<close>

section \<open>Words\<close>

text \<open>A quoted text is one word; a comma and an equals sign are words of their own.\<close>

definition sql_space :: "char \<Rightarrow> bool" where
  "sql_space c \<longleftrightarrow> c = CHR '' '' \<or> c = CHR 0x0A \<or> c = CHR 0x09"

definition flush :: "string \<Rightarrow> string list \<Rightarrow> string list" where
  "flush cur ws = (if cur = [] then ws else rev cur # ws)"

fun words_of :: "bool \<Rightarrow> string \<Rightarrow> string \<Rightarrow> string list" where
  "words_of q [] cur = flush cur []"
| "words_of q (c # cs) cur =
     (if c = CHR 0x27 then words_of (\<not> q) cs (c # cur)
      else if q then words_of q cs (c # cur)
      else if sql_space c then flush cur (words_of q cs [])
      else if c = CHR '','' \<or> c = CHR ''='' then flush cur ([c] # words_of q cs [])
      else words_of q cs (c # cur))"

section \<open>Expressions\<close>

text \<open>\<open>NONE\<close>, \<open>time::now()\<close>, \<open>rand::string(n)\<close>, \<open>$name\<close>, \<open><datetime>$name\<close> and a quoted text.\<close>

datatype sql_expr = SNone | SNow | SRand nat | SVar string | SDatetime string | SText string

fun number_of :: "string \<Rightarrow> nat \<Rightarrow> nat option" where
  "number_of [] n = None"
| "number_of (c # cs) n = (if 48 \<le> (of_char c :: nat) \<and> of_char c \<le> (57 :: nat) then number_of cs (10 * n + (of_char c - 48))
     else if c # cs = '')'' then Some n else None)"

fun after_prefix :: "string \<Rightarrow> string \<Rightarrow> string option" where
  "after_prefix [] s = Some s"
| "after_prefix (p # ps) [] = None"
| "after_prefix (p # ps) (c # cs) = (if p = c then after_prefix ps cs else None)"

definition parse_expr :: "string \<Rightarrow> sql_expr option" where
  "parse_expr w =
     (if w = ''NONE'' then Some SNone
      else if w = ''time::now()'' then Some SNow
      else case after_prefix ''rand::string('' w of
        Some d \<Rightarrow> map_option SRand (number_of d 0)
      | None \<Rightarrow> (case after_prefix ''<datetime>$'' w of
          Some x \<Rightarrow> Some (SDatetime x)
        | None \<Rightarrow> (case w of
            [] \<Rightarrow> None
          | c # x \<Rightarrow> if c = CHR ''$'' then Some (SVar x)
              else if c = CHR 0x27 \<and> x \<noteq> [] \<and> last x = CHR 0x27 then Some (SText (butlast x)) else None)))"

section \<open>Statements\<close>

type_synonym assignments = "(string \<times> sql_expr) list"

text \<open>\<open>column = expression, ...\<close>, and the words behind it.\<close>

fun parse_sets :: "string list \<Rightarrow> (assignments \<times> string list) option" where
  "parse_sets (k # eq # w # ws) =
     (if eq \<noteq> ''='' then None
      else case parse_expr w of
        None \<Rightarrow> None
      | Some e \<Rightarrow> (case ws of
          v # vs \<Rightarrow> if v = '','' then map_option (\<lambda>(xs, r). ((k, e) # xs, r)) (parse_sets vs) else Some ([(k, e)], ws)
        | [] \<Rightarrow> Some ([(k, e)], [])))"
| "parse_sets _ = None"

text \<open>Table and assignments of a CREATE.\<close>

definition parse_create :: "string \<Rightarrow> (string \<times> assignments) option" where
  "parse_create sql =
     (case words_of False sql [] of
        k # tab # kw # ws \<Rightarrow>
          (if k = ''CREATE'' \<and> kw = ''SET''
           then (case parse_sets ws of Some (xs, []) \<Rightarrow> Some (tab, xs) | _ \<Rightarrow> None) else None)
      | _ \<Rightarrow> None)"

text \<open>Table, assignments, and the column and the variable of the condition of an UPDATE.\<close>

definition parse_update :: "string \<Rightarrow> (string \<times> assignments \<times> string \<times> string) option" where
  "parse_update sql =
     (case words_of False sql [] of
        k # tab # kw # ws \<Rightarrow>
          (if k = ''UPDATE'' \<and> kw = ''SET''
           then (case parse_sets ws of
               Some (xs, [wh, col, eq, v]) \<Rightarrow>
                 (case (wh = ''WHERE'' \<and> eq = ''='', parse_expr v) of (True, Some (SVar x)) \<Rightarrow> Some (tab, xs, col, x) | _ \<Rightarrow> None)
             | _ \<Rightarrow> None) else None)
      | _ \<Rightarrow> None)"

section \<open>What a statement makes of a row\<close>

text \<open>What the database reads while it runs a statement: random texts of a given length, its clock, and the
  datetime that a text is.\<close>

record sql_reads =
  sr_rand :: "nat \<Rightarrow> string"
  sr_now :: time
  sr_datetime :: "any \<Rightarrow> any"

definition sql_reads_ok :: "sql_reads \<Rightarrow> bool" where
  "sql_reads_ok rs \<longleftrightarrow> (\<forall>n. length (sr_rand rs n) = n)"

text \<open>The driver returns an array as \<open>[]any\<close> and a datetime as \<open>time.Time\<close>; a missing variable is NONE.\<close>

definition from_db :: "any \<Rightarrow> any" where
  "from_db v = (case v of AStrings ss \<Rightarrow> AList (map AStr ss) | _ \<Rightarrow> v)"

fun sql_value :: "vars \<Rightarrow> sql_reads \<Rightarrow> sql_expr \<Rightarrow> any" where
  "sql_value vs rs SNone = ANil"
| "sql_value vs rs SNow = ATime (sr_now rs)"
| "sql_value vs rs (SRand n) = AStr (sr_rand rs n)"
| "sql_value vs rs (SVar x) = from_db (get vs x)"
| "sql_value vs rs (SDatetime x) = sr_datetime rs (get vs x)"
| "sql_value vs rs (SText s) = AStr s"

definition assigned :: "assignments \<Rightarrow> vars \<Rightarrow> sql_reads \<Rightarrow> row \<Rightarrow> row" where
  "assigned xs vs rs rm = map (\<lambda>(k, e). (k, sql_value vs rs e)) xs @ rm"

text \<open>Readings for the closed examples.\<close>

definition demo_sql_reads :: sql_reads where
  "demo_sql_reads = \<lparr>sr_rand = (\<lambda>n. replicate n CHR ''r''), sr_now = 0, sr_datetime = (\<lambda>v. v)\<rparr>"

lemma demo_sql_reads_ok [simp]: "sql_reads_ok demo_sql_reads"
  by (simp add: sql_reads_ok_def demo_sql_reads_def)

lemma get_assigned: "get (assigned xs vs rs rm) k =
    (case map_of xs k of Some e \<Rightarrow> sql_value vs rs e | None \<Rightarrow> get rm k)"
proof -
  have "map_of (map (\<lambda>(k, e). (k, sql_value vs rs e)) xs) k = map_option (sql_value vs rs) (map_of xs k)"
    by (induction xs) auto
  then show ?thesis by (simp add: assigned_def get_def map_add_def split: option.split)
qed

lemma from_db_simps [simp]:
  "from_db (AStr s) = AStr s" "from_db (ABytes b) = ABytes b" "from_db (AInt i) = AInt i"
  "from_db (ATime t) = ATime t" "from_db ANil = ANil" "from_db (AStrings ss) = AList (map AStr ss)"
  by (simp_all add: from_db_def)

text \<open>A database that runs the UPDATE statements on a table: one that is run sets the columns of the rows that
  meet the condition, and one that is refused (a unique index, a type) leaves the table alone.\<close>

definition runs_updates :: "'d db \<Rightarrow> string \<Rightarrow> (string \<Rightarrow> 'd \<Rightarrow> row list) \<Rightarrow> bool" where
  "runs_updates db tab rows \<longleftrightarrow> (\<forall>c ns sql vs d xs col x. parse_update sql = Some (tab, xs, col, x) \<longrightarrow>
     (case db_Query db c ns ns sql vs d of
        (Inl e, d') \<Rightarrow> rows ns d' = rows ns d
      | (Inr res, d') \<Rightarrow> \<exists>rs. (\<forall>rm. sql_reads_ok (rs rm)) \<and>
          rows ns d' = map (\<lambda>rm. if get rm col = get vs x then assigned xs vs (rs rm) rm else rm) (rows ns d)))"

text \<open>The same for CREATE: a row with the columns of the statement, or nothing.\<close>

definition runs_creates :: "'d db \<Rightarrow> string \<Rightarrow> (string \<Rightarrow> string \<Rightarrow> 'd \<Rightarrow> row list) \<Rightarrow> bool" where
  "runs_creates db tab rows \<longleftrightarrow> (\<forall>c ns dbn ns' dbn' sql vs d xs. parse_create sql = Some (tab, xs) \<longrightarrow>
     (case db_Query db c ns dbn sql vs d of
        (Inl e, d') \<Rightarrow> rows ns' dbn' d' = rows ns' dbn' d
      | (Inr res, d') \<Rightarrow> \<exists>rs. sql_reads_ok rs \<and>
          rows ns' dbn' d' = rows ns' dbn' d @ (if ns' = ns \<and> dbn' = dbn then [assigned xs vs rs []] else [])))"

lemma runs_updatesD:
  assumes "runs_updates db tab rows" and "parse_update sql = Some (tab, xs, col, x)"
  shows "db_Query db c ns ns sql vs d = (Inl e, d') \<Longrightarrow> rows ns d' = rows ns d"
    and "db_Query db c ns ns sql vs d = (Inr res, d') \<Longrightarrow> \<exists>rs. (\<forall>rm. sql_reads_ok (rs rm)) \<and>
      rows ns d' = map (\<lambda>rm. if get rm col = get vs x then assigned xs vs (rs rm) rm else rm) (rows ns d)"
  using assms(1) [unfolded runs_updates_def, rule_format, OF assms(2), where c = c and ns = ns and vs = vs and d = d] by simp_all

lemma runs_createsD:
  assumes "runs_creates db tab rows" and "parse_create sql = Some (tab, xs)"
  shows "db_Query db c ns dbn sql vs d = (Inl e, d') \<Longrightarrow> rows ns' dbn' d' = rows ns' dbn' d"
    and "db_Query db c ns dbn sql vs d = (Inr res, d') \<Longrightarrow> \<exists>rs. sql_reads_ok rs \<and>
      rows ns' dbn' d' = rows ns' dbn' d @ (if ns' = ns \<and> dbn' = dbn then [assigned xs vs rs []] else [])"
  using assms(1) [unfolded runs_creates_def, rule_format, OF assms(2), where c = c and ns = ns and dbn = dbn and vs = vs and d = d and ns' = ns' and dbn' = dbn'] by simp_all

end
