(* ===== verification/Jwt.thy ===== *)
theory Jwt
  imports User
begin

text \<open>
  Access tokens: the claims of internal/core/identity/session.go and the interface of the JWT
  library (golang-jwt, not under src/) as the record \<open>jwtlib\<close>, with the documented behaviour the
  program relies on as \<open>jwt_ok\<close>.  A closed instance, \<open>demo_jwt\<close>, writes the key and the claims as
  length-prefixed fields; the last section proves that it satisfies \<open>jwt_ok\<close>.
\<close>

section \<open>Claims and the library\<close>

text \<open>
  The registered claims that the program sets or the library looks at; a date that the token does not have is \<open>None\<close>.
\<close>

record AccessClaims =
  ac_Issuer :: string
  ac_Subject :: string
  ac_IssuedAt :: "time option"
  ac_ExpiresAt :: "time option"
  ac_NotBefore :: "time option"
  ac_UserIDHash :: string
  ac_TenantID :: string
  ac_Role :: string
  ac_Permissions :: "string list"

text \<open>A numeric date has a precision of one second.\<close>

definition whole_second :: "time \<Rightarrow> time" where
  "whole_second t = t div second * second"

definition on_the_wire :: "AccessClaims \<Rightarrow> AccessClaims" where
  "on_the_wire c = c\<lparr>ac_IssuedAt := map_option whole_second (ac_IssuedAt c),
     ac_ExpiresAt := map_option whole_second (ac_ExpiresAt c), ac_NotBefore := map_option whole_second (ac_NotBefore c)\<rparr>"

record jwt_token =
  tk_alg :: string
  tk_hmac :: bool
  tk_claims :: AccessClaims
  tk_valid :: bool

text \<open>
  \<open>jwt_sign k c\<close> is the HS256 token of the claims; \<open>jwt_unverified\<close> is \<open>ParseUnverified\<close>, which decodes a token;
  \<open>jwt_verifies raw k\<close> says that the signature of \<open>raw\<close> is right for the key \<open>k\<close> under the method that its header
  names; \<open>jwt_parse raw keyfunc now\<close> is \<open>ParseWithClaims\<close>, which decodes the token, hands it to the key function,
  checks the signature under the key it returns, and then the dates.
\<close>

record jwtlib =
  jwt_sign :: "string \<Rightarrow> AccessClaims \<Rightarrow> goerr + string"
  jwt_parse :: "string \<Rightarrow> (jwt_token \<Rightarrow> (goerr + string) go) \<Rightarrow> time \<Rightarrow> (goerr + jwt_token) go"
  jwt_unverified :: "string \<Rightarrow> jwt_token option"
  jwt_verifies :: "string \<Rightarrow> string \<Rightarrow> bool"

definition hs256_token :: "AccessClaims \<Rightarrow> bool \<Rightarrow> jwt_token" where
  "hs256_token c v = \<lparr>tk_alg = ''HS256'', tk_hmac = True, tk_claims = c, tk_valid = v\<rparr>"

text \<open>The validator of the claims without options: \<open>exp\<close> and \<open>nbf\<close> are checked when the token has them.\<close>

definition dates_valid :: "time \<Rightarrow> AccessClaims \<Rightarrow> bool" where
  "dates_valid now c \<longleftrightarrow> (case ac_ExpiresAt c of None \<Rightarrow> True | Some e \<Rightarrow> now < e) \<and>
     (case ac_NotBefore c of None \<Rightarrow> True | Some b \<Rightarrow> b \<le> now)"

definition jwt_ok :: "jwtlib \<Rightarrow> bool" where
  "jwt_ok J \<longleftrightarrow>
     (\<forall>k c. \<exists>raw. jwt_sign J k c = Inr raw) \<and>
     (\<forall>k c raw. jwt_sign J k c = Inr raw \<longrightarrow>
        jwt_unverified J raw = Some (hs256_token (on_the_wire c) False) \<and> jwt_verifies J raw k) \<and>
     (\<forall>raw kf now t. jwt_parse J raw kf now = Ret (Inr t) \<longleftrightarrow>
        (\<exists>u k. jwt_unverified J raw = Some u \<and> kf u = Ret (Inr k) \<and> jwt_verifies J raw k \<and>
           dates_valid now (tk_claims u) \<and> t = u\<lparr>tk_valid := True\<rparr>))"

lemma jwt_okD:
  assumes "jwt_ok J"
  shows "\<exists>raw. jwt_sign J k c = Inr raw"
    and "jwt_sign J k c = Inr raw \<Longrightarrow> jwt_unverified J raw = Some (hs256_token (on_the_wire c) False)"
    and "jwt_sign J k c = Inr raw \<Longrightarrow> jwt_verifies J raw k"
    and "jwt_parse J raw kf now = Ret (Inr t) \<longleftrightarrow>
      (\<exists>u k. jwt_unverified J raw = Some u \<and> kf u = Ret (Inr k) \<and> jwt_verifies J raw k \<and>
         dates_valid now (tk_claims u) \<and> t = u\<lparr>tk_valid := True\<rparr>)"
  using assms unfolding jwt_ok_def by blast+

lemma on_the_wire_simps [simp]:
  "ac_Subject (on_the_wire c) = ac_Subject c" "ac_UserIDHash (on_the_wire c) = ac_UserIDHash c"
  "ac_TenantID (on_the_wire c) = ac_TenantID c" "ac_Role (on_the_wire c) = ac_Role c"
  "ac_Permissions (on_the_wire c) = ac_Permissions c" "ac_Issuer (on_the_wire c) = ac_Issuer c"
  "ac_ExpiresAt (on_the_wire c) = map_option whole_second (ac_ExpiresAt c)"
  "ac_NotBefore (on_the_wire c) = map_option whole_second (ac_NotBefore c)"
  by (simp_all add: on_the_wire_def)

section \<open>A closed instance\<close>

text \<open>A field is its length in unary, a colon and the text.\<close>

definition put_field :: "string \<Rightarrow> string" where
  "put_field s = replicate (length s) CHR ''x'' @ '':'' @ s"

definition get_field :: "string \<Rightarrow> string \<times> string" where
  "get_field s = (let n = length (takeWhile (\<lambda>c. c = CHR ''x'') s); r = drop (Suc n) s
                  in (take n r, drop n r))"

lemma get_put_field [simp]: "get_field (put_field s @ r) = (s, r)"
proof -
  have "takeWhile (\<lambda>c. c = CHR ''x'') (replicate (length s) CHR ''x'' @ CHR '':'' # s @ r)
      = replicate (length s) CHR ''x''"
    by (subst takeWhile_append2) auto
  then show ?thesis by (simp add: get_field_def put_field_def Let_def)
qed

primrec get_fields :: "nat \<Rightarrow> string \<Rightarrow> string list \<times> string" where
  "get_fields 0 s = ([], s)"
| "get_fields (Suc n) s = (let (x, r) = get_field s; (xs, q) = get_fields n r in (x # xs, q))"

definition put_fields :: "string list \<Rightarrow> string" where
  "put_fields xs = concat (map put_field xs)"

lemma get_put_fields [simp]: "get_fields (length xs) (put_fields xs @ r) = (xs, r)"
  by (induction xs) (simp_all add: put_fields_def)

definition int_text :: "int \<Rightarrow> string" where "int_text i = show_int i"

definition text_int :: "string \<Rightarrow> int" where
  "text_int s = (if s \<noteq> [] \<and> hd s = CHR ''-'' then - int (digits_value (tl s)) else int (digits_value s))"

lemma text_int_text [simp]: "text_int (int_text i) = i"
proof (cases "i < 0")
  case True
  then show ?thesis by (simp add: text_int_def int_text_def show_int_def)
next
  case False
  have "hd (show_nat n) \<noteq> CHR ''-''" for n
  proof
    assume "hd (show_nat n) = CHR ''-''"
    moreover have "is_digit (hd (show_nat n))"
      using show_nat_digits [of n] by (cases "show_nat n") auto
    ultimately show False by (simp add: is_digit_def)
  qed
  with False show ?thesis by (simp add: text_int_def int_text_def show_int_def)
qed

text \<open>A date that is missing is the empty text.\<close>

definition date_text :: "time option \<Rightarrow> string" where
  "date_text t = (case t of None \<Rightarrow> [] | Some i \<Rightarrow> int_text i)"

definition text_date :: "string \<Rightarrow> time option" where
  "text_date s = (if s = [] then None else Some (text_int s))"

lemma text_date_text [simp]: "text_date (date_text t) = t"
proof -
  have "int_text i \<noteq> []" for i
    using show_nat_digits [of "nat i"] by (auto simp: int_text_def show_int_def)
  then show ?thesis by (cases t) (simp_all add: text_date_def date_text_def)
qed

definition put_claims :: "string \<Rightarrow> AccessClaims \<Rightarrow> string" where
  "put_claims k c = put_fields
     [k, ac_Issuer c, ac_Subject c, date_text (ac_IssuedAt c), date_text (ac_ExpiresAt c), date_text (ac_NotBefore c),
      ac_UserIDHash c, ac_TenantID c, ac_Role c] @
     put_field (replicate (length (ac_Permissions c)) CHR ''x'') @ put_fields (ac_Permissions c)"

definition get_claims :: "string \<Rightarrow> string \<times> AccessClaims" where
  "get_claims raw =
     (let (fs, r) = get_fields 9 raw; (n, q) = get_field r; (ps, _) = get_fields (length n) q
      in (fs ! 0, \<lparr>ac_Issuer = fs ! 1, ac_Subject = fs ! 2, ac_IssuedAt = text_date (fs ! 3),
           ac_ExpiresAt = text_date (fs ! 4), ac_NotBefore = text_date (fs ! 5), ac_UserIDHash = fs ! 6, ac_TenantID = fs ! 7,
           ac_Role = fs ! 8, ac_Permissions = ps\<rparr>))"

lemma get_put_claims [simp]: "get_claims (put_claims k c) = (k, c)"
proof -
  let ?fs = "[k, ac_Issuer c, ac_Subject c, date_text (ac_IssuedAt c), date_text (ac_ExpiresAt c), date_text (ac_NotBefore c),
      ac_UserIDHash c, ac_TenantID c, ac_Role c]"
  let ?n = "replicate (length (ac_Permissions c)) CHR ''x''"
  let ?r = "put_field ?n @ put_fields (ac_Permissions c)"
  have l: "length ?fs = 9" by simp
  have "get_fields (length ?fs) (put_fields ?fs @ ?r) = (?fs, ?r)" by (rule get_put_fields)
  then have "get_fields 9 (put_claims k c) = (?fs, ?r)" unfolding l put_claims_def .
  moreover have "get_fields (length ?n) (put_fields (ac_Permissions c)) = (ac_Permissions c, [])"
    using get_put_fields [of "ac_Permissions c" "[]"] by simp
  ultimately show ?thesis by (simp add: get_claims_def)
qed

definition demo_jwt :: jwtlib where
  "demo_jwt = \<lparr>
     jwt_sign = (\<lambda>k c. Inr (put_claims k (on_the_wire c))),
     jwt_parse = (\<lambda>raw kf now. let (k, c) = get_claims raw in
        gbind (kf (hs256_token c False)) (\<lambda>res. Ret (case res of
          Inl e \<Rightarrow> Inl e
        | Inr k' \<Rightarrow> if k' = k \<and> dates_valid now c then Inr (hs256_token c True)
                    else Inl ''token is not valid''))),
     jwt_unverified = (\<lambda>raw. Some (hs256_token (snd (get_claims raw)) False)),
     jwt_verifies = (\<lambda>raw k. fst (get_claims raw) = k)\<rparr>"

lemma hs256_token_simps [simp]:
  "tk_claims (hs256_token c v) = c" "tk_valid (hs256_token c v) = v" "tk_hmac (hs256_token c v)"
  "(hs256_token c v)\<lparr>tk_valid := w\<rparr> = hs256_token c w"
  by (simp_all add: hs256_token_def)

lemma demo_parse_iff:
  "jwt_parse demo_jwt raw kf now = Ret (Inr t) \<longleftrightarrow>
     kf (hs256_token (snd (get_claims raw)) False) = Ret (Inr (fst (get_claims raw))) \<and>
     dates_valid now (snd (get_claims raw)) \<and> t = hs256_token (snd (get_claims raw)) True"
proof (cases "kf (hs256_token (snd (get_claims raw)) False)")
  case (Ret res)
  then show ?thesis by (cases res) (auto simp: demo_jwt_def split_beta)
next
  case (Panic p)
  then show ?thesis by (simp add: demo_jwt_def split_beta)
qed

lemma demo_simps [simp]:
  "jwt_sign demo_jwt k c = Inr (put_claims k (on_the_wire c))"
  "jwt_unverified demo_jwt raw = Some (hs256_token (snd (get_claims raw)) False)"
  "jwt_verifies demo_jwt raw k \<longleftrightarrow> fst (get_claims raw) = k"
  by (simp_all add: demo_jwt_def)

lemma jwt_ok_demo [simp]: "jwt_ok demo_jwt"
  unfolding jwt_ok_def by (auto simp: demo_parse_iff)

end
