(* ===== verification/Stores.thy ===== *)
theory Stores
  imports Jwt
begin

text \<open>
  The persistence ports of internal/core/identity/store.go and oauth_service.go as records of
  operations over a state \<open>'s\<close> of the provider.  A method that changes what its pointer argument
  points to returns the new value.  The locales state what the services rely on.
\<close>

section \<open>Users\<close>

record 's UserStore =
  us_Create :: "ctx \<Rightarrow> User \<Rightarrow> 's \<Rightarrow> (goerr option \<times> User) \<times> 's"
  us_FindByUserID :: "ctx \<Rightarrow> string \<Rightarrow> 's \<Rightarrow> (goerr + User option) \<times> 's"
  us_FindByEmailHash :: "ctx \<Rightarrow> string \<Rightarrow> 's \<Rightarrow> (goerr + User option) \<times> 's"
  us_FindByUserIDHash :: "ctx \<Rightarrow> string \<Rightarrow> 's \<Rightarrow> (goerr + User option) \<times> 's"
  us_Update :: "ctx \<Rightarrow> User \<Rightarrow> 's \<Rightarrow> goerr option \<times> 's"
  us_Erase :: "ctx \<Rightarrow> string \<Rightarrow> 's \<Rightarrow> goerr option \<times> 's"

text \<open>Lookups that read and do not write, each by one field of the user.\<close>

locale user_lookup =
  fixes us :: "'s UserStore"
    and users :: "ctx \<Rightarrow> 's \<Rightarrow> User list"
  assumes find_id: "\<exists>r. us_FindByUserID us c i s = (r, s) \<and>
      (r = Inr (find (\<lambda>u. u_UserID u = i) (users c s)) \<or> (find (\<lambda>u. u_UserID u = i) (users c s) = None \<and> (\<exists>e. r = Inl e)))"
    and find_hash: "\<exists>r. us_FindByUserIDHash us c h s = (r, s) \<and>
      (r = Inr (find (\<lambda>u. u_UserIDHash u = h) (users c s)) \<or> (find (\<lambda>u. u_UserIDHash u = h) (users c s) = None \<and> (\<exists>e. r = Inl e)))"
    and find_email: "\<exists>r. us_FindByEmailHash us c h s = (r, s) \<and>
      (r = Inr (find (\<lambda>u. u_EmailHash u = h) (users c s)) \<or> (find (\<lambda>u. u_EmailHash u = h) (users c s) = None \<and> (\<exists>e. r = Inl e)))"

section \<open>Sessions\<close>

record Session =
  se_UserID :: string
  se_TokenHash :: string
  se_ExpiresAt :: time
  se_CreatedAt :: time

record 's SessionStore =
  ss_Create :: "ctx \<Rightarrow> Session \<Rightarrow> 's \<Rightarrow> goerr option \<times> 's"
  ss_FindByTokenHash :: "ctx \<Rightarrow> string \<Rightarrow> 's \<Rightarrow> (goerr + Session option) \<times> 's"
  ss_RevokeByUserID :: "ctx \<Rightarrow> string \<Rightarrow> 's \<Rightarrow> goerr option \<times> 's"
  ss_RevokeByTokenHash :: "ctx \<Rightarrow> string \<Rightarrow> 's \<Rightarrow> goerr option \<times> 's"
  ss_CleanupExpired :: "ctx \<Rightarrow> 's \<Rightarrow> goerr option \<times> 's"

text \<open>
  The view of a session store maps a token hash to the session stored for it.  Creating a session
  under a fresh hash succeeds, and removes the other sessions of its user; revoking a user removes
  all of them.
\<close>

locale session_store =
  fixes ss :: "'s SessionStore"
    and view :: "ctx \<Rightarrow> 's \<Rightarrow> string \<Rightarrow> Session option"
  assumes find_view: "ss_FindByTokenHash ss c h s = (Inr (view c s h), s)"
    and create_new: "view c s (se_TokenHash x) = None \<Longrightarrow> fst (ss_Create ss c x s) = None \<and>
      (\<exists>y. view c (snd (ss_Create ss c x s)) (se_TokenHash x) = Some y \<and> se_UserID y = se_UserID x)"
    and create_others: "h \<noteq> se_TokenHash x \<Longrightarrow> view c (snd (ss_Create ss c x s)) h =
      (case view c s h of Some y \<Rightarrow> if se_UserID x \<noteq> [] \<and> se_UserID y = se_UserID x then None else Some y
       | None \<Rightarrow> None)"
    and revoke_ok: "fst (ss_RevokeByUserID ss c u s) = None"
    and revoke_view: "view c (snd (ss_RevokeByUserID ss c u s)) h =
      (case view c s h of Some y \<Rightarrow> if se_UserID y = u then None else Some y | None \<Rightarrow> None)"

section \<open>WebAuthn credentials\<close>

record 's CredentialStore =
  cs_SaveUser :: "ctx \<Rightarrow> string \<Rightarrow> string \<Rightarrow> string \<Rightarrow> 's \<Rightarrow> goerr option \<times> 's"
  cs_SaveCredential :: "ctx \<Rightarrow> PasskeyCredential option \<Rightarrow> 's \<Rightarrow> goerr option \<times> 's"
  cs_FindCredentialsByUserID :: "ctx \<Rightarrow> string \<Rightarrow> 's \<Rightarrow> (goerr + PasskeyCredential list) \<times> 's"
  cs_FindCredentialByKID :: "ctx \<Rightarrow> string \<Rightarrow> 's \<Rightarrow> (goerr + PasskeyCredential option) \<times> 's"
  cs_FindUserByHandle :: "ctx \<Rightarrow> string \<Rightarrow> 's \<Rightarrow> (goerr + PasskeyUser option) \<times> 's"
  cs_FindHandleByUserID :: "ctx \<Rightarrow> string \<Rightarrow> 's \<Rightarrow> (goerr + string) \<times> 's"
  cs_UpdateSignCount :: "ctx \<Rightarrow> string \<Rightarrow> string \<Rightarrow> 32 word \<Rightarrow> 's \<Rightarrow> goerr option \<times> 's"

section \<open>OAuth accounts\<close>

record OAuthAccount =
  oa_ID :: string
  oa_UserID :: string
  oa_TenantID :: string
  oa_Provider :: string
  oa_ProviderSub :: string
  oa_CreatedAt :: time

record 's OAuthAccountStore =
  as_LinkOrCreate :: "ctx \<Rightarrow> OAuthAccount \<Rightarrow> 's \<Rightarrow> (goerr + string) \<times> 's"
  as_FindByProvider :: "ctx \<Rightarrow> string \<Rightarrow> string \<Rightarrow> 's \<Rightarrow> (goerr + OAuthAccount option) \<times> 's"
  as_FindByUserID :: "ctx \<Rightarrow> string \<Rightarrow> 's \<Rightarrow> (goerr + OAuthAccount list) \<times> 's"
  as_Unlink :: "ctx \<Rightarrow> string \<Rightarrow> string \<Rightarrow> 's \<Rightarrow> goerr option \<times> 's"

section \<open>In-memory stores\<close>

text \<open>
  \<open>mockUserStore\<close> of mocks_test.go keeps users in a map and searches it by a field; a list keeps the
  search order explicit.
\<close>

type_synonym mem_users = "User list"

definition upsert_user :: "User \<Rightarrow> mem_users \<Rightarrow> mem_users" where
  "upsert_user u us = filter (\<lambda>x. u_UserID x \<noteq> u_UserID u) us @ [u]"

definition mock_users :: "mem_users UserStore" where
  "mock_users = \<lparr>
     us_Create = (\<lambda>c u s. ((None, u), upsert_user u s)),
     us_FindByUserID = (\<lambda>c i s. (Inr (find (\<lambda>u. u_UserID u = i) s), s)),
     us_FindByEmailHash = (\<lambda>c h s. (Inr (find (\<lambda>u. u_EmailHash u = h) s), s)),
     us_FindByUserIDHash = (\<lambda>c h s. (Inr (find (\<lambda>u. u_UserIDHash u = h) s), s)),
     us_Update = (\<lambda>c u s. (None, upsert_user u s)),
     us_Erase = (\<lambda>c i s. (None, filter (\<lambda>x. u_UserID x \<noteq> i) s))\<rparr>"

interpretation mock_ul: user_lookup mock_users "\<lambda>c s. s"
  by unfold_locales (auto simp: mock_users_def)

end
