(* ===== verification/Crypto.thy ===== *)
theory Crypto
  imports Email
begin

text \<open>
  Envelope encryption (internal/security/crypto.go and keymanager.go) and the key configuration
  (internal/config/security.go).  AES-GCM is the pair \<open>AesSeal\<close>/\<open>AesOpen\<close> of the library record,
  with the law \<open>gcm_ok\<close>; everything around it (key sizes, nonce layout, base64 of the DEK, lengths)
  is the program's.  The lemmas are the round trips and the exact error cases.
\<close>

section \<open>AES-256-GCM of a text\<close>

text \<open>\<open>aes.NewCipher\<close> accepts keys of 16, 24 and 32 bytes; the GCM nonce has 12.\<close>

definition NewCipher :: "string \<Rightarrow> goerr option" where
  "NewCipher k = (if length k \<in> {16, 24, 32} then None
                  else Some (''crypto/aes: invalid key size '' @ show_nat (length k)))"

definition NonceSize :: nat where "NonceSize = 12"

definition GenerateDEK :: "rand \<Rightarrow> goerr + string" where
  "GenerateDEK r = (case r 32 of Inl e \<Rightarrow> Inl (''generate DEK: '' @ e) | Inr b \<Rightarrow> Inr b)"

definition EncryptPII :: "golib \<Rightarrow> rand \<Rightarrow> string \<Rightarrow> string \<Rightarrow> goerr + string" where
  "EncryptPII L r plaintext dek =
     (if dek = [] then Inl ''empty DEK''
      else case NewCipher dek of
        Some e \<Rightarrow> Inl (''aes.NewCipher: '' @ e)
      | None \<Rightarrow>
          (case r NonceSize of
             Inl e \<Rightarrow> Inl (''generate nonce: '' @ e)
           | Inr nonce \<Rightarrow> Inr (nonce @ AesSeal L dek nonce plaintext)))"

definition DecryptPII :: "golib \<Rightarrow> string \<Rightarrow> string \<Rightarrow> goerr + string" where
  "DecryptPII L ciphertext dek =
     (if dek = [] then Inl ''empty DEK''
      else case NewCipher dek of
        Some e \<Rightarrow> Inl (''aes.NewCipher: '' @ e)
      | None \<Rightarrow>
          if length ciphertext < NonceSize then Inl ''ciphertext too short''
          else (case AesOpen L dek (take NonceSize ciphertext) (drop NonceSize ciphertext) of
                  None \<Rightarrow> Inl ''gcm.Open: cipher: message authentication failed''
                | Some plaintext \<Rightarrow> Inr plaintext))"

definition aes_key :: "string \<Rightarrow> bool" where
  "aes_key k \<longleftrightarrow> length k \<in> {16, 24, 32}"

lemma aes_key_32: "length k = 32 \<Longrightarrow> aes_key k"
  by (simp add: aes_key_def)

lemma NewCipher_None: "NewCipher k = None \<longleftrightarrow> aes_key k"
  by (simp add: NewCipher_def aes_key_def)

lemma EncryptPII_Inr_iff:
  "EncryptPII L r p dek = Inr c \<longleftrightarrow>
     aes_key dek \<and> (\<exists>nonce. r 12 = Inr nonce \<and> c = nonce @ AesSeal L dek nonce p)"
  by (auto simp: EncryptPII_def NonceSize_def NewCipher_def aes_key_def split: sum.splits)

lemma DecryptPII_Inr_iff:
  "DecryptPII L c dek = Inr p \<longleftrightarrow>
     aes_key dek \<and> 12 \<le> length c \<and> AesOpen L dek (take 12 c) (drop 12 c) = Some p"
  by (auto simp: DecryptPII_def NonceSize_def NewCipher_def aes_key_def split: option.splits)

lemma EncryptPII_fails_iff:
  "(\<exists>e. EncryptPII L r p dek = Inl e) \<longleftrightarrow> \<not> aes_key dek \<or> (\<exists>e. r 12 = Inl e)"
  by (auto simp: EncryptPII_def NonceSize_def NewCipher_def aes_key_def split: sum.splits)

lemma DecryptPII_EncryptPII:
  assumes "gcm_ok L" and "rand_ok r" and "EncryptPII L r p dek = Inr c"
  shows "DecryptPII L c dek = Inr p"
proof -
  from assms(3) obtain nonce where n: "r 12 = Inr nonce" "c = nonce @ AesSeal L dek nonce p"
    and k: "aes_key dek" by (auto simp: EncryptPII_Inr_iff)
  from n(1) assms(2) have "length nonce = 12" by (simp add: rand_ok_def)
  with n k assms(1) show ?thesis by (simp add: DecryptPII_Inr_iff gcm_ok_def)
qed

section \<open>The data encryption key under the key encryption key\<close>

definition EncryptDEK :: "golib \<Rightarrow> rand \<Rightarrow> string \<Rightarrow> string \<Rightarrow> goerr + string" where
  "EncryptDEK L r dek kek = EncryptPII L r (b64_EncodeToString StdEncoding dek) kek"

definition DecryptDEK :: "golib \<Rightarrow> string \<Rightarrow> string \<Rightarrow> goerr + string" where
  "DecryptDEK L encryptedDEK kek =
     (case DecryptPII L encryptedDEK kek of
        Inl e \<Rightarrow> Inl (''decrypt DEK: '' @ e)
      | Inr b64 \<Rightarrow>
          (case b64_DecodeString StdEncoding b64 of
             Inl e \<Rightarrow> Inl (''decode DEK base64: '' @ e)
           | Inr dek \<Rightarrow>
               if length dek \<noteq> 32 then Inl (''invalid DEK length: '' @ show_nat (length dek))
               else Inr dek))"

lemma DecryptDEK_length: "DecryptDEK L c kek = Inr dek \<Longrightarrow> length dek = 32"
  by (auto simp: DecryptDEK_def split: sum.splits if_splits)

lemma DecryptDEK_EncryptDEK:
  assumes "gcm_ok L" and "rand_ok r" and "EncryptDEK L r dek kek = Inr c"
  shows "DecryptDEK L c kek =
    (if length dek = 32 then Inr dek else Inl (''invalid DEK length: '' @ show_nat (length dek)))"
proof -
  have "DecryptPII L c kek = Inr (b64_EncodeToString StdEncoding dek)"
    using DecryptPII_EncryptPII [OF assms(1,2)] assms(3) by (simp add: EncryptDEK_def)
  then show ?thesis by (simp add: DecryptDEK_def)
qed

section \<open>PIN hashing\<close>

definition HashPIN :: "golib \<Rightarrow> string \<Rightarrow> string \<Rightarrow> string" where
  "HashPIN L pin salt = b64_EncodeToString StdEncoding (Argon2id L pin salt)"

definition GenerateSalt :: "rand \<Rightarrow> goerr + string" where
  "GenerateSalt r = (case r 16 of Inl e \<Rightarrow> Inl (''generate salt: '' @ e) | Inr b \<Rightarrow> Inr b)"

lemma HashPIN_eq_iff: "HashPIN L p s = HashPIN L q t \<longleftrightarrow> Argon2id L p s = Argon2id L q t"
  by (simp add: HashPIN_def b64_inj)

section \<open>The key manager\<close>

text \<open>The environment gives the empty string for an unset variable.\<close>

type_synonym env = "string \<Rightarrow> string"

record EnvKeyManager =
  km_kek :: string

definition NewEnvKeyManager :: "env \<Rightarrow> goerr + EnvKeyManager" where
  "NewEnvKeyManager getenv =
     (let kekB64 = getenv ''LOXTU_DATA_KEY'' in
      if kekB64 = '''' then Inl ''LOXTU_DATA_KEY is not set''
      else case b64_DecodeString StdEncoding kekB64 of
        Inl e \<Rightarrow> Inl (''LOXTU_DATA_KEY is not valid base64: '' @ e)
      | Inr kek \<Rightarrow>
          if length kek \<noteq> 32
          then Inl (''LOXTU_DATA_KEY must be 32 bytes (got '' @ show_nat (length kek) @ '')'')
          else Inr \<lparr>km_kek = kek\<rparr>)"

definition encryptDEKWithKEK :: "golib \<Rightarrow> rand \<Rightarrow> string \<Rightarrow> string \<Rightarrow> goerr + string" where
  "encryptDEKWithKEK L r dek kek = EncryptPII L r (b64_EncodeToString StdEncoding dek) kek"

definition decryptDEKWithKEK :: "golib \<Rightarrow> string \<Rightarrow> string \<Rightarrow> goerr + string" where
  "decryptDEKWithKEK L encryptedDEK kek =
     (case DecryptPII L encryptedDEK kek of
        Inl e \<Rightarrow> Inl (''decrypt DEK: '' @ e)
      | Inr b64 \<Rightarrow>
          (case b64_DecodeString StdEncoding b64 of
             Inl e \<Rightarrow> Inl (''decode DEK base64: '' @ e)
           | Inr dek \<Rightarrow>
               if length dek \<noteq> 32 then Inl (''invalid DEK length: '' @ show_nat (length dek))
               else Inr dek))"

definition km_EncryptDEK :: "golib \<Rightarrow> EnvKeyManager \<Rightarrow> rand \<Rightarrow> string \<Rightarrow> goerr + string" where
  "km_EncryptDEK L m r dek = encryptDEKWithKEK L r dek (km_kek m)"

definition km_DecryptDEK :: "golib \<Rightarrow> EnvKeyManager \<Rightarrow> string \<Rightarrow> goerr + string" where
  "km_DecryptDEK L m encryptedDEK = decryptDEKWithKEK L encryptedDEK (km_kek m)"

text \<open>\<open>GenerateAndEncryptDEK\<close> draws twice: the DEK, then the nonce of its encryption.\<close>

definition GenerateAndEncryptDEK ::
    "golib \<Rightarrow> EnvKeyManager \<Rightarrow> rand \<Rightarrow> rand \<Rightarrow> goerr + (string \<times> string)" where
  "GenerateAndEncryptDEK L m r1 r2 =
     (case GenerateDEK r1 of
        Inl e \<Rightarrow> Inl (''generate DEK: '' @ e)
      | Inr dek \<Rightarrow>
          (case km_EncryptDEK L m r2 dek of
             Inl e \<Rightarrow> Inl (''encrypt DEK: '' @ e)
           | Inr encryptedDEK \<Rightarrow> Inr (dek, encryptedDEK)))"

lemma key_manager_eqs:
  "km_EncryptDEK L m r dek = EncryptDEK L r dek (km_kek m)"
  "km_DecryptDEK L m c = DecryptDEK L c (km_kek m)"
  by (simp_all add: km_EncryptDEK_def km_DecryptDEK_def encryptDEKWithKEK_def EncryptDEK_def
      decryptDEKWithKEK_def DecryptDEK_def)

lemma NewEnvKeyManager_key: "NewEnvKeyManager env = Inr m \<Longrightarrow> length (km_kek m) = 32"
  by (auto simp: NewEnvKeyManager_def Let_def split: if_splits sum.splits)

lemma NewEnvKeyManager_encoded:
  assumes "env ''LOXTU_DATA_KEY'' = b64_EncodeToString StdEncoding kek" and "length kek = 32"
  shows "NewEnvKeyManager env = Inr \<lparr>km_kek = kek\<rparr>"
proof -
  have "b64_EncodeToString StdEncoding kek \<noteq> []"
    using assms(2) b64_inj [of StdEncoding kek "[]"] by auto
  with assms show ?thesis by (simp add: NewEnvKeyManager_def)
qed

text \<open>A key manager built from the environment recovers every DEK it generates.\<close>

lemma GenerateAndEncryptDEK_decrypts:
  assumes "gcm_ok L" and "rand_ok r1" and "rand_ok r2"
    and "GenerateAndEncryptDEK L m r1 r2 = Inr (dek, c)"
  shows "km_DecryptDEK L m c = Inr dek"
proof -
  from assms(4) have d: "GenerateDEK r1 = Inr dek" and c: "EncryptDEK L r2 dek (km_kek m) = Inr c"
    by (auto simp: GenerateAndEncryptDEK_def key_manager_eqs split: sum.splits)
  from d assms(2) have "length dek = 32"
    by (auto simp: GenerateDEK_def rand_ok_def split: sum.splits)
  with DecryptDEK_EncryptDEK [OF assms(1,3) c] show ?thesis by (simp add: key_manager_eqs)
qed

lemma GenerateAndEncryptDEK_succeeds:
  assumes "NewEnvKeyManager env = Inr m" and "r1 32 = Inr dek" and "r2 12 = Inr nonce"
  shows "\<exists>c. GenerateAndEncryptDEK L m r1 r2 = Inr (dek, c)"
proof -
  have "aes_key (km_kek m)" using NewEnvKeyManager_key [OF assms(1)] by (rule aes_key_32)
  then obtain c where "EncryptPII L r2 (b64_EncodeToString StdEncoding dek) (km_kek m) = Inr c"
    using assms(3) EncryptPII_Inr_iff by blast
  then show ?thesis
    using assms(2) by (simp add: GenerateAndEncryptDEK_def GenerateDEK_def key_manager_eqs EncryptDEK_def)
qed

section \<open>Keys from the environment\<close>

record SecurityConfig =
  sc_KEK :: string
  sc_HashPepper :: string

definition SecurityFromEnv :: "env \<Rightarrow> goerr + SecurityConfig" where
  "SecurityFromEnv getenv =
     (let kekB64 = getenv ''LOXTU_DATA_KEY'' in
      if kekB64 = '''' then Inl ''LOXTU_DATA_KEY is required (base64-encoded 32-byte AES-256 key)''
      else case b64_DecodeString StdEncoding kekB64 of
        Inl e \<Rightarrow> Inl (''LOXTU_DATA_KEY is not valid base64: '' @ e)
      | Inr kek \<Rightarrow>
          if length kek \<noteq> 32
          then Inl (''LOXTU_DATA_KEY must be 32 bytes (got '' @ show_nat (length kek) @ '')'')
          else (let pepper = getenv ''LOXTU_HASH_PEPPER'' in
                if pepper = '''' then Inl ''LOXTU_HASH_PEPPER is required''
                else Inr \<lparr>sc_KEK = kek, sc_HashPepper = pepper\<rparr>))"

text \<open>Both readers of the data key accept the same keys.\<close>

lemma SecurityFromEnv_iff:
  "SecurityFromEnv env = Inr c \<longleftrightarrow>
     NewEnvKeyManager env = Inr \<lparr>km_kek = sc_KEK c\<rparr> \<and>
     sc_HashPepper c = env ''LOXTU_HASH_PEPPER'' \<and> sc_HashPepper c \<noteq> ''''"
  by (cases c) (auto simp: SecurityFromEnv_def NewEnvKeyManager_def Let_def split: sum.splits)

section \<open>Properties\<close>

text \<open>C29: Envelope encryption is recoverable: a text encrypted under a data key that
  \<open>GenerateAndEncryptDEK\<close> produced is read back from the encrypted data key, the master key and
  the ciphertext alone.\<close>

theorem pii_envelope_roundtrip:
  assumes "gcm_ok L" and "rand_ok r1" and "rand_ok r2" and "rand_ok r3"
    and "GenerateAndEncryptDEK L m r1 r2 = Inr (dek, encDEK)" and "EncryptPII L r3 p dek = Inr c"
  shows "\<exists>dek'. km_DecryptDEK L m encDEK = Inr dek' \<and> DecryptPII L c dek' = Inr p"
  using GenerateAndEncryptDEK_decrypts [OF assms(1,2,3,5)] DecryptPII_EncryptPII [OF assms(1,4,6)] by blast

lemma pii_envelope_roundtrip_witness:
  "\<exists>dek'. km_DecryptDEK demo \<lparr>km_kek = replicate 32 CHR ''k''\<rparr>
      (replicate 12 CHR ''r'' @ AesSeal demo (replicate 32 CHR ''k'') (replicate 12 CHR ''r'')
         (b64_EncodeToString StdEncoding (replicate 32 CHR ''r''))) = Inr dek' \<and>
    DecryptPII demo (replicate 12 CHR ''r'' @ AesSeal demo (replicate 32 CHR ''r'') (replicate 12 CHR ''r'') ''Ann'') dek'
      = Inr ''Ann''"
proof (rule pii_envelope_roundtrip)
  let ?r = "\<lambda>n. Inr (replicate n CHR ''r'')"
  show "rand_ok ?r" "rand_ok ?r" "rand_ok ?r" by (simp_all add: rand_ok_def)
  show "GenerateAndEncryptDEK demo \<lparr>km_kek = replicate 32 CHR ''k''\<rparr> ?r ?r = Inr (replicate 32 CHR ''r'',
     replicate 12 CHR ''r'' @ AesSeal demo (replicate 32 CHR ''k'') (replicate 12 CHR ''r'')
         (b64_EncodeToString StdEncoding (replicate 32 CHR ''r'')))"
    by (simp add: GenerateAndEncryptDEK_def GenerateDEK_def key_manager_eqs EncryptDEK_def EncryptPII_def
        NewCipher_def NonceSize_def)
  show "EncryptPII demo ?r ''Ann'' (replicate 32 CHR ''r'')
     = Inr (replicate 12 CHR ''r'' @ AesSeal demo (replicate 32 CHR ''r'') (replicate 12 CHR ''r'') ''Ann'')"
    by (simp add: EncryptPII_def NewCipher_def NonceSize_def)
qed simp

text \<open>What the two readers of the master key accept: \<open>SecurityFromEnv\<close> succeeds exactly for a
  key that the key manager takes, together with a non-empty pepper, and that key has 32 bytes.\<close>

theorem security_config_iff:
  "SecurityFromEnv env = Inr c \<longleftrightarrow>
     NewEnvKeyManager env = Inr \<lparr>km_kek = sc_KEK c\<rparr> \<and> length (sc_KEK c) = 32 \<and>
     sc_HashPepper c = env ''LOXTU_HASH_PEPPER'' \<and> sc_HashPepper c \<noteq> ''''"
  using SecurityFromEnv_iff NewEnvKeyManager_key by fastforce

end
