(* ===== verification/UserRepo.thy ===== *)
theory UserRepo
  imports Sql Stores Crypto
begin

text \<open>
  The SurrealDB store of users (user_repo.go): creation with envelope encryption, the lookups, the
  update and the erasure by crypto-shredding.  A row is read by \<open>mapUserRowV2\<close>; the lemmas give
  the round trip of a created row, what an erased row still says, and that the lookups keep the
  contract \<open>user_lookup\<close>.
\<close>

section \<open>Statements\<close>

definition sql_user_create :: string where
  "sql_user_create = ''CREATE users SET
			user_id = $user_id,
			user_id_hash = $user_id_hash,
			tenant_id = $tenant_id,
			status = $status,
			encrypted_dek = $encrypted_dek,
			email_hash = $email_hash,
			masked_email = $masked_email,
			email_ciphertext = $email_ciphertext,
			name_ciphertext = $name_ciphertext,
			surname_ciphertext = $surname_ciphertext,
			phone_ciphertext = $phone_ciphertext,
			dob_ciphertext = $dob_ciphertext,
			employee_id_ciphertext = $employee_id_ciphertext,
			employee_id_hash = $employee_id_hash,
			role = $role,
			permissions = $permissions,
			department = $department,
			section = $section,
			base = $base,
			skills = $skills,
			
			registration_attempts = $registration_attempts,
			login_count = $login_count,
			failed_login_count = $failed_login_count,
			last_login_at = $last_login_at,
			locked_until = $locked_until,
			hire_date = $hire_date,
			created_at = $created_at,
			updated_at = $updated_at''"

definition sql_user_by_id :: string where
  "sql_user_by_id = ''SELECT * FROM users WHERE user_id = $id LIMIT 1''"

definition sql_user_by_email :: string where
  "sql_user_by_email = ''SELECT * FROM users WHERE email_hash = $hash LIMIT 1''"

definition sql_user_by_hash :: string where
  "sql_user_by_hash = ''SELECT * FROM users WHERE user_id_hash = $hash LIMIT 1''"

definition sql_user_update :: string where
  "sql_user_update = ''UPDATE users SET
			status = $status,
			role = $role,
			permissions = $permissions,
			
			login_count = $login_count,
			failed_login_count = $failed_login_count,
			last_login_at = $last_login_at,
			locked_until = $locked_until,
			updated_at = $updated_at
		WHERE user_id = $user_id''"

definition sql_user_erase :: string where
  "sql_user_erase = ''UPDATE users SET
			encrypted_dek = NONE,
			email_hash = rand::string(32),
			email_ciphertext = NONE,
			name_ciphertext = NONE,
			surname_ciphertext = NONE,
			phone_ciphertext = NONE,
			dob_ciphertext = NONE,
			employee_id_ciphertext = NONE,
			employee_id_hash = NONE,
			masked_email = '***',
			status = 'erased',
			updated_at = time::now()
		WHERE user_id = $id''"

lemmas sql_user_defs = sql_user_create_def sql_user_by_id_def sql_user_by_email_def
  sql_user_by_hash_def sql_user_update_def sql_user_erase_def

lemma sql_user_distinct [simp]:
  "distinct [sql_user_create, sql_user_by_id, sql_user_by_email, sql_user_by_hash, sql_user_update, sql_user_erase]"
  by (simp add: sql_user_defs)

lemmas sql_user_neqs [simp] =
  sql_user_distinct [simplified distinct.simps list.set insert_iff empty_iff de_Morgan_disj simp_thms]

section \<open>Rows\<close>

definition mapUserRowV2 :: "row \<Rightarrow> User" where
  "mapUserRowV2 rm =
     \<lparr>u_UserID = str_or_empty (get rm ''user_id''),
      u_UserIDHash = str_or_empty (get rm ''user_id_hash''),
      u_TenantID = str_or_empty (get rm ''tenant_id''),
      u_Status = str_or_empty (get rm ''status''),
      u_EncryptedDEK = asBytes (get rm ''encrypted_dek''),
      u_EmailCiphertext = asBytes (get rm ''email_ciphertext''),
      u_NameCiphertext = asBytes (get rm ''name_ciphertext''),
      u_SurnameCiphertext = asBytes (get rm ''surname_ciphertext''),
      u_PhoneCiphertext = asBytes (get rm ''phone_ciphertext''),
      u_DOBCiphertext = asBytes (get rm ''dob_ciphertext''),
      u_EmployeeIDCiphertext = asBytes (get rm ''employee_id_ciphertext''),
      u_EmailHash = str_or_empty (get rm ''email_hash''),
      u_MaskedEmail = str_or_empty (get rm ''masked_email''),
      u_EmployeeIDHash = str_or_empty (get rm ''employee_id_hash''),
      u_Role = str_or_empty (get rm ''role''),
      u_Permissions = (case as_list (get rm ''permissions'') of Some vs \<Rightarrow> strings_of vs | None \<Rightarrow> []),
      u_Department = str_or_empty (get rm ''department''),
      u_Section = str_or_empty (get rm ''section''),
      u_Base = str_or_empty (get rm ''base''),
      u_Skills = (case as_list (get rm ''skills'') of Some vs \<Rightarrow> strings_of vs | None \<Rightarrow> []),
      u_IsActive = False,
      u_RegistrationAttempts = as_counter (get rm ''registration_attempts''),
      u_LoginCount = as_counter (get rm ''login_count''),
      u_FailedLoginCount = as_counter (get rm ''failed_login_count''),
      u_LastLoginAt = None,
      u_LockedUntil = None,
      u_HireDate = None,
      u_CreatedAt = (case as_time (get rm ''created_at'') of Some t \<Rightarrow> t | None \<Rightarrow> zero_time),
      u_UpdatedAt = (case as_time (get rm ''updated_at'') of Some t \<Rightarrow> t | None \<Rightarrow> zero_time)\<rparr>"

section \<open>Operations\<close>

text \<open>
  What one creation reads from outside: a new UUID, the result of the key manager's
  \<open>GenerateAndEncryptDEK\<close>, and the clock twice; an update reads the clock.
\<close>

record user_reads =
  ur_uuid :: string
  ur_dek :: "goerr + (string \<times> string)"
  ur_created :: time
  ur_updated :: time

definition opt_str :: "string \<Rightarrow> string \<Rightarrow> vars" where
  "opt_str k s = (if s \<noteq> '''' then [(k, AStr s)] else [])"

definition opt_bytes :: "string \<Rightarrow> string option \<Rightarrow> vars" where
  "opt_bytes k b = (case b of Some x \<Rightarrow> [(k, ABytes x)] | None \<Rightarrow> [])"

definition opt_list :: "string \<Rightarrow> string list \<Rightarrow> vars" where
  "opt_list k ss = (if length ss > 0 then [(k, AStrings ss)] else [])"

definition opt_time :: "string \<Rightarrow> time option \<Rightarrow> vars" where
  "opt_time k t = (case t of Some x \<Rightarrow> [(k, ATime x)] | None \<Rightarrow> [])"

definition user_vars :: "user_reads \<Rightarrow> string \<Rightarrow> User \<Rightarrow> vars" where
  "user_vars rd encDEK u =
     [(''user_id'', AStr (u_UserID u)), (''user_id_hash'', AStr (u_UserIDHash u)),
      (''tenant_id'', AStr (u_TenantID u)), (''status'', AStr (u_Status u)),
      (''encrypted_dek'', ABytes encDEK), (''email_hash'', AStr (u_EmailHash u)),
      (''masked_email'', AStr (u_MaskedEmail u)), (''role'', AStr (u_Role u)),
      (''registration_attempts'', AInt (u_RegistrationAttempts u)),
      (''login_count'', AInt (u_LoginCount u)), (''failed_login_count'', AInt (u_FailedLoginCount u)),
      (''created_at'', ATime (ur_created rd)), (''updated_at'', ATime (ur_updated rd))] @
     opt_bytes ''email_ciphertext'' (u_EmailCiphertext u) @
     opt_bytes ''name_ciphertext'' (u_NameCiphertext u) @
     opt_bytes ''surname_ciphertext'' (u_SurnameCiphertext u) @
     opt_bytes ''phone_ciphertext'' (u_PhoneCiphertext u) @
     opt_bytes ''dob_ciphertext'' (u_DOBCiphertext u) @
     opt_bytes ''employee_id_ciphertext'' (u_EmployeeIDCiphertext u) @
     opt_str ''employee_id_hash'' (u_EmployeeIDHash u) @
     opt_list ''permissions'' (u_Permissions u) @
     opt_str ''department'' (u_Department u) @
     opt_str ''section'' (u_Section u) @
     opt_str ''base'' (u_Base u) @
     opt_list ''skills'' (u_Skills u) @
     opt_time ''last_login_at'' (u_LastLoginAt u) @
     opt_time ''locked_until'' (u_LockedUntil u) @
     opt_time ''hire_date'' (u_HireDate u)"

text \<open>\<open>Create\<close> fills in the user it is given, also when it fails later.\<close>

definition user_Create :: "golib \<Rightarrow> user_reads \<Rightarrow> 'd db option \<Rightarrow> ctx \<Rightarrow> User \<Rightarrow> 'd
    \<Rightarrow> (goerr option \<times> User) \<times> 'd" where
  "user_Create L rd pool c user d =
     (case pool of
        None \<Rightarrow> ((Some no_db, user), d)
      | Some db \<Rightarrow>
          (let u1 = (if u_UserID user = '''' then user\<lparr>u_UserID := ur_uuid rd\<rparr> else user);
               u2 = (if u_UserIDHash u1 = '''' then u1\<lparr>u_UserIDHash := sha_hex L (u_UserID u1)\<rparr> else u1)
           in case ur_dek rd of
                Inl e \<Rightarrow> ((Some (''generate DEK: '' @ e), u2), d)
              | Inr (dek, encDEK) \<Rightarrow>
                  (let u3 = u2\<lparr>u_EncryptedDEK := Some encDEK\<rparr> in
                   if u_EmailHash u3 = '''' then ((Some ''EmailHash is required'', u3), d)
                   else (let u4 = u3\<lparr>u_MaskedEmail := ''***''\<rparr>;
                             r = wrap_err ''create user: '' (tenant_Query db c sql_user_create (user_vars rd encDEK u4) d)
                         in ((fst r, u4), snd r)))))"

definition user_find :: "string \<Rightarrow> string \<Rightarrow> 'd db option \<Rightarrow> ctx \<Rightarrow> string \<Rightarrow> 'd \<Rightarrow> (goerr + User option) \<times> 'd" where
  "user_find sql key pool c x d =
     (case pool of
        None \<Rightarrow> (Inl no_db, d)
      | Some db \<Rightarrow>
          (if x = '''' then (Inr None, d)
           else case tenant_Query db c sql [(key, AStr x)] d of
             (Inl e, d1) \<Rightarrow> (Inl e, d1)
           | (Inr results, d1) \<Rightarrow>
               (case first_map results of
                  None \<Rightarrow> (Inr None, d1)
                | Some None \<Rightarrow> (Inr None, d1)
                | Some (Some rm) \<Rightarrow> (Inr (Some (mapUserRowV2 rm)), d1))))"

definition user_FindByUserID :: "'d db option \<Rightarrow> ctx \<Rightarrow> string \<Rightarrow> 'd \<Rightarrow> (goerr + User option) \<times> 'd" where
  "user_FindByUserID pool c userID d = user_find sql_user_by_id ''id'' pool c userID d"

definition user_FindByEmailHash :: "'d db option \<Rightarrow> ctx \<Rightarrow> string \<Rightarrow> 'd \<Rightarrow> (goerr + User option) \<times> 'd" where
  "user_FindByEmailHash pool c emailHash d = user_find sql_user_by_email ''hash'' pool c emailHash d"

definition user_FindByUserIDHash :: "'d db option \<Rightarrow> ctx \<Rightarrow> string \<Rightarrow> 'd \<Rightarrow> (goerr + User option) \<times> 'd" where
  "user_FindByUserIDHash pool c h d = user_find sql_user_by_hash ''hash'' pool c h d"

definition update_vars :: "user_reads \<Rightarrow> User \<Rightarrow> vars" where
  "update_vars rd u =
     [(''user_id'', AStr (u_UserID u)), (''status'', AStr (u_Status u)), (''role'', AStr (u_Role u)),
      (''updated_at'', ATime (ur_updated rd))] @
     opt_list ''permissions'' (u_Permissions u) @
     opt_time ''last_login_at'' (u_LastLoginAt u) @
     opt_time ''locked_until'' (u_LockedUntil u) @
     [(''login_count'', AInt (u_LoginCount u)), (''failed_login_count'', AInt (u_FailedLoginCount u))]"

definition user_Update :: "user_reads \<Rightarrow> 'd db option \<Rightarrow> ctx \<Rightarrow> User \<Rightarrow> 'd \<Rightarrow> goerr option \<times> 'd" where
  "user_Update rd pool c user d =
     (case pool of
        None \<Rightarrow> (Some no_db, d)
      | Some db \<Rightarrow>
          (if u_UserID user = '''' then (Some ''user_id is required for update'', d)
           else wrap_err ''update user: '' (tenant_Query db c sql_user_update (update_vars rd user) d)))"

definition user_Erase :: "'d db option \<Rightarrow> ctx \<Rightarrow> string \<Rightarrow> 'd \<Rightarrow> goerr option \<times> 'd" where
  "user_Erase pool c userID d =
     (case pool of
        None \<Rightarrow> (Some no_db, d)
      | Some db \<Rightarrow>
          (if userID = '''' then (Some ''user_id is required for erase'', d)
           else wrap_err ''erase user: '' (tenant_Query db c sql_user_erase [(''id'', AStr userID)] d)))"

definition UserRepository :: "golib \<Rightarrow> user_reads \<Rightarrow> 'd db option \<Rightarrow> 'd UserStore" where
  "UserRepository L rd pool = \<lparr>us_Create = user_Create L rd pool,
     us_FindByUserID = user_FindByUserID pool, us_FindByEmailHash = user_FindByEmailHash pool,
     us_FindByUserIDHash = user_FindByUserIDHash pool, us_Update = user_Update rd pool,
     us_Erase = user_Erase pool\<rparr>"

section \<open>What the statements do to a row\<close>

text \<open>What the text of the three writing statements assigns.\<close>

definition user_columns :: "string list" where
  "user_columns = [''user_id'', ''user_id_hash'', ''tenant_id'', ''status'', ''encrypted_dek'',
     ''email_hash'', ''masked_email'', ''email_ciphertext'', ''name_ciphertext'', ''surname_ciphertext'',
     ''phone_ciphertext'', ''dob_ciphertext'', ''employee_id_ciphertext'', ''employee_id_hash'', ''role'',
     ''permissions'', ''department'', ''section'', ''base'', ''skills'', ''registration_attempts'',
     ''login_count'', ''failed_login_count'', ''last_login_at'', ''locked_until'', ''hire_date'',
     ''created_at'', ''updated_at'']"

definition created_row :: "vars \<Rightarrow> row" where
  "created_row vs = map (\<lambda>k. (k, from_db (get vs k))) user_columns"

lemma parse_user_create: "parse_create sql_user_create = Some (''users'', map (\<lambda>k. (k, SVar k)) user_columns)"
  unfolding sql_user_create_def by code_simp

lemma created_row_eq: "assigned (map (\<lambda>k. (k, SVar k)) user_columns) vs rs [] = created_row vs"
  by (simp add: assigned_def created_row_def)

definition update_columns :: "string list" where
  "update_columns = [''status'', ''role'', ''permissions'', ''login_count'', ''failed_login_count'',
     ''last_login_at'', ''locked_until'', ''updated_at'']"

lemma parse_user_update:
  "parse_update sql_user_update = Some (''users'', map (\<lambda>k. (k, SVar k)) update_columns, ''user_id'', ''user_id'')"
  unfolding sql_user_update_def by code_simp

definition erase_sets :: assignments where
  "erase_sets = fst (snd (the (parse_update sql_user_erase)))"

lemma parse_user_erase:
  "parse_update sql_user_erase = Some (''users'',
     [(''encrypted_dek'', SNone), (''email_hash'', SRand 32), (''email_ciphertext'', SNone), (''name_ciphertext'', SNone),
      (''surname_ciphertext'', SNone), (''phone_ciphertext'', SNone), (''dob_ciphertext'', SNone),
      (''employee_id_ciphertext'', SNone), (''employee_id_hash'', SNone), (''masked_email'', SText ''***''),
      (''status'', SText ''erased''), (''updated_at'', SNow)], ''user_id'', ''id'')"
  unfolding sql_user_erase_def by code_simp

lemmas erase_sets_eq = erase_sets_def [unfolded parse_user_erase option.sel prod.sel]

lemma parse_erase: "parse_update sql_user_erase = Some (''users'', erase_sets, ''user_id'', ''id'')"
  by (simp add: parse_user_erase erase_sets_eq)

lemma get_append:
  "get (xs @ ys) k = (case map_of xs k of Some v \<Rightarrow> v | None \<Rightarrow> get ys k)"
  by (simp add: get_def map_add_def split: option.splits)

lemma get_opt [simp]:
  "get (opt_str k s @ ys) k' = (if k' = k \<and> s \<noteq> [] then AStr s else get ys k')"
  "get (opt_bytes k b @ ys) k' = (if k' = k \<and> b \<noteq> None then ABytes (the b) else get ys k')"
  "get (opt_list k ss @ ys) k' = (if k' = k \<and> ss \<noteq> [] then AStrings ss else get ys k')"
  "get (opt_time k t @ ys) k' = (if k' = k \<and> t \<noteq> None then ATime (the t) else get ys k')"
  by (auto simp: opt_str_def opt_bytes_def opt_list_def opt_time_def split: option.splits)

lemma get_opt_time_last [simp]:
  "get (opt_time k t) k' = (if k' = k \<and> t \<noteq> None then ATime (the t) else ANil)"
  by (auto simp: opt_time_def split: option.splits)

lemma get_created_row: "get (created_row vs) k = (if k \<in> set user_columns then from_db (get vs k) else ANil)"
  unfolding created_row_def by (simp add: get_def map_of_map_restrict restrict_map_def)

lemma read_simps [simp]:
  "asBytes (ABytes b) = Some b" "asBytes ANil = None" "as_counter (AInt i) = i"
  by (simp_all add: asBytes_def as_counter_def)

lemma from_db_if: "from_db (if b then x else y) = (if b then from_db x else from_db y)"
  "str_or_empty (if b then AStr s else ANil) = (if b then s else [])"
  "asBytes (if b then ABytes s else ANil) = (if b then Some s else None)"
  "as_list (if b then AList vs else ANil) = (if b then Some vs else None)"
  by simp_all

text \<open>What a created row reads back as: the times of a login, a lock and the hiring are not read.\<close>

lemma mapUserRowV2_created:
  "mapUserRowV2 (created_row (user_vars rd encDEK u)) =
     u\<lparr>u_EncryptedDEK := Some encDEK, u_IsActive := False, u_LastLoginAt := None, u_LockedUntil := None,
       u_HireDate := None, u_CreatedAt := ur_created rd, u_UpdatedAt := ur_updated rd\<rparr>"
  by (simp add: mapUserRowV2_def get_created_row user_columns_def user_vars_def from_db_if)

lemma mapUserRowV2_updated:
  "mapUserRowV2 (assigned (map (\<lambda>k. (k, SVar k)) update_columns) (update_vars rd u) rs rm) = (mapUserRowV2 rm)
     \<lparr>u_Status := u_Status u, u_Role := u_Role u, u_Permissions := u_Permissions u,
       u_LoginCount := u_LoginCount u, u_FailedLoginCount := u_FailedLoginCount u,
       u_UpdatedAt := ur_updated rd\<rparr>"
  by (simp add: mapUserRowV2_def get_assigned update_columns_def update_vars_def from_db_if)

section \<open>What the statements do to the table\<close>

text \<open>
  \<open>rows ns d\<close> is the table \<open>users\<close> of the namespace.  A row has its three keys, none of them
  empty.
\<close>

definition keyed :: "row \<Rightarrow> bool" where
  "keyed rm \<longleftrightarrow> (\<exists>i h e. get rm ''user_id'' = AStr i \<and> get rm ''user_id_hash'' = AStr h \<and>
     get rm ''email_hash'' = AStr e \<and> i \<noteq> [] \<and> h \<noteq> [] \<and> e \<noteq> [])"

definition first_where :: "string \<Rightarrow> string \<Rightarrow> row list \<Rightarrow> any list" where
  "first_where k x rms = [AList (map AMap (take 1 (filter (\<lambda>rm. get rm k = AStr x) rms)))]"

definition has_id :: "string \<Rightarrow> row \<Rightarrow> bool" where
  "has_id i rm \<longleftrightarrow> get rm ''user_id'' = AStr i"

locale surreal_users =
  fixes db :: "'d db"
    and rows :: "string \<Rightarrow> 'd \<Rightarrow> row list"
  assumes rows_keyed: "rm \<in> set (rows ns d) \<Longrightarrow> keyed rm"
    and by_id: "db_Query db c ns ns sql_user_by_id [(''id'', AStr x)] d = (Inr (first_where ''user_id'' x (rows ns d)), d)"
    and by_email: "db_Query db c ns ns sql_user_by_email [(''hash'', AStr x)] d = (Inr (first_where ''email_hash'' x (rows ns d)), d)"
    and by_hash: "db_Query db c ns ns sql_user_by_hash [(''hash'', AStr x)] d = (Inr (first_where ''user_id_hash'' x (rows ns d)), d)"
    and create_user: "keyed (created_row vs) \<Longrightarrow>
      (\<forall>rm \<in> set (rows ns d). \<forall>k \<in> {''user_id'', ''user_id_hash'', ''email_hash''}. get rm k \<noteq> get vs k) \<Longrightarrow>
      \<exists>res d'. db_Query db c ns ns sql_user_create vs d = (Inr res, d') \<and> rows ns d' = rows ns d @ [created_row vs]"
    and updates: "runs_updates db ''users'' rows"

lemma first_map_first_where:
  "first_map (first_where k x rms) = map_option Some (find (\<lambda>rm. get rm k = AStr x) rms)"
  by (induction rms) (auto simp: first_where_def)

lemma find_map_rows:
  "(\<And>rm. rm \<in> set rms \<Longrightarrow> P rm = Q (f rm)) \<Longrightarrow> find Q (map f rms) = map_option f (find P rms)"
  by (induction rms) auto

lemma has_id_user: "has_id i rm \<Longrightarrow> u_UserID (mapUserRowV2 rm) = i"
  by (simp add: has_id_def mapUserRowV2_def)

context surreal_users
begin

lemma user_find_eq:
  assumes q: "\<And>ns x. db_Query db c ns ns sql [(key, AStr x)] d = (Inr (first_where col x (rows ns d)), d)"
    and col: "\<And>rm. keyed rm \<Longrightarrow> get rm col = AStr (fld (mapUserRowV2 rm)) \<and> fld (mapUserRowV2 rm) \<noteq> []"
  shows "user_find sql key (Some db) c x d =
    (Inr (find (\<lambda>u. fld u = x) (map mapUserRowV2 (rows (ns_of db c) d))), d)"
proof -
  have f: "find (\<lambda>u. fld u = x) (map mapUserRowV2 (rows (ns_of db c) d))
      = map_option mapUserRowV2 (find (\<lambda>rm. get rm col = AStr x) (rows (ns_of db c) d))"
    by (rule find_map_rows) (use col rows_keyed in auto)
  show ?thesis
  proof (cases "x = []")
    case True
    have "find (\<lambda>u. fld u = x) (map mapUserRowV2 (rows (ns_of db c) d)) = None"
      using col rows_keyed True by (auto simp: find_None_iff)
    with True show ?thesis by (simp add: user_find_def)
  next
    case False
    with f q show ?thesis
      by (simp add: user_find_def tenant_Query_def first_map_first_where split: option.splits)
  qed
qed

lemma user_find_eqs:
  "user_FindByUserID (Some db) c x d = (Inr (find (\<lambda>u. u_UserID u = x) (map mapUserRowV2 (rows (ns_of db c) d))), d)"
  "user_FindByEmailHash (Some db) c x d = (Inr (find (\<lambda>u. u_EmailHash u = x) (map mapUserRowV2 (rows (ns_of db c) d))), d)"
  "user_FindByUserIDHash (Some db) c x d = (Inr (find (\<lambda>u. u_UserIDHash u = x) (map mapUserRowV2 (rows (ns_of db c) d))), d)"
  unfolding user_FindByUserID_def user_FindByEmailHash_def user_FindByUserIDHash_def
  by (rule user_find_eq, rule by_id by_email by_hash, auto simp: keyed_def mapUserRowV2_def)+

text \<open>What \<open>Erase\<close> and \<open>Update\<close> do to the table, from the text of their statements.\<close>

lemma erase_rows:
  assumes "i \<noteq> []" and "fst (user_Erase (Some db) c i d) = None"
  obtains rs where "\<And>rm. sql_reads_ok (rs rm)" and "rows (ns_of db c) (snd (user_Erase (Some db) c i d)) =
    map (\<lambda>rm. if has_id i rm then assigned erase_sets [(''id'', AStr i)] (rs rm) rm else rm)
      (rows (ns_of db c) d)"
proof -
  let ?ns = "ns_of db c"
  obtain res d' where e: "db_Query db c ?ns ?ns sql_user_erase [(''id'', AStr i)] d = (Inr res, d')"
    using assms by (cases "db_Query db c ?ns ?ns sql_user_erase [(''id'', AStr i)] d") (auto simp: user_Erase_def tenant_Query_def wrap_err_def split: sum.splits)
  then have "snd (user_Erase (Some db) c i d) = d'" using assms(1) by (simp add: user_Erase_def tenant_Query_def)
  moreover obtain rs where "\<forall>rm. sql_reads_ok (rs rm)" and "rows ?ns d' =
      map (\<lambda>rm. if has_id i rm then assigned erase_sets [(''id'', AStr i)] (rs rm) rm else rm) (rows ?ns d)"
    using runs_updatesD(2) [OF updates parse_erase e] by (auto simp: has_id_def)
  ultimately show ?thesis using that by blast
qed

lemma failed_erase:
  assumes "fst (user_Erase (Some db) c i d) = Some e"
  shows "rows (ns_of db c) (snd (user_Erase (Some db) c i d)) = rows (ns_of db c) d"
proof (cases "db_Query db c (ns_of db c) (ns_of db c) sql_user_erase [(''id'', AStr i)] d")
  case (Pair r d')
  with assms show ?thesis using runs_updatesD(1) [OF updates parse_erase]
    by (auto simp: user_Erase_def tenant_Query_def wrap_err_def split: sum.splits if_splits)
qed

lemma update_rows:
  assumes "u_UserID u \<noteq> []" and "fst (user_Update rd (Some db) c u d) = None"
  shows "map mapUserRowV2 (rows (ns_of db c) (snd (user_Update rd (Some db) c u d))) =
    map (\<lambda>x. if u_UserID x = u_UserID u then x\<lparr>u_Status := u_Status u, u_Role := u_Role u, u_Permissions := u_Permissions u,
       u_LoginCount := u_LoginCount u, u_FailedLoginCount := u_FailedLoginCount u, u_UpdatedAt := ur_updated rd\<rparr> else x)
     (map mapUserRowV2 (rows (ns_of db c) d))"
proof -
  let ?ns = "ns_of db c" and ?vs = "update_vars rd u"
  obtain res d' where e: "db_Query db c ?ns ?ns sql_user_update ?vs d = (Inr res, d')"
    using assms by (cases "db_Query db c ?ns ?ns sql_user_update ?vs d") (auto simp: user_Update_def tenant_Query_def wrap_err_def split: sum.splits)
  then have d': "snd (user_Update rd (Some db) c u d) = d'" using assms(1) by (simp add: user_Update_def tenant_Query_def)
  have i: "get ?vs ''user_id'' = AStr (u_UserID u)" by (simp add: update_vars_def)
  have "get rm ''user_id'' = AStr (u_UserID u) \<longleftrightarrow> u_UserID (mapUserRowV2 rm) = u_UserID u" if "rm \<in> set (rows ?ns d)" for rm
    using rows_keyed [OF that] by (auto simp: keyed_def mapUserRowV2_def)
  then show ?thesis using runs_updatesD(2) [OF updates parse_user_update e] by (auto simp: d' i mapUserRowV2_updated)
qed

text \<open>After an erasure no row of the user has a data key or a ciphertext.\<close>

lemma erase_shreds:
  assumes "i \<noteq> []" and "fst (user_Erase (Some db) c i d) = None"
    and "u \<in> set (map mapUserRowV2 (rows (ns_of db c) (snd (user_Erase (Some db) c i d))))" and "u_UserID u = i"
  shows "u_EncryptedDEK u = None \<and> u_EmailCiphertext u = None \<and> u_NameCiphertext u = None \<and>
    u_SurnameCiphertext u = None \<and> u_PhoneCiphertext u = None \<and> u_DOBCiphertext u = None \<and>
    u_EmployeeIDCiphertext u = None \<and> u_EmployeeIDHash u = [] \<and> u_MaskedEmail u = ''***'' \<and>
    u_Status u = ''erased'' \<and> length (u_EmailHash u) = 32"
proof -
  obtain rs where rs: "\<And>rm. sql_reads_ok (rs rm)" and rows': "rows (ns_of db c) (snd (user_Erase (Some db) c i d)) =
    map (\<lambda>rm. if has_id i rm then assigned erase_sets [(''id'', AStr i)] (rs rm) rm else rm)
      (rows (ns_of db c) d)" using erase_rows [OF assms(1,2)] by blast
  from assms(3) obtain rm where rm: "rm \<in> set (rows (ns_of db c) d)"
    "u = mapUserRowV2 (if has_id i rm then assigned erase_sets [(''id'', AStr i)] (rs rm) rm else rm)"
    unfolding rows' by auto
  have "has_id i rm"
  proof (rule ccontr)
    assume "\<not> has_id i rm"
    with rm assms(4) rows_keyed [OF rm(1)] show False by (auto simp: has_id_def keyed_def mapUserRowV2_def)
  qed
  moreover have "length (sr_rand (rs rm) 32) = 32" using rs [of rm] by (simp add: sql_reads_ok_def)
  ultimately show ?thesis using rm(2) by (simp add: erase_sets_eq mapUserRowV2_def get_assigned)
qed

lemma erase_others:
  assumes "i \<noteq> []" and "fst (user_Erase (Some db) c i d) = None"
  shows "filter (\<lambda>u. u_UserID u \<noteq> i) (map mapUserRowV2 (rows (ns_of db c) (snd (user_Erase (Some db) c i d))))
    = filter (\<lambda>u. u_UserID u \<noteq> i) (map mapUserRowV2 (rows (ns_of db c) d))"
proof -
  obtain rs where rs: "\<And>rm. sql_reads_ok (rs rm)" and rows': "rows (ns_of db c) (snd (user_Erase (Some db) c i d)) =
    map (\<lambda>rm. if has_id i rm then assigned erase_sets [(''id'', AStr i)] (rs rm) rm else rm)
      (rows (ns_of db c) d)" using erase_rows [OF assms] by blast
  have "u_UserID (mapUserRowV2 (assigned erase_sets vs r rm)) = u_UserID (mapUserRowV2 rm)" for vs r rm
    by (simp add: erase_sets_eq mapUserRowV2_def get_assigned)
  then have "filter (\<lambda>u. u_UserID u \<noteq> i) (map mapUserRowV2 (map (\<lambda>rm. if has_id i rm
        then assigned erase_sets [(''id'', AStr i)] (rs rm) rm else rm) rms))
    = filter (\<lambda>u. u_UserID u \<noteq> i) (map mapUserRowV2 rms)" for rms
    by (induction rms) (auto dest: has_id_user)
  then show ?thesis unfolding rows' .
qed

text \<open>A created user can be looked up, and the row says what \<open>Create\<close> was given.\<close>

lemma create_then_find:
  assumes dek: "ur_dek rd = Inr (dek, encDEK)" and keys: "u_UserID u \<noteq> []" "u_UserIDHash u \<noteq> []" "u_EmailHash u \<noteq> []"
    and fresh: "\<And>x. x \<in> set (map mapUserRowV2 (rows (ns_of db c) d)) \<Longrightarrow>
      u_UserID x \<noteq> u_UserID u \<and> u_UserIDHash x \<noteq> u_UserIDHash u \<and> u_EmailHash x \<noteq> u_EmailHash u"
  defines "u' \<equiv> u\<lparr>u_EncryptedDEK := Some encDEK, u_MaskedEmail := ''***''\<rparr>"
  shows "\<exists>d'. user_Create L rd (Some db) c u d = ((None, u'), d') \<and>
    user_FindByEmailHash (Some db) c (u_EmailHash u) d' = (Inr (Some (u'\<lparr>u_IsActive := False,
      u_LastLoginAt := None, u_LockedUntil := None, u_HireDate := None,
      u_CreatedAt := ur_created rd, u_UpdatedAt := ur_updated rd\<rparr>)), d')"
proof -
  let ?ns = "ns_of db c"
  let ?vs = "user_vars rd encDEK u'"
  have g: "get ?vs ''user_id'' = AStr (u_UserID u)" "get ?vs ''user_id_hash'' = AStr (u_UserIDHash u)"
    "get ?vs ''email_hash'' = AStr (u_EmailHash u)" by (simp_all add: user_vars_def u'_def)
  have k: "keyed (created_row ?vs)"
    using keys g by (simp add: keyed_def get_created_row user_columns_def)
  have "\<forall>rm \<in> set (rows ?ns d). \<forall>k \<in> {''user_id'', ''user_id_hash'', ''email_hash''}. get rm k \<noteq> get ?vs k"
    using fresh g rows_keyed by (fastforce simp: mapUserRowV2_def keyed_def)
  from create_user [OF k this] obtain res d' where
    d': "db_Query db c ?ns ?ns sql_user_create ?vs d = (Inr res, d')" "rows ?ns d' = rows ?ns d @ [created_row ?vs]"
    by blast
  have "find (\<lambda>x. u_EmailHash x = u_EmailHash u) (map mapUserRowV2 (rows ?ns d)) = None"
    using fresh by (auto simp: find_None_iff)
  then have "find (\<lambda>x. u_EmailHash x = u_EmailHash u) (map mapUserRowV2 (rows ?ns d) @ [y])
      = (if u_EmailHash y = u_EmailHash u then Some y else None)" for y
    by (simp add: find_snoc)
  with d' keys dek show ?thesis
    by (simp add: user_Create_def tenant_Query_def user_find_eqs mapUserRowV2_created u'_def)
qed

end

sublocale surreal_users \<subseteq> repo: user_lookup "UserRepository L rd (Some db)" "\<lambda>c d. map mapUserRowV2 (rows (ns_of db c) d)"
  by unfold_locales (auto simp: UserRepository_def user_find_eqs)

section \<open>Properties\<close>

text \<open>C30: Erasure shreds: when \<open>Erase\<close> succeeds the user's row has no data key, no ciphertext, no employee hash and
  no e-mail hash of the 64 characters that a lookup uses, and every other user is unchanged; when it fails
  nothing has changed.  What the UPDATE does is read off its text: the database is only assumed to run
  UPDATE statements.\<close>

theorem erase_shreds_user:
  fixes c :: ctx and d :: 'd
  assumes "surreal_users db rows" and "i \<noteq> ''''"
  defines "after \<equiv> map mapUserRowV2 (rows (ns_of db c) (snd (user_Erase (Some db) c i d)))"
    and "before \<equiv> map mapUserRowV2 (rows (ns_of db c) d)"
  shows "case fst (user_Erase (Some db) c i d) of
      Some e \<Rightarrow> after = before
    | None \<Rightarrow> (\<forall>u \<in> set after. u_UserID u = i \<longrightarrow>
        u_EncryptedDEK u = None \<and> u_EmailCiphertext u = None \<and> u_NameCiphertext u = None \<and>
        u_SurnameCiphertext u = None \<and> u_PhoneCiphertext u = None \<and> u_DOBCiphertext u = None \<and>
        u_EmployeeIDCiphertext u = None \<and> u_EmployeeIDHash u = [] \<and> u_MaskedEmail u = ''***'' \<and>
        u_Status u = ''erased'' \<and> length (u_EmailHash u) = 32) \<and>
      filter (\<lambda>u. u_UserID u \<noteq> i) after = filter (\<lambda>u. u_UserID u \<noteq> i) before"
proof (cases "fst (user_Erase (Some db) c i d)")
  case None
  with surreal_users.erase_shreds [OF assms(1,2) None] surreal_users.erase_others [OF assms(1,2) None] show ?thesis
    unfolding after_def before_def by (simp only: option.case) blast
next
  case (Some e)
  with surreal_users.failed_erase [OF assms(1) Some] show ?thesis by (simp add: after_def before_def)
qed

text \<open>A user that \<open>Create\<close> stored is found by the e-mail hash, with the ciphertexts, the role, the
  permissions and the counters it was given and the encrypted data key; the display mask is
  always ''***'', and the times of the last login, the lock and the hiring do not come back.\<close>

theorem created_user_found:
  assumes "surreal_users db rows" and "ur_dek rd = Inr (dek, encDEK)"
    and "u_UserID u \<noteq> []" and "u_UserIDHash u \<noteq> []" and "u_EmailHash u \<noteq> []"
    and "\<forall>x \<in> set (map mapUserRowV2 (rows (ns_of db c) d)).
      u_UserID x \<noteq> u_UserID u \<and> u_UserIDHash x \<noteq> u_UserIDHash u \<and> u_EmailHash x \<noteq> u_EmailHash u"
  shows "\<exists>d'. user_Create L rd (Some db) c u d =
      ((None, u\<lparr>u_EncryptedDEK := Some encDEK, u_MaskedEmail := ''***''\<rparr>), d') \<and>
    user_FindByEmailHash (Some db) c (u_EmailHash u) d' = (Inr (Some (u\<lparr>u_EncryptedDEK := Some encDEK,
      u_MaskedEmail := ''***'', u_IsActive := False, u_LastLoginAt := None, u_LockedUntil := None,
      u_HireDate := None, u_CreatedAt := ur_created rd, u_UpdatedAt := ur_updated rd\<rparr>)), d')"
  using surreal_users.create_then_find [OF assms(1-5)] assms(6) by blast

end
