(* ===== verification/Session.thy ===== *)
theory Session
  imports Stores Crypto
begin

text \<open>
  Access and refresh tokens (internal/core/identity/session.go) and the session service
  (token_service.go) over the ports \<open>UserStore\<close> and \<open>SessionStore\<close>.  The locale
  \<open>token_service\<close> puts the contracts of the two ports together over one world; inside it the
  one-session policy, the single use of a refresh token and the failure paths of \<open>Rotate\<close> are
  proved.
\<close>

section \<open>Tokens\<close>

definition AccessTokenTTL :: duration where "AccessTokenTTL = 15 * minute"
definition RefreshTokenTTL :: duration where "RefreshTokenTTL = 30 * 24 * hour"
definition DefaultRefreshTTL :: duration where "DefaultRefreshTTL = 30 * 24 * hour"

record TokenPair =
  tp_AccessToken :: string
  tp_RefreshPlain :: string
  tp_RefreshHash :: string
  tp_ExpiresAt :: time

definition no_pair :: TokenPair where
  "no_pair = \<lparr>tp_AccessToken = [], tp_RefreshPlain = [], tp_RefreshHash = [], tp_ExpiresAt = zero_time\<rparr>"

definition signingKey :: "env \<Rightarrow> string go" where
  "signingKey env = (let key = env ''LOXTU_JWT_SECRET'' in
     if key = '''' then Panic ''LOXTU_JWT_SECRET is not set in environment'' else Ret key)"

definition access_claims :: "golib \<Rightarrow> time \<Rightarrow> string \<Rightarrow> string \<Rightarrow> string \<Rightarrow> string list \<Rightarrow> duration
    \<Rightarrow> AccessClaims" where
  "access_claims L now userID tenantID role permissions ttl =
     (let userIDHash = sha_hex L userID in
      \<lparr>ac_Issuer = ''loxtu'', ac_Subject = userIDHash, ac_IssuedAt = Some now, ac_ExpiresAt = Some (now + ttl), ac_NotBefore = None,
       ac_UserIDHash = userIDHash, ac_TenantID = tenantID, ac_Role = role,
       ac_Permissions = permissions\<rparr>)"

definition IssueAccessToken :: "golib \<Rightarrow> jwtlib \<Rightarrow> env \<Rightarrow> time \<Rightarrow> string \<Rightarrow> string \<Rightarrow> string
    \<Rightarrow> string list \<Rightarrow> duration \<Rightarrow> (goerr + string) go" where
  "IssueAccessToken L J env now userID tenantID role permissions ttl =
     gbind (signingKey env) (\<lambda>key.
       Ret (jwt_sign J key (access_claims L now userID tenantID role permissions ttl)))"

definition access_keyfunc :: "env \<Rightarrow> jwt_token \<Rightarrow> (goerr + string) go" where
  "access_keyfunc env t =
     (if \<not> tk_hmac t then Ret (Inl (''unexpected signing method: '' @ tk_alg t))
      else gbind (signingKey env) (\<lambda>key. Ret (Inr key)))"

definition ValidateAccessToken :: "jwtlib \<Rightarrow> env \<Rightarrow> time \<Rightarrow> string \<Rightarrow> (goerr + AccessClaims) go" where
  "ValidateAccessToken J env now raw =
     gbind (jwt_parse J raw (access_keyfunc env) now) (\<lambda>res. Ret (case res of
       Inl e \<Rightarrow> Inl e
     | Inr token \<Rightarrow> if \<not> tk_valid token then Inl ''invalid token'' else Inr (tk_claims token)))"

definition HashToken :: "golib \<Rightarrow> string \<Rightarrow> string" where
  "HashToken L s = hex_EncodeToString (Sha256 L s)"

definition IssueRefreshToken :: "golib \<Rightarrow> rand \<Rightarrow> goerr + (string \<times> string)" where
  "IssueRefreshToken L r =
     (case r 32 of
        Inl e \<Rightarrow> Inl e
      | Inr b \<Rightarrow> (let plain = hex_EncodeToString b; hash = hex_EncodeToString (Sha256 L plain)
                  in Inr (plain, hash)))"

text \<open>
  What one issuance reads from outside: the clock for the access token, for the refresh expiry and
  for the session's creation time, and 32 random bytes.
\<close>

record issue_reads =
  ir_access :: time
  ir_refresh :: time
  ir_created :: time
  ir_rand :: rand

definition IssueTokens :: "golib \<Rightarrow> jwtlib \<Rightarrow> env \<Rightarrow> issue_reads \<Rightarrow> string \<Rightarrow> string \<Rightarrow> string
    \<Rightarrow> string list \<Rightarrow> duration \<Rightarrow> (goerr + TokenPair) go" where
  "IssueTokens L J env ir userID tenantID role permissions accessTTL =
     gbind (IssueAccessToken L J env (ir_access ir) userID tenantID role permissions accessTTL)
      (\<lambda>res. Ret (case res of
         Inl e \<Rightarrow> Inl (''access token: '' @ e)
       | Inr access \<Rightarrow> (case IssueRefreshToken L (ir_rand ir) of
            Inl e \<Rightarrow> Inl (''refresh token: '' @ e)
          | Inr (plain, hash) \<Rightarrow>
              Inr \<lparr>tp_AccessToken = access, tp_RefreshPlain = plain, tp_RefreshHash = hash,
                   tp_ExpiresAt = ir_refresh ir + RefreshTokenTTL\<rparr>)))"

section \<open>The service\<close>

record 'w SessionAuthService =
  sas_users :: "'w UserStore option"
  sas_sessions :: "'w SessionStore option"
  sas_accessTTL :: duration

definition NewSessionAuthService :: "'w UserStore option \<Rightarrow> 'w SessionStore option \<Rightarrow> 'w SessionAuthService" where
  "NewSessionAuthService users sessions =
     \<lparr>sas_users = users, sas_sessions = sessions, sas_accessTTL = AccessTokenTTL\<rparr>"

definition NewTokenService :: "'w UserStore option \<Rightarrow> 'w SessionStore option \<Rightarrow> 'w SessionAuthService" where
  "NewTokenService users sessions = NewSessionAuthService users sessions"

definition SetAccessTTL :: "duration \<Rightarrow> 'w SessionAuthService \<Rightarrow> 'w SessionAuthService" where
  "SetAccessTTL d svc = svc\<lparr>sas_accessTTL := d\<rparr>"

definition Issue :: "golib \<Rightarrow> jwtlib \<Rightarrow> env \<Rightarrow> 'w SessionAuthService \<Rightarrow> issue_reads \<Rightarrow> string \<Rightarrow> string
    \<Rightarrow> string \<Rightarrow> string list \<Rightarrow> (goerr + TokenPair) go" where
  "Issue L J env svc ir userID tenantID role permissions =
     (let tenantID' = (if tenantID = '''' then ''public'' else tenantID);
          role' = (if role = '''' then ''worker'' else role)
      in IssueTokens L J env ir userID tenantID' role' permissions (sas_accessTTL svc))"

text \<open>\<open>IssueSession\<close> and \<open>Rotate\<close> return the pair beside the error.\<close>

definition IssueSession :: "golib \<Rightarrow> jwtlib \<Rightarrow> env \<Rightarrow> 'w SessionAuthService \<Rightarrow> ctx \<Rightarrow> issue_reads
    \<Rightarrow> string \<Rightarrow> string \<Rightarrow> string \<Rightarrow> string list \<Rightarrow> 'w \<Rightarrow> (TokenPair \<times> goerr option) go \<times> 'w" where
  "IssueSession L J env svc c ir userID tenantID role permissions w =
     (case Issue L J env svc ir userID tenantID role permissions of
        Panic p \<Rightarrow> (Panic p, w)
      | Ret (Inl e) \<Rightarrow> (Ret (no_pair, Some e), w)
      | Ret (Inr pair) \<Rightarrow>
          (case sas_sessions svc of
             None \<Rightarrow> (Ret (pair, None), w)
           | Some ss \<Rightarrow>
               (case ss_Create ss c \<lparr>se_UserID = userID, se_TokenHash = tp_RefreshHash pair,
                       se_ExpiresAt = tp_ExpiresAt pair, se_CreatedAt = ir_created ir\<rparr> w of
                  (Some e, w1) \<Rightarrow> (Ret (pair, Some (''save session: '' @ e)), w1)
                | (None, w1) \<Rightarrow> (Ret (pair, None), w1))))"

definition Rotate :: "golib \<Rightarrow> jwtlib \<Rightarrow> env \<Rightarrow> 'w SessionAuthService \<Rightarrow> ctx \<Rightarrow> issue_reads
    \<Rightarrow> string \<Rightarrow> 'w \<Rightarrow> (TokenPair \<times> goerr option) go \<times> 'w" where
  "Rotate L J env svc c ir oldPlain w =
     (case sas_sessions svc of
        None \<Rightarrow> (Ret (no_pair, Some ''sessions not configured''), w)
      | Some ss \<Rightarrow>
          (let oldHash = HashToken L oldPlain in
           case ss_FindByTokenHash ss c oldHash w of
             (Inl _, w1) \<Rightarrow> (Ret (no_pair, Some ''session not found''), w1)
           | (Inr None, w1) \<Rightarrow> (Ret (no_pair, Some ''session not found''), w1)
           | (Inr (Some sess), w1) \<Rightarrow>
               (let w2 = snd (ss_RevokeByUserID ss c (se_UserID sess) w1) in
                case sas_users svc of
                  None \<Rightarrow> (Ret (no_pair, Some ''users not configured''), w2)
                | Some us \<Rightarrow>
                    (case us_FindByUserID us c (se_UserID sess) w2 of
                       (Inl _, w3) \<Rightarrow> (Ret (no_pair, Some ''user not found for session''), w3)
                     | (Inr None, w3) \<Rightarrow> (Ret (no_pair, Some ''user not found for session''), w3)
                     | (Inr (Some u), w3) \<Rightarrow>
                         IssueSession L J env svc c ir (u_UserID u) (u_TenantID u) (u_Role u)
                           (u_Permissions u) w3))))"

definition RevokeAllForUser :: "'w SessionAuthService \<Rightarrow> ctx \<Rightarrow> string \<Rightarrow> 'w \<Rightarrow> goerr option \<times> 'w" where
  "RevokeAllForUser svc c userID w =
     (case sas_sessions svc of None \<Rightarrow> (None, w) | Some ss \<Rightarrow> ss_RevokeByUserID ss c userID w)"

section \<open>Lemmas on tokens\<close>

lemma signingKey_simps:
  "env ''LOXTU_JWT_SECRET'' \<noteq> '''' \<Longrightarrow> signingKey env = Ret (env ''LOXTU_JWT_SECRET'')"
  "env ''LOXTU_JWT_SECRET'' = '''' \<Longrightarrow> is_panic (signingKey env)"
  by (simp_all add: signingKey_def Let_def)

lemma access_claims_simps [simp]:
  "ac_Subject (access_claims L now u t r ps ttl) = sha_hex L u"
  "ac_UserIDHash (access_claims L now u t r ps ttl) = sha_hex L u"
  "ac_TenantID (access_claims L now u t r ps ttl) = t"
  "ac_Role (access_claims L now u t r ps ttl) = r"
  "ac_Permissions (access_claims L now u t r ps ttl) = ps"
  "ac_ExpiresAt (access_claims L now u t r ps ttl) = Some (now + ttl)"
  "ac_NotBefore (access_claims L now u t r ps ttl) = None"
  "ac_Issuer (access_claims L now u t r ps ttl) = ''loxtu''"
  by (simp_all add: access_claims_def Let_def)

lemma access_keyfunc_hs256 [simp]:
  "access_keyfunc env (hs256_token c v) = gbind (signingKey env) (\<lambda>k. Ret (Inr k))"
  by (simp add: access_keyfunc_def)

lemma validate_issued:
  assumes "jwt_ok J" and "env ''LOXTU_JWT_SECRET'' \<noteq> ''''"
    and "IssueAccessToken L J env now u t r ps ttl = Ret (Inr raw)"
    and "now' < whole_second (now + ttl)"
  shows "ValidateAccessToken J env now' raw
    = Ret (Inr (on_the_wire (access_claims L now u t r ps ttl)))"
proof -
  let ?c = "access_claims L now u t r ps ttl" and ?k = "env ''LOXTU_JWT_SECRET''"
  have "jwt_sign J ?k ?c = Inr raw" using assms(2,3)
    by (simp add: IssueAccessToken_def signingKey_simps)
  from jwt_okD(2,3) [OF assms(1) this]
  have "jwt_parse J raw (access_keyfunc env) now' = Ret (Inr (hs256_token (on_the_wire ?c) True))"
    unfolding jwt_okD(4) [OF assms(1)] by (simp add: signingKey_simps assms(2,4) dates_valid_def)
  then show ?thesis by (simp add: ValidateAccessToken_def)
qed

lemma case_sum_Inr:
  "(case x of Inl a \<Rightarrow> Inl (f a) | Inr b \<Rightarrow> g b) = Inr c \<Longrightarrow> (\<And>b. x = Inr b \<Longrightarrow> g b = Inr c \<Longrightarrow> P) \<Longrightarrow> P"
  by (cases x) auto

lemma access_keyfunc_Inr:
  "access_keyfunc env t = Ret (Inr k) \<longleftrightarrow> tk_hmac t \<and> k = env ''LOXTU_JWT_SECRET'' \<and> k \<noteq> ''''"
  by (auto simp: access_keyfunc_def signingKey_def Let_def)

lemma validate_iff:
  assumes "jwt_ok J"
  shows "ValidateAccessToken J env now raw = Ret (Inr c) \<longleftrightarrow>
    (\<exists>t. jwt_unverified J raw = Some t \<and> tk_hmac t \<and> env ''LOXTU_JWT_SECRET'' \<noteq> '''' \<and>
      jwt_verifies J raw (env ''LOXTU_JWT_SECRET'') \<and> dates_valid now (tk_claims t) \<and> tk_claims t = c)"
proof -
  have "ValidateAccessToken J env now raw = Ret (Inr c) \<longleftrightarrow>
      (\<exists>t. jwt_parse J raw (access_keyfunc env) now = Ret (Inr t) \<and> tk_valid t \<and> tk_claims t = c)"
    by (auto simp: ValidateAccessToken_def gbind_Ret_iff elim!: case_sum_Inr split: if_splits)
  then show ?thesis unfolding jwt_okD(4) [OF assms] access_keyfunc_Inr by auto
qed

lemma IssueRefreshToken_Inr:
  assumes "rand_ok r" and "IssueRefreshToken L r = Inr (plain, hash)"
  shows "length plain = 64" and "hash = HashToken L plain"
  using assms by (auto simp: IssueRefreshToken_def HashToken_def rand_ok_def Let_def split: sum.splits)

lemma Issue_Ret:
  assumes "Issue L J env svc ir u t r ps = Ret (Inr pair)"
  shows "IssueAccessToken L J env (ir_access ir) u (if t = '''' then ''public'' else t)
      (if r = '''' then ''worker'' else r) ps (sas_accessTTL svc) = Ret (Inr (tp_AccessToken pair))"
    and "tp_RefreshHash pair = HashToken L (tp_RefreshPlain pair)"
    and "tp_ExpiresAt pair = ir_refresh ir + RefreshTokenTTL"
    and "\<exists>b. ir_rand ir 32 = Inr b \<and> tp_RefreshPlain pair = hex_EncodeToString b"
proof -
  obtain res where access: "IssueAccessToken L J env (ir_access ir) u (if t = '''' then ''public'' else t)
      (if r = '''' then ''worker'' else r) ps (sas_accessTTL svc) = Ret res"
    and "(case res of Inl e \<Rightarrow> Inl (''access token: '' @ e)
       | Inr access \<Rightarrow> (case IssueRefreshToken L (ir_rand ir) of
            Inl e \<Rightarrow> Inl (''refresh token: '' @ e)
          | Inr (plain, hash) \<Rightarrow>
              Inr \<lparr>tp_AccessToken = access, tp_RefreshPlain = plain, tp_RefreshHash = hash,
                   tp_ExpiresAt = ir_refresh ir + RefreshTokenTTL\<rparr>)) = Inr pair"
    using assms by (auto simp: Issue_def IssueTokens_def gbind_Ret_iff Let_def)
  then obtain raw b where "res = Inr raw" "ir_rand ir 32 = Inr b"
    "pair = \<lparr>tp_AccessToken = raw, tp_RefreshPlain = hex_EncodeToString b,
       tp_RefreshHash = HashToken L (hex_EncodeToString b),
       tp_ExpiresAt = ir_refresh ir + RefreshTokenTTL\<rparr>"
    by (cases res; cases "ir_rand ir 32") (auto simp: IssueRefreshToken_def HashToken_def Let_def)
  with access show "IssueAccessToken L J env (ir_access ir) u (if t = '''' then ''public'' else t)
      (if r = '''' then ''worker'' else r) ps (sas_accessTTL svc) = Ret (Inr (tp_AccessToken pair))"
    and "tp_RefreshHash pair = HashToken L (tp_RefreshPlain pair)"
    and "tp_ExpiresAt pair = ir_refresh ir + RefreshTokenTTL"
    and "\<exists>b. ir_rand ir 32 = Inr b \<and> tp_RefreshPlain pair = hex_EncodeToString b"
    by simp_all
qed

lemma Issue_succeeds:
  assumes "jwt_ok J" and "env ''LOXTU_JWT_SECRET'' \<noteq> ''''" and "ir_rand ir 32 = Inr b"
  shows "\<exists>pair. Issue L J env svc ir u t r ps = Ret (Inr pair)
    \<and> tp_RefreshPlain pair = hex_EncodeToString b"
proof -
  have "\<exists>raw. IssueAccessToken L J env n u t' r' ps ttl = Ret (Inr raw)" for n t' r' ttl
    using jwt_okD(1) [OF assms(1)] assms(2)
    by (simp add: IssueAccessToken_def signingKey_simps)
  then obtain raw where "IssueAccessToken L J env (ir_access ir) u (if t = '''' then ''public'' else t)
      (if r = '''' then ''worker'' else r) ps (sas_accessTTL svc) = Ret (Inr raw)" by blast
  with assms(3) show ?thesis
    by (simp add: Issue_def IssueTokens_def IssueRefreshToken_def Let_def)
qed

section \<open>The two ports together\<close>

locale token_service = user_lookup us users + session_store ss view
  for us :: "'w UserStore" and users and ss :: "'w SessionStore" and view +
  assumes revoke_users: "users c (snd (ss_RevokeByUserID ss c u w)) = users c w"

lemma IssueSession_cases:
  assumes "sas_sessions svc = Some ss"
  shows "IssueSession L J env svc c ir u t r ps w =
    (case Issue L J env svc ir u t r ps of
       Panic p \<Rightarrow> (Panic p, w)
     | Ret (Inl e) \<Rightarrow> (Ret (no_pair, Some e), w)
     | Ret (Inr pair) \<Rightarrow>
        (let x = ss_Create ss c \<lparr>se_UserID = u, se_TokenHash = tp_RefreshHash pair,
                   se_ExpiresAt = tp_ExpiresAt pair, se_CreatedAt = ir_created ir\<rparr> w
         in (Ret (pair, map_option (\<lambda>e. ''save session: '' @ e) (fst x)), snd x)))"
  using assms by (auto simp: IssueSession_def Let_def split: go.splits sum.splits prod.splits option.splits)

context session_store
begin

lemma issue_one_session:
  assumes "sas_sessions svc = Some ss" and "u \<noteq> ''''"
    and "IssueSession L J env svc c ir u t r ps w = (Ret (pair, None), w')"
    and "view c w (tp_RefreshHash pair) = None"
  shows "\<exists>y. view c w' (tp_RefreshHash pair) = Some y \<and> se_UserID y = u"
    and "view c w' h = Some y \<Longrightarrow> se_UserID y = u \<Longrightarrow> h = tp_RefreshHash pair"
    and "view c w' h = Some y \<Longrightarrow> se_UserID y \<noteq> u \<Longrightarrow> view c w h = Some y"
    and "view c w h = Some y \<Longrightarrow> se_UserID y \<noteq> u \<Longrightarrow> h \<noteq> tp_RefreshHash pair \<Longrightarrow> view c w' h = Some y"
proof -
  let ?x = "\<lparr>se_UserID = u, se_TokenHash = tp_RefreshHash pair, se_ExpiresAt = tp_ExpiresAt pair,
     se_CreatedAt = ir_created ir\<rparr>"
  have w': "w' = snd (ss_Create ss c ?x w)"
    using assms(3) by (auto simp: IssueSession_cases [OF assms(1)] Let_def split: go.splits sum.splits)
  show new: "\<exists>y. view c w' (tp_RefreshHash pair) = Some y \<and> se_UserID y = u"
    using create_new [of c w ?x] w' assms(4) by simp
  show "h = tp_RefreshHash pair" if "view c w' h = Some y" "se_UserID y = u"
    using that create_others [of h ?x c w] w' assms(2)
    by (cases "h = tp_RefreshHash pair") (auto split: option.splits if_splits)
  show "view c w h = Some y" if "view c w' h = Some y" "se_UserID y \<noteq> u"
    using that create_others [of h ?x c w] w' new
    by (cases "h = tp_RefreshHash pair") (auto split: option.splits if_splits)
  show "view c w' h = Some y" if "view c w h = Some y" "se_UserID y \<noteq> u" "h \<noteq> tp_RefreshHash pair"
    using that create_others [of h ?x c w] w' by simp
qed

lemma issue_ok:
  assumes "sas_sessions svc = Some ss" and "jwt_ok J" and "env ''LOXTU_JWT_SECRET'' \<noteq> ''''" and "ir_rand ir 32 = Inr b"
    and "view c w (HashToken L (hex_EncodeToString b)) = None"
  obtains pair w' where "IssueSession L J env svc c ir u t r ps w = (Ret (pair, None), w')"
    and "Issue L J env svc ir u t r ps = Ret (Inr pair)" and "tp_RefreshPlain pair = hex_EncodeToString b"
    and "\<exists>y. view c w' (tp_RefreshHash pair) = Some y \<and> se_UserID y = u"
proof -
  obtain pair where pair: "Issue L J env svc ir u t r ps = Ret (Inr pair)" "tp_RefreshPlain pair = hex_EncodeToString b"
    using Issue_succeeds [where J = J and env = env and ir = ir and b = b, OF assms(2-4)] by blast
  let ?x = "\<lparr>se_UserID = u, se_TokenHash = tp_RefreshHash pair, se_ExpiresAt = tp_ExpiresAt pair,
     se_CreatedAt = ir_created ir\<rparr>"
  have "view c w (se_TokenHash ?x) = None" using assms(5) Issue_Ret(2) [OF pair(1)] pair(2) by simp
  from create_new [OF this] have "fst (ss_Create ss c ?x w) = None"
    "\<exists>y. view c (snd (ss_Create ss c ?x w)) (tp_RefreshHash pair) = Some y \<and> se_UserID y = u" by simp_all
  with pair show ?thesis using that [of pair "snd (ss_Create ss c ?x w)"] by (simp add: IssueSession_cases [OF assms(1)] Let_def)
qed

end

context token_service
begin

lemma rotate_cases:
  assumes "sas_sessions svc = Some ss" and "sas_users svc = Some us"
  shows "Rotate L J env svc c ir p w =
    (case view c w (HashToken L p) of
       None \<Rightarrow> (Ret (no_pair, Some ''session not found''), w)
     | Some y \<Rightarrow> (let w2 = snd (ss_RevokeByUserID ss c (se_UserID y) w) in
         case find (\<lambda>x. u_UserID x = se_UserID y) (users c w) of
           None \<Rightarrow> (Ret (no_pair, Some ''user not found for session''), w2)
         | Some x \<Rightarrow> IssueSession L J env svc c ir (u_UserID x) (u_TenantID x) (u_Role x)
                       (u_Permissions x) w2))"
proof (cases "view c w (HashToken L p)")
  case None
  with assms show ?thesis by (simp add: Rotate_def find_view Let_def)
next
  case (Some y)
  let ?w2 = "snd (ss_RevokeByUserID ss c (se_UserID y) w)"
  obtain r where "us_FindByUserID us c (se_UserID y) ?w2 = (r, ?w2)"
    and "r = Inr (find (\<lambda>x. u_UserID x = se_UserID y) (users c w)) \<or>
      (find (\<lambda>x. u_UserID x = se_UserID y) (users c w) = None \<and> (\<exists>e. r = Inl e))"
    using find_id [of c "se_UserID y" ?w2] revoke_users by auto
  with assms Some show ?thesis by (auto simp: Rotate_def find_view Let_def split: option.splits)
qed

text \<open>A refresh token works once: whatever the call answers, its session is gone afterwards.\<close>

lemma rotate_consumes:
  assumes "sas_sessions svc = Some ss" and "sas_users svc = Some us"
    and "Rotate L J env svc c ir p w = (Ret (pair, err), w')"
    and "tp_RefreshHash pair \<noteq> HashToken L p"
  shows "view c w' (HashToken L p) = None"
proof (cases "view c w (HashToken L p)")
  case None
  with assms show ?thesis by (simp add: rotate_cases)
next
  case (Some y)
  let ?w2 = "snd (ss_RevokeByUserID ss c (se_UserID y) w)"
  have gone: "view c ?w2 (HashToken L p) = None" using Some by (simp add: revoke_view)
  show ?thesis
  proof (cases "find (\<lambda>x. u_UserID x = se_UserID y) (users c w)")
    case None
    with Some assms gone show ?thesis by (simp add: rotate_cases Let_def)
  next
    case u: (Some x)
    from assms(3) have iss: "IssueSession L J env svc c ir (u_UserID x) (u_TenantID x) (u_Role x)
        (u_Permissions x) ?w2 = (Ret (pair, err), w')"
      by (simp add: rotate_cases [OF assms(1,2)] Some u Let_def)
    show ?thesis
    proof (cases "Issue L J env svc ir (u_UserID x) (u_TenantID x) (u_Role x) (u_Permissions x)")
      case (Panic q)
      with iss show ?thesis by (simp add: IssueSession_def)
    next
      case (Ret res)
      show ?thesis
      proof (cases res)
        case (Inl e)
        with iss Ret gone show ?thesis by (simp add: IssueSession_def)
      next
        case (Inr q)
        with iss Ret have "q = pair" and "w' = snd (ss_Create ss c \<lparr>se_UserID = u_UserID x,
            se_TokenHash = tp_RefreshHash q, se_ExpiresAt = tp_ExpiresAt q,
            se_CreatedAt = ir_created ir\<rparr> ?w2)"
          by (auto simp: IssueSession_cases [OF assms(1)] Let_def)
        with gone assms(4) show ?thesis by (simp add: create_others)
      qed
    qed
  qed
qed

text \<open>The hash of the token that a rotation hands out is the hash of fresh random bytes.\<close>

lemma rotate_pair:
  assumes "sas_sessions svc = Some ss" and "sas_users svc = Some us"
    and "Rotate L J env svc c ir p w = (Ret (pair, err), w')"
  shows "pair = no_pair \<or> (\<exists>b. ir_rand ir 32 = Inr b \<and> tp_RefreshHash pair = HashToken L (hex_EncodeToString b))"
proof -
  have "pair = no_pair \<or> (\<exists>u t r ps. Issue L J env svc ir u t r ps = Ret (Inr pair))"
    using assms(3) unfolding rotate_cases [OF assms(1,2)]
    by (auto simp: Let_def IssueSession_cases [OF assms(1)] split: option.splits go.splits sum.splits)
  then show ?thesis using Issue_Ret(2,4) by metis
qed

lemma rotate_unknown:
  assumes "sas_sessions svc = Some ss" and "sas_users svc = Some us"
    and "view c w (HashToken L p) = None"
  shows "Rotate L J env svc c ir p w = (Ret (no_pair, Some ''session not found''), w)"
  using assms by (simp add: rotate_cases)

lemma rotate_ok:
  assumes "sas_sessions svc = Some ss" and "sas_users svc = Some us"
    and "jwt_ok J" and "env ''LOXTU_JWT_SECRET'' \<noteq> ''''" and "ir_rand ir 32 = Inr b"
    and "view c w (HashToken L p) = Some y"
    and "find (\<lambda>x. u_UserID x = se_UserID y) (users c w) = Some x"
    and "view c w (HashToken L (hex_EncodeToString b)) = None"
  shows "\<exists>pair w'. Rotate L J env svc c ir p w = (Ret (pair, None), w')
    \<and> tp_RefreshPlain pair = hex_EncodeToString b
    \<and> (\<exists>z. view c w' (tp_RefreshHash pair) = Some z \<and> se_UserID z = se_UserID y)
    \<and> Issue L J env svc ir (se_UserID y) (u_TenantID x) (u_Role x) (u_Permissions x) = Ret (Inr pair)"
proof -
  have x: "u_UserID x = se_UserID y" using assms(7) by (auto simp: find_Some_iff)
  obtain pair where pair: "Issue L J env svc ir (se_UserID y) (u_TenantID x) (u_Role x) (u_Permissions x) = Ret (Inr pair)"
    "tp_RefreshPlain pair = hex_EncodeToString b"
    using Issue_succeeds [OF assms(3), where env = env and ir = ir] assms(4,5) by blast
  let ?w2 = "snd (ss_RevokeByUserID ss c (se_UserID y) w)"
  let ?s = "\<lparr>se_UserID = se_UserID y, se_TokenHash = tp_RefreshHash pair,
     se_ExpiresAt = tp_ExpiresAt pair, se_CreatedAt = ir_created ir\<rparr>"
  have "tp_RefreshHash pair = HashToken L (hex_EncodeToString b)"
    using Issue_Ret(2) [OF pair(1)] pair(2) by simp
  then have "view c ?w2 (se_TokenHash ?s) = None" using assms(8) by (simp add: revoke_view)
  note new = create_new [OF this]
  then have "Rotate L J env svc c ir p w = (Ret (pair, None), snd (ss_Create ss c ?s ?w2))"
    using assms(6,7) pair(1) x
    by (simp add: rotate_cases [OF assms(1,2)] IssueSession_cases [OF assms(1)] Let_def)
  with pair new show ?thesis by auto
qed

end

section \<open>Properties\<close>

text \<open>An access token made by \<open>IssueAccessToken\<close> is accepted by \<open>ValidateAccessToken\<close> until its
  expiry, rounded down to a whole second, and gives back the tenant, the role, the permissions
  and, in place of the user id, its SHA-256.\<close>

theorem access_token_roundtrip:
  assumes "jwt_ok J" and "env ''LOXTU_JWT_SECRET'' \<noteq> ''''"
    and "IssueAccessToken L J env now u t r ps ttl = Ret (Inr raw)"
    and "now' < whole_second (now + ttl)"
  shows "\<exists>c. ValidateAccessToken J env now' raw = Ret (Inr c) \<and> ac_UserIDHash c = sha_hex L u \<and>
    ac_Subject c = sha_hex L u \<and> ac_TenantID c = t \<and> ac_Role c = r \<and> ac_Permissions c = ps"
  using validate_issued [OF assms] by simp

definition demo_env :: env where
  "demo_env k = (if k = ''LOXTU_JWT_SECRET'' then ''s3cret'' else '''')"

lemma demo_env_secret [simp]: "demo_env ''LOXTU_JWT_SECRET'' = ''s3cret''"
  by (simp add: demo_env_def)

lemma access_token_roundtrip_witness:
  "\<exists>c. ValidateAccessToken demo_jwt demo_env (14 * minute)
      (put_claims ''s3cret'' (on_the_wire (access_claims demo 0 ''u1'' ''acme'' ''admin'' [] AccessTokenTTL))) = Ret (Inr c)
    \<and> ac_TenantID c = ''acme''"
proof -
  have "IssueAccessToken demo demo_jwt demo_env 0 ''u1'' ''acme'' ''admin'' [] AccessTokenTTL = Ret (Inr
      (put_claims ''s3cret'' (on_the_wire (access_claims demo 0 ''u1'' ''acme'' ''admin'' [] AccessTokenTTL))))"
    by (simp add: IssueAccessToken_def signingKey_simps)
  from access_token_roundtrip [OF jwt_ok_demo _ this, of "14 * minute"] show ?thesis
    by (auto simp: whole_second_def AccessTokenTTL_def dur_defs)
qed

text \<open>C4: Exactly which tokens open the program: \<open>ValidateAccessToken\<close> returns the claims of a token if and only if a
  secret is set, the token decodes, its method is one of the HMAC methods, its signature is right under the secret,
  and the dates that it has allow it; a token of another method, one signed with another key, and everything while no
  secret is set are refused.  A token without an expiry is accepted at all times.\<close>

theorem access_token_sound:
  assumes "jwt_ok J"
  shows "ValidateAccessToken J env now raw = Ret (Inr c) \<longleftrightarrow>
    (\<exists>t. jwt_unverified J raw = Some t \<and> tk_claims t = c \<and> tk_hmac t \<and>
      env ''LOXTU_JWT_SECRET'' \<noteq> '''' \<and> jwt_verifies J raw (env ''LOXTU_JWT_SECRET'') \<and>
      (\<forall>e. ac_ExpiresAt c = Some e \<longrightarrow> now < e) \<and> (\<forall>b. ac_NotBefore c = Some b \<longrightarrow> b \<le> now))"
  unfolding validate_iff [OF assms] by (auto simp: dates_valid_def split: option.splits)

lemma access_token_sound_witness:
  "ValidateAccessToken demo_jwt demo_env 1
     (put_claims ''s3cret'' (access_claims demo 0 ''u1'' ''acme'' ''admin'' [] AccessTokenTTL))
   = Ret (Inr (access_claims demo 0 ''u1'' ''acme'' ''admin'' [] AccessTokenTTL)) \<and>
   ValidateAccessToken demo_jwt demo_env 1
     (put_claims ''other'' (access_claims demo 0 ''u1'' ''acme'' ''admin'' [] AccessTokenTTL))
   \<noteq> Ret (Inr (access_claims demo 0 ''u1'' ''acme'' ''admin'' [] AccessTokenTTL))"
  unfolding access_token_sound [OF jwt_ok_demo] by (simp add: AccessTokenTTL_def dur_defs)

end
