(* ===== verification/SessionRepo.thy ===== *)
theory SessionRepo
  imports Surreal Session
begin

text \<open>
  The SurrealDB store of refresh-token sessions (session_repo.go).  \<open>sessions\<close> has a unique index
  on \<open>token_hash\<close> (migrations/tenant_template/003_sessions.surrealql), so the table is a map from
  token hashes to rows; from what the statements do to it the repository keeps the contract
  \<open>session_store\<close>.
\<close>

definition sql_session_create :: string where
  "sql_session_create = ''CREATE sessions SET user_id = $uid, token_hash = $hash, expires_at = time::from_unix($expires), created_at = time::now()''"

definition sql_session_find :: string where
  "sql_session_find = ''SELECT * FROM sessions WHERE token_hash = $hash LIMIT 1''"

definition sql_session_revoke_user :: string where
  "sql_session_revoke_user = ''DELETE sessions WHERE user_id = $uid''"

definition sql_session_revoke_hash :: string where
  "sql_session_revoke_hash = ''DELETE sessions WHERE token_hash = $hash''"

definition sql_session_cleanup :: string where
  "sql_session_cleanup = ''DELETE sessions WHERE expires_at < time::now()''"

lemmas sql_session_defs = sql_session_create_def sql_session_find_def sql_session_revoke_user_def
  sql_session_revoke_hash_def sql_session_cleanup_def

lemma sql_session_distinct [simp]:
  "distinct [sql_session_create, sql_session_find, sql_session_revoke_user, sql_session_revoke_hash, sql_session_cleanup]"
  by (simp add: sql_session_defs)

lemmas sql_session_neqs [simp] = sql_session_distinct [simplified distinct.simps list.set insert_iff empty_iff de_Morgan_disj simp_thms]

definition unix :: "time \<Rightarrow> int" where "unix t = t div second"

definition map_err :: "(goerr + 'a) \<times> 'd \<Rightarrow> goerr option \<times> 'd" where
  "map_err r = ((case fst r of Inl e \<Rightarrow> Some e | Inr _ \<Rightarrow> None), snd r)"

lemma map_err_simps [simp]: "map_err (Inl e, d) = (Some e, d)" "map_err (Inr x, d) = (None, d)"
  by (simp_all add: map_err_def)

definition session_RevokeByUserID :: "'d db option \<Rightarrow> ctx \<Rightarrow> string \<Rightarrow> 'd \<Rightarrow> goerr option \<times> 'd" where
  "session_RevokeByUserID pool c userID d =
     (case pool of None \<Rightarrow> (Some no_db, d)
      | Some db \<Rightarrow> map_err (tenant_Query db c sql_session_revoke_user [(''uid'', AStr userID)] d))"

definition session_Create :: "'d db option \<Rightarrow> ctx \<Rightarrow> Session \<Rightarrow> 'd \<Rightarrow> goerr option \<times> 'd" where
  "session_Create pool c session d =
     (case pool of
        None \<Rightarrow> (Some no_db, d)
      | Some db \<Rightarrow>
          (let d1 = (if se_UserID session \<noteq> '''' then snd (session_RevokeByUserID pool c (se_UserID session) d)
                     else d)
           in wrap_err ''create session: '' (tenant_Query db c sql_session_create
                [(''uid'', AStr (se_UserID session)), (''hash'', AStr (se_TokenHash session)),
                 (''expires'', AInt (unix (se_ExpiresAt session)))] d1)))"

definition session_of_row :: "golib \<Rightarrow> string \<Rightarrow> row \<Rightarrow> Session" where
  "session_of_row L tokenHash rm =
     \<lparr>se_UserID = str_or_empty (get rm ''user_id''),
      se_TokenHash = tokenHash,
      se_ExpiresAt = (case parseTime L (get rm ''expires_at'') of (t, ok) \<Rightarrow> if ok then t else zero_time),
      se_CreatedAt = (case parseTime L (get rm ''created_at'') of (t, ok) \<Rightarrow> if ok then t else zero_time)\<rparr>"

definition session_FindByTokenHash :: "golib \<Rightarrow> 'd db option \<Rightarrow> ctx \<Rightarrow> string \<Rightarrow> 'd
    \<Rightarrow> (goerr + Session option) \<times> 'd" where
  "session_FindByTokenHash L pool c tokenHash d =
     (case pool of
        None \<Rightarrow> (Inl no_db, d)
      | Some db \<Rightarrow>
          (case tenant_Query db c sql_session_find [(''hash'', AStr tokenHash)] d of
             (Inl e, d1) \<Rightarrow> (Inl e, d1)
           | (Inr results, d1) \<Rightarrow>
               (case first_map results of
                  None \<Rightarrow> (Inr None, d1)
                | Some None \<Rightarrow> (Inr None, d1)
                | Some (Some rm) \<Rightarrow> (Inr (Some (session_of_row L tokenHash rm)), d1))))"

definition session_RevokeByTokenHash :: "'d db option \<Rightarrow> ctx \<Rightarrow> string \<Rightarrow> 'd \<Rightarrow> goerr option \<times> 'd" where
  "session_RevokeByTokenHash pool c tokenHash d =
     (case pool of None \<Rightarrow> (Some no_db, d)
      | Some db \<Rightarrow> map_err (tenant_Query db c sql_session_revoke_hash [(''hash'', AStr tokenHash)] d))"

definition session_CleanupExpired :: "'d db option \<Rightarrow> ctx \<Rightarrow> 'd \<Rightarrow> goerr option \<times> 'd" where
  "session_CleanupExpired pool c d =
     (case pool of None \<Rightarrow> (Some no_db, d)
      | Some db \<Rightarrow> map_err (tenant_Query db c sql_session_cleanup [] d))"

definition SessionRepo :: "golib \<Rightarrow> 'd db option \<Rightarrow> 'd SessionStore" where
  "SessionRepo L pool = \<lparr>ss_Create = session_Create pool,
     ss_FindByTokenHash = session_FindByTokenHash L pool,
     ss_RevokeByUserID = session_RevokeByUserID pool,
     ss_RevokeByTokenHash = session_RevokeByTokenHash pool,
     ss_CleanupExpired = session_CleanupExpired pool\<rparr>"

section \<open>What the statements do\<close>

definition session_view :: "'d db \<Rightarrow> (string \<Rightarrow> 'd \<Rightarrow> string \<Rightarrow> row option) \<Rightarrow> golib \<Rightarrow> ctx \<Rightarrow> 'd \<Rightarrow> string \<Rightarrow> Session option" where
  "session_view db tbl L c d h = map_option (session_of_row L h) (tbl (ns_of db c) d h)"

locale surreal_sessions =
  fixes db :: "'d db"
    and tbl :: "string \<Rightarrow> 'd \<Rightarrow> string \<Rightarrow> row option"
  assumes row_user: "tbl ns d h = Some rm \<Longrightarrow> \<exists>u. get rm ''user_id'' = AStr u"
    and find_row: "db_Query db c ns ns sql_session_find [(''hash'', AStr h)] d =
      (Inr [AList (case tbl ns d h of None \<Rightarrow> [] | Some rm \<Rightarrow> [AMap rm])], d)"
    and create_row: "tbl ns d h = None \<Longrightarrow> \<exists>res d' rm. db_Query db c ns ns sql_session_create
        [(''uid'', AStr u), (''hash'', AStr h), (''expires'', AInt e)] d = (Inr res, d')
      \<and> get rm ''user_id'' = AStr u \<and> (\<forall>h'. tbl ns d' h' = (if h' = h then Some rm else tbl ns d h'))"
    and create_taken: "tbl ns d h = Some rm \<Longrightarrow> \<exists>err d'. db_Query db c ns ns sql_session_create
        [(''uid'', AStr u), (''hash'', AStr h), (''expires'', AInt e)] d = (Inl err, d')
      \<and> tbl ns d' = tbl ns d"
    and revoke_rows: "\<exists>res d'. db_Query db c ns ns sql_session_revoke_user [(''uid'', AStr u)] d = (Inr res, d')
      \<and> (\<forall>h. tbl ns d' h = (case tbl ns d h of None \<Rightarrow> None
           | Some rm \<Rightarrow> if get rm ''user_id'' = AStr u then None else Some rm))"
begin

lemma revoke_cases:
  obtains d' where "session_RevokeByUserID (Some db) c u d = (None, d')"
    and "\<And>h. tbl (ns_of db c) d' h = (case tbl (ns_of db c) d h of None \<Rightarrow> None
           | Some rm \<Rightarrow> if get rm ''user_id'' = AStr u then None else Some rm)"
  using revoke_rows [of c "ns_of db c" u d] that
  by (fastforce simp: session_RevokeByUserID_def tenant_Query_def)

lemma row_user_id:
  "tbl ns d h = Some rm \<Longrightarrow> get rm ''user_id'' = AStr u \<longleftrightarrow> se_UserID (session_of_row L h' rm) = u"
  using row_user [of ns d h rm] by (auto simp: session_of_row_def)

lemma revoke_view_repo:
  "session_view db tbl L c (snd (session_RevokeByUserID (Some db) c u d)) h =
    (case session_view db tbl L c d h of Some y \<Rightarrow> if se_UserID y = u then None else Some y | None \<Rightarrow> None)"
  by (rule revoke_cases [of c u d])
     (auto simp: session_view_def row_user_id [where L = L and h' = h] split: option.splits)

text \<open>Rows under another hash are those that the revocation before the insertion leaves.\<close>

lemma create_cases:
  fixes x :: Session and c d
  defines "e \<equiv> unix (se_ExpiresAt x)"
  defines "d1 \<equiv> (if se_UserID x \<noteq> '''' then snd (session_RevokeByUserID (Some db) c (se_UserID x) d) else d)"
  shows "session_Create (Some db) c x d = wrap_err ''create session: ''
      (db_Query db c (ns_of db c) (ns_of db c) sql_session_create
        [(''uid'', AStr (se_UserID x)), (''hash'', AStr (se_TokenHash x)), (''expires'', AInt e)] d1)"
  by (simp add: session_Create_def tenant_Query_def e_def d1_def)

lemma create_other_rows:
  assumes "h \<noteq> se_TokenHash x"
  shows "tbl (ns_of db c) (snd (session_Create (Some db) c x d)) h =
    tbl (ns_of db c) (if se_UserID x \<noteq> '''' then snd (session_RevokeByUserID (Some db) c (se_UserID x) d) else d) h"
proof -
  let ?d1 = "if se_UserID x \<noteq> '''' then snd (session_RevokeByUserID (Some db) c (se_UserID x) d) else d"
  let ?e = "unix (se_ExpiresAt x)"
  note cc = create_cases [of c x d]
  show ?thesis
  proof (cases "tbl (ns_of db c) ?d1 (se_TokenHash x)")
    case None
    with create_row [OF None, of c "se_UserID x" ?e] assms cc show ?thesis by auto
  next
    case (Some rm)
    with create_taken [OF Some, of c "se_UserID x" ?e] assms cc show ?thesis by auto
  qed
qed

lemma create_view_others:
  assumes "h \<noteq> se_TokenHash x"
  shows "session_view db tbl L c (snd (session_Create (Some db) c x d)) h =
    (case session_view db tbl L c d h of
       Some y \<Rightarrow> if se_UserID x \<noteq> [] \<and> se_UserID y = se_UserID x then None else Some y | None \<Rightarrow> None)"
proof (cases "se_UserID x = []")
  case True
  with create_other_rows [OF assms, of c d] show ?thesis
    by (simp add: session_view_def split: option.splits)
next
  case False
  with create_other_rows [OF assms, of c d] have "session_view db tbl L c (snd (session_Create (Some db) c x d)) h
    = session_view db tbl L c (snd (session_RevokeByUserID (Some db) c (se_UserID x) d)) h"
    by (simp add: session_view_def)
  with False show ?thesis by (simp add: revoke_view_repo split: option.splits)
qed

lemma create_view_new:
  assumes "session_view db tbl L c d (se_TokenHash x) = None"
  shows "fst (session_Create (Some db) c x d) = None \<and>
    (\<exists>y. session_view db tbl L c (snd (session_Create (Some db) c x d)) (se_TokenHash x) = Some y \<and> se_UserID y = se_UserID x)"
proof -
  let ?d1 = "if se_UserID x \<noteq> '''' then snd (session_RevokeByUserID (Some db) c (se_UserID x) d) else d"
  have "session_view db tbl L c ?d1 (se_TokenHash x) = None" using assms by (simp add: revoke_view_repo)
  then have "tbl (ns_of db c) ?d1 (se_TokenHash x) = None" by (simp add: session_view_def)
  from create_row [OF this, of c "se_UserID x" "unix (se_ExpiresAt x)"] create_cases [of c x d]
  show ?thesis by (auto simp: session_view_def session_of_row_def)
qed

end

sublocale surreal_sessions \<subseteq> repo: session_store "SessionRepo L (Some db)" "session_view db tbl L"
proof
  fix c h d
  show "ss_FindByTokenHash (SessionRepo L (Some db)) c h d = (Inr (session_view db tbl L c d h), d)"
    by (simp add: SessionRepo_def session_FindByTokenHash_def tenant_Query_def find_row session_view_def
        split: option.splits)
next
  fix c d and x :: Session
  assume "session_view db tbl L c d (se_TokenHash x) = None"
  then show "fst (ss_Create (SessionRepo L (Some db)) c x d) = None \<and> (\<exists>y. session_view db tbl L c
      (snd (ss_Create (SessionRepo L (Some db)) c x d)) (se_TokenHash x) = Some y \<and> se_UserID y = se_UserID x)"
    by (simp add: SessionRepo_def create_view_new)
next
  fix h c d and x :: Session
  assume "h \<noteq> se_TokenHash x"
  then show "session_view db tbl L c (snd (ss_Create (SessionRepo L (Some db)) c x d)) h =
    (case session_view db tbl L c d h of Some y \<Rightarrow>
       if se_UserID x \<noteq> [] \<and> se_UserID y = se_UserID x then None else Some y | None \<Rightarrow> None)"
    by (simp add: SessionRepo_def create_view_others)
next
  fix c u d
  show "fst (ss_RevokeByUserID (SessionRepo L (Some db)) c u d) = None"
    by (rule revoke_cases [of c u d]) (simp add: SessionRepo_def)
next
  fix c u d h
  show "session_view db tbl L c (snd (ss_RevokeByUserID (SessionRepo L (Some db)) c u d)) h =
    (case session_view db tbl L c d h of Some y \<Rightarrow> if se_UserID y = u then None else Some y | None \<Rightarrow> None)"
    by (simp add: SessionRepo_def revoke_view_repo)
qed

end
