(* ===== verification/IdentityDb.thy ===== *)
theory IdentityDb
  imports UserRepo SessionRepo
begin

text \<open>
  The user and the session repository over one database: together they keep the contract of the
  session service (theory Session).  A small database that runs the statements of both is given
  in closed form; it satisfies the hypotheses and serves the closed examples.
\<close>

locale surreal_identity = surreal_users db rows + surreal_sessions db tbl
  for db :: "'d db" and rows and tbl +
  assumes revoke_keeps_users: "rows ns (snd (db_Query db c ns' ns' sql_session_revoke_user vs d)) = rows ns d"

sublocale surreal_identity \<subseteq> svc: token_service "UserRepository L rd (Some db)"
    "\<lambda>c d. map mapUserRowV2 (rows (ns_of db c) d)" "SessionRepo L (Some db)" "session_view db tbl L"
proof
  fix c u and w :: 'd
  have "session_RevokeByUserID (Some db) c u w
    = map_err (db_Query db c (ns_of db c) (ns_of db c) sql_session_revoke_user [(''uid'', AStr u)] w)"
    by (simp add: session_RevokeByUserID_def tenant_Query_def)
  then have "snd (session_RevokeByUserID (Some db) c u w)
    = snd (db_Query db c (ns_of db c) (ns_of db c) sql_session_revoke_user [(''uid'', AStr u)] w)"
    by (simp add: map_err_def)
  then show "map mapUserRowV2 (rows (ns_of db c) (snd (ss_RevokeByUserID (SessionRepo L (Some db)) c u w))) =
      map mapUserRowV2 (rows (ns_of db c) w)"
    by (simp add: SessionRepo_def revoke_keeps_users)
qed

context surreal_identity
begin

lemma is_service: "token_service (UserRepository L rd (Some db)) (\<lambda>c d. map mapUserRowV2 (rows (ns_of db c) d))
    (SessionRepo L (Some db)) (session_view db tbl L)"
  by (rule svc.token_service_axioms)

end

section \<open>A small database\<close>

text \<open>
  A namespace has a list of user rows, of which the ones with their keys count, and a map from
  token hashes to the user id and the expiry of a session.
\<close>

record mini =
  mi_users :: "string \<Rightarrow> row list"
  mi_sessions :: "string \<Rightarrow> string \<Rightarrow> (string \<times> int) option"

definition demo_reads :: user_reads where
  "demo_reads = \<lparr>ur_uuid = ''u9'', ur_dek = Inr (''dek'', ''enc''), ur_created = 0, ur_updated = 0\<rparr>"

definition mini0 :: mini where
  "mini0 = \<lparr>mi_users = (\<lambda>_. []), mi_sessions = (\<lambda>_ _. None)\<rparr>"

definition mini_rows :: "string \<Rightarrow> mini \<Rightarrow> row list" where
  "mini_rows ns d = filter keyed (mi_users d ns)"

definition session_row :: "string \<Rightarrow> string \<times> int \<Rightarrow> row" where
  "session_row h = (\<lambda>(u, e). [(''user_id'', AStr u), (''token_hash'', AStr h),
     (''expires_at'', ACustomTime (e * second)), (''created_at'', ACustomTime 0)])"

definition mini_tbl :: "string \<Rightarrow> mini \<Rightarrow> string \<Rightarrow> row option" where
  "mini_tbl ns d h = map_option (session_row h) (mi_sessions d ns h)"

fun var1 :: "vars \<Rightarrow> string" where
  "var1 [(_, AStr x)] = x"
| "var1 _ = []"

definition mini_create_user :: "string \<Rightarrow> vars \<Rightarrow> mini \<Rightarrow> (goerr + any list) \<times> mini" where
  "mini_create_user ns vs d =
     (if list_ex (\<lambda>rm. list_ex (\<lambda>k. get rm k = get vs k) [''user_id'', ''user_id_hash'', ''email_hash''])
           (mini_rows ns d)
      then (Inl ''unique index'', d)
      else (Inr [AList [AMap (created_row vs)]],
            d\<lparr>mi_users := (mi_users d)(ns := mini_rows ns d @ [created_row vs])\<rparr>))"

fun mini_create_session :: "string \<Rightarrow> vars \<Rightarrow> mini \<Rightarrow> (goerr + any list) \<times> mini" where
  "mini_create_session ns [(_, AStr u), (_, AStr h), (_, AInt e)] d =
     (if mi_sessions d ns h = None
      then (Inr [ANil], d\<lparr>mi_sessions := (mi_sessions d)(ns := (mi_sessions d ns)(h := Some (u, e)))\<rparr>)
      else (Inl ''unique index'', d))"
| "mini_create_session ns _ d = (Inl ''bad variables'', d)"

definition mini_revoke :: "string \<Rightarrow> string \<Rightarrow> mini \<Rightarrow> mini" where
  "mini_revoke ns u d = d\<lparr>mi_sessions := (mi_sessions d)(ns := (\<lambda>h. case mi_sessions d ns h of
      Some x \<Rightarrow> if fst x = u then None else Some x | None \<Rightarrow> None))\<rparr>"

text \<open>An UPDATE of the users, from the text of the statement; one that would leave a row without a key is refused.\<close>

definition mini_update :: "string \<Rightarrow> string \<Rightarrow> vars \<Rightarrow> mini \<Rightarrow> (goerr + any list) \<times> mini" where
  "mini_update ns sql vs d =
     (case parse_update sql of
        Some (tab, xs, col, x) \<Rightarrow>
          (let rms = map (\<lambda>rm. if get rm col = get vs x then assigned xs vs demo_sql_reads rm else rm) (mini_rows ns d)
           in if tab = ''users'' \<and> list_all keyed rms then (Inr [ANil], d\<lparr>mi_users := (mi_users d)(ns := rms)\<rparr>)
              else (Inl ''refused'', d))
      | None \<Rightarrow> (Inl ''unknown statement'', d))"

definition mini_db :: "mini db" where
  "mini_db = \<lparr>db_Query = (\<lambda>c ns dbn sql vs d.
     if sql = sql_user_by_id then (Inr (first_where ''user_id'' (var1 vs) (mini_rows ns d)), d)
     else if sql = sql_user_by_email then (Inr (first_where ''email_hash'' (var1 vs) (mini_rows ns d)), d)
     else if sql = sql_user_by_hash then (Inr (first_where ''user_id_hash'' (var1 vs) (mini_rows ns d)), d)
     else if sql = sql_user_create then mini_create_user ns vs d
     else if sql = sql_session_find then
       (Inr [AList (case mini_tbl ns d (var1 vs) of None \<Rightarrow> [] | Some rm \<Rightarrow> [AMap rm])], d)
     else if sql = sql_session_create then mini_create_session ns vs d
     else if sql = sql_session_revoke_user then (Inr [ANil], mini_revoke ns (var1 vs) d)
     else mini_update ns sql vs d), db_defaultNS = ''public''\<rparr>"

lemma sql_user_session_neqs [simp]:
  "sql_session_create \<notin> {sql_user_create, sql_user_by_id, sql_user_by_email, sql_user_by_hash, sql_user_update, sql_user_erase}"
  "sql_session_find \<notin> {sql_user_create, sql_user_by_id, sql_user_by_email, sql_user_by_hash, sql_user_update, sql_user_erase}"
  "sql_session_revoke_user \<notin> {sql_user_create, sql_user_by_id, sql_user_by_email, sql_user_by_hash, sql_user_update, sql_user_erase}"
  by (simp_all add: sql_user_defs sql_session_defs)

lemmas sql_cross_neqs [simp] =
  sql_user_session_neqs [simplified insert_iff empty_iff de_Morgan_disj simp_thms]

lemma mini_db_simps [simp]:
  "db_Query mini_db c ns n' sql_user_by_id vs d = (Inr (first_where ''user_id'' (var1 vs) (mini_rows ns d)), d)"
  "db_Query mini_db c ns n' sql_user_by_email vs d = (Inr (first_where ''email_hash'' (var1 vs) (mini_rows ns d)), d)"
  "db_Query mini_db c ns n' sql_user_by_hash vs d = (Inr (first_where ''user_id_hash'' (var1 vs) (mini_rows ns d)), d)"
  "db_Query mini_db c ns n' sql_user_create vs d = mini_create_user ns vs d"
  "db_Query mini_db c ns n' sql_session_find vs d =
     (Inr [AList (case mini_tbl ns d (var1 vs) of None \<Rightarrow> [] | Some rm \<Rightarrow> [AMap rm])], d)"
  "db_Query mini_db c ns n' sql_session_create vs d = mini_create_session ns vs d"
  "db_Query mini_db c ns n' sql_session_revoke_user vs d = (Inr [ANil], mini_revoke ns (var1 vs) d)"
  "db_defaultNS mini_db = ''public''"
  by (simp_all add: mini_db_def sql_user_defs sql_session_defs)

lemma mini_not_updates:
  "parse_update sql_user_by_id = None" "parse_update sql_user_by_email = None" "parse_update sql_user_by_hash = None"
  "parse_update sql_user_create = None" "parse_update sql_session_find = None" "parse_update sql_session_create = None"
  "parse_update sql_session_revoke_user = None"
  unfolding sql_user_defs sql_session_defs by code_simp+

lemma mini_db_update:
  assumes "parse_update sql = Some u"
  shows "db_Query mini_db c ns n' sql vs d = mini_update ns sql vs d"
  using assms mini_not_updates by (auto simp: mini_db_def)

lemma mini_runs_updates: "runs_updates mini_db ''users'' mini_rows"
  unfolding runs_updates_def
proof (intro allI impI)
  fix c ns sql vs d xs col x
  assume p: "parse_update sql = Some (''users'', xs, col, x)"
  let ?rms = "map (\<lambda>rm. if get rm col = get vs x then assigned xs vs demo_sql_reads rm else rm) (mini_rows ns d)"
  show "case db_Query mini_db c ns ns sql vs d of (Inl e, d') \<Rightarrow> mini_rows ns d' = mini_rows ns d
    | (Inr res, d') \<Rightarrow> \<exists>rs. (\<forall>rm. sql_reads_ok (rs rm)) \<and>
        mini_rows ns d' = map (\<lambda>rm. if get rm col = get vs x then assigned xs vs (rs rm) rm else rm) (mini_rows ns d)"
  proof (cases "list_all keyed ?rms")
    case True
    then have "filter keyed ?rms = ?rms" by (simp add: list_all_iff filter_True)
    then have "mini_rows ns (d\<lparr>mi_users := (mi_users d)(ns := ?rms)\<rparr>) = ?rms" by (simp add: mini_rows_def)
    moreover have "db_Query mini_db c ns ns sql vs d = (Inr [ANil], d\<lparr>mi_users := (mi_users d)(ns := ?rms)\<rparr>)"
      using True unfolding mini_db_update [OF p] mini_update_def p by (simp only: option.case prod.case Let_def if_True simp_thms)
    ultimately show ?thesis by (intro case_prodI2) (auto intro!: exI [of _ "\<lambda>_. demo_sql_reads"])
  next
    case False
    then have "db_Query mini_db c ns ns sql vs d = (Inl ''refused'', d)"
      unfolding mini_db_update [OF p] mini_update_def p by (simp only: option.case prod.case Let_def if_False simp_thms)
    then show ?thesis by simp
  qed
qed

lemma mini_revoke_simps:
  "mini_rows ns (mini_revoke ns' u d) = mini_rows ns d"
  "mini_tbl ns (mini_revoke ns u d) h = (case mini_tbl ns d h of None \<Rightarrow> None
     | Some rm \<Rightarrow> if get rm ''user_id'' = AStr u then None else Some rm)"
  by (auto simp: mini_rows_def mini_revoke_def mini_tbl_def session_row_def split: option.splits)

interpretation mini: surreal_identity mini_db mini_rows mini_tbl
proof
  fix rm ns d
  assume "rm \<in> set (mini_rows ns d)"
  then show "keyed rm" by (simp add: mini_rows_def)
next
  fix vs ns d c
  assume "keyed (created_row vs)"
    "\<forall>rm\<in>set (mini_rows ns d). \<forall>k\<in>{''user_id'', ''user_id_hash'', ''email_hash''}. get rm k \<noteq> get vs k"
  then show "\<exists>res d'. db_Query mini_db c ns ns sql_user_create vs d = (Inr res, d')
      \<and> mini_rows ns d' = mini_rows ns d @ [created_row vs]"
    by (auto simp: mini_create_user_def list_ex_iff) (auto simp: mini_rows_def)
next
  show "runs_updates mini_db ''users'' mini_rows" by (rule mini_runs_updates)
next
  fix ns d h rm
  assume "mini_tbl ns d h = Some rm"
  then show "\<exists>u. get rm ''user_id'' = AStr u" by (auto simp: mini_tbl_def session_row_def)
next
  fix ns d h c u e
  assume "mini_tbl ns d h = None"
  then show "\<exists>res d' rm. db_Query mini_db c ns ns sql_session_create
        [(''uid'', AStr u), (''hash'', AStr h), (''expires'', AInt e)] d = (Inr res, d')
      \<and> get rm ''user_id'' = AStr u \<and> (\<forall>h'. mini_tbl ns d' h' = (if h' = h then Some rm else mini_tbl ns d h'))"
    by (intro exI [of _ "session_row h (u, e)"] exI) (auto simp: mini_tbl_def session_row_def)
next
  fix ns d h rm c u e
  assume "mini_tbl ns d h = Some rm"
  then show "\<exists>err d'. db_Query mini_db c ns ns sql_session_create
        [(''uid'', AStr u), (''hash'', AStr h), (''expires'', AInt e)] d = (Inl err, d') \<and> mini_tbl ns d' = mini_tbl ns d"
    by (auto simp: mini_tbl_def)
qed (simp_all add: mini_revoke_simps)

section \<open>Properties\<close>

text \<open>C23: The session service over SurrealDB: from what the statements of the two repositories do, the user
  lookups and the session operations keep the contract the service is proved against.\<close>

theorem surreal_session_service:
  assumes "surreal_identity db rows tbl"
  shows "token_service (UserRepository L rd (Some db)) (\<lambda>c d. map mapUserRowV2 (rows (ns_of db c) d))
    (SessionRepo L (Some db)) (session_view db tbl L)"
  by (rule surreal_identity.is_service [OF assms])

lemma surreal_session_service_witness:
  "token_service (UserRepository demo demo_reads (Some mini_db)) (\<lambda>c d. map mapUserRowV2 (mini_rows (ns_of mini_db c) d))
    (SessionRepo demo (Some mini_db)) (session_view mini_db mini_tbl demo)"
  by (rule surreal_session_service [OF mini.surreal_identity_axioms])

text \<open>C3: One session per user.  When \<open>IssueSession\<close> succeeds with a fresh refresh hash, that
  hash is the only one under which the store has a session of the user, and the sessions of other
  users are what they were.\<close>

theorem one_session_per_user:
  assumes "session_store ss view" and "sas_sessions svc = Some ss" and "u \<noteq> ''''"
    and "IssueSession L J env svc c ir u t r ps w = (Ret (pair, None), w')"
    and "view c w (tp_RefreshHash pair) = None"
  shows "{h. \<exists>y. view c w' h = Some y \<and> se_UserID y = u} = {tp_RefreshHash pair} \<and>
    (\<forall>h y. se_UserID y \<noteq> u \<longrightarrow> (view c w' h = Some y \<longleftrightarrow> view c w h = Some y))"
proof (intro conjI allI impI iffI)
  note one = session_store.issue_one_session [OF assms]
  show "{h. \<exists>y. view c w' h = Some y \<and> se_UserID y = u} = {tp_RefreshHash pair}"
    using one(1,2) by blast
  show "view c w h = Some y" if "se_UserID y \<noteq> u" "view c w' h = Some y" for h y
    using one(3) that by blast
  show "view c w' h = Some y" if "se_UserID y \<noteq> u" "view c w h = Some y" for h y
    using one(4) [OF that(2,1)] assms(5) that(2) by fastforce
qed

text \<open>A refresh token is used up by \<open>Rotate\<close>: whether the call succeeds or fails, the session of the
  old token is gone, and presenting the token again answers ''session not found'' and changes
  nothing.\<close>

theorem rotate_single_use:
  assumes "token_service us users ss view" and "sas_sessions svc = Some ss" and "sas_users svc = Some us"
    and "Rotate L J env svc c ir p w = (Ret (pair, err), w')"
    and "tp_RefreshHash pair \<noteq> HashToken L p"
  shows "view c w' (HashToken L p) = None \<and>
    Rotate L J env svc c ir' p w' = (Ret (no_pair, Some ''session not found''), w')"
  using token_service.rotate_consumes [OF assms] token_service.rotate_unknown [OF assms(1-3)] by blast

text \<open>The expiry of a session is not looked at.  A refresh token whose session expired long ago is
  rotated into a new pair and a new session like any other: the hypotheses do not mention
  \<open>se_ExpiresAt\<close>, and the conclusion gives a session that lasts 30 more days.\<close>

theorem rotate_ignores_expiry:
  assumes "token_service us users ss view" and "sas_sessions svc = Some ss" and "sas_users svc = Some us"
    and "jwt_ok J" and "env ''LOXTU_JWT_SECRET'' \<noteq> ''''" and "ir_rand ir 32 = Inr b"
    and "view c w (HashToken L p) = Some y"
    and "find (\<lambda>x. u_UserID x = se_UserID y) (users c w) = Some x"
    and "view c w (HashToken L (hex_EncodeToString b)) = None"
  shows "\<exists>pair w'. Rotate L J env svc c ir p w = (Ret (pair, None), w') \<and>
    (\<exists>z. view c w' (tp_RefreshHash pair) = Some z \<and> se_UserID z = se_UserID y) \<and>
    tp_ExpiresAt pair = ir_refresh ir + RefreshTokenTTL"
proof -
  obtain pair w' where "Rotate L J env svc c ir p w = (Ret (pair, None), w')"
    and "\<exists>z. view c w' (tp_RefreshHash pair) = Some z \<and> se_UserID z = se_UserID y"
    and "Issue L J env svc ir (se_UserID y) (u_TenantID x) (u_Role x) (u_Permissions x) = Ret (Inr pair)"
    using token_service.rotate_ok [where view = view and c = c and w = w and L = L and p = p and y = y and b = b and ir = ir
        and env = env and J = J and svc = svc
        and x = x and users = users, OF assms] by blast
  then show ?thesis using Issue_Ret(3) by blast
qed

text \<open>\<open>Rotate\<close> fails closed: when the session's user no longer exists no token is issued, and all the
  sessions of that user are revoked.\<close>

theorem rotate_fails_closed:
  assumes "token_service us users ss view" and "sas_sessions svc = Some ss" and "sas_users svc = Some us"
    and "view c w (HashToken L p) = Some y"
    and "find (\<lambda>x. u_UserID x = se_UserID y) (users c w) = None"
  shows "\<exists>w'. Rotate L J env svc c ir p w = (Ret (no_pair, Some ''user not found for session''), w') \<and>
    (\<forall>h z. view c w' h = Some z \<longrightarrow> se_UserID z \<noteq> se_UserID y)"
  using token_service.rotate_cases [OF assms(1-3), of L J env c ir p w] assms(4,5)
    session_store.revoke_view [OF token_service.axioms(2) [OF assms(1)]]
  by (auto simp: Let_def split: option.splits if_splits)

subsection \<open>Closed examples\<close>

definition demo_row :: row where
  "demo_row = [(''user_id'', AStr ''u1''), (''user_id_hash'', AStr ''h1''), (''email_hash'', AStr ''e1''),
     (''tenant_id'', AStr ''acme''), (''role'', AStr ''admin''), (''encrypted_dek'', ABytes ''key'')]"

text \<open>The user u1 and an expired session for the refresh token ''old''; ''gone'' is a session without a user.\<close>

definition demo_world :: mini where
  "demo_world = \<lparr>mi_users = (\<lambda>_. [demo_row]),
     mi_sessions = (\<lambda>_. [HashToken demo ''old'' \<mapsto> (''u1'', 5), HashToken demo ''gone'' \<mapsto> (''u2'', 5)])\<rparr>"

definition demo_svc :: "mini SessionAuthService" where
  "demo_svc = NewTokenService (Some (UserRepository demo demo_reads (Some mini_db))) (Some (SessionRepo demo (Some mini_db)))"

definition demo_issue :: issue_reads where
  "demo_issue = \<lparr>ir_access = 1000 * second, ir_refresh = 1000 * second, ir_created = 1000 * second,
     ir_rand = (\<lambda>n. Inr (replicate n CHR ''q''))\<rparr>"

lemma demo_svc_simps [simp]:
  "sas_sessions demo_svc = Some (SessionRepo demo (Some mini_db))"
  "sas_users demo_svc = Some (UserRepository demo demo_reads (Some mini_db))"
  by (simp_all add: demo_svc_def NewTokenService_def NewSessionAuthService_def)

lemma demo_hash_neqs [simp]:
  "HashToken demo ''old'' \<noteq> HashToken demo ''gone''"
  "HashToken demo (hex_EncodeToString (replicate 32 CHR ''q'')) \<noteq> HashToken demo ''old''"
  "HashToken demo (hex_EncodeToString (replicate 32 CHR ''q'')) \<noteq> HashToken demo ''gone''"
  unfolding HashToken_def hex_eq_iff by code_simp+

lemma demo_views [simp]:
  "session_view mini_db mini_tbl demo Background demo_world (HashToken demo ''old'') =
     Some (session_of_row demo (HashToken demo ''old'') (session_row (HashToken demo ''old'') (''u1'', 5)))"
  "session_view mini_db mini_tbl demo Background demo_world (HashToken demo ''gone'') =
     Some (session_of_row demo (HashToken demo ''gone'') (session_row (HashToken demo ''gone'') (''u2'', 5)))"
  "session_view mini_db mini_tbl demo Background demo_world (HashToken demo (hex_EncodeToString (replicate 32 CHR ''q''))) = None"
  by (simp_all add: session_view_def mini_tbl_def demo_world_def)

lemma demo_users_rows: "mini_rows ns demo_world = [demo_row]"
  by (simp add: mini_rows_def demo_world_def demo_row_def keyed_def)

lemma demo_users: "map mapUserRowV2 (mini_rows ns demo_world) = [mapUserRowV2 demo_row]"
  by (simp add: mini_rows_def demo_world_def demo_row_def keyed_def)

lemma demo_session_user [simp]: "se_UserID (session_of_row demo h (session_row h (u, e))) = u"
  by (simp add: session_of_row_def session_row_def)

lemma demo_find:
  "find (\<lambda>x. u_UserID x = ''u1'') (map mapUserRowV2 (mini_rows (ns_of mini_db Background) demo_world))
      = Some (mapUserRowV2 demo_row)"
  "find (\<lambda>x. u_UserID x = ''u2'') (map mapUserRowV2 (mini_rows (ns_of mini_db Background) demo_world)) = None"
  unfolding demo_users by (simp_all add: mapUserRowV2_def demo_row_def)

abbreviation "demo_old \<equiv> session_of_row demo (HashToken demo ''old'') (session_row (HashToken demo ''old'') (''u1'', 5))"

lemma demo_issue_rand: "ir_rand demo_issue 32 = Inr (replicate 32 CHR ''q'')"
  by (simp add: demo_issue_def)

lemma rotate_ignores_expiry_witness:
  "\<exists>pair w'. Rotate demo demo_jwt demo_env demo_svc Background demo_issue ''old'' demo_world = (Ret (pair, None), w') \<and>
    tp_ExpiresAt pair = ir_refresh demo_issue + RefreshTokenTTL"
proof -
  have "\<exists>pair w'. Rotate demo demo_jwt demo_env demo_svc Background demo_issue ''old'' demo_world = (Ret (pair, None), w') \<and>
    (\<exists>z. session_view mini_db mini_tbl demo Background w' (tp_RefreshHash pair) = Some z \<and> se_UserID z = se_UserID demo_old) \<and>
    tp_ExpiresAt pair = ir_refresh demo_issue + RefreshTokenTTL"
  proof (rule rotate_ignores_expiry [where y = demo_old and x = "mapUserRowV2 demo_row"
        and users = "\<lambda>c d. map mapUserRowV2 (mini_rows (ns_of mini_db c) d)"])
    show "find (\<lambda>x. u_UserID x = se_UserID demo_old) (map mapUserRowV2 (mini_rows (ns_of mini_db Background) demo_world))
      = Some (mapUserRowV2 demo_row)"
      unfolding demo_session_user by (rule demo_find)
  qed (rule mini.is_service demo_svc_simps jwt_ok_demo demo_issue_rand demo_views | simp)+
  then show ?thesis by blast
qed

lemma rotate_single_use_witness:
  "\<exists>w'. session_view mini_db mini_tbl demo Background w' (HashToken demo ''gone'') = None \<and>
    Rotate demo demo_jwt demo_env demo_svc Background demo_issue ''gone'' w' = (Ret (no_pair, Some ''session not found''), w')"
proof -
  let ?h = "HashToken demo ''gone''"
  obtain w' where r: "Rotate demo demo_jwt demo_env demo_svc Background demo_issue ''gone'' demo_world
      = (Ret (no_pair, Some ''user not found for session''), w')"
    using token_service.rotate_cases [OF mini.is_service demo_svc_simps, where c = Background and w = demo_world
        and p = "''gone''" and L = demo] demo_find(2) by (simp add: Let_def)
  have "tp_RefreshHash no_pair \<noteq> ?h"
    by (simp add: no_pair_def HashToken_def demo_def fill_def)
  from rotate_single_use [OF mini.is_service demo_svc_simps r this] show ?thesis by blast
qed

lemma rotate_fails_closed_witness:
  "\<exists>w'. Rotate demo demo_jwt demo_env demo_svc Background demo_issue ''gone'' demo_world
      = (Ret (no_pair, Some ''user not found for session''), w')"
proof -
  let ?y = "session_of_row demo (HashToken demo ''gone'') (session_row (HashToken demo ''gone'') (''u2'', 5))"
  have "\<exists>w'. Rotate demo demo_jwt demo_env demo_svc Background demo_issue ''gone'' demo_world
      = (Ret (no_pair, Some ''user not found for session''), w') \<and>
    (\<forall>h z. session_view mini_db mini_tbl demo Background w' h = Some z \<longrightarrow> se_UserID z \<noteq> se_UserID ?y)"
  proof (rule rotate_fails_closed [where users = "\<lambda>c d. map mapUserRowV2 (mini_rows (ns_of mini_db c) d)"])
    show "find (\<lambda>x. u_UserID x = se_UserID ?y) (map mapUserRowV2 (mini_rows (ns_of mini_db Background) demo_world)) = None"
      unfolding demo_session_user by (rule demo_find)
  qed (rule mini.is_service demo_svc_simps demo_views)+
  then show ?thesis by blast
qed

lemma one_session_per_user_witness:
  "\<exists>(pair :: TokenPair) w'. {h. \<exists>y. session_view mini_db mini_tbl demo Background w' h = Some y \<and> se_UserID y = ''u1''} = {tp_RefreshHash pair}"
proof -
  let ?h = "HashToken demo (hex_EncodeToString (replicate 32 CHR ''q''))"
  have "\<exists>pair. Issue demo demo_jwt demo_env demo_svc demo_issue ''u1'' ''acme'' ''admin'' [] = Ret (Inr pair) \<and>
      tp_RefreshPlain pair = hex_EncodeToString (replicate 32 CHR ''q'')"
    by (rule Issue_succeeds [OF jwt_ok_demo _ demo_issue_rand]) simp
  then obtain pair where p: "Issue demo demo_jwt demo_env demo_svc demo_issue ''u1'' ''acme'' ''admin'' [] = Ret (Inr pair)"
    "tp_RefreshPlain pair = hex_EncodeToString (replicate 32 CHR ''q'')" by blast
  have h: "tp_RefreshHash pair = ?h" using Issue_Ret(2) [OF p(1)] p(2) by simp
  then have fresh: "session_view mini_db mini_tbl demo Background demo_world (tp_RefreshHash pair) = None" by simp
  let ?x = "\<lparr>se_UserID = ''u1'', se_TokenHash = tp_RefreshHash pair, se_ExpiresAt = tp_ExpiresAt pair,
     se_CreatedAt = ir_created demo_issue\<rparr>"
  have "fst (ss_Create (SessionRepo demo (Some mini_db)) Background ?x demo_world) = None"
  proof -
    have "session_view mini_db mini_tbl demo Background demo_world (se_TokenHash ?x) = None"
      using fresh by (simp only: Stores.Session.select_convs)
    from mini.create_view_new [OF this] show ?thesis unfolding SessionRepo_def SessionStore.select_convs by blast
  qed
  then have iss: "IssueSession demo demo_jwt demo_env demo_svc Background demo_issue ''u1'' ''acme'' ''admin'' [] demo_world
    = (Ret (pair, None), snd (ss_Create (SessionRepo demo (Some mini_db)) Background ?x demo_world))"
    by (simp only: IssueSession_cases [OF demo_svc_simps(1)] p(1) Let_def go.case sum.case option.map)
  have ne: "''u1'' \<noteq> ''''" by simp
  have "{h. \<exists>y. session_view mini_db mini_tbl demo Background
      (snd (ss_Create (SessionRepo demo (Some mini_db)) Background ?x demo_world)) h = Some y \<and> se_UserID y = ''u1''}
    = {tp_RefreshHash pair}"
    by (rule conjunct1 [OF one_session_per_user [OF mini.repo.session_store_axioms demo_svc_simps(1) ne iss fresh]])
  then show ?thesis by blast
qed

lemma erase_shreds_user_witness:
  "fst (user_Erase (Some mini_db) Background ''u1'' demo_world) = None \<and>
   (\<exists>u \<in> set (map mapUserRowV2 (mini_rows (ns_of mini_db Background) (snd (user_Erase (Some mini_db) Background ''u1'' demo_world)))).
      u_UserID u = ''u1'' \<and> u_EncryptedDEK u = None)"
proof -
  let ?ns = "ns_of mini_db Background"
  let ?row = "assigned erase_sets [(''id'', AStr ''u1'')] demo_sql_reads demo_row"
  have key: "keyed ?row" using demo_users_rows by (simp add: keyed_def get_assigned erase_sets_eq demo_sql_reads_def) (simp add: demo_row_def)
  have "db_Query mini_db Background ?ns ?ns sql_user_erase [(''id'', AStr ''u1'')] demo_world
      = (Inr [ANil], demo_world\<lparr>mi_users := (mi_users demo_world)(?ns := [?row])\<rparr>)"
    using key unfolding mini_db_update [OF parse_erase] mini_update_def parse_erase demo_users_rows
    by (simp add: Let_def) (simp add: demo_row_def)
  then have e: "user_Erase (Some mini_db) Background ''u1'' demo_world = (None, demo_world\<lparr>mi_users := (mi_users demo_world)(?ns := [?row])\<rparr>)"
    by (simp add: user_Erase_def tenant_Query_def)
  have rows: "mini_rows ?ns (demo_world\<lparr>mi_users := (mi_users demo_world)(?ns := [?row])\<rparr>) = [?row]" using key by (simp add: mini_rows_def)
  have id: "u_UserID (mapUserRowV2 ?row) = ''u1''" by (simp add: mapUserRowV2_def get_assigned erase_sets_eq) (simp add: demo_row_def)
  from erase_shreds_user [OF mini.surreal_users_axioms, of "''u1''" Background demo_world] id
  show ?thesis unfolding e by (simp add: rows)
qed

lemma created_user_found_witness:
  "\<exists>d'. user_Create demo demo_reads (Some mini_db) Background
      (zero_user\<lparr>u_UserID := ''u7'', u_UserIDHash := ''h7'', u_EmailHash := ''e7''\<rparr>) demo_world = ((None,
      zero_user\<lparr>u_UserID := ''u7'', u_UserIDHash := ''h7'', u_EmailHash := ''e7'', u_EncryptedDEK := Some ''enc'',
        u_MaskedEmail := ''***''\<rparr>), d')"
proof -
  let ?u = "zero_user\<lparr>u_UserID := ''u7'', u_UserIDHash := ''h7'', u_EmailHash := ''e7''\<rparr>"
  have "\<forall>x \<in> set (map mapUserRowV2 (mini_rows (ns_of mini_db Background) demo_world)).
      u_UserID x \<noteq> u_UserID ?u \<and> u_UserIDHash x \<noteq> u_UserIDHash ?u \<and> u_EmailHash x \<noteq> u_EmailHash ?u"
    unfolding demo_users by (simp add: mapUserRowV2_def demo_row_def)
  moreover have "ur_dek demo_reads = Inr (''dek'', ''enc'')" by (simp add: demo_reads_def)
  ultimately show ?thesis
    using created_user_found [OF mini.surreal_users_axioms, of demo_reads "''dek''" "''enc''" ?u Background demo_world demo]
    by auto
qed

end
