(* ===== verification/RateLimit.thy ===== *)
theory RateLimit
  imports GoVal
begin

text \<open>
  The rate-limit port and its policies (internal/core/identity/rate_limit.go) and the
  process-local limiter behind it (internal/adapters/ratelimit/memory.go): a map from keys to
  fixed-window counters.  The locale \<open>rate_limiter\<close> is the port's contract for a permanent quota
  (Window = 0); the limiter interprets it.  For timed windows the lemmas bound how many calls
  are let through.
\<close>

section \<open>Policies and keys\<close>

record RateLimitPolicy =
  MaxAttempts :: int
  Window :: duration
  Description :: string

definition PolicyOTP :: RateLimitPolicy where
  "PolicyOTP = \<lparr>MaxAttempts = 5, Window = 10 * minute, Description = ''OTP verification attempts''\<rparr>"
definition PolicyLogin :: RateLimitPolicy where
  "PolicyLogin = \<lparr>MaxAttempts = 10, Window = 15 * minute, Description = ''Login attempts''\<rparr>"
definition PolicyRegistration :: RateLimitPolicy where
  "PolicyRegistration = \<lparr>MaxAttempts = 30, Window = hour, Description = ''Registration attempts''\<rparr>"
definition PolicyMaxSessions :: RateLimitPolicy where
  "PolicyMaxSessions =
     \<lparr>MaxAttempts = 1, Window = 0, Description = ''Maximum active sessions per user''\<rparr>"

definition RateKeyOTPSend :: "string \<Rightarrow> string" where "RateKeyOTPSend email = ''otp:send:'' @ email"
definition RateKeyOTPFail :: "string \<Rightarrow> string" where "RateKeyOTPFail email = ''otp:fail:'' @ email"
definition RateKeyLogin :: "string \<Rightarrow> string" where "RateKeyLogin email = ''login:'' @ email"
definition RateKeySessions :: "string \<Rightarrow> string" where "RateKeySessions actorID = ''sessions:'' @ actorID"

lemma rate_keys_distinct:
  "RateKeyOTPSend a \<noteq> RateKeyOTPFail b" "RateKeyOTPSend a \<noteq> RateKeyLogin b"
  "RateKeyOTPFail a \<noteq> RateKeyLogin b" "RateKeySessions a \<noteq> RateKeyOTPSend b"
  by (simp_all add: RateKeyOTPSend_def RateKeyOTPFail_def RateKeyLogin_def RateKeySessions_def)

section \<open>The memory limiter\<close>

record bucket =
  bk_count :: int
  bk_windowStart :: time

record MemoryRateLimiter =
  entries :: "string \<Rightarrow> bucket option"

definition NewMemoryRateLimiter :: MemoryRateLimiter where
  "NewMemoryRateLimiter = \<lparr>entries = (\<lambda>_. None)\<rparr>"

definition getOrCreate :: "time \<Rightarrow> string \<Rightarrow> MemoryRateLimiter \<Rightarrow> bucket \<times> MemoryRateLimiter" where
  "getOrCreate now key r =
     (case entries r key of
        Some b \<Rightarrow> (b, r)
      | None \<Rightarrow> (let b = \<lparr>bk_count = 0, bk_windowStart = now\<rparr>
                 in (b, r\<lparr>entries := (entries r)(key := Some b)\<rparr>)))"

text \<open>\<open>time.Since\<close> reads the clock, and \<open>time.Now\<close> reads it again for the new window.\<close>

definition rollWindow :: "time \<Rightarrow> time \<Rightarrow> bucket \<Rightarrow> RateLimitPolicy \<Rightarrow> bucket" where
  "rollWindow since now b p =
     (if Window p \<le> 0 then b
      else if since - bk_windowStart b \<ge> Window p
      then b\<lparr>bk_count := 0, bk_windowStart := now\<rparr> else b)"

text \<open>The three readings of the clock that one call may make.\<close>

record reads =
  rd_create :: time
  rd_since :: time
  rd_start :: time

definition Allow :: "reads \<Rightarrow> string \<Rightarrow> RateLimitPolicy \<Rightarrow> MemoryRateLimiter
    \<Rightarrow> (goerr option \<times> bool) \<times> MemoryRateLimiter" where
  "Allow c key policy r =
     (if key = '''' \<or> MaxAttempts policy \<le> 0 then ((None, False), r)
      else let (b0, r1) = getOrCreate (rd_create c) key r;
               b = rollWindow (rd_since c) (rd_start c) b0 policy
           in if bk_count b \<ge> MaxAttempts policy
              then ((None, False), r1\<lparr>entries := (entries r1)(key := Some b)\<rparr>)
              else ((None, True),
                    r1\<lparr>entries := (entries r1)(key := Some (b\<lparr>bk_count := bk_count b + 1\<rparr>))\<rparr>))"

definition Reset :: "string \<Rightarrow> MemoryRateLimiter \<Rightarrow> goerr option \<times> MemoryRateLimiter" where
  "Reset key r = (None, r\<lparr>entries := (entries r)(key := None)\<rparr>)"

definition GetRemaining :: "reads \<Rightarrow> string \<Rightarrow> RateLimitPolicy \<Rightarrow> MemoryRateLimiter
    \<Rightarrow> (goerr option \<times> int) \<times> MemoryRateLimiter" where
  "GetRemaining c key policy r =
     (if MaxAttempts policy \<le> 0 then ((None, 0), r)
      else case entries r key of
        None \<Rightarrow> ((None, MaxAttempts policy), r)
      | Some b0 \<Rightarrow>
          (let b = rollWindow (rd_since c) (rd_start c) b0 policy;
               r1 = r\<lparr>entries := (entries r)(key := Some b)\<rparr>;
               rem = MaxAttempts policy - bk_count b
           in if rem < 0 then ((None, 0), r1) else ((None, rem), r1)))"

definition allowed :: "(goerr option \<times> bool) \<times> 's \<Rightarrow> bool" where
  "allowed res = snd (fst res)"

text \<open>The count recorded for a key, and a run of calls on one key.\<close>

definition used :: "MemoryRateLimiter \<Rightarrow> string \<Rightarrow> int" where
  "used r k = (case entries r k of None \<Rightarrow> 0 | Some b \<Rightarrow> bk_count b)"

lemma used_simps [simp]:
  "used (r\<lparr>entries := (entries r)(k := Some b)\<rparr>) k' = (if k' = k then bk_count b else used r k')"
  "used (r\<lparr>entries := (entries r)(k := None)\<rparr>) k' = (if k' = k then 0 else used r k')"
  "used NewMemoryRateLimiter k = 0"
  by (simp_all add: used_def NewMemoryRateLimiter_def)

lemma Allow_frame: "k' \<noteq> k \<Longrightarrow> entries (snd (Allow c k p r)) k' = entries r k'"
  by (simp add: Allow_def getOrCreate_def Let_def split: option.splits)

lemma Reset_frame: "k' \<noteq> k \<Longrightarrow> entries (snd (Reset k r)) k' = entries r k'"
  by (simp add: Reset_def)

lemma Reset_used: "used (snd (Reset k r)) k' = (if k' = k then 0 else used r k')"
  by (simp add: Reset_def)

lemma Allow_no_error: "fst (fst (Allow c k p r)) = None"
  by (simp add: Allow_def getOrCreate_def Let_def split: option.splits)

primrec runs :: "('c \<Rightarrow> 's \<Rightarrow> (goerr option \<times> bool) \<times> 's) \<Rightarrow> 'c list \<Rightarrow> 's \<Rightarrow> bool list \<times> 's" where
  "runs f [] s = ([], s)"
| "runs f (c # cs) s = (let (r, s1) = f c s; (rs, s2) = runs f cs s1 in (snd r # rs, s2))"

definition n_true :: "bool list \<Rightarrow> nat" where
  "n_true bs = length (filter id bs)"

lemma n_true_simps [simp]: "n_true [] = 0" "n_true (b # bs) = (if b then Suc (n_true bs) else n_true bs)"
  by (simp_all add: n_true_def)

lemma runs_Cons: "runs f (c # cs) s =
   (allowed (f c s) # fst (runs f cs (snd (f c s))), snd (runs f cs (snd (f c s))))"
  by (simp add: allowed_def split_beta Let_def)

text \<open>No counter ever becomes negative.\<close>

definition counts_ok :: "MemoryRateLimiter \<Rightarrow> bool" where
  "counts_ok r \<longleftrightarrow> (\<forall>k. 0 \<le> used r k)"

lemma counts_okD: "counts_ok r \<Longrightarrow> 0 \<le> used r k"
  by (simp add: counts_ok_def)

lemma counts_ok_New [simp]: "counts_ok NewMemoryRateLimiter"
  by (simp add: counts_ok_def)

lemma counts_ok_Allow: "counts_ok r \<Longrightarrow> counts_ok (snd (Allow c k p r))"
  by (auto simp: counts_ok_def Allow_def getOrCreate_def rollWindow_def used_def Let_def
      split: option.splits)

lemma counts_ok_Reset: "counts_ok r \<Longrightarrow> counts_ok (snd (Reset k r))"
  by (simp add: counts_ok_def Reset_def)

lemma counts_ok_GetRemaining: "counts_ok r \<Longrightarrow> counts_ok (snd (GetRemaining c k p r))"
  by (auto simp: counts_ok_def GetRemaining_def rollWindow_def used_def Let_def
      split: option.splits)

section \<open>The port's contract for a permanent quota\<close>

locale rate_limiter =
  fixes allow :: "'c \<Rightarrow> string \<Rightarrow> RateLimitPolicy \<Rightarrow> 's \<Rightarrow> (goerr option \<times> bool) \<times> 's"
    and reset :: "string \<Rightarrow> 's \<Rightarrow> goerr option \<times> 's"
    and remaining :: "'c \<Rightarrow> string \<Rightarrow> RateLimitPolicy \<Rightarrow> 's \<Rightarrow> (goerr option \<times> int) \<times> 's"
    and count :: "'s \<Rightarrow> string \<Rightarrow> int"
    and inv :: "'s \<Rightarrow> bool"
  assumes count_nonneg: "inv s \<Longrightarrow> 0 \<le> count s k"
    and inv_allow: "inv s \<Longrightarrow> inv (snd (allow c k p s))"
    and inv_reset: "inv s \<Longrightarrow> inv (snd (reset k s))"
    and allow_iff: "Window p = 0 \<Longrightarrow> inv s \<Longrightarrow> k \<noteq> [] \<Longrightarrow>
      allowed (allow c k p s) \<longleftrightarrow> count s k < MaxAttempts p"
    and allow_count: "Window p = 0 \<Longrightarrow> inv s \<Longrightarrow> count (snd (allow c k p s)) k' =
      (if k' = k \<and> allowed (allow c k p s) then count s k + 1 else count s k')"
    and reset_count: "count (snd (reset k s)) k' = (if k' = k then 0 else count s k')"
    and remaining_eq: "Window p = 0 \<Longrightarrow> inv s \<Longrightarrow>
      snd (fst (remaining c k p s)) = max 0 (MaxAttempts p - count s k)"
    and remaining_count: "Window p = 0 \<Longrightarrow> count (snd (remaining c k p s)) k' = count s k'"
begin

lemma quota_run:
  assumes "Window p = 0" and "k \<noteq> []" and "inv s"
  shows "int (n_true (fst (runs (\<lambda>c. allow c k p) cs s))) =
      min (int (length cs)) (max 0 (MaxAttempts p - count s k))
    \<and> count (snd (runs (\<lambda>c. allow c k p) cs s)) k =
      count s k + int (n_true (fst (runs (\<lambda>c. allow c k p) cs s)))"
  using assms(3)
proof (induction cs arbitrary: s)
  case Nil
  then show ?case by simp
next
  case (Cons c cs)
  let ?s1 = "snd (allow c k p s)"
  have c1: "count ?s1 k = (if allowed (allow c k p s) then count s k + 1 else count s k)"
    using allow_count [OF assms(1) Cons.prems, of c k] by auto
  have ok: "allowed (allow c k p s) \<longleftrightarrow> count s k < MaxAttempts p"
    by (rule allow_iff [OF assms(1) Cons.prems assms(2)])
  note IH = Cons.IH [OF inv_allow [OF Cons.prems]]
  show ?case
    using IH c1 ok by (auto simp del: runs.simps simp: runs_Cons)
qed

lemma quota_other_keys:
  assumes "Window p = 0" and "inv s" and "k' \<noteq> k"
  shows "count (snd (runs (\<lambda>c. allow c k p) cs s)) k' = count s k'"
  using assms(2)
proof (induction cs arbitrary: s)
  case Nil
  then show ?case by simp
next
  case (Cons c cs)
  show ?case
    using Cons.IH [OF inv_allow [OF Cons.prems]] allow_count [OF assms(1) Cons.prems, of c k k'] assms(3)
    by (simp del: runs.simps add: runs_Cons)
qed

lemma reset_restores:
  assumes "Window p = 0" and "inv s" and "k \<noteq> []" and "0 < MaxAttempts p"
  shows "allowed (allow c k p (snd (reset k s)))"
  using allow_iff [OF assms(1) inv_reset [OF assms(2)] assms(3)] reset_count assms(4) by simp

end

text \<open>The memory limiter fulfils it: in a permanent quota no window ever rolls.\<close>

lemma rollWindow_permanent: "Window p = 0 \<Longrightarrow> rollWindow t n b p = b"
  by (simp add: rollWindow_def)

lemma Allow_permanent:
  assumes "Window p = 0" and "counts_ok s" and "k \<noteq> []"
  shows "allowed (Allow c k p s) \<longleftrightarrow> used s k < MaxAttempts p"
proof -
  have "0 \<le> used s k" using assms(2) by (simp add: counts_ok_def)
  with assms show ?thesis
    by (cases "entries s k")
      (auto simp: Allow_def allowed_def getOrCreate_def rollWindow_permanent used_def Let_def)
qed

lemma Allow_permanent_used:
  "Window p = 0 \<Longrightarrow> used (snd (Allow c k p s)) k' =
    (if k' = k \<and> allowed (Allow c k p s) then used s k + 1 else used s k')"
  by (cases "entries s k")
    (auto simp: Allow_def allowed_def getOrCreate_def rollWindow_permanent used_def Let_def)

lemma GetRemaining_permanent:
  assumes "Window p = 0" and "counts_ok s"
  shows "snd (fst (GetRemaining c k p s)) = max 0 (MaxAttempts p - used s k)"
proof -
  have "0 \<le> used s k" using assms(2) by (simp add: counts_ok_def)
  with assms show ?thesis
    by (cases "entries s k") (auto simp: GetRemaining_def rollWindow_permanent used_def Let_def)
qed

lemma GetRemaining_permanent_used:
  "Window p = 0 \<Longrightarrow> used (snd (GetRemaining c k p s)) k' = used s k'"
  by (cases "entries s k") (auto simp: GetRemaining_def rollWindow_permanent used_def Let_def)

interpretation mem: rate_limiter Allow Reset GetRemaining used counts_ok
  by unfold_locales
    (auto intro: counts_okD simp: counts_ok_Allow counts_ok_Reset Allow_permanent
      Allow_permanent_used GetRemaining_permanent GetRemaining_permanent_used Reset_used)

section \<open>Timed windows\<close>

text \<open>
  For one key the limiter is a counter: \<open>tick\<close> is what \<open>Allow\<close> does to the key's bucket when
  the policy is timed.
\<close>

definition tick :: "RateLimitPolicy \<Rightarrow> reads \<Rightarrow> bucket \<Rightarrow> bool \<times> bucket" where
  "tick p c b0 =
     (let b = rollWindow (rd_since c) (rd_start c) b0 p
      in if bk_count b \<ge> MaxAttempts p then (False, b) else (True, b\<lparr>bk_count := bk_count b + 1\<rparr>))"

definition bucket_for :: "reads \<Rightarrow> string \<Rightarrow> MemoryRateLimiter \<Rightarrow> bucket" where
  "bucket_for c k r = (case entries r k of
     Some b \<Rightarrow> b | None \<Rightarrow> \<lparr>bk_count = 0, bk_windowStart = rd_create c\<rparr>)"

lemma Allow_tick:
  assumes "k \<noteq> []" and "0 < MaxAttempts p"
  shows "allowed (Allow c k p r) = fst (tick p c (bucket_for c k r))"
    and "entries (snd (Allow c k p r)) k = Some (snd (tick p c (bucket_for c k r)))"
  using assms
  by (auto simp: Allow_def tick_def allowed_def getOrCreate_def bucket_for_def Let_def
      split: option.splits)

primrec ticks :: "RateLimitPolicy \<Rightarrow> reads list \<Rightarrow> bucket \<Rightarrow> bool list" where
  "ticks p [] b = []"
| "ticks p (c # cs) b = fst (tick p c b) # ticks p cs (snd (tick p c b))"

lemma runs_ticks:
  assumes "k \<noteq> []" and "0 < MaxAttempts p" and "cs \<noteq> []"
  shows "fst (runs (\<lambda>c. Allow c k p) cs r) = ticks p cs (bucket_for (hd cs) k r)"
  using assms(3)
proof (induction cs arbitrary: r)
  case Nil
  then show ?case by simp
next
  case (Cons c cs)
  let ?r1 = "snd (Allow c k p r)"
  have e: "entries ?r1 k = Some (snd (tick p c (bucket_for c k r)))"
    and a: "allowed (Allow c k p r) = fst (tick p c (bucket_for c k r))"
    using Allow_tick [OF assms(1,2)] by auto
  show ?case
  proof (cases "cs = []")
    case True
    then show ?thesis using a by (simp del: runs.simps(2) add: runs_Cons)
  next
    case False
    have "bucket_for (hd cs) k ?r1 = snd (tick p c (bucket_for c k r))"
      using e by (simp add: bucket_for_def)
    then show ?thesis using Cons.IH [OF False, of ?r1] a
      by (simp del: runs.simps(2) add: runs_Cons)
  qed
qed

text \<open>
  While no window rolls, at most the unused part of the quota is let through; and in a run of
  calls that all happen within one window's length at most one window rolls.
\<close>

definition reads_ok :: "time \<Rightarrow> time \<Rightarrow> reads \<Rightarrow> bool" where
  "reads_ok lo hi c \<longleftrightarrow> lo \<le> rd_create c \<and> rd_create c \<le> rd_since c \<and> rd_since c \<le> rd_start c \<and> rd_start c < hi"

lemma tick_no_roll:
  assumes "rd_since c < bk_windowStart b + Window p"
  shows "tick p c b = (if bk_count b \<ge> MaxAttempts p then (False, b)
                       else (True, b\<lparr>bk_count := bk_count b + 1\<rparr>))"
  using assms by (simp add: tick_def rollWindow_def)

lemma ticks_no_roll:
  assumes "\<forall>c \<in> set cs. rd_since c < bk_windowStart b + Window p"
  shows "int (n_true (ticks p cs b)) \<le> max 0 (MaxAttempts p - bk_count b)"
  using assms
proof (induction cs arbitrary: b)
  case Nil
  then show ?case by simp
next
  case (Cons c cs)
  let ?t = "tick p c b"
  have t: "?t = (if bk_count b \<ge> MaxAttempts p then (False, b)
                 else (True, b\<lparr>bk_count := bk_count b + 1\<rparr>))"
    using Cons.prems by (intro tick_no_roll) simp
  then have "\<forall>c \<in> set cs. rd_since c < bk_windowStart (snd ?t) + Window p"
    using Cons.prems by simp
  from Cons.IH [OF this] t show ?case by (auto split: if_splits)
qed

lemma ticks_one_roll:
  assumes "\<forall>c \<in> set cs. reads_ok lo (lo + Window p) c" and "0 < MaxAttempts p" and "0 < Window p"
    and "0 \<le> bk_count b"
  shows "int (n_true (ticks p cs b)) \<le> max 0 (MaxAttempts p - bk_count b) + MaxAttempts p"
  using assms(1,4)
proof (induction cs arbitrary: b)
  case Nil
  then show ?case using assms(2) by simp
next
  case (Cons c cs)
  show ?case
  proof (cases "rd_since c < bk_windowStart b + Window p")
    case True
    let ?t = "tick p c b"
    have t: "?t = (if bk_count b \<ge> MaxAttempts p then (False, b)
                   else (True, b\<lparr>bk_count := bk_count b + 1\<rparr>))"
      by (rule tick_no_roll [OF True])
    have "0 \<le> bk_count (snd ?t)" using t Cons.prems(2) by (auto split: if_splits)
    with Cons have "int (n_true (ticks p cs (snd ?t))) \<le>
        max 0 (MaxAttempts p - bk_count (snd ?t)) + MaxAttempts p" by simp
    with t show ?thesis by (auto split: if_splits)
  next
    case False
    let ?b = "b\<lparr>bk_count := 1, bk_windowStart := rd_start c\<rparr>"
    from False assms(2,3) have t: "tick p c b = (True, ?b)"
      by (simp add: tick_def rollWindow_def)
    have "\<forall>d \<in> set cs. rd_since d < bk_windowStart ?b + Window p"
    proof
      fix d assume "d \<in> set cs"
      with Cons.prems(1) have "reads_ok lo (lo + Window p) c" "reads_ok lo (lo + Window p) d" by auto
      then show "rd_since d < bk_windowStart ?b + Window p" by (simp add: reads_ok_def)
    qed
    from ticks_no_roll [OF this] t assms(2) show ?thesis by simp
  qed
qed

lemma Allow_window_bound:
  assumes "\<forall>c \<in> set cs. reads_ok lo (lo + Window p) c" and "0 < MaxAttempts p" and "0 < Window p"
    and "k \<noteq> []" and "0 \<le> used r k"
  shows "int (n_true (fst (runs (\<lambda>c. Allow c k p) cs r))) \<le> 2 * MaxAttempts p"
proof (cases "cs = []")
  case True
  with assms(2) show ?thesis by simp
next
  case False
  have "0 \<le> bk_count (bucket_for (hd cs) k r)"
    using assms(5) by (simp add: bucket_for_def used_def split: option.splits)
  from ticks_one_roll [OF assms(1-3) this] show ?thesis
    using runs_ticks [OF assms(4,2) False, of r] \<open>0 \<le> bk_count _\<close> by auto
qed

text \<open>What \<open>GetRemaining\<close> reports is what \<open>Allow\<close> goes by at the same instant.\<close>

lemma GetRemaining_Allow:
  assumes "k \<noteq> []" and "0 < MaxAttempts p"
  shows "0 < snd (fst (GetRemaining c k p r)) \<longleftrightarrow> allowed (Allow c k p r)"
  using assms
  by (auto simp: GetRemaining_def Allow_def allowed_def getOrCreate_def rollWindow_def Let_def
      split: option.splits)

section \<open>Properties\<close>

text \<open>C33: The limiter's bound for a timed policy: among the calls of \<open>Allow\<close> for one key that happen
  within one window's length, at most twice the quota is let through, whatever the calls before
  left behind.\<close>

theorem allow_window_bound:
  assumes "\<forall>c \<in> set cs. reads_ok lo (lo + Window p) c" and "0 < MaxAttempts p" and "0 < Window p"
    and "k \<noteq> []" and "0 \<le> used r k"
  shows "int (n_true (fst (runs (\<lambda>c. Allow c k p) cs r))) \<le> 2 * MaxAttempts p"
  by (rule Allow_window_bound [OF assms])

lemma allow_window_bound_witness:
  "int (n_true (fst (runs (\<lambda>c. Allow c ''k'' PolicyOTP) (replicate 100 \<lparr>rd_create = 5, rd_since = 5, rd_start = 5\<rparr>)
     NewMemoryRateLimiter))) \<le> 2 * MaxAttempts PolicyOTP"
  by (rule allow_window_bound [of _ 0]) (simp_all add: reads_ok_def PolicyOTP_def dur_defs)

text \<open>A permanent quota (a policy with no window) is exact: from a fresh count, a run of calls lets
  through the first \<open>MaxAttempts\<close> of them and no more, and the other keys are not touched.\<close>

theorem permanent_quota_exact:
  assumes "Window p = 0" and "k \<noteq> []" and "counts_ok r"
  shows "int (n_true (fst (runs (\<lambda>c. Allow c k p) cs r))) = min (int (length cs)) (max 0 (MaxAttempts p - used r k)) \<and>
    (\<forall>k'. k' \<noteq> k \<longrightarrow> used (snd (runs (\<lambda>c. Allow c k p) cs r)) k' = used r k')"
  using mem.quota_run [OF assms] mem.quota_other_keys [OF assms(1,3)] by blast

lemma permanent_quota_exact_witness:
  "int (n_true (fst (runs (\<lambda>c. Allow c ''sessions:u'' PolicyMaxSessions)
     (replicate 3 \<lparr>rd_create = 0, rd_since = 0, rd_start = 0\<rparr>) NewMemoryRateLimiter))) = 1"
  using permanent_quota_exact [of PolicyMaxSessions "''sessions:u''" NewMemoryRateLimiter
      "replicate 3 \<lparr>rd_create = 0, rd_since = 0, rd_start = 0\<rparr>"]
  by (simp add: PolicyMaxSessions_def)

end
