(* ===== verification/Otp.thy ===== *)
theory Otp
  imports RateLimit
begin

text \<open>
  One-time passwords (internal/core/identity/otp_service.go) over the port \<open>OTPStore\<close>
  (store.go) and the notification port (notifications.go).  The locale \<open>otp_store\<close> is the port's
  contract; inside it the life cycle of a code is proved: what each call of \<open>Verify\<close> answers and
  leaves in the store, and the bound on guesses over any run of calls.  The in-memory store of
  mocks_test.go interprets it here, the SurrealDB store in theory OtpRepo.
\<close>

section \<open>Ports\<close>

record OTPNotification =
  on_RecipientID :: string
  on_Code :: string
  on_Expiry :: duration

type_synonym OTPSender = "ctx \<Rightarrow> OTPNotification \<Rightarrow> goerr option"

text \<open>\<open>Get\<close> returns the code hash, the attempts so far and the expiry.\<close>

type_synonym otp_row = "string \<times> int \<times> time"

record 's OTPStore =
  os_Save :: "ctx \<Rightarrow> string \<Rightarrow> string \<Rightarrow> time \<Rightarrow> 's \<Rightarrow> goerr option \<times> 's"
  os_Get :: "ctx \<Rightarrow> string \<Rightarrow> 's \<Rightarrow> (goerr + otp_row) \<times> 's"
  os_IncrementAttempts :: "ctx \<Rightarrow> string \<Rightarrow> 's \<Rightarrow> goerr option \<times> 's"
  os_Delete :: "ctx \<Rightarrow> string \<Rightarrow> 's \<Rightarrow> goerr option \<times> 's"

section \<open>The service\<close>

definition otpLength :: nat where "otpLength = 6"
definition otpLifetime :: duration where "otpLifetime = 3 * minute"
definition maxAttempts :: int where "maxAttempts = 3"

text \<open>
  The \<open>i\<close>-th call of \<open>rand.Int(rand.Reader, 10)\<close> gives a number below 10 or an error.
\<close>

type_synonym rand_digits = "nat \<Rightarrow> goerr + nat"

definition digits_ok :: "rand_digits \<Rightarrow> bool" where
  "digits_ok d \<longleftrightarrow> (\<forall>i k. d i = Inr k \<longrightarrow> k < 10)"

primrec code_from :: "rand_digits \<Rightarrow> nat \<Rightarrow> nat \<Rightarrow> goerr + string" where
  "code_from d 0 i = Inr []"
| "code_from d (Suc n) i =
     (case d i of
        Inl e \<Rightarrow> Inl (''generate otp: '' @ e)
      | Inr k \<Rightarrow> (case code_from d n (Suc i) of
                   Inl e \<Rightarrow> Inl e | Inr s \<Rightarrow> Inr (byte (48 + k) # s)))"

definition GenerateCode :: "rand_digits \<Rightarrow> goerr + string" where
  "GenerateCode d = code_from d otpLength 0"

record 's OTPService =
  svc_sender :: "OTPSender option"
  svc_store :: "'s OTPStore option"

definition sha256Hex :: "golib \<Rightarrow> string \<Rightarrow> string" where
  "sha256Hex L s = hex_EncodeToString (Sha256 L s)"

text \<open>What leaves the process: a notification given to the sender, or the line printed without one.\<close>

datatype otp_output = Notified OTPNotification | Printed string

definition Send :: "golib \<Rightarrow> 's OTPService \<Rightarrow> ctx \<Rightarrow> rand_digits \<Rightarrow> time \<Rightarrow> string \<Rightarrow> string \<Rightarrow> 's
    \<Rightarrow> (goerr option \<times> otp_output list) \<times> 's" where
  "Send L svc c d now email userIDHash s =
     (case GenerateCode d of
        Inl e \<Rightarrow> ((Some e, []), s)
      | Inr code \<Rightarrow>
          (let codeHash = sha256Hex L code;
               expiresAt = now + otpLifetime;
               (err, s1) = (case svc_store svc of
                              None \<Rightarrow> (None, s)
                            | Some st \<Rightarrow> os_Save st c userIDHash codeHash expiresAt s)
           in case err of
                Some e \<Rightarrow> ((Some (''save otp: '' @ e), []), s1)
              | None \<Rightarrow>
                  (case svc_sender svc of
                     Some snd_fn \<Rightarrow>
                       (let notif = \<lparr>on_RecipientID = email, on_Code = code, on_Expiry = otpLifetime\<rparr>
                        in case snd_fn c notif of
                             Some e \<Rightarrow> ((Some (''send OTP: '' @ e), [Notified notif]), s1)
                           | None \<Rightarrow> ((None, [Notified notif]), s1))
                   | None \<Rightarrow> ((None, [Printed (''[OTP] '' @ email @ '' -> '' @ code)]), s1))))"

text \<open>
  \<open>Verify\<close> returns the answer and the error. The log calls on its failure paths slice
  \<open>userIDHash[:8]\<close>, which panics on a shorter key, before the record is deleted.
\<close>

definition log8 :: "string \<Rightarrow> unit go" where
  "log8 h = gbind (slice_to h 8) (\<lambda>_. Ret ())"

definition Verify :: "golib \<Rightarrow> 's OTPService \<Rightarrow> ctx \<Rightarrow> time \<Rightarrow> string \<Rightarrow> string \<Rightarrow> 's
    \<Rightarrow> (bool \<times> goerr option) go \<times> 's" where
  "Verify L svc c now userIDHash code s =
     (case svc_store svc of
        None \<Rightarrow> (Ret (False, Some ''otp store not configured''), s)
      | Some st \<Rightarrow>
          (case os_Get st c userIDHash s of
             (Inl _, s1) \<Rightarrow> (Ret (False, None), s1)
           | (Inr (storedHash, attempts, expiresAt), s1) \<Rightarrow>
               if now > expiresAt
               then (case log8 userIDHash of
                       Panic p \<Rightarrow> (Panic p, s1)
                     | Ret _ \<Rightarrow> (Ret (False, None), snd (os_Delete st c userIDHash s1)))
               else if attempts \<ge> maxAttempts
               then (case log8 userIDHash of
                       Panic p \<Rightarrow> (Panic p, s1)
                     | Ret _ \<Rightarrow> (Ret (False, None), snd (os_Delete st c userIDHash s1)))
               else (let s2 = snd (os_IncrementAttempts st c userIDHash s1);
                         incomingHash = sha256Hex L code
                     in if storedHash \<noteq> incomingHash
                        then (case log8 userIDHash of
                                Panic p \<Rightarrow> (Panic p, s2)
                              | Ret _ \<Rightarrow> (Ret (False, None), s2))
                        else (Ret (True, None), snd (os_Delete st c userIDHash s2)))))"

section \<open>Codes\<close>

lemma code_from_shape:
  assumes "digits_ok d" and "code_from d n i = Inr s"
  shows "length s = n \<and> list_all is_digit s"
  using assms(2)
proof (induction n arbitrary: i s)
  case 0
  then show ?case by simp
next
  case (Suc n)
  then obtain k t where k: "d i = Inr k" and t: "code_from d n (Suc i) = Inr t"
    and s: "s = byte (48 + k) # t" by (auto split: sum.splits)
  from k assms(1) have "k < 10" by (auto simp: digits_ok_def)
  then have "is_digit (byte (48 + k))" by (simp add: is_digit_def byte_def)
  with Suc.IH [OF t] s show ?case by simp
qed

lemma GenerateCode_shape:
  "digits_ok d \<Longrightarrow> GenerateCode d = Inr s \<Longrightarrow> length s = 6 \<and> list_all is_digit s"
  using code_from_shape [of d otpLength 0 s] by (simp add: GenerateCode_def otpLength_def)

lemma code_from_surj: "\<forall>c \<in> set s. is_digit c \<Longrightarrow>
   code_from (\<lambda>j. Inr (ord (s ! (j - i)) - 48)) (length s) i = Inr s"
proof (induction s arbitrary: i)
  case Nil
  then show ?case by simp
next
  case (Cons x s)
  have ext: "code_from f n i = code_from g n i" if "\<forall>j \<ge> i. f j = g j" for f g n i
    using that by (induction n arbitrary: i) (auto split: sum.splits)
  have "code_from (\<lambda>j. Inr (ord ((x # s) ! (j - i)) - 48)) (length s) (Suc i)
      = code_from (\<lambda>j. Inr (ord (s ! (j - Suc i)) - 48)) (length s) (Suc i)"
    by (rule ext) (auto simp: nth_Cons' simp del: diff_Suc_Suc)
  also have "\<dots> = Inr s" using Cons by simp
  finally have r: "code_from (\<lambda>j. Inr (ord ((x # s) ! (j - i)) - 48)) (length s) (Suc i) = Inr s" .
  have "48 + (ord x - 48) = ord x" using Cons.prems by (simp add: is_digit_def ord_def)
  with r show ?case by simp
qed

section \<open>The store's contract\<close>

locale otp_store =
  fixes st :: "'s OTPStore"
    and view :: "ctx \<Rightarrow> 's \<Rightarrow> string \<Rightarrow> otp_row option"
  assumes get_found: "view c s h = Some r \<Longrightarrow> os_Get st c h s = (Inr r, s)"
    and get_missing: "view c s h = None \<Longrightarrow> \<exists>e. os_Get st c h s = (Inl e, s)"
    and save_ok: "fst (os_Save st c h ch e s) = None"
    and save_view: "view c (snd (os_Save st c h ch e s)) h' =
      (if h' = h then Some (ch, 0, e) else view c s h')"
    and increment_view: "view c (snd (os_IncrementAttempts st c h s)) h' =
      (if h' = h then map_option (\<lambda>(ch, a, e). (ch, a + 1, e)) (view c s h) else view c s h')"
    and delete_view: "view c (snd (os_Delete st c h s)) h' = (if h' = h then None else view c s h')"

lemma log8_long: "8 \<le> length h \<Longrightarrow> log8 h = Ret ()"
  by (simp add: log8_def slice_to_def)

lemma log8_short: "length h < 8 \<Longrightarrow> is_panic (log8 h)"
  by (simp add: log8_def slice_to_def)

text \<open>A run of calls of \<open>Verify\<close> on one key, each with its clock reading and the code submitted.\<close>

definition answer :: "(bool \<times> goerr option) go \<Rightarrow> bool" where
  "answer r = (case r of Ret (b, _) \<Rightarrow> b | Panic _ \<Rightarrow> False)"

lemma answer_simps [simp]: "answer (Ret (b, e)) = b" "answer (Panic p) = False"
  by (simp_all add: answer_def)

primrec verify_run :: "golib \<Rightarrow> 's OTPService \<Rightarrow> ctx \<Rightarrow> string \<Rightarrow> (time \<times> string) list \<Rightarrow> 's \<Rightarrow> bool list \<times> 's" where
  "verify_run L svc c h [] s = ([], s)"
| "verify_run L svc c h (x # xs) s =
     (let (r, s1) = Verify L svc c (fst x) h (snd x) s;
          (rs, s2) = verify_run L svc c h xs s1
      in (answer r # rs, s2))"

lemma verify_run_Cons: "verify_run L svc c h (x # xs) s =
  (let v = Verify L svc c (fst x) h (snd x) s; w = verify_run L svc c h xs (snd v)
   in (answer (fst v) # fst w, snd w))"
  by (simp add: split_beta Let_def)

declare verify_run.simps(2) [simp del]

context otp_store
begin

lemma verify_cases:
  assumes "svc_store svc = Some st" and "8 \<le> length h"
  shows "Verify L svc c now h code s =
    (case view c s h of
       None \<Rightarrow> (Ret (False, None), s)
     | Some (ch, a, e) \<Rightarrow>
         if now > e \<or> a \<ge> maxAttempts then (Ret (False, None), snd (os_Delete st c h s))
         else (let s2 = snd (os_IncrementAttempts st c h s)
               in if ch \<noteq> sha256Hex L code then (Ret (False, None), s2)
                  else (Ret (True, None), snd (os_Delete st c h s2))))"
proof (cases "view c s h")
  case None
  then obtain e where "os_Get st c h s = (Inl e, s)" using get_missing by blast
  with assms None show ?thesis by (simp add: Verify_def)
next
  case (Some r)
  with get_found have "os_Get st c h s = (Inr r, s)" by simp
  with assms Some show ?thesis
    by (cases r) (simp add: Verify_def log8_long Let_def)
qed

text \<open>A right code in time is accepted once: the record is gone afterwards.\<close>

lemma verify_accepts:
  assumes "svc_store svc = Some st" and "8 \<le> length h"
    and "view c s h = Some (sha256Hex L code, a, e)" and "a < maxAttempts" and "now \<le> e"
  shows "fst (Verify L svc c now h code s) = Ret (True, None)"
    and "view c (snd (Verify L svc c now h code s)) h = None"
  using verify_cases [OF assms(1,2), of L c now code s] assms(3-5)
  by (simp_all add: delete_view Let_def)

lemma verify_accept_iff:
  assumes "svc_store svc = Some st" and "8 \<le> length h"
  shows "answer (fst (Verify L svc c now h code s)) \<longleftrightarrow>
    (\<exists>a e. view c s h = Some (sha256Hex L code, a, e) \<and> a < maxAttempts \<and> now \<le> e)"
  using verify_cases [OF assms, of L c now code s]
  by (auto simp: Let_def split: option.splits if_splits)

lemma verify_view:
  assumes "svc_store svc = Some st" and "8 \<le> length h"
  shows "view c (snd (Verify L svc c now h code s)) h =
    (case view c s h of
       None \<Rightarrow> None
     | Some (ch, a, e) \<Rightarrow>
         if now > e \<or> a \<ge> maxAttempts \<or> ch = sha256Hex L code then None
         else Some (ch, a + 1, e))"
  using verify_cases [OF assms, of L c now code s]
  by (auto simp: delete_view increment_view Let_def split: option.splits)

lemma verify_other_keys:
  assumes "svc_store svc = Some st" and "8 \<le> length h" and "h' \<noteq> h"
  shows "view c (snd (Verify L svc c now h code s)) h' = view c s h'"
  using verify_cases [OF assms(1,2), of L c now code s] assms(3)
  by (auto simp: delete_view increment_view Let_def split: option.splits)

lemma run_none:
  assumes "svc_store svc = Some st" and "8 \<le> length h" and "view c s h = None"
  shows "n_true (fst (verify_run L svc c h xs s)) = 0"
  using assms(3)
proof (induction xs arbitrary: s)
  case Nil
  then show ?case by simp
next
  case (Cons x xs)
  then show ?case
    using verify_cases [OF assms(1,2), of L c "fst x" "snd x" s]
    by (simp add: verify_run_Cons Let_def)
qed

text \<open>Over any run at most one call succeeds, and only among the calls the attempt limit leaves.\<close>

lemma run_bound:
  assumes "svc_store svc = Some st" and "8 \<le> length h" and "view c s h = Some (ch, a, e)"
  shows "n_true (fst (verify_run L svc c h xs s)) \<le> 1 \<and>
    (\<forall>i < length xs. fst (verify_run L svc c h xs s) ! i \<longrightarrow> int i < maxAttempts - a)"
  using assms(3)
proof (induction xs arbitrary: s a)
  case Nil
  then show ?case by simp
next
  case (Cons x xs)
  let ?v = "Verify L svc c (fst x) h (snd x) s"
  let ?w = "fst (verify_run L svc c h xs (snd ?v))"
  have len: "length (fst (verify_run L svc c h ys t)) = length ys" for ys t
    by (induction ys arbitrary: t) (simp_all add: verify_run_Cons Let_def)
  have none: "?w ! i \<Longrightarrow> i < length xs \<Longrightarrow> False" if "n_true ?w = 0" for i
    using that len [of xs "snd ?v"] nth_mem [of i ?w]
    by (auto simp: n_true_def filter_empty_conv)
  have run: "fst (verify_run L svc c h (x # xs) s) = answer (fst ?v) # ?w"
    by (simp add: verify_run_Cons Let_def)
  have acc: "answer (fst ?v) \<Longrightarrow> a < maxAttempts"
    using verify_accept_iff [OF assms(1,2), of L c "fst x" "snd x" s] Cons.prems by simp
  show ?case
  proof (cases "view c (snd ?v) h")
    case None
    then have w0: "n_true ?w = 0" by (rule run_none [OF assms(1,2)])
    show ?thesis
    proof (intro conjI allI impI)
      show "n_true (fst (verify_run L svc c h (x # xs) s)) \<le> 1" using run w0 by simp
      fix i assume "i < length (x # xs)" and "fst (verify_run L svc c h (x # xs) s) ! i"
      then show "int i < maxAttempts - a"
        using run none [OF w0] acc by (cases i) auto
    qed
  next
    case (Some r)
    then have r: "view c (snd ?v) h = Some (ch, a + 1, e)" and na: "\<not> answer (fst ?v)"
      using verify_view [OF assms(1,2), of c L "fst x" "snd x" s] Cons.prems
        verify_accept_iff [OF assms(1,2), of L c "fst x" "snd x" s]
      by (auto split: if_splits)
    note IH = Cons.IH [OF r]
    show ?thesis
    proof (intro conjI allI impI)
      show "n_true (fst (verify_run L svc c h (x # xs) s)) \<le> 1" using run na IH by simp
      fix i assume "i < length (x # xs)" and "fst (verify_run L svc c h (x # xs) s) ! i"
      with run na obtain j where "i = Suc j" "j < length xs" "?w ! j" by (cases i) auto
      with IH show "int i < maxAttempts - a" by force
    qed
  qed
qed

text \<open>After \<open>Send\<close> the store holds the hash of the code that went out, with no attempt counted.\<close>

lemma send_stores:
  assumes "svc_store svc = Some st" and "GenerateCode d = Inr code"
  shows "view c (snd (Send L svc c d now email h s)) h = Some (sha256Hex L code, 0, now + otpLifetime)"
proof -
  let ?e = "now + otpLifetime"
  obtain s1 where s1: "os_Save st c h (sha256Hex L code) ?e s = (None, s1)"
    by (metis save_ok prod.collapse)
  with save_view [of c h "sha256Hex L code" ?e s h]
  have "view c s1 h = Some (sha256Hex L code, 0, ?e)" by simp
  with assms s1 show ?thesis
    by (simp add: Send_def Let_def split: option.splits)
qed

lemma send_verify:
  assumes "svc_store svc = Some st" and "8 \<le> length h" and "GenerateCode d = Inr code"
    and "t \<le> now + otpLifetime"
  shows "fst (Verify L svc c t h code (snd (Send L svc c d now email h s))) = Ret (True, None)"
  using verify_accepts(1) [OF assms(1,2) send_stores [OF assms(1,3)]] assms(4)
  by (simp add: maxAttempts_def)

end

section \<open>The in-memory store\<close>

text \<open>\<open>mockOTPStore\<close>: a map from keys to records.\<close>

type_synonym mem_otp = "string \<Rightarrow> otp_row option"

definition mock_otp :: "mem_otp OTPStore" where
  "mock_otp = \<lparr>
     os_Save = (\<lambda>c h ch e m. (None, m(h := Some (ch, 0, e)))),
     os_Get = (\<lambda>c h m. (case m h of None \<Rightarrow> Inl ''not found'' | Some r \<Rightarrow> Inr r, m)),
     os_IncrementAttempts = (\<lambda>c h m. (None, case m h of None \<Rightarrow> m
        | Some (ch, a, e) \<Rightarrow> m(h := Some (ch, a + 1, e)))),
     os_Delete = (\<lambda>c h m. (None, m(h := None)))\<rparr>"

interpretation mock: otp_store mock_otp "\<lambda>c s. s"
  by unfold_locales (auto simp: mock_otp_def split: option.splits)

section \<open>Properties\<close>

text \<open>C1: The attempt limit of one-time passwords.  Over any run of \<open>Verify\<close> calls on one key, in any
  order of clock readings and with any codes, at most one call answers true, and a call can do so
  only while the attempts counted before the run and the calls made since stay below
  \<open>maxAttempts\<close> = 3.\<close>

theorem otp_run_bounded:
  assumes "otp_store st view" and "svc_store svc = Some st" and "8 \<le> length h"
    and "view c s h = Some (ch, a, e)"
  shows "n_true (fst (verify_run L svc c h xs s)) \<le> 1 \<and>
    (\<forall>i < length xs. fst (verify_run L svc c h xs s) ! i \<longrightarrow> int i < maxAttempts - a)"
  by (rule otp_store.run_bound [OF assms])

lemma otp_run_bounded_witness:
  "n_true (fst (verify_run demo \<lparr>svc_sender = None, svc_store = Some mock_otp\<rparr> Background ''12345678''
      [(0, ''000000''), (1, ''123456''), (2, ''123456'')]
      [''12345678'' \<mapsto> (sha256Hex demo ''123456'', 0, 9)])) \<le> 1"
  using otp_run_bounded [OF mock.otp_store_axioms, of "\<lparr>svc_sender = None, svc_store = Some mock_otp\<rparr>"
      "''12345678''" "[''12345678'' \<mapsto> (sha256Hex demo ''123456'', 0, 9)]"] by simp

text \<open>C7: Exactly when a code is accepted: its hash is the stored one, fewer than three attempts were
  counted, and the clock has not passed the expiry.\<close>

theorem otp_accept_iff:
  assumes "otp_store st view" and "svc_store svc = Some st" and "8 \<le> length h"
  shows "answer (fst (Verify L svc c now h code s)) \<longleftrightarrow>
    (\<exists>a e. view c s h = Some (sha256Hex L code, a, e) \<and> a < maxAttempts \<and> now \<le> e)"
  by (rule otp_store.verify_accept_iff [OF assms])

lemma otp_accept_iff_witness:
  "answer (fst (Verify demo \<lparr>svc_sender = None, svc_store = Some mock_otp\<rparr> Background 5 ''12345678'' ''123456''
      [''12345678'' \<mapsto> (sha256Hex demo ''123456'', 2, 9)]))"
  using otp_accept_iff [OF mock.otp_store_axioms, of "\<lparr>svc_sender = None, svc_store = Some mock_otp\<rparr>"
      "''12345678''"] by (simp add: maxAttempts_def)

text \<open>A code that was sent is accepted within its lifetime of three minutes, once: the second
  submission of the same code is refused.\<close>

theorem otp_sent_code_works_once:
  assumes "otp_store st view" and "svc_store svc = Some st" and "8 \<le> length h"
    and "GenerateCode d = Inr code" and "t \<le> now + otpLifetime"
  shows "fst (Verify L svc c t h code (snd (Send L svc c d now email h s))) = Ret (True, None) \<and>
    fst (Verify L svc c t' h code (snd (Verify L svc c t h code (snd (Send L svc c d now email h s))))) = Ret (False, None)"
proof
  let ?s1 = "snd (Send L svc c d now email h s)"
  show "fst (Verify L svc c t h code ?s1) = Ret (True, None)"
    by (rule otp_store.send_verify [OF assms(1-5)])
  have v: "view c ?s1 h = Some (sha256Hex L code, 0, now + otpLifetime)"
    by (rule otp_store.send_stores [OF assms(1,2,4)])
  have "view c (snd (Verify L svc c t h code ?s1)) h = None"
    by (rule otp_store.verify_accepts(2) [OF assms(1-3) v _ assms(5)]) (simp add: maxAttempts_def)
  then show "fst (Verify L svc c t' h code (snd (Verify L svc c t h code ?s1))) = Ret (False, None)"
    by (simp add: otp_store.verify_cases [OF assms(1-3)])
qed

lemma otp_sent_code_works_once_witness:
  "fst (Verify demo \<lparr>svc_sender = None, svc_store = Some mock_otp\<rparr> Background 1 ''12345678'' ''444444''
     (snd (Send demo \<lparr>svc_sender = None, svc_store = Some mock_otp\<rparr> Background (\<lambda>_. Inr 4) 0 ''a@b.c''
        ''12345678'' Map.empty))) = Ret (True, None)"
proof -
  have "GenerateCode (\<lambda>_. Inr 4) = Inr ''444444''" by code_simp
  then show ?thesis
    using otp_sent_code_works_once [OF mock.otp_store_axioms, of "\<lparr>svc_sender = None, svc_store = Some mock_otp\<rparr>"
        "''12345678''" "\<lambda>_. Inr 4" "''444444''" 1 0]
    by (simp add: otpLifetime_def dur_defs)
qed

text \<open>A generated code is six decimal digits.\<close>

theorem otp_code_shape:
  assumes "digits_ok d" and "GenerateCode d = Inr code"
  shows "length code = 6 \<and> list_all is_digit code"
  by (rule GenerateCode_shape [OF assms])

lemma otp_code_shape_witness: "length ''777777'' = 6 \<and> list_all is_digit ''777777''"
proof (rule otp_code_shape [of "\<lambda>_. Inr 7"])
  show "digits_ok (\<lambda>_. Inr 7)" by (simp add: digits_ok_def)
  show "GenerateCode (\<lambda>_. Inr 7) = Inr ''777777''" by code_simp
qed

end
