(* ===== verification/OtpRepo.thy ===== *)
theory OtpRepo
  imports Surreal Otp
begin

text \<open>
  The SurrealDB store of one-time passwords (otp_repo.go) and the proof that it keeps the contract
  of theory Otp, from what the statements do to the document \<open>otp_codes:<user_id_hash>\<close>.
  The counter of attempts is read only when the driver gives it as a float64; the last section
  shows what becomes of the attempt limit when the driver gives it as an integer.
\<close>

definition sql_otp_delete :: string where
  "sql_otp_delete = ''DELETE type::record(\"otp_codes\", $uid)''"

definition sql_otp_create :: string where
  "sql_otp_create = ''CREATE type::record(\"otp_codes\", $uid) SET
			user_id_hash = $uid,
			code_hash = $code_hash,
			attempts = $attempts,
			expires_at = $expires_at,
			created_at = time::now()''"

definition sql_otp_select :: string where
  "sql_otp_select = ''SELECT * FROM type::record(\"otp_codes\", $uid)''"

definition sql_otp_increment :: string where
  "sql_otp_increment = ''UPDATE type::record(\"otp_codes\", $uid) SET attempts += 1''"

lemma sql_otp_distinct [simp]:
  "sql_otp_delete \<noteq> sql_otp_create" "sql_otp_delete \<noteq> sql_otp_select" "sql_otp_delete \<noteq> sql_otp_increment"
  "sql_otp_create \<noteq> sql_otp_delete" "sql_otp_create \<noteq> sql_otp_select" "sql_otp_create \<noteq> sql_otp_increment"
  "sql_otp_select \<noteq> sql_otp_delete" "sql_otp_select \<noteq> sql_otp_create" "sql_otp_select \<noteq> sql_otp_increment"
  "sql_otp_increment \<noteq> sql_otp_delete" "sql_otp_increment \<noteq> sql_otp_create" "sql_otp_increment \<noteq> sql_otp_select"
  by (simp_all add: sql_otp_delete_def sql_otp_create_def sql_otp_select_def sql_otp_increment_def)

definition otp_Save :: "'d db option \<Rightarrow> ctx \<Rightarrow> string \<Rightarrow> string \<Rightarrow> time \<Rightarrow> 'd \<Rightarrow> goerr option \<times> 'd" where
  "otp_Save pool c userIDHash codeHash expiresAt d =
     (case pool of
        None \<Rightarrow> (Some no_db, d)
      | Some db \<Rightarrow>
          (let d1 = snd (tenant_Query db c sql_otp_delete [(''uid'', AStr userIDHash)] d)
           in wrap_err ''save otp: '' (tenant_Query db c sql_otp_create
                [(''uid'', AStr userIDHash), (''code_hash'', AStr codeHash), (''attempts'', AInt 0),
                 (''expires_at'', ATime expiresAt)] d1)))"

text \<open>The forms an expiry may have; the default case prints the value and parses the text.\<close>

definition expiry_of :: "golib \<Rightarrow> row \<Rightarrow> time" where
  "expiry_of L rm =
     (case map_of rm ''expires_at'' of
        None \<Rightarrow> zero_time
      | Some rawTime \<Rightarrow>
          (case rawTime of
             ATime t \<Rightarrow> t
           | ATimePtr (Some t) \<Rightarrow> t
           | ATimePtr None \<Rightarrow> zero_time
           | ACustomTime t \<Rightarrow> t
           | ACustomTimePtr (Some t) \<Rightarrow> t
           | ACustomTimePtr None \<Rightarrow> zero_time
           | AStr s \<Rightarrow> (case ParseRFC3339 L s of Some t \<Rightarrow> t | None \<Rightarrow> zero_time)
           | v \<Rightarrow> (let strTime = Sprint L v in
                   if strTime \<noteq> '''' then (case ParseRFC3339 L strTime of Some t \<Rightarrow> t | None \<Rightarrow> zero_time)
                   else zero_time)))"

text \<open>\<open>if v, ok := rm["attempts"].(float64); ok\<close>: a counter of any other type is read as 0.\<close>

definition read_attempts :: "any \<Rightarrow> int" where
  "read_attempts v = (case as_float_int v of Some n \<Rightarrow> n | None \<Rightarrow> 0)"

definition otp_Get :: "golib \<Rightarrow> 'd db option \<Rightarrow> ctx \<Rightarrow> string \<Rightarrow> 'd \<Rightarrow> (goerr + otp_row) \<times> 'd" where
  "otp_Get L pool c userIDHash d =
     (case pool of
        None \<Rightarrow> (Inl no_db, d)
      | Some db \<Rightarrow>
          (case tenant_Query db c sql_otp_select [(''uid'', AStr userIDHash)] d of
             (Inl e, d1) \<Rightarrow> (Inl (''get otp: '' @ e), d1)
           | (Inr results, d1) \<Rightarrow>
               (case first_map results of
                  None \<Rightarrow> (Inl ''otp not found'', d1)
                | Some None \<Rightarrow> (Inl ''invalid row'', d1)
                | Some (Some rm) \<Rightarrow>
                    (let codeHash = str_or_empty (get rm ''code_hash'');
                         attempts = read_attempts (get rm ''attempts'')
                     in (Inr (codeHash, attempts, expiry_of L rm), d1)))))"

definition otp_IncrementAttempts :: "'d db option \<Rightarrow> ctx \<Rightarrow> string \<Rightarrow> 'd \<Rightarrow> goerr option \<times> 'd" where
  "otp_IncrementAttempts pool c userIDHash d =
     (case pool of None \<Rightarrow> (Some no_db, d)
      | Some db \<Rightarrow> wrap_err ''increment otp attempts: ''
          (tenant_Query db c sql_otp_increment [(''uid'', AStr userIDHash)] d))"

definition otp_Delete :: "'d db option \<Rightarrow> ctx \<Rightarrow> string \<Rightarrow> 'd \<Rightarrow> goerr option \<times> 'd" where
  "otp_Delete pool c userIDHash d =
     (case pool of None \<Rightarrow> (Some no_db, d)
      | Some db \<Rightarrow> wrap_err ''delete otp: ''
          (tenant_Query db c sql_otp_delete [(''uid'', AStr userIDHash)] d))"

definition SurrealOTPRepo :: "golib \<Rightarrow> 'd db option \<Rightarrow> 'd OTPStore" where
  "SurrealOTPRepo L pool = \<lparr>os_Save = otp_Save pool, os_Get = otp_Get L pool,
     os_IncrementAttempts = otp_IncrementAttempts pool, os_Delete = otp_Delete pool\<rparr>"

section \<open>What the statements do\<close>

text \<open>
  \<open>doc ns d h\<close> is the document \<open>otp_codes:h\<close> of the namespace: code hash, attempts, expiry.
  \<open>num\<close> is how the driver returns an integer column, and a datetime comes back as
  \<open>models.CustomDateTime\<close>.
\<close>

locale surreal_otp =
  fixes db :: "'d db"
    and doc :: "string \<Rightarrow> 'd \<Rightarrow> string \<Rightarrow> otp_row option"
    and num :: "int \<Rightarrow> any"
  assumes otp_select: "\<exists>ex. db_Query db c ns ns sql_otp_select [(''uid'', AStr h)] d =
      (Inr [AList (case doc ns d h of None \<Rightarrow> []
        | Some (ch, a, e) \<Rightarrow> [AMap ([(''code_hash'', AStr ch), (''attempts'', num a), (''expires_at'', ACustomTime e)] @ ex)])], d)"
    and otp_delete: "\<exists>res d'. db_Query db c ns ns sql_otp_delete [(''uid'', AStr h)] d = (Inr res, d')
      \<and> (\<forall>h'. doc ns d' h' = (if h' = h then None else doc ns d h'))"
    and otp_create: "doc ns d h = None \<Longrightarrow> \<exists>res d'. db_Query db c ns ns sql_otp_create
        [(''uid'', AStr h), (''code_hash'', AStr ch), (''attempts'', AInt a), (''expires_at'', ATime e)] d = (Inr res, d')
      \<and> (\<forall>h'. doc ns d' h' = (if h' = h then Some (ch, a, e) else doc ns d h'))"
    and otp_increment: "\<exists>res d'. db_Query db c ns ns sql_otp_increment [(''uid'', AStr h)] d = (Inr res, d')
      \<and> (\<forall>h'. doc ns d' h' = (if h' = h then map_option (\<lambda>(ch, a, e). (ch, a + 1, e)) (doc ns d h) else doc ns d h'))"
begin

lemma otp_Get_eq:
  "otp_Get L (Some db) c h d = ((case doc (ns_of db c) d h of
      None \<Rightarrow> Inl ''otp not found''
    | Some (ch, a, e) \<Rightarrow> Inr (ch, read_attempts (num a), e)), d)"
proof -
  obtain ex where "tenant_Query db c sql_otp_select [(''uid'', AStr h)] d =
      (Inr [AList (case doc (ns_of db c) d h of None \<Rightarrow> []
        | Some (ch, a, e) \<Rightarrow> [AMap ([(''code_hash'', AStr ch), (''attempts'', num a), (''expires_at'', ACustomTime e)] @ ex)])], d)"
    using otp_select [of c "ns_of db c" h d] by (auto simp: tenant_Query_def)
  then show ?thesis
    by (auto simp: otp_Get_def expiry_of_def split: option.splits)
qed

lemma otp_Delete_view:
  "fst (otp_Delete (Some db) c h d) = None"
  "doc (ns_of db c) (snd (otp_Delete (Some db) c h d)) h' = (if h' = h then None else doc (ns_of db c) d h')"
  using otp_delete [of c "ns_of db c" h d]
  by (auto simp: otp_Delete_def tenant_Query_def)

lemma otp_Increment_view:
  "doc (ns_of db c) (snd (otp_IncrementAttempts (Some db) c h d)) h' =
    (if h' = h then map_option (\<lambda>(ch, a, e). (ch, a + 1, e)) (doc (ns_of db c) d h) else doc (ns_of db c) d h')"
  using otp_increment [of c "ns_of db c" h d]
  by (auto simp: otp_IncrementAttempts_def tenant_Query_def)

lemma otp_Save_view:
  "fst (otp_Save (Some db) c h ch e d) = None"
  "doc (ns_of db c) (snd (otp_Save (Some db) c h ch e d)) h' =
    (if h' = h then Some (ch, 0, e) else doc (ns_of db c) d h')"
proof -
  let ?ns = "ns_of db c"
  obtain r1 d1 where d1: "db_Query db c ?ns ?ns sql_otp_delete [(''uid'', AStr h)] d = (Inr r1, d1)"
    "\<And>h'. doc ?ns d1 h' = (if h' = h then None else doc ?ns d h')"
    using otp_delete [of c ?ns h d] by blast
  then have "doc ?ns d1 h = None" by simp
  from otp_create [OF this, of c ch 0 e] obtain r2 d2 where
    d2: "db_Query db c ?ns ?ns sql_otp_create [(''uid'', AStr h), (''code_hash'', AStr ch),
      (''attempts'', AInt 0), (''expires_at'', ATime e)] d1 = (Inr r2, d2)"
    "\<And>h'. doc ?ns d2 h' = (if h' = h then Some (ch, 0, e) else doc ?ns d1 h')" by blast
  from d1 d2 show "fst (otp_Save (Some db) c h ch e d) = None"
    "doc ?ns (snd (otp_Save (Some db) c h ch e d)) h' =
      (if h' = h then Some (ch, 0, e) else doc ?ns d h')"
    by (simp_all add: otp_Save_def tenant_Query_def)
qed

end




context surreal_otp
begin

lemma store_reads:
  assumes "otp_store (SurrealOTPRepo L (Some db)) (\<lambda>c. doc (ns_of db c))" and "doc (ns_of db c) d h = Some (ch, n, e)"
  shows "read_attempts (num n) = n"
  using otp_store.get_found [OF assms] assms(2) by (simp add: SurrealOTPRepo_def otp_Get_eq)

text \<open>One failed attempt is stored as 1, whatever the state was.\<close>

lemma counts_one:
  "\<exists>d'. doc (ns_of db c) d' h = Some (ch, 1, e)"
  by (intro exI [of _ "snd (otp_IncrementAttempts (Some db) c h (snd (otp_Save (Some db) c h ch e undefined)))"])
    (simp add: otp_Increment_view otp_Save_view)

lemma not_store:
  assumes "\<And>n. as_float_int (num n) = None"
  shows "\<not> otp_store (SurrealOTPRepo L (Some db)) (\<lambda>c. doc (ns_of db c))"
  using store_reads [of L] counts_one [of Background] assms by (metis read_attempts_def option.case(1) zero_neq_one)

end

text \<open>With any other form the counter reads as 0, however many codes were tried.\<close>

locale surreal_otp_other = surreal_otp db doc num
  for db :: "'d db" and doc and num +
  assumes num_other: "as_float_int (num n) = None"
begin

lemma Get_zero:
  "doc (ns_of db c) d h = Some (ch, a, e) \<Longrightarrow> otp_Get L (Some db) c h d = (Inr (ch, 0, e), d)"
  by (simp add: otp_Get_eq read_attempts_def num_other)

text \<open>A wrong code is refused and the record stays, whatever its counter says.\<close>

lemma wrong_code_stays:
  assumes "svc_store svc = Some (SurrealOTPRepo L (Some db))" and "8 \<le> length h"
    and "doc (ns_of db c) d h = Some (ch, a, e)" and "now \<le> e" and "ch \<noteq> sha256Hex L code"
  shows "Verify L svc c now h code d = (Ret (False, None), snd (otp_IncrementAttempts (Some db) c h d))"
    and "doc (ns_of db c) (snd (Verify L svc c now h code d)) h = Some (ch, a + 1, e)"
proof -
  show v: "Verify L svc c now h code d = (Ret (False, None), snd (otp_IncrementAttempts (Some db) c h d))"
    using assms by (simp add: Verify_def SurrealOTPRepo_def Get_zero log8_long maxAttempts_def Let_def)
  show "doc (ns_of db c) (snd (Verify L svc c now h code d)) h = Some (ch, a + 1, e)"
    unfolding v using assms(3) by (simp add: otp_Increment_view)
qed

lemma right_code_accepted:
  assumes "svc_store svc = Some (SurrealOTPRepo L (Some db))" and "8 \<le> length h"
    and "doc (ns_of db c) d h = Some (sha256Hex L code, a, e)" and "now \<le> e"
  shows "fst (Verify L svc c now h code d) = Ret (True, None)"
  using assms by (simp add: Verify_def SurrealOTPRepo_def Get_zero maxAttempts_def Let_def)

lemma unlimited_guesses:
  assumes "svc_store svc = Some (SurrealOTPRepo L (Some db))" and "8 \<le> length h"
    and "doc (ns_of db c) d h = Some (sha256Hex L code, a, e)"
    and "\<forall>x \<in> set xs. fst x \<le> e \<and> sha256Hex L (snd x) \<noteq> sha256Hex L code" and "now \<le> e"
  shows "fst (Verify L svc c now h code (snd (verify_run L svc c h xs d))) = Ret (True, None)"
  using assms(3,4)
proof (induction xs arbitrary: d a)
  case Nil
  then show ?case using right_code_accepted [OF assms(1,2) _ assms(5)] by simp
next
  case (Cons x xs)
  have "doc (ns_of db c) (snd (Verify L svc c (fst x) h (snd x) d)) h = Some (sha256Hex L code, a + 1, e)"
    using wrong_code_stays(2) [OF assms(1,2) Cons.prems(1), of "fst x" "snd x"] Cons.prems(2) by auto
  from Cons.IH [OF this] Cons.prems(2) show ?case by (simp add: verify_run_Cons Let_def)
qed

end

section \<open>A database of documents\<close>

text \<open>
  The namespaces of documents with the four statements, closed: it satisfies the two
  locales, for the form in which it returns an integer.
\<close>

type_synonym otp_docs = "string \<Rightarrow> string \<Rightarrow> otp_row option"

fun uid_of :: "vars \<Rightarrow> string" where
  "uid_of ((k, AStr h) # _) = h"
| "uid_of _ = []"

definition otp_db :: "(int \<Rightarrow> any) \<Rightarrow> otp_docs db" where
  "otp_db num = \<lparr>db_Query = (\<lambda>c ns dbn sql vs d.
     if sql = sql_otp_select then
       (Inr [AList (case d ns (uid_of vs) of None \<Rightarrow> []
          | Some (ch, a, e) \<Rightarrow> [AMap [(''code_hash'', AStr ch), (''attempts'', num a), (''expires_at'', ACustomTime e)]])], d)
     else if sql = sql_otp_delete then (Inr [ANil], d(ns := (d ns)(uid_of vs := None)))
     else if sql = sql_otp_create then
       (case vs of [(_, AStr h), (_, AStr ch), (_, AInt a), (_, ATime e)] \<Rightarrow>
           if d ns h = None then (Inr [ANil], d(ns := (d ns)(h := Some (ch, a, e))))
           else (Inl ''record already exists'', d)
        | _ \<Rightarrow> (Inl ''bad variables'', d))
     else if sql = sql_otp_increment then
       (Inr [ANil], d(ns := (d ns)(uid_of vs :=
          map_option (\<lambda>(ch, a, e). (ch, a + 1, e)) (d ns (uid_of vs)))))
     else (Inl ''unknown statement'', d)), db_defaultNS = ''public''\<rparr>"


interpretation int_db: surreal_otp_other "otp_db AInt" "\<lambda>ns d. d ns" AInt
  by unfold_locales (auto simp: otp_db_def split: option.splits)

section \<open>Properties\<close>



text \<open>C25: The limit depends on the driver.  \<open>Get\<close> reads \<open>attempts\<close> as a float64 only; when the driver
  returns the counter in any other form (migration 007 makes the column an int), wrong codes never exhaust the attempts: after any number
  of them in time, the right code is still accepted.\<close>

theorem otp_limit_void:
  assumes "surreal_otp_other db doc num"
    and "svc_store svc = Some (SurrealOTPRepo L (Some db))" and "8 \<le> length h"
    and "doc (ns_of db c) d h = Some (sha256Hex L code, a, e)"
    and "\<forall>x \<in> set xs. fst x \<le> e \<and> sha256Hex L (snd x) \<noteq> sha256Hex L code" and "now \<le> e"
  shows "fst (Verify L svc c now h code (snd (verify_run L svc c h xs d))) = Ret (True, None)"
  by (rule surreal_otp_other.unlimited_guesses [OF assms])

lemma otp_limit_void_witness:
  "fst (Verify demo \<lparr>svc_sender = None, svc_store = Some (SurrealOTPRepo demo (Some (otp_db AInt)))\<rparr>
      Background 1 ''12345678'' ''123456''
      (snd (verify_run demo \<lparr>svc_sender = None, svc_store = Some (SurrealOTPRepo demo (Some (otp_db AInt)))\<rparr>
        Background ''12345678'' (replicate 100 (0, ''000000''))
        (\<lambda>ns. [''12345678'' \<mapsto> (sha256Hex demo ''123456'', 0, 9)])))) = Ret (True, None)"
proof (rule otp_limit_void [OF int_db.surreal_otp_other_axioms, of _ _ _ _ _ _ 0 9])
  have "sha256Hex demo ''000000'' \<noteq> sha256Hex demo ''123456''"
    unfolding sha256Hex_def hex_eq_iff by code_simp
  then show "\<forall>x \<in> set (replicate 100 (0 :: int, ''000000'')). fst x \<le> 9 \<and>
      sha256Hex demo (snd x) \<noteq> sha256Hex demo ''123456''" by simp
qed simp_all

end
