(* ===== verification/Http.thy ===== *)
theory Http
  imports User
begin

text \<open>
  Requests and responses as the handlers of internal/interfaces/http use them (net/http), and the
  helpers of internal/shared/httputil.  A handler is a function of the request on a state: the
  world of the services and the response written so far.  A rendered template (the generated
  *_templ.go files) is kept as its name and arguments; theory Screens
  gives its text.
\<close>

section \<open>Requests\<close>

text \<open>
  \<open>rq_Form\<close> has the values of \<open>r.Form\<close> after parsing (the body before the query) and
  \<open>rq_FormErr\<close> the error of \<open>ParseForm\<close>; header names are in canonical form.
\<close>

record request =
  rq_Method :: string
  rq_Path :: string
  rq_Query :: "(string \<times> string) list"
  rq_Form :: "(string \<times> string) list"
  rq_FormErr :: "goerr option"
  rq_Header :: "(string \<times> string) list"
  rq_Cookies :: "(string \<times> string) list"
  rq_RemoteAddr :: string
  rq_TLS :: bool
  rq_Context :: ctx

definition first_value :: "(string \<times> string) list \<Rightarrow> string \<Rightarrow> string" where
  "first_value kvs k = (case map_of kvs k of Some v \<Rightarrow> v | None \<Rightarrow> [])"

definition all_values :: "(string \<times> string) list \<Rightarrow> string \<Rightarrow> string list" where
  "all_values kvs k = map snd (filter (\<lambda>kv. fst kv = k) kvs)"

definition FormValue :: "request \<Rightarrow> string \<Rightarrow> string" where
  "FormValue r k = first_value (rq_Form r) k"

definition QueryGet :: "request \<Rightarrow> string \<Rightarrow> string" where
  "QueryGet r k = first_value (rq_Query r) k"

definition HeaderGet :: "request \<Rightarrow> string \<Rightarrow> string" where
  "HeaderGet r k = first_value (rq_Header r) k"

definition Cookie :: "request \<Rightarrow> string \<Rightarrow> string option" where
  "Cookie r k = map_of (rq_Cookies r) k"

definition WithContext :: "request \<Rightarrow> ctx \<Rightarrow> request" where
  "WithContext r c = r\<lparr>rq_Context := c\<rparr>"

definition a_request :: request where
  "a_request = \<lparr>rq_Method = ''GET'', rq_Path = ''/'', rq_Query = [], rq_Form = [], rq_FormErr = None,
     rq_Header = [], rq_Cookies = [], rq_RemoteAddr = ''10.0.0.1:5000'', rq_TLS = False,
     rq_Context = Background\<rparr>"

lemma first_value_simps [simp]:
  "first_value [] k = []"
  "first_value ((k', v) # kvs) k = (if k = k' then v else first_value kvs k)"
  by (simp_all add: first_value_def)

section \<open>Responses\<close>

datatype body =
    Text string
  | Json string "(string \<times> string) list"
  | Template string "string list"
  | Value any

record cookie =
  ck_Name :: string
  ck_Value :: string
  ck_Path :: string
  ck_MaxAge :: int
  ck_HttpOnly :: bool
  ck_Secure :: bool
  ck_Lax :: bool

text \<open>
  The first call of \<open>WriteHeader\<close> fixes the status; a write without one gives 200.  No handler
  sets a header after the status, and the short page that \<open>http.Redirect\<close> adds to the answer
  of a GET is left out, as is its rewriting of a location that is a relative path.  \<open>rs_log\<close> is
  the log context that RequestID puts into the request: the masked e-mail and the tenant.
\<close>

record response =
  rs_status :: "nat option"
  rs_headers :: "(string \<times> string) list"
  rs_cookies :: "cookie list"
  rs_bodies :: "body list"
  rs_log :: "(string \<times> string) option"

definition fresh_response :: response where
  "fresh_response = \<lparr>rs_status = None, rs_headers = [], rs_cookies = [], rs_bodies = [], rs_log = None\<rparr>"

definition SetHeader :: "string \<Rightarrow> string \<Rightarrow> response \<Rightarrow> response" where
  "SetHeader k v w = w\<lparr>rs_headers := (k, v) # filter (\<lambda>kv. fst kv \<noteq> k) (rs_headers w)\<rparr>"

definition SetCookie :: "cookie \<Rightarrow> response \<Rightarrow> response" where
  "SetCookie c w = w\<lparr>rs_cookies := rs_cookies w @ [c]\<rparr>"

definition WriteHeader :: "nat \<Rightarrow> response \<Rightarrow> response" where
  "WriteHeader code w = (case rs_status w of None \<Rightarrow> w\<lparr>rs_status := Some code\<rparr> | Some _ \<Rightarrow> w)"

definition WriteBody :: "body \<Rightarrow> response \<Rightarrow> response" where
  "WriteBody b w = (WriteHeader 200 w)\<lparr>rs_bodies := rs_bodies w @ [b]\<rparr>"

definition http_Error :: "string \<Rightarrow> nat \<Rightarrow> response \<Rightarrow> response" where
  "http_Error msg code w = WriteBody (Text (msg @ [CHR 0x0A])) (WriteHeader code
     (SetHeader ''Content-Type'' ''text/plain; charset=utf-8'' w))"

definition Redirect :: "string \<Rightarrow> nat \<Rightarrow> response \<Rightarrow> response" where
  "Redirect url code w = WriteHeader code (SetHeader ''Location'' url w)"

definition Render :: "string \<Rightarrow> string list \<Rightarrow> response \<Rightarrow> response" where
  "Render name args w = WriteBody (Template name args) (SetHeader ''Content-Type'' ''text/html; charset=utf-8'' w)"

definition header_of :: "response \<Rightarrow> string \<Rightarrow> string" where
  "header_of w k = first_value (rs_headers w) k"

definition status_of :: "response \<Rightarrow> nat" where
  "status_of w = (case rs_status w of Some c \<Rightarrow> c | None \<Rightarrow> 200)"

section \<open>httputil\<close>

definition WantsJSON :: "request \<Rightarrow> bool" where
  "WantsJSON r =
     (if EqualFold (QueryGet r ''format'') ''json'' then True
      else (let accept = HeaderGet r ''Accept'' in
            Contains accept ''application/json'' \<or> Contains accept ''application/ld+json''))"

definition WriteJSON :: "nat \<Rightarrow> body \<Rightarrow> response \<Rightarrow> response" where
  "WriteJSON status v w = WriteBody v (WriteHeader status (SetHeader ''Content-Type'' ''application/json'' w))"

definition json :: "(string \<times> string) list \<Rightarrow> body" where
  "json kvs = Json ''object'' kvs"

section \<open>Handlers\<close>

type_synonym 'w io = "'w \<times> response"
type_synonym 'w handler = "request \<Rightarrow> 'w io \<Rightarrow> unit go \<times> 'w io"

text \<open>What a handler writes and does not do to the world.\<close>

definition reply :: "(response \<Rightarrow> response) \<Rightarrow> 'w io \<Rightarrow> unit go \<times> 'w io" where
  "reply f s = (Ret (), fst s, f (snd s))"

lemma reply_simps [simp]: "fst (reply f s) = Ret ()" "snd (reply f s) = (fst s, f (snd s))"
  by (simp_all add: reply_def)

lemma header_SetHeader [simp]:
  "first_value (rs_headers (SetHeader k v w)) k' = (if k' = k then v else first_value (rs_headers w) k')"
proof -
  have "map_of (filter (\<lambda>kv. fst kv \<noteq> k) xs) k' = map_of xs k'" if "k' \<noteq> k" for xs :: "(string \<times> string) list"
    using that by (induction xs) auto
  then show ?thesis by (simp add: SetHeader_def first_value_def)
qed

lemma response_simps [simp]:
  "rs_cookies (SetHeader k v w) = rs_cookies w" "rs_cookies (WriteHeader n w) = rs_cookies w"
  "rs_cookies (WriteBody b w) = rs_cookies w" "rs_cookies (SetCookie c w) = rs_cookies w @ [c]"
  "rs_status (SetHeader k v w) = rs_status w" "rs_status (SetCookie c w) = rs_status w"
  "rs_headers (WriteHeader n w) = rs_headers w" "rs_headers (WriteBody b w) = rs_headers w"
  "rs_headers (SetCookie c w) = rs_headers w"
  "rs_bodies (SetHeader k v w) = rs_bodies w" "rs_bodies (WriteHeader n w) = rs_bodies w"
  "rs_bodies (SetCookie c w) = rs_bodies w" "rs_bodies (WriteBody b w) = rs_bodies w @ [b]"
  "rs_log (SetHeader k v w) = rs_log w" "rs_log (WriteHeader n w) = rs_log w"
  "rs_log (WriteBody b w) = rs_log w" "rs_log (SetCookie c w) = rs_log w"
  by (simp_all add: SetHeader_def SetCookie_def WriteHeader_def WriteBody_def split: option.splits)

lemma status_simps [simp]:
  "rs_status (WriteHeader n w) = (case rs_status w of None \<Rightarrow> Some n | Some m \<Rightarrow> Some m)"
  "rs_status (WriteBody b w) = (case rs_status w of None \<Rightarrow> Some 200 | Some m \<Rightarrow> Some m)"
  by (simp_all add: WriteHeader_def WriteBody_def split: option.splits)

lemma page_simps [simp]:
  "rs_cookies (http_Error m n w) = rs_cookies w" "rs_cookies (Redirect u n w) = rs_cookies w"
  "rs_cookies (Render t as w) = rs_cookies w" "rs_cookies (WriteJSON n b w) = rs_cookies w"
  "rs_status (http_Error m n w) = (case rs_status w of None \<Rightarrow> Some n | Some k \<Rightarrow> Some k)"
  "rs_status (Redirect u n w) = (case rs_status w of None \<Rightarrow> Some n | Some k \<Rightarrow> Some k)"
  "rs_status (Render t as w) = (case rs_status w of None \<Rightarrow> Some 200 | Some k \<Rightarrow> Some k)"
  "rs_status (WriteJSON n b w) = (case rs_status w of None \<Rightarrow> Some n | Some k \<Rightarrow> Some k)"
  "rs_bodies (Render t as w) = rs_bodies w @ [Template t as]"
  "rs_bodies (http_Error m n w) = rs_bodies w @ [Text (m @ [CHR 0x0A])]"
  "rs_bodies (Redirect u n w) = rs_bodies w"
  "rs_bodies (WriteJSON n b w) = rs_bodies w @ [b]"
  by (simp_all add: http_Error_def Redirect_def Render_def WriteJSON_def split: option.splits)

lemma fresh_simps [simp]:
  "rs_status fresh_response = None" "rs_cookies fresh_response = []" "rs_bodies fresh_response = []"
  "rs_headers fresh_response = []" "rs_log fresh_response = None"
  by (simp_all add: fresh_response_def)


section \<open>Actions\<close>

text \<open>
  A handler is written as a sequence of actions on the world and the response; a panic ends it where it
  happens.  \<open>world_do\<close> is a call of a service, \<open>world_go\<close> one that may panic, \<open>respond\<close> a change of the
  response, \<open>respond_go\<close> one that may panic, \<open>must\<close> an expression that may panic (a slice, a nil
  pointer) and \<open>whenever\<close> an \<open>if\<close> without \<open>else\<close>.
\<close>

type_synonym ('a, 'w) act = "'w io \<Rightarrow> 'a go \<times> 'w io"

definition ret :: "'a \<Rightarrow> ('a, 'w) act" where "ret x s = (Ret x, s)"

definition bind_act :: "('a, 'w) act \<Rightarrow> ('a \<Rightarrow> ('b, 'w) act) \<Rightarrow> ('b, 'w) act" where
  "bind_act m k s = (case m s of (Panic p, s1) \<Rightarrow> (Panic p, s1) | (Ret x, s1) \<Rightarrow> k x s1)"

definition after :: "(unit, 'w) act \<Rightarrow> ('b, 'w) act \<Rightarrow> ('b, 'w) act" where
  "after m k = bind_act m (\<lambda>_. k)"

definition world_go :: "('w \<Rightarrow> 'a go \<times> 'w) \<Rightarrow> ('a, 'w) act" where
  "world_go f s = (fst (f (fst s)), snd (f (fst s)), snd s)"

definition world_do :: "('w \<Rightarrow> 'a \<times> 'w) \<Rightarrow> ('a, 'w) act" where
  "world_do f = world_go (\<lambda>w. (Ret (fst (f w)), snd (f w)))"

definition respond :: "(response \<Rightarrow> response) \<Rightarrow> (unit, 'w) act" where "respond f = reply f"

definition respond_go :: "(response \<Rightarrow> response go) \<Rightarrow> (unit, 'w) act" where
  "respond_go f s = (case f (snd s) of Panic p \<Rightarrow> (Panic p, s) | Ret r \<Rightarrow> (Ret (), fst s, r))"

definition must :: "'a go \<Rightarrow> ('a, 'w) act" where "must m s = (m, s)"

definition deref :: "'a option \<Rightarrow> 'a go" where
  "deref x = (case x of None \<Rightarrow> Panic ''invalid memory address or nil pointer dereference'' | Some y \<Rightarrow> Ret y)"

definition whenever :: "bool \<Rightarrow> (unit, 'w) act \<Rightarrow> (unit, 'w) act" where
  "whenever b m = (if b then m else ret ())"

lemma act_simps [simp]:
  "ret x s = (Ret x, s)"
  "world_do f s = (Ret (fst (f (fst s))), snd (f (fst s)), snd s)"
  "respond g s = (Ret (), fst s, g (snd s))"
  "deref (Some y) = Ret y"
  "whenever True m = m" "whenever False m = ret ()"
  by (simp_all add: ret_def world_do_def world_go_def respond_def reply_def deref_def whenever_def)

lemma bind_act_simps [simp]:
  "bind_act (ret x) k = k x"
  "bind_act (must (Ret x)) k = k x"
  "bind_act (must (Panic p)) k = must (Panic p)"
  "bind_act (respond g) k2 s = k2 () (fst s, g (snd s))"
  "bind_act (world_do f) k3 s = k3 (fst (f (fst s))) (snd (f (fst s)), snd s)"
  by (rule ext | simp add: bind_act_def must_def)+

lemma bind_act_eq:
  "m s = (Ret x, s1) \<Longrightarrow> bind_act m k s = k x s1"
  "m s = (Panic p, s1) \<Longrightarrow> bind_act m k s = (Panic p, s1)"
  by (simp_all add: bind_act_def)

lemma bind_act_RetE:
  assumes "bind_act m k s = (Ret y, s')"
  obtains x s1 where "m s = (Ret x, s1)" and "k x s1 = (Ret y, s')"
  using assms by (auto simp: bind_act_def split: prod.splits go.splits)

text \<open>What every action of a handler keeps of the response holds for the handler, panic or not.\<close>

definition keeps :: "(response \<Rightarrow> response \<Rightarrow> bool) \<Rightarrow> ('a, 'w) act \<Rightarrow> bool" where
  "keeps R m \<longleftrightarrow> (\<forall>s. R (snd s) (snd (snd (m s))))"

locale kept =
  fixes R :: "response \<Rightarrow> response \<Rightarrow> bool"
  assumes refl: "R w w" and trans: "R u v \<Longrightarrow> R v w \<Longrightarrow> R u w"
begin

lemma kept_ret [intro, simp]: "keeps R (ret x)" "keeps R (must m)" "keeps R (world_go f)" "keeps R (world_do g)"
  by (simp_all add: keeps_def refl must_def world_go_def)

lemma kept_bind [intro]: "keeps R m \<Longrightarrow> (\<And>x. keeps R (k x)) \<Longrightarrow> keeps R (bind_act m k)"
  unfolding keeps_def bind_act_def by (auto split: prod.splits go.splits) (metis snd_conv trans)+

lemma kept_after [intro]: "keeps R m \<Longrightarrow> keeps R k \<Longrightarrow> keeps R (after m k)"
  by (simp add: after_def kept_bind)

lemma kept_respond: "(\<And>w. R w (g w)) \<Longrightarrow> keeps R (respond g)"
  by (simp add: keeps_def)

lemma kept_respond_go: "(\<And>w w'. g w = Ret w' \<Longrightarrow> R w w') \<Longrightarrow> keeps R (respond_go g)"
  by (auto simp: keeps_def respond_go_def refl split: go.splits)

lemma kept_if [intro]: "(b \<Longrightarrow> keeps R m) \<Longrightarrow> (\<not> b \<Longrightarrow> keeps R k) \<Longrightarrow> keeps R (if b then m else k)"
  by simp

lemma kept_whenever [intro]: "keeps R m \<Longrightarrow> keeps R (whenever b m)"
  by (simp add: whenever_def)

lemma kept_option: "keeps R m \<Longrightarrow> (\<And>y. keeps R (k y)) \<Longrightarrow> keeps R (case x of None \<Rightarrow> m | Some y \<Rightarrow> k y)"
  by (cases x) simp_all

lemma kept_sum: "(\<And>y. keeps R (m y)) \<Longrightarrow> (\<And>y. keeps R (k y)) \<Longrightarrow> keeps R (case x of Inl y \<Rightarrow> m y | Inr y \<Rightarrow> k y)"
  by (cases x) simp_all

lemma kept_prod: "(\<And>a b. keeps R (k a b)) \<Longrightarrow> keeps R (case x of (a, b) \<Rightarrow> k a b)"
  by (cases x) simp_all

lemmas kept_rules = kept_ret kept_bind kept_after kept_if kept_whenever kept_option kept_sum kept_prod

end

text \<open>No cookie is added to the answer.\<close>

definition same_cookies :: "response \<Rightarrow> response \<Rightarrow> bool" where
  "same_cookies w w' \<longleftrightarrow> rs_cookies w' = rs_cookies w"

interpretation no_cookie: kept same_cookies
  by unfold_locales (simp_all add: same_cookies_def)

end
