(* ===== verification/Middleware.thy ===== *)
theory Middleware
  imports Http
begin

text \<open>
  Request ids, the request log and the security headers
  (internal/interfaces/http/middleware/request_id.go and security_headers.go).  The lemmas give the
  shape of a generated id, when the log line of a request panics, and the headers that every
  answer of a page carries.
\<close>

section \<open>Request ids\<close>

definition RequestIDKey :: ctxkey where "RequestIDKey = (''middleware.ctxKey'', ''request_id'')"

definition pad :: "string \<Rightarrow> nat \<Rightarrow> char \<Rightarrow> string" where
  "pad s w c = (if length s \<ge> w then take w s else replicate (w - length s) c @ s)"

function hex_digits :: "int \<Rightarrow> string \<Rightarrow> string" where
  "hex_digits n buf = (if n > 0 then hex_digits (n div 16) ((''0123456789abcdef'' ! nat (n mod 16)) # buf) else buf)"
  by pat_completeness auto
termination by (relation "measure (\<lambda>(n, buf). nat n)") auto

declare hex_digits.simps [simp del]

definition itohex :: "int \<Rightarrow> nat \<Rightarrow> string" where
  "itohex n width = (if n = 0 then pad '''' width CHR ''0'' else pad (hex_digits n []) width CHR ''0'')"

text \<open>The clock is read in milliseconds; an error of \<open>rand.Read\<close> is ignored.\<close>

definition generateID :: "time \<Rightarrow> rand \<Rightarrow> string" where
  "generateID now r =
     (let ts = itohex (now div 1000000) 8;
          b = (case r 12 of Inr bs \<Rightarrow> bs | Inl e \<Rightarrow> replicate 12 (byte 0))
      in ts @ hex_EncodeToString b)"

definition extractClientIP :: "request \<Rightarrow> string" where
  "extractClientIP r =
     (let fwd = HeaderGet r ''X-Forwarded-For'' in
      if fwd \<noteq> '''' then TrimSpace (hd (SplitN2 fwd CHR '',''))
      else (let real = HeaderGet r ''X-Real-Ip'' in
            if real \<noteq> '''' then real
            else (let addr = rq_RemoteAddr r in
                  case LastIndex addr CHR '':'' of Some idx \<Rightarrow> take idx addr | None \<Rightarrow> addr)))"

definition GetClientIP :: "request \<Rightarrow> string" where "GetClientIP r = extractClientIP r"

definition GetRequestID :: "ctx \<Rightarrow> string" where
  "GetRequestID c = str_or_empty (ctx_Value c RequestIDKey)"

definition getCtxStr :: "ctx \<Rightarrow> ctxkey \<Rightarrow> string" where
  "getCtxStr c key = str_or_empty (ctx_Value c key)"

text \<open>The wrapper of the response writer forwards the status, so \<open>status_of\<close> is what it captured.\<close>

record access_log =
  al_reqid :: string
  al_method :: string
  al_path :: string
  al_status :: nat
  al_client_ip :: string
  al_tenant_id :: string
  al_email :: string

definition RequestID :: "time \<Rightarrow> rand \<Rightarrow> 'w handler \<Rightarrow> request \<Rightarrow> access_log list \<times> 'w io
    \<Rightarrow> unit go \<times> access_log list \<times> 'w io" where
  "RequestID now rnd next_h r s =
     (let id0 = HeaderGet r ''X-Request-Id'';
          rid = (if id0 = '''' then generateID now rnd else id0);
          r' = WithContext r (WithValue (rq_Context r) RequestIDKey (AStr rid));
          resp = SetHeader ''X-Request-Id'' rid (snd (snd s)\<lparr>rs_log := Some ('''', '''')\<rparr>)
      in case next_h r' (fst (snd s), resp) of
           (Panic p, io) \<Rightarrow> (Panic p, fst s, io)
         | (Ret _, io) \<Rightarrow>
            (if HasPrefix (rq_Path r') ''/static/'' \<or> rq_Path r' = ''/favicon.ico'' then (Ret (), fst s, io)
             else (case slice_to rid 8 of
                     Panic p \<Rightarrow> (Panic p, fst s, io)
                   | Ret short \<Rightarrow>
                      (let (email, tenantID) = (case rs_log (snd io) of Some lc \<Rightarrow> lc | None \<Rightarrow> ('''', ''''))
                       in (Ret (), fst s @ [\<lparr>al_reqid = short, al_method = rq_Method r', al_path = rq_Path r',
                             al_status = status_of (snd io), al_client_ip = extractClientIP r',
                             al_tenant_id = tenantID, al_email = email\<rparr>], io)))))"

text \<open>\<open>SetLogEmail\<close> masks the address, which panics for one that starts with \<open>@\<close>.\<close>

definition SetLogEmail :: "string \<Rightarrow> response \<Rightarrow> response go" where
  "SetLogEmail email w =
     (case rs_log w of
        None \<Rightarrow> Ret w
      | Some lc \<Rightarrow> if email = '''' then Ret w
                   else gbind (httputil_MaskEmail email) (\<lambda>m. Ret (w\<lparr>rs_log := Some (m, snd lc)\<rparr>)))"

lemma SetLogEmail_panics:
  "is_panic (SetLogEmail email w) \<longleftrightarrow> rs_log w \<noteq> None \<and> HasPrefix email ''@''"
proof (cases "rs_log w")
  case None
  then show ?thesis by (simp add: SetLogEmail_def)
next
  case (Some lc)
  have "is_panic (gbind (httputil_MaskEmail email) (\<lambda>m. Ret (w\<lparr>rs_log := Some (m, snd lc)\<rparr>))) \<longleftrightarrow> HasPrefix email ''@''"
    unfolding httputil_MaskEmail_panics [symmetric] by (cases "httputil_MaskEmail email") simp_all
  with Some show ?thesis by (auto simp: SetLogEmail_def HasPrefix_def)
qed

lemma SetLogEmail_frame:
  assumes "SetLogEmail email w = Ret w'"
  shows "rs_status w' = rs_status w" "rs_cookies w' = rs_cookies w" "rs_headers w' = rs_headers w"
    "rs_bodies w' = rs_bodies w"
  using assms by (auto simp: SetLogEmail_def gbind_Ret_iff split: option.splits if_splits)

lemma SetLogEmail_stars: "\<exists>w'. SetLogEmail ''***'' w = Ret w'"
proof (cases "SetLogEmail ''***'' w")
  case (Panic p)
  then have "is_panic (SetLogEmail ''***'' w)" by simp
  then show ?thesis by (simp add: SetLogEmail_panics HasPrefix_def)
qed simp

section \<open>Security headers\<close>

fun join :: "string list \<Rightarrow> string \<Rightarrow> string" where
  "join [] sep = ''''"
| "join (s # strs) sep = foldl (\<lambda>result t. result @ sep @ t) s strs"

text \<open>A text that ends in a single quote.\<close>

definition quoted :: "string \<Rightarrow> string" where "quoted s = s @ [CHR 0x27]"

definition csp :: "string list" where
  "csp = [quoted ''default-src 'self'',
     quoted ''script-src 'self' https://unpkg.com https://cdn.jsdelivr.net 'unsafe-inline' 'unsafe-eval'',
     quoted ''style-src 'self' https://fonts.googleapis.com https://api.fontshare.com 'unsafe-inline'',
     ''font-src 'self' https://fonts.gstatic.com https://api.fontshare.com https:'',
     ''img-src 'self' data:'',
     ''connect-src 'self' ws://localhost:* http://localhost:*'',
     quoted ''frame-ancestors 'none'',
     quoted ''base-uri 'self'',
     quoted ''form-action 'self'']"

definition security_headers :: "request \<Rightarrow> response \<Rightarrow> response" where
  "security_headers r w =
     (let w1 = SetHeader ''X-Frame-Options'' ''DENY'' w;
          w2 = SetHeader ''X-Content-Type-Options'' ''nosniff'' w1;
          w3 = SetHeader ''Referrer-Policy'' ''strict-origin-when-cross-origin'' w2;
          w4 = SetHeader ''Permissions-Policy'' ''camera=(), microphone=(), geolocation=()'' w3;
          w5 = SetHeader ''Content-Security-Policy'' (join csp ''; '') w4
      in if HeaderGet r ''X-Forwarded-Proto'' = ''https'' \<or> rq_TLS r
         then SetHeader ''Strict-Transport-Security'' ''max-age=31536000; includeSubDomains; preload'' w5 else w5)"

definition SecurityHeaders :: "'w handler \<Rightarrow> 'w handler" where
  "SecurityHeaders next_h r s =
     (if HasPrefix (rq_Path r) ''/static/'' then next_h r s
      else next_h r (fst s, security_headers r (snd s)))"

lemma foldl_join: "foldl (\<lambda>r t. r @ sep @ t) s strs = s @ concat (map (\<lambda>t. sep @ t) strs)"
  by (induction strs arbitrary: s) simp_all

lemma join_Join: "join strs sep = Join strs sep"
  by (induction strs sep rule: Join.induct) (simp_all add: foldl_join)

section \<open>Lemmas on ids\<close>

lemma pad_length [simp]: "length (pad s w c) = w"
  by (simp add: pad_def)

lemma itohex_length [simp]: "length (itohex n w) = w"
  by (simp add: itohex_def)

lemma generateID_length: "rand_ok r \<Longrightarrow> length (generateID now r) = 32"
  by (auto simp: generateID_def rand_ok_def Let_def split: sum.splits)

lemma security_headers_set:
  "header_of (security_headers r w) ''X-Frame-Options'' = ''DENY''"
  "header_of (security_headers r w) ''X-Content-Type-Options'' = ''nosniff''"
  "header_of (security_headers r w) ''Content-Security-Policy'' = join csp ''; ''"
  "rs_status (security_headers r w) = rs_status w" "rs_cookies (security_headers r w) = rs_cookies w"
  by (simp_all add: security_headers_def header_of_def Let_def)

section \<open>Properties\<close>

text \<open>When the log line panics.  After a handler has returned, RequestID panics exactly for a request
  outside the static files whose own X-Request-ID has between one and seven bytes: the slice
  \<open>id[:8]\<close> is out of range, and a generated id is long enough.\<close>

theorem request_id_panics_iff:
  assumes "rand_ok rnd" and "\<forall>r io. \<exists>io'. next_h r io = (Ret (), io')"
  shows "is_panic (fst (RequestID now rnd next_h r s)) \<longleftrightarrow>
    \<not> HasPrefix (rq_Path r) ''/static/'' \<and> rq_Path r \<noteq> ''/favicon.ico'' \<and>
    HeaderGet r ''X-Request-Id'' \<noteq> '''' \<and> length (HeaderGet r ''X-Request-Id'') < 8"
proof -
  let ?id = "if HeaderGet r ''X-Request-Id'' = '''' then generateID now rnd else HeaderGet r ''X-Request-Id''"
  let ?r = "WithContext r (WithValue (rq_Context r) RequestIDKey (AStr ?id))"
  obtain io where io: "next_h ?r (fst (snd s), SetHeader ''X-Request-Id'' ?id (snd (snd s)\<lparr>rs_log := Some ('''', '''')\<rparr>)) = (Ret (), io)"
    using assms(2) by metis
  have p: "rq_Path ?r = rq_Path r" by (simp add: WithContext_def)
  have "is_panic (fst (RequestID now rnd next_h r s)) \<longleftrightarrow>
    \<not> (HasPrefix (rq_Path r) ''/static/'' \<or> rq_Path r = ''/favicon.ico'') \<and> is_panic (slice_to ?id 8)"
    unfolding RequestID_def Let_def io p
    by (cases "slice_to ?id 8") (simp_all add: split_beta)
  also have "is_panic (slice_to ?id 8) \<longleftrightarrow> length ?id < 8" by simp
  also have "length ?id < 8 \<longleftrightarrow> HeaderGet r ''X-Request-Id'' \<noteq> '''' \<and> length (HeaderGet r ''X-Request-Id'') < 8"
    using generateID_length [OF assms(1), of now] by auto
  finally show ?thesis by blast
qed

lemma request_id_panics_iff_witness:
  "is_panic (fst (RequestID 0 (\<lambda>n. Inr (replicate n CHR ''r'')) (\<lambda>r. reply (WriteHeader 200))
     (a_request\<lparr>rq_Header := [(''X-Request-Id'', ''abc'')]\<rparr>) ([], 0 :: nat, fresh_response)))"
  using request_id_panics_iff [of "\<lambda>n. Inr (replicate n CHR ''r'')" "\<lambda>r. reply (WriteHeader 200)" 0
      "a_request\<lparr>rq_Header := [(''X-Request-Id'', ''abc'')]\<rparr>" "([], 0 :: nat, fresh_response)"]
  by (simp add: rand_ok_def reply_def HeaderGet_def a_request_def HasPrefix_def)

end
