(* ===== verification/Guard.thy ===== *)
theory Guard
  imports Session Middleware
begin

text \<open>
  The guard in front of the dashboard (internal/interfaces/http/handlers/auth_guard.go): the open
  paths, the check of the access cookie, and the tenant and user that the next handler reads from
  the context.
\<close>

definition ctxUserID :: ctxkey where "ctxUserID = (''handlers.authCtxKey'', ''user_id'')"
definition ctxEmail :: ctxkey where "ctxEmail = (''handlers.authCtxKey'', ''email'')"
definition ctxRole :: ctxkey where "ctxRole = (''handlers.authCtxKey'', ''role'')"

definition PublicPaths :: "string list" where
  "PublicPaths = [''/health'', ''/auth/otp/send'', ''/auth/otp/verify'', ''/auth/passkey/login/begin'',
     ''/auth/passkey/login/finish'', ''/auth/passkey/begin'', ''/auth/passkey/finish'',
     ''/auth/passkey/skip'', ''/auth/passkey/register'', ''/auth/refresh'', ''/auth/logout'',
     ''/auth/consent'', ''/static/'']"

fun public_in :: "string list \<Rightarrow> string \<Rightarrow> bool" where
  "public_in [] path = (path = ''/'')"
| "public_in (p # ps) path =
     (if p = path then True
      else if HasSuffix p ''/'' \<and> HasPrefix path p then True
      else public_in ps path)"

definition IsPublicPath :: "string \<Rightarrow> bool" where
  "IsPublicPath path = public_in PublicPaths path"

definition unauthorized :: "request \<Rightarrow> response \<Rightarrow> response" where
  "unauthorized r w =
     (if HeaderGet r ''Hx-Request'' = ''true'' then WriteHeader 401 (SetHeader ''HX-Redirect'' ''/'' w)
      else Redirect ''/'' 303 w)"

definition log_tenant :: "string \<Rightarrow> response \<Rightarrow> response" where
  "log_tenant t w = (case rs_log w of None \<Rightarrow> w | Some lc \<Rightarrow> w\<lparr>rs_log := Some (fst lc, t)\<rparr>)"

text \<open>The lookup of the raw user id; the hash stands in when there is none.\<close>

definition resolve_user :: "'w UserStore option \<Rightarrow> ctx \<Rightarrow> AccessClaims \<Rightarrow> 'w \<Rightarrow> string \<times> 'w" where
  "resolve_user users c claims w =
     (case users of
        None \<Rightarrow> (ac_Subject claims, w)
      | Some us \<Rightarrow>
          if ac_UserIDHash claims \<noteq> '''' then
            (case us_FindByUserIDHash us c (ac_UserIDHash claims) w of
               (Inr (Some u), w1) \<Rightarrow> (if u_UserID u \<noteq> '''' then u_UserID u else ac_Subject claims, w1)
             | (_, w1) \<Rightarrow> (ac_Subject claims, w1))
          else (ac_Subject claims, w))"

definition guard_context :: "AccessClaims \<Rightarrow> string \<Rightarrow> ctx \<Rightarrow> ctx" where
  "guard_context claims rawUserID c0 =
     (let c1 = (if ac_TenantID claims \<noteq> '''' then WithValue c0 TenantIDKey (AStr (ac_TenantID claims)) else c0);
          c2 = (if ac_UserIDHash claims \<noteq> '''' then WithValue c1 UserIDHashKey (AStr (ac_UserIDHash claims)) else c1)
      in WithValue (WithValue c2 ctxUserID (AStr rawUserID)) ctxRole (AStr (ac_Role claims)))"

definition no_cache :: "response \<Rightarrow> response" where
  "no_cache w = SetHeader ''Expires'' ''0'' (SetHeader ''Pragma'' ''no-cache''
     (SetHeader ''Cache-Control'' ''no-cache, no-store, must-revalidate'' w))"

definition Guard :: "jwtlib \<Rightarrow> env \<Rightarrow> time \<Rightarrow> 'w UserStore option \<Rightarrow> 'w handler \<Rightarrow> 'w handler" where
  "Guard J env now users next_h r s =
     (if IsPublicPath (rq_Path r) then next_h r s
      else case Cookie r ''loxtu_access'' of
        None \<Rightarrow> reply (unauthorized r) s
      | Some v \<Rightarrow>
          (case ValidateAccessToken J env now v of
             Panic p \<Rightarrow> (Panic p, s)
           | Ret (Inl e) \<Rightarrow> reply (unauthorized r) s
           | Ret (Inr claims) \<Rightarrow>
              (let routerTenant = GetTenantID (rq_Context r) in
               if ac_TenantID claims \<noteq> '''' \<and> routerTenant \<noteq> '''' \<and> ac_TenantID claims \<noteq> routerTenant
               then reply (http_Error ''forbidden'' 403) s
               else (let w1 = log_tenant (ac_TenantID claims) (snd s);
                         (rawUserID, world1) = resolve_user users (rq_Context r) claims (fst s)
                     in next_h (WithContext r (guard_context claims rawUserID (rq_Context r)))
                          (world1, no_cache w1)))))"

definition GetUserID :: "request \<Rightarrow> string" where
  "GetUserID r = str_or_empty (ctx_Value (rq_Context r) ctxUserID)"
definition GetEmail :: "request \<Rightarrow> string" where
  "GetEmail r = str_or_empty (ctx_Value (rq_Context r) ctxEmail)"
definition GetRole :: "request \<Rightarrow> string" where
  "GetRole r = str_or_empty (ctx_Value (rq_Context r) ctxRole)"

section \<open>Lemmas\<close>

lemma public_in_iff: "public_in ps path \<longleftrightarrow> path = ''/'' \<or> path \<in> set ps \<or> (\<exists>p \<in> set ps. HasSuffix p ''/'' \<and> HasPrefix path p)"
  by (induction ps) auto

lemma ex_filter_one: "set (filter Q ps) = {q} \<Longrightarrow> (\<exists>p \<in> set ps. Q p \<and> R p) = R q"
  by auto

lemma IsPublicPath_iff:
  "IsPublicPath path \<longleftrightarrow> path = ''/'' \<or> path \<in> set PublicPaths \<or> HasPrefix path ''/static/''"
proof -
  have "filter (\<lambda>p. HasSuffix p ''/'') PublicPaths = [''/static/'']" by code_simp
  then have "set (filter (\<lambda>p. HasSuffix p ''/'') PublicPaths) = {''/static/''}" by (simp only: list.set)
  then have "(\<exists>p \<in> set PublicPaths. HasSuffix p ''/'' \<and> HasPrefix path p) = HasPrefix path ''/static/''"
    by (rule ex_filter_one)
  then show ?thesis unfolding IsPublicPath_def public_in_iff by (simp only:)
qed

lemma guard_keys_distinct [simp]:
  "ctxUserID \<noteq> TenantIDKey" "ctxRole \<noteq> TenantIDKey" "ctxUserID \<noteq> UserIDHashKey" "ctxRole \<noteq> UserIDHashKey"
  "ctxRole \<noteq> ctxUserID" "ctxUserID \<noteq> ctxRole"
  by (simp_all add: ctxUserID_def ctxRole_def TenantIDKey_def UserIDHashKey_def)

lemma GetTenantID_guard:
  "GetTenantID (guard_context cl u c) = (if ac_TenantID cl \<noteq> [] then ac_TenantID cl else GetTenantID c)"
  by (simp add: guard_context_def Let_def)

lemma GetUserIDHash_guard:
  "GetUserIDHash (guard_context cl u c) = (if ac_UserIDHash cl \<noteq> [] then ac_UserIDHash cl else GetUserIDHash c)"
  by (simp add: guard_context_def Let_def)

lemma ids_guard:
  "str_or_empty (ctx_Value (guard_context cl u c) ctxUserID) = u"
  "str_or_empty (ctx_Value (guard_context cl u c) ctxRole) = ac_Role cl"
  by (simp_all add: guard_context_def Let_def)

lemma resolve_user_found:
  assumes "user_lookup us users" and "ac_UserIDHash claims \<noteq> []"
  shows "resolve_user (Some us) c claims w = ((case find (\<lambda>u. u_UserIDHash u = ac_UserIDHash claims) (users c w) of
      Some u \<Rightarrow> if u_UserID u \<noteq> [] then u_UserID u else ac_Subject claims | None \<Rightarrow> ac_Subject claims), w)"
  using user_lookup.find_hash [OF assms(1), of c "ac_UserIDHash claims" w] assms(2)
  by (auto simp: resolve_user_def split: option.splits)

lemma Guard_rejects:
  assumes "\<not> IsPublicPath (rq_Path r)"
    and "\<And>v c. Cookie r ''loxtu_access'' = Some v \<Longrightarrow> ValidateAccessToken J env now v \<noteq> Ret (Inr c)"
  shows "snd (Guard J env now users next_h r s) = s \<or>
    Guard J env now users next_h r s = (Ret (), fst s, unauthorized r (snd s))"
proof (cases "Cookie r ''loxtu_access''")
  case None
  with assms(1) show ?thesis by (simp add: Guard_def reply_def)
next
  case (Some v)
  show ?thesis
  proof (cases "ValidateAccessToken J env now v")
    case (Panic p)
    with assms(1) Some show ?thesis by (simp add: Guard_def)
  next
    case (Ret res)
    with assms(2) [OF Some] obtain e where "res = Inl e" by (cases res) auto
    with assms(1) Some Ret show ?thesis by (simp add: Guard_def reply_def)
  qed
qed

text \<open>The raw user id that the guard puts into the context.\<close>

definition found_id :: "User list \<Rightarrow> AccessClaims \<Rightarrow> string" where
  "found_id us cl = (case find (\<lambda>u. u_UserIDHash u = ac_UserIDHash cl) us of
      Some u \<Rightarrow> if u_UserID u \<noteq> [] then u_UserID u else ac_Subject cl | None \<Rightarrow> ac_Subject cl)"

lemma Guard_accepts:
  assumes "user_lookup us users" and "\<not> IsPublicPath (rq_Path r)" and "Cookie r ''loxtu_access'' = Some v"
    and "ValidateAccessToken J env now v = Ret (Inr cl)" and "ac_UserIDHash cl \<noteq> ''''"
    and "GetTenantID (rq_Context r) = ''''"
  shows "Guard J env now (Some us) next_h r (w, resp) =
    next_h (WithContext r (guard_context cl (found_id (users (rq_Context r) w) cl) (rq_Context r)))
      (w, no_cache (log_tenant (ac_TenantID cl) resp))"
  using assms(2-6) by (simp add: Guard_def resolve_user_found [OF assms(1,5)] found_id_def Let_def)

section \<open>Properties\<close>

text \<open>Nothing behind the guard runs without a valid access token: for a path that is not open, when the
  cookie is missing or its token does not validate, the answer is a redirect to the login page or
  a 401, the next handler does not run and no service is called.\<close>

theorem guard_requires_token:
  assumes "\<not> IsPublicPath (rq_Path r)" and "env ''LOXTU_JWT_SECRET'' \<noteq> ''''"
    and "\<forall>v. Cookie r ''loxtu_access'' = Some v \<longrightarrow> (\<exists>e. ValidateAccessToken J env now v = Ret (Inl e))"
    and "rs_status resp = None"
  shows "\<exists>resp'. Guard J env now users next_h r (w, resp) = (Ret (), w, resp') \<and>
    rs_status resp' \<in> {Some 303, Some 401} \<and> rs_bodies resp' = rs_bodies resp"
proof (cases "Cookie r ''loxtu_access''")
  case None
  with assms show ?thesis by (simp add: Guard_def reply_def unauthorized_def)
next
  case (Some v)
  with assms obtain e where "ValidateAccessToken J env now v = Ret (Inl e)" by blast
  with Some assms show ?thesis by (simp add: Guard_def reply_def unauthorized_def)
qed

lemma guard_requires_token_witness:
  "\<exists>resp'. Guard demo_jwt demo_env 0 (None :: nat UserStore option) (\<lambda>r. reply (Render ''DashboardShell'' []))
     (a_request\<lparr>rq_Path := ''/dashboard''\<rparr>) (0, fresh_response) = (Ret (), 0, resp') \<and> rs_bodies resp' = []"
proof -
  have "\<not> IsPublicPath ''/dashboard''" by code_simp
  then show ?thesis
    using guard_requires_token [of "a_request\<lparr>rq_Path := ''/dashboard''\<rparr>" demo_env demo_jwt 0 fresh_response None
        "\<lambda>r. reply (Render ''DashboardShell'' [])" 0]
    by (auto simp: Cookie_def a_request_def)
qed

text \<open>The open paths are exactly the login page, the listed paths and the static files; no path of the
  dashboard is among them.\<close>

theorem public_paths_exact:
  "(IsPublicPath path \<longleftrightarrow> path = ''/'' \<or> path \<in> set PublicPaths \<or> HasPrefix path ''/static/'') \<and>
    \<not> IsPublicPath (''/dashboard'' @ rest)"
proof -
  have "\<not> IsPublicPath (''/dashboard'' @ rest)"
    unfolding IsPublicPath_iff by (simp add: PublicPaths_def HasPrefix_def)
  then show ?thesis using IsPublicPath_iff by blast
qed

text \<open>The next handler sees the tenant and the role of the token, never one the client chose, and the raw id
  of the user whose hash the token carries; when no such user exists any more the request still
  goes through with the hash in place of the id.\<close>

theorem guard_identity:
  assumes "user_lookup us users" and "\<not> IsPublicPath (rq_Path r)" and "Cookie r ''loxtu_access'' = Some v"
    and "ValidateAccessToken J env now v = Ret (Inr cl)" and "ac_TenantID cl \<noteq> ''''" and "ac_UserIDHash cl \<noteq> ''''"
    and "GetTenantID (rq_Context r) = ''''"
  shows "\<exists>r'. Guard J env now (Some us) next_h r (w, resp)
      = next_h r' (w, no_cache (log_tenant (ac_TenantID cl) resp)) \<and>
    GetTenantID (rq_Context r') = ac_TenantID cl \<and> GetRole r' = ac_Role cl \<and>
    GetUserIDHash (rq_Context r') = ac_UserIDHash cl \<and> rq_Path r' = rq_Path r \<and>
    GetUserID r' = (case find (\<lambda>u. u_UserIDHash u = ac_UserIDHash cl) (users (rq_Context r) w) of
      Some u \<Rightarrow> if u_UserID u \<noteq> [] then u_UserID u else ac_Subject cl | None \<Rightarrow> ac_Subject cl)"
proof (intro exI conjI)
  let ?r = "WithContext r (guard_context cl (found_id (users (rq_Context r) w) cl) (rq_Context r))"
  show "Guard J env now (Some us) next_h r (w, resp) = next_h ?r (w, no_cache (log_tenant (ac_TenantID cl) resp))"
    by (rule Guard_accepts [OF assms(1-4,6,7)])
  show "GetTenantID (rq_Context ?r) = ac_TenantID cl" "GetUserIDHash (rq_Context ?r) = ac_UserIDHash cl"
    using assms(5,6) by (simp_all add: WithContext_def GetTenantID_guard GetUserIDHash_guard)
  show "GetRole ?r = ac_Role cl" "rq_Path ?r = rq_Path r" by (simp_all add: WithContext_def GetRole_def ids_guard)
  show "GetUserID ?r = (case find (\<lambda>u. u_UserIDHash u = ac_UserIDHash cl) (users (rq_Context r) w) of
      Some u \<Rightarrow> if u_UserID u \<noteq> [] then u_UserID u else ac_Subject cl | None \<Rightarrow> ac_Subject cl)"
    by (simp add: WithContext_def GetUserID_def ids_guard found_id_def)
qed

lemma guard_identity_witness:
  "\<exists>r'. Guard demo_jwt demo_env 1 (Some mock_users) (\<lambda>r. reply (Render (GetUserID r) []))
      (a_request\<lparr>rq_Path := ''/dashboard'', rq_Cookies := [(''loxtu_access'',
         put_claims ''s3cret'' (access_claims demo 0 ''u1'' ''acme'' ''admin'' [] AccessTokenTTL))]\<rparr>) ([], fresh_response)
    = reply (Render (GetUserID r') []) ([], no_cache (log_tenant ''acme'' fresh_response)) \<and>
    GetTenantID (rq_Context r') = ''acme''"
proof -
  let ?c = "access_claims demo 0 ''u1'' ''acme'' ''admin'' [] AccessTokenTTL"
  let ?r = "a_request\<lparr>rq_Path := ''/dashboard'', rq_Cookies := [(''loxtu_access'', put_claims ''s3cret'' ?c)]\<rparr>"
  have "ValidateAccessToken demo_jwt demo_env 1 (put_claims ''s3cret'' ?c) = Ret (Inr ?c)"
    by (simp add: ValidateAccessToken_def demo_jwt_def signingKey_simps dates_valid_def AccessTokenTTL_def dur_defs)
  moreover have "\<not> IsPublicPath (rq_Path ?r)" by (simp, code_simp)
  moreover have "Cookie ?r ''loxtu_access'' = Some (put_claims ''s3cret'' ?c)" by (simp add: Cookie_def)
  moreover have "ac_UserIDHash ?c \<noteq> ''''" by (simp add: sha_hex_nonempty)
  ultimately show ?thesis
    using guard_identity [OF mock_ul.user_lookup_axioms, of ?r "put_claims ''s3cret'' ?c" demo_jwt demo_env 1 ?c
        "\<lambda>r. reply (Render (GetUserID r) [])" "[]" fresh_response]
    by (auto simp: a_request_def)
qed

end
