(* ===== verification/TenantRepo.thy ===== *)
theory TenantRepo
  imports Surreal Email User
begin

text \<open>
  Tenants (tenant_repo.go, handlers/tenant_resolver.go and the port of middleware/tenant_resolver.go):
  the domain of an e-mail address is looked up in the whitelists of the control plane.  The lemmas
  say which tenant an address gets, and when it gets none.
\<close>

section \<open>The repository\<close>

definition sql_tenant_by_domain :: string where
  "sql_tenant_by_domain = ''SELECT tenant_id FROM tenant WHERE $domain IN domain_whitelist LIMIT 1''"

definition sql_tenant_by_id :: string where
  "sql_tenant_by_id = ''SELECT * FROM tenant WHERE tenant_id = $tid LIMIT 1''"

record 'd TenantRepo =
  tr_pool :: "'d db option"
  tr_ControlNS :: string
  tr_ControlDB :: string

definition NewTenantRepo :: "'d db option \<Rightarrow> 'd TenantRepo" where
  "NewTenantRepo pool = \<lparr>tr_pool = pool, tr_ControlNS = ''control_plane'', tr_ControlDB = ''control_plane''\<rparr>"

text \<open>What \<open>%T\<close> prints for a value of the driver.\<close>

fun type_name :: "any \<Rightarrow> string" where
  "type_name ANil = ''<nil>''"
| "type_name (AStr s) = ''string''"
| "type_name (ABytes b) = ''[]uint8''"
| "type_name (ABool b) = ''bool''"
| "type_name (AFloat m e) = ''float64''"
| "type_name (AInt i) = ''int64''"
| "type_name (AUint32 w) = ''uint32''"
| "type_name (ATime t) = ''time.Time''"
| "type_name (ATimePtr t) = ''*time.Time''"
| "type_name (ACustomTime t) = ''models.CustomDateTime''"
| "type_name (ACustomTimePtr t) = ''*models.CustomDateTime''"
| "type_name (AStrings ss) = ''[]string''"
| "type_name (AList vs) = ''[]interface {}''"
| "type_name (AMap m) = ''map[string]interface {}''"
| "type_name (AStringer s) = ''fmt.Stringer''"
| "type_name (AOther t v) = t"

text \<open>The first row of an answer, or the complaint about what is there instead of a row.\<close>

definition tenant_row :: "any list \<Rightarrow> goerr + row option" where
  "tenant_row results = (case firstRows results of
       [] \<Rightarrow> Inr None
     | v # _ \<Rightarrow> (case as_map v of Some rm \<Rightarrow> Inr (Some rm) | None \<Rightarrow> Inl (''unexpected row type: '' @ type_name v)))"

definition or_control :: "string \<Rightarrow> string" where
  "or_control s = (if s = '''' then ''control_plane'' else s)"

definition ResolveByDomain :: "golib \<Rightarrow> 'd TenantRepo \<Rightarrow> ctx \<Rightarrow> string \<Rightarrow> 'd \<Rightarrow> (goerr + string) \<times> 'd" where
  "ResolveByDomain L r c domain0 d =
     (case tr_pool r of None \<Rightarrow> (Inr '''', d)
      | Some db \<Rightarrow>
          (let domain = ToLower (UniLower L) (TrimSpace domain0) in
           if domain = '''' then (Inr '''', d)
           else (case db_Query db c (or_control (tr_ControlNS r)) (or_control (tr_ControlDB r))
                   sql_tenant_by_domain [(''domain'', AStr domain)] d of
                   (Inl e, d1) \<Rightarrow> (Inl (''db query failed: '' @ e), d1)
                 | (Inr res, d1) \<Rightarrow>
                     (case tenant_row res of
                        Inl e \<Rightarrow> (Inl e, d1)
                      | Inr None \<Rightarrow> (Inr '''', d1)
                      | Inr (Some rm) \<Rightarrow> (Inr (str_or_empty (get rm ''tenant_id'')), d1)))))"

definition strings_at :: "row \<Rightarrow> string \<Rightarrow> string list" where
  "strings_at rm k = (case as_list (get rm k) of Some vs \<Rightarrow> strings_of vs | None \<Rightarrow> [])"

definition bool_at :: "row \<Rightarrow> string \<Rightarrow> bool" where
  "bool_at rm k = (case as_bool (get rm k) of Some b \<Rightarrow> b | None \<Rightarrow> False)"

definition float_at :: "row \<Rightarrow> string \<Rightarrow> int" where
  "float_at rm k = (case as_float_int (get rm k) of Some i \<Rightarrow> i | None \<Rightarrow> 0)"

definition map_at :: "row \<Rightarrow> string \<Rightarrow> row" where
  "map_at rm k = (case as_map (get rm k) of Some m \<Rightarrow> m | None \<Rightarrow> [])"

definition mapTenantRow :: "row \<Rightarrow> Tenant" where
  "mapTenantRow rm =
     \<lparr>t_TenantID = str_or_empty (get rm ''tenant_id''), t_Name = str_or_empty (get rm ''name''),
      t_Type = str_or_empty (get rm ''type''), t_DomainWhitelist = strings_at rm ''domain_whitelist'',
      t_Features = strings_at rm ''features'',
      t_SecurityPolicy = (let sp = map_at rm ''security_policy'' in
        \<lparr>sp_MFARequired = bool_at sp ''mfa_required'', sp_PinEnabled = bool_at sp ''pin_enabled'',
         sp_AccessTokenTimeoutMinutes = float_at sp ''access_token_timeout_minutes'',
         sp_RefreshTokenTimeoutMinutes = float_at sp ''refresh_token_timeout_minutes''\<rparr>),
      t_MaxUsers = float_at (map_at rm ''quotas'') ''max_users''\<rparr>"

definition GetByTenantID :: "'d TenantRepo \<Rightarrow> ctx \<Rightarrow> string \<Rightarrow> 'd \<Rightarrow> (goerr + Tenant option) \<times> 'd" where
  "GetByTenantID r c tenantID d =
     (case tr_pool r of None \<Rightarrow> (Inl no_db, d)
      | Some db \<Rightarrow>
          (case db_Query db c (or_control (tr_ControlNS r)) (or_control (tr_ControlDB r))
             sql_tenant_by_id [(''tid'', AStr tenantID)] d of
             (Inl e, d1) \<Rightarrow> (Inl (''db query failed: '' @ e), d1)
           | (Inr res, d1) \<Rightarrow>
               (case tenant_row res of
                  Inl e \<Rightarrow> (Inl e, d1)
                | Inr None \<Rightarrow> (Inr None, d1)
                | Inr (Some rm) \<Rightarrow> (Inr (Some (mapTenantRow rm)), d1))))"

section \<open>The resolver of the handlers\<close>

text \<open>
  The port \<open>middleware.TenantResolver\<close> is a function; a nil resolver, or one without a repository, is
  \<open>None\<close>.
\<close>

type_synonym 'w TenantResolver = "ctx \<Rightarrow> string \<Rightarrow> 'w \<Rightarrow> (goerr + string) \<times> 'w"

definition ResolveTenantByEmail :: "golib \<Rightarrow> 'w TenantResolver option \<Rightarrow> ctx \<Rightarrow> string \<Rightarrow> 'w \<Rightarrow> (goerr + string) \<times> 'w" where
  "ResolveTenantByEmail L r c email w =
     (case r of None \<Rightarrow> (Inr '''', w)
      | Some resolve \<Rightarrow>
          (let domain = extractDomain L email in
           if domain = '''' then (Inr '''', w)
           else (case resolve c domain w of
                   (Inl e, w1) \<Rightarrow> (Inr '''', w1)
                 | (Inr code, w1) \<Rightarrow> (Inr code, w1))))"

text \<open>\<open>TenantResolverFunc\<close> adapts a function: the function itself.\<close>

definition TenantResolverFunc :: "'w TenantResolver \<Rightarrow> 'w TenantResolver" where
  "TenantResolverFunc f = (\<lambda>c domain w. f c domain w)"

section \<open>Which tenant an address gets\<close>

text \<open>
  The rows of \<open>tenant\<close> in the control plane.  \<open>IN\<close> holds for a row when the domain is one of the
  strings of the whitelist.
\<close>

definition whitelists :: "string \<Rightarrow> row \<Rightarrow> bool" where
  "whitelists domain rm \<longleftrightarrow> domain \<in> set (strings_at rm ''domain_whitelist'')"

locale surreal_tenants =
  fixes db :: "'d db"
    and trows :: "string \<Rightarrow> 'd \<Rightarrow> row list"
  assumes by_domain: "\<exists>rm'. db_Query db c ns dbn sql_tenant_by_domain [(''domain'', AStr m)] d =
      (Inr [AList (case find (whitelists m) (trows ns d) of None \<Rightarrow> [] | Some rm \<Rightarrow> [AMap (rm' rm)])], d) \<and>
      (\<forall>rm. get (rm' rm) ''tenant_id'' = get rm ''tenant_id'')"
    and by_id: "db_Query db c ns dbn sql_tenant_by_id [(''tid'', AStr i)] d =
      (Inr [AList (case find (\<lambda>rm. get rm ''tenant_id'' = AStr i) (trows ns d) of None \<Rightarrow> [] | Some rm \<Rightarrow> [AMap rm])], d)"
begin

lemma tenant_row_simps [simp]:
  "tenant_row [AList []] = Inr None" "tenant_row (AList (AMap m # vs) # rs) = Inr (Some m)"
  by (simp_all add: tenant_row_def firstRows_def)

lemma resolve_domain:
  "ResolveByDomain L (NewTenantRepo (Some db)) c domain d =
    (Inr (let m = ToLower (UniLower L) (TrimSpace domain) in
       if m = [] then [] else case find (whitelists m) (trows ''control_plane'' d) of
         None \<Rightarrow> [] | Some rm \<Rightarrow> str_or_empty (get rm ''tenant_id'')), d)"
proof -
  let ?m = "ToLower (UniLower L) (TrimSpace domain)"
  obtain rm' where "db_Query db c ''control_plane'' ''control_plane'' sql_tenant_by_domain [(''domain'', AStr ?m)] d =
      (Inr [AList (case find (whitelists ?m) (trows ''control_plane'' d) of None \<Rightarrow> [] | Some rm \<Rightarrow> [AMap (rm' rm)])], d)"
    and "\<And>rm. get (rm' rm) ''tenant_id'' = get rm ''tenant_id''"
    using by_domain [of c "''control_plane''" "''control_plane''" ?m d] by blast
  then show ?thesis
    by (cases "find (whitelists ?m) (trows ''control_plane'' d)")
      (simp_all add: ResolveByDomain_def NewTenantRepo_def or_control_def Let_def)
qed

lemma resolve_email:
  "ResolveTenantByEmail L (Some (ResolveByDomain L (NewTenantRepo (Some db)))) c email d =
    (Inr (let m = ToLower (UniLower L) (TrimSpace (extractDomain L email)) in
       if extractDomain L email = [] \<or> m = [] then []
       else case find (whitelists m) (trows ''control_plane'' d) of
         None \<Rightarrow> [] | Some rm \<Rightarrow> str_or_empty (get rm ''tenant_id'')), d)"
  by (simp add: ResolveTenantByEmail_def resolve_domain Let_def)

lemma get_tenant:
  "GetByTenantID (NewTenantRepo (Some db)) c i d =
    (Inr (map_option mapTenantRow (find (\<lambda>rm. get rm ''tenant_id'' = AStr i) (trows ''control_plane'' d))), d)"
  by (cases "find (\<lambda>rm. get rm ''tenant_id'' = AStr i) (trows ''control_plane'' d)")
    (simp_all add: GetByTenantID_def NewTenantRepo_def or_control_def by_id)

end

text \<open>A control plane that answers the two statements from a list of rows.\<close>

definition tenant_db :: "row list db" where
  "tenant_db = \<lparr>db_Query = (\<lambda>c ns dbn sql vs d.
     if sql = sql_tenant_by_domain then
       (Inr [AList (case find (whitelists (str_or_empty (get vs ''domain''))) d of
          None \<Rightarrow> [] | Some rm \<Rightarrow> [AMap [(''tenant_id'', get rm ''tenant_id'')]])], d)
     else if sql = sql_tenant_by_id then
       (Inr [AList (case find (\<lambda>rm. get rm ''tenant_id'' = get vs ''tid'') d of None \<Rightarrow> [] | Some rm \<Rightarrow> [AMap rm])], d)
     else (Inl ''parse error'', d)), db_defaultNS = ''main''\<rparr>"

interpretation tenant_db: surreal_tenants tenant_db "\<lambda>ns d. d"
proof
  fix c ns dbn m d
  show "\<exists>rm'. db_Query tenant_db c ns dbn sql_tenant_by_domain [(''domain'', AStr m)] d =
      (Inr [AList (case find (whitelists m) d of None \<Rightarrow> [] | Some rm \<Rightarrow> [AMap (rm' rm)])], d) \<and>
      (\<forall>rm. get (rm' rm) ''tenant_id'' = get rm ''tenant_id'')"
    by (intro exI [of _ "\<lambda>rm. [(''tenant_id'', get rm ''tenant_id'')]"]) (simp add: tenant_db_def)
next
  fix c ns dbn i d
  show "db_Query tenant_db c ns dbn sql_tenant_by_id [(''tid'', AStr i)] d =
      (Inr [AList (case find (\<lambda>rm. get rm ''tenant_id'' = AStr i) d of None \<Rightarrow> [] | Some rm \<Rightarrow> [AMap rm])], d)"
    by (simp add: tenant_db_def sql_tenant_by_domain_def sql_tenant_by_id_def)
qed

section \<open>Properties\<close>

text \<open>The tenant of an e-mail address is a function of its domain: it is the one of the first tenant of the
  control plane that whitelists the domain in lower case, and none for an address that is not well
  formed or whose domain nobody whitelists.  Nothing is written.\<close>

theorem tenant_of_email:
  assumes "surreal_tenants db trows"
  shows "ResolveTenantByEmail L (Some (ResolveByDomain L (NewTenantRepo (Some db)))) c email d =
    (Inr (let m = ToLower (UniLower L) (TrimSpace (extractDomain L email)) in
       if extractDomain L email = [] \<or> m = [] then []
       else case find (whitelists m) (trows ''control_plane'' d) of
         None \<Rightarrow> [] | Some rm \<Rightarrow> str_or_empty (get rm ''tenant_id'')), d)"
  by (rule surreal_tenants.resolve_email [OF assms])

lemma tenant_of_email_witness:
  "ResolveTenantByEmail demo (Some (ResolveByDomain demo (NewTenantRepo (Some tenant_db)))) Background ''Ann@Acme.com''
     [[(''tenant_id'', AStr ''acme''), (''domain_whitelist'', AList [AStr ''acme.com''])]]
   = (Inr ''acme'', [[(''tenant_id'', AStr ''acme''), (''domain_whitelist'', AList [AStr ''acme.com''])]])"
proof -
  have "TrimSpace ''Ann@Acme.com'' = ''Ann@Acme.com''" "TrimSpace ''acme.com'' = ''acme.com''"
    by (simp_all add: TrimSpace_visible visible_def)
  then have "extractDomain demo ''Ann@Acme.com'' = ''acme.com''"
    and "ToLower (UniLower demo) (TrimSpace ''acme.com'') = ''acme.com''"
    by (simp_all add: extractDomain_def SplitN2_def HasPrefix_def HasSuffix_def ToLower_def is_ascii_def lower_ascii_def char_of_def bit_iff_odd)
  then show ?thesis
    unfolding tenant_of_email [OF tenant_db.surreal_tenants_axioms]
    by (simp add: Let_def whitelists_def strings_at_def)
qed

end
