(* ===== verification/AuditLog.thy ===== *)
theory AuditLog
  imports Sql "HOL-Library.Multiset"
begin

text \<open>
  The audit trail: the events and the service of internal/core/audit, the Telegram publisher, and the
  SurrealDB store with its queue of 1024 events and five workers (audit_repo.go).  The queue is a
  list, the workers are steps that take its head; the lemmas say that an accepted event is written
  once and that the bounds hold.
\<close>

section \<open>Events\<close>

record SecurityEvent =
  sv_UserID :: string
  sv_TenantID :: string
  sv_MaskedEmail :: string
  sv_Action :: string
  sv_ResourceType :: string
  sv_ResourceID :: string
  sv_Status :: string
  sv_ClientIP :: string
  sv_ReqID :: string

record ConsentEvent =
  cv_UserID :: string
  cv_TenantID :: string
  cv_MaskedEmail :: string
  cv_PrivacyPolicy :: string
  cv_TermsOfService :: string
  cv_ConsentTypes :: string
  cv_ClientIP :: string
  cv_ReqID :: string

definition no_event :: SecurityEvent where
  "no_event = \<lparr>sv_UserID = [], sv_TenantID = [], sv_MaskedEmail = [], sv_Action = [], sv_ResourceType = [],
     sv_ResourceID = [], sv_Status = [], sv_ClientIP = [], sv_ReqID = []\<rparr>"

definition IsCritical :: "SecurityEvent \<Rightarrow> bool" where
  "IsCritical e =
     (if sv_Action e \<in> {''auth.login.fail'', ''auth.tenant_mismatch'', ''session.revoke_all'', ''passkey.fail''} then True
      else sv_Status e = ''failure'' \<or> sv_Status e = ''denied'')"

section \<open>The service and the publisher\<close>

text \<open>The ports \<open>Store\<close> and \<open>LogPublisher\<close> as operations on a world; a nil port is \<open>None\<close>.\<close>

type_synonym 'w AuditStore = "ctx \<Rightarrow> SecurityEvent \<Rightarrow> 'w \<Rightarrow> goerr option go \<times> 'w"
type_synonym 'w LogPublisher = "ctx \<Rightarrow> SecurityEvent \<Rightarrow> 'w \<Rightarrow> goerr option \<times> 'w"

definition LogSecurity :: "'w AuditStore option \<Rightarrow> 'w LogPublisher option \<Rightarrow> ctx \<Rightarrow> SecurityEvent \<Rightarrow> 'w
    \<Rightarrow> goerr option go \<times> 'w" where
  "LogSecurity store publisher c e w =
     (let publish = (\<lambda>w'. case publisher of
            Some p \<Rightarrow> if IsCritical e then (Ret None, snd (p c e w')) else (Ret None, w')
          | None \<Rightarrow> (Ret None, w'))
      in case store of
           None \<Rightarrow> publish w
         | Some st \<Rightarrow> (case st c e w of
               (Panic q, w1) \<Rightarrow> (Panic q, w1)
             | (Ret (Some err), w1) \<Rightarrow> (Ret (Some err), w1)
             | (Ret None, w1) \<Rightarrow> publish w1))"

definition Publish :: "ctx \<Rightarrow> SecurityEvent \<Rightarrow> goerr option" where
  "Publish c e = ctx_err c"

section \<open>Dates\<close>

text \<open>
  \<open>AddDate(2, 0, 0)\<close> in UTC.  Years are counted from the first of March, so that a leap day is the
  last day of its year: the same day two years later is the same number of days after the start of
  the year, and a leap day becomes the first of March, as \<open>AddDate\<close> normalises it.
\<close>

definition day :: duration where "day = 24 * hour"

definition year_start :: "int \<Rightarrow> int" where
  "year_start y = 365 * y + y div 4 - y div 100 + y div 400 - 719468"

definition year_of :: "int \<Rightarrow> int" where
  "year_of z = (let y = (z + 719468) * 400 div 146097 in
     if z < year_start y then y - 1 else if year_start (y + 1) \<le> z then y + 1 else y)"

definition AddYears2 :: "time \<Rightarrow> time" where
  "AddYears2 t = (let z = t div day; y = year_of z
     in (year_start (y + 2) + (z - year_start y)) * day + t mod day)"

section \<open>The repository\<close>

definition auditQueueSize :: nat where "auditQueueSize = 1024"
definition auditWorkerCount :: nat where "auditWorkerCount = 5"

text \<open>
  The channel's buffer, the state of \<open>once\<close>, whether the channel is closed, and the number of running
  workers.  The mutex makes Shutdown atomic.
\<close>

record AuditRepo =
  au_ch :: "SecurityEvent list"
  au_started :: bool
  au_closed :: bool
  au_workers :: nat

definition Start :: "AuditRepo \<Rightarrow> AuditRepo" where
  "Start r = (if au_started r then r else r\<lparr>au_started := True, au_workers := auditWorkerCount\<rparr>)"

definition NewAuditRepo :: AuditRepo where
  "NewAuditRepo = Start \<lparr>au_ch = [], au_started = False, au_closed = False, au_workers = 0\<rparr>"

text \<open>What Shutdown does before it waits for the workers.\<close>

definition Shutdown :: "AuditRepo \<Rightarrow> AuditRepo" where
  "Shutdown r = (if au_closed r then r else r\<lparr>au_closed := True\<rparr>)"

text \<open>
  The select: a send to the channel is ready when there is room or when it is closed, in which case it
  panics; when the context is done as well, \<open>pick\<close> says which of the two the runtime takes.
\<close>

definition LogSecurityEvent :: "bool \<Rightarrow> ctx \<Rightarrow> SecurityEvent \<Rightarrow> AuditRepo \<Rightarrow> goerr option go \<times> AuditRepo" where
  "LogSecurityEvent pick c e r =
     (let sendable = (au_closed r \<or> length (au_ch r) < auditQueueSize); cancelled = (ctx_err c \<noteq> None) in
      if sendable \<and> (\<not> cancelled \<or> pick) then
        (if au_closed r then (Panic ''send on closed channel'', r) else (Ret None, r\<lparr>au_ch := au_ch r @ [e]\<rparr>))
      else if cancelled then (Ret (ctx_err c), r)
      else (Ret (Some ''audit queue full''), r))"

definition sql_audit_create :: string where
  "sql_audit_create = ''CREATE security_audit SET
			user_id = $user_id,
			tenant_id = $tenant_id,
			masked_email = $masked_email,
			action = $action,
			resource_type = $resource_type,
			resource_id = $resource_id,
			status = $status,
			client_ip = $client_ip,
			reqid = $reqid,
			time_stamp = <datetime>$time_stamp,
			expires_at = <datetime>$expires_at''"

definition audit_vars :: "golib \<Rightarrow> time \<Rightarrow> string \<Rightarrow> SecurityEvent \<Rightarrow> vars" where
  "audit_vars L now tenantID e =
     [(''user_id'', AStr (sv_UserID e)), (''tenant_id'', AStr tenantID), (''masked_email'', AStr (sv_MaskedEmail e)),
      (''action'', AStr (sv_Action e)), (''resource_type'', AStr (sv_ResourceType e)),
      (''resource_id'', AStr (sv_ResourceID e)), (''status'', AStr (sv_Status e)),
      (''client_ip'', AStr (sv_ClientIP e)), (''reqid'', AStr (sv_ReqID e)),
      (''time_stamp'', AStr (FormatRFC3339 L now)), (''expires_at'', AStr (FormatRFC3339 L (AddYears2 now)))]"

text \<open>The database of an event: the one of its tenant.\<close>

definition audit_db :: "SecurityEvent \<Rightarrow> string" where
  "audit_db e = (if sv_TenantID e = '''' then ''public'' else sv_TenantID e)"

text \<open>A write that is lost is only logged: the result is the line that is printed, if one is.\<close>

definition writeSecurity :: "golib \<Rightarrow> time \<Rightarrow> 'd db option \<Rightarrow> SecurityEvent \<Rightarrow> 'd \<Rightarrow> string option \<times> 'd" where
  "writeSecurity L now pool e d =
     (case pool of
        None \<Rightarrow> (Some (''[audit] DB not connected, dropping: '' @ sv_Action e @ '' '' @ sv_Status e), d)
      | Some db \<Rightarrow>
          (let tenantID = audit_db e;
               c = WithTimeout Background now (5 * second)
           in case db_Query db c ''audit'' tenantID sql_audit_create (audit_vars L now tenantID e) d of
                (Inl err, d1) \<Rightarrow> (Some (''[audit] Write failed: '' @ err @ '' (event: '' @ sv_Action e @ '' '' @ sv_Status e @
                   '' tenant='' @ tenantID @ '')''), d1)
              | (Inr _, d1) \<Rightarrow> (None, d1)))"

definition LogEvent :: "golib \<Rightarrow> time \<Rightarrow> 'd db option \<Rightarrow> ctx \<Rightarrow> SecurityEvent \<Rightarrow> string \<Rightarrow> 'd \<Rightarrow> goerr option \<times> 'd" where
  "LogEvent L now pool c e expectedTenantID d =
     (if sv_TenantID e = '''' then (Some ''audit event TenantID is empty'', d)
      else if expectedTenantID \<noteq> '''' \<and> sv_TenantID e \<noteq> expectedTenantID then
        (Some (''audit tenant mismatch: expected '' @ expectedTenantID @ '', got '' @ sv_TenantID e), d)
      else case pool of None \<Rightarrow> (Some no_db, d)
      | Some db \<Rightarrow> wrap_err ''audit write: '' (db_Query db c ''audit'' (sv_TenantID e) sql_audit_create
          (audit_vars L now (sv_TenantID e) e) d))"

definition mapAuditRow :: "row \<Rightarrow> SecurityEvent" where
  "mapAuditRow rm =
     \<lparr>sv_UserID = str_or_empty (get rm ''user_id''), sv_TenantID = str_or_empty (get rm ''tenant_id''),
      sv_MaskedEmail = str_or_empty (get rm ''masked_email''), sv_Action = str_or_empty (get rm ''action''),
      sv_ResourceType = str_or_empty (get rm ''resource_type''), sv_ResourceID = str_or_empty (get rm ''resource_id''),
      sv_Status = str_or_empty (get rm ''status''), sv_ClientIP = str_or_empty (get rm ''client_ip''),
      sv_ReqID = str_or_empty (get rm ''reqid'')\<rparr>"

definition sql_audit_select :: "bool \<Rightarrow> string" where
  "sql_audit_select by_user = ''SELECT * FROM security_audit'' @
     (if by_user then '' WHERE user_id = $user_id'' else []) @ '' ORDER BY time_stamp DESC LIMIT $limit''"

definition GetEvents :: "'d db option \<Rightarrow> ctx \<Rightarrow> string \<Rightarrow> string \<Rightarrow> int \<Rightarrow> 'd \<Rightarrow> (goerr + SecurityEvent list) \<times> 'd" where
  "GetEvents pool c tenantID userID limit0 d =
     (case pool of None \<Rightarrow> (Inl no_db, d)
      | Some db \<Rightarrow>
          (if tenantID = '''' then (Inl ''tenant_id is required'', d)
           else (let limit = (if limit0 \<le> 0 then 50 else limit0);
                     vs = (''limit'', AInt limit) # (if userID \<noteq> '''' then [(''user_id'', AStr userID)] else [])
                 in case db_Query db c ''audit'' tenantID (sql_audit_select (userID \<noteq> '''')) vs d of
                      (Inl e, d1) \<Rightarrow> (Inl e, d1)
                    | (Inr results, d1) \<Rightarrow>
                        (Inr (map mapAuditRow (List.map_filter as_map (firstRows results))), d1))))"

section \<open>Runs of the queue\<close>

text \<open>
  A run has the repository, the events at the workers, those that were accepted, those that a worker took,
  those that the database took, those that were dropped with a line in the log, and the database.
\<close>

record 'd audit_run =
  ru_repo :: AuditRepo
  ru_busy :: "SecurityEvent list"
  ru_accepted :: "SecurityEvent list"
  ru_taken :: "SecurityEvent list"
  ru_written :: "SecurityEvent list"
  ru_dropped :: "SecurityEvent list"
  ru_db :: 'd

definition run0 :: "'d \<Rightarrow> 'd audit_run" where
  "run0 d = \<lparr>ru_repo = NewAuditRepo, ru_busy = [], ru_accepted = [], ru_taken = [], ru_written = [], ru_dropped = [], ru_db = d\<rparr>"

inductive audit_step :: "golib \<Rightarrow> 'd db option \<Rightarrow> 'd audit_run \<Rightarrow> 'd audit_run \<Rightarrow> bool"
  for L :: golib and pool :: "'d db option" where
  submit: "LogSecurityEvent pick c e (ru_repo s) = (res, r') \<Longrightarrow>
    audit_step L pool s (s\<lparr>ru_repo := r', ru_accepted := ru_accepted s @ (if res = Ret None then [e] else [])\<rparr>)"
| take_one: "au_ch (ru_repo s) = e # q \<Longrightarrow> length (ru_busy s) < au_workers (ru_repo s) \<Longrightarrow>
    audit_step L pool s (s\<lparr>ru_repo := (ru_repo s)\<lparr>au_ch := q\<rparr>, ru_busy := e # ru_busy s, ru_taken := ru_taken s @ [e]\<rparr>)"
| write_one: "ru_busy s = b1 @ e # b2 \<Longrightarrow> writeSecurity L now pool e (ru_db s) = (line, d') \<Longrightarrow>
    audit_step L pool s (s\<lparr>ru_busy := b1 @ b2, ru_written := ru_written s @ (if line = None then [e] else []),
      ru_dropped := ru_dropped s @ (if line = None then [] else [e]), ru_db := d'\<rparr>)"
| leave: "au_closed (ru_repo s) \<Longrightarrow> au_ch (ru_repo s) = [] \<Longrightarrow> length (ru_busy s) < au_workers (ru_repo s) \<Longrightarrow>
    audit_step L pool s (s\<lparr>ru_repo := (ru_repo s)\<lparr>au_workers := au_workers (ru_repo s) - 1\<rparr>\<rparr>)"
| close: "audit_step L pool s (s\<lparr>ru_repo := Shutdown (ru_repo s)\<rparr>)"

inductive audit_reach :: "golib \<Rightarrow> 'd db option \<Rightarrow> 'd \<Rightarrow> 'd audit_run \<Rightarrow> bool"
  for L :: golib and pool :: "'d db option" and d :: 'd where
  start: "audit_reach L pool d (run0 d)"
| step: "audit_reach L pool d s \<Longrightarrow> audit_step L pool s s' \<Longrightarrow> audit_reach L pool d s'"

inductive_cases audit_stepE: "audit_step L pool s s'"

definition audit_inv :: "'d audit_run \<Rightarrow> bool" where
  "audit_inv s \<longleftrightarrow>
     ru_accepted s = ru_taken s @ au_ch (ru_repo s) \<and>
     mset (ru_taken s) = mset (ru_written s) + mset (ru_dropped s) + mset (ru_busy s) \<and>
     length (au_ch (ru_repo s)) \<le> auditQueueSize \<and>
     length (ru_busy s) \<le> au_workers (ru_repo s) \<and> au_workers (ru_repo s) \<le> auditWorkerCount \<and>
     (au_workers (ru_repo s) < auditWorkerCount \<longrightarrow> au_closed (ru_repo s) \<and> au_ch (ru_repo s) = [])"

lemma LogSecurityEvent_cases:
  assumes "LogSecurityEvent pick c e r = (res, r')"
  shows "(res = Ret None \<and> \<not> au_closed r \<and> length (au_ch r) < auditQueueSize \<and> r' = r\<lparr>au_ch := au_ch r @ [e]\<rparr>) \<or>
    (res \<noteq> Ret None \<and> r' = r)"
  using assms by (auto simp: LogSecurityEvent_def Let_def split: if_splits)

lemma audit_step_inv:
  assumes "audit_step L pool s s'" and "audit_inv s"
  shows "audit_inv s'"
  using assms(1)
proof cases
  case (submit pick c e res r')
  from LogSecurityEvent_cases [OF submit(2)] show ?thesis
  proof
    assume "res = Ret None \<and> \<not> au_closed (ru_repo s) \<and> length (au_ch (ru_repo s)) < auditQueueSize \<and>
      r' = (ru_repo s)\<lparr>au_ch := au_ch (ru_repo s) @ [e]\<rparr>"
    with submit(1) assms(2) show ?thesis unfolding audit_inv_def by auto
  next
    assume "res \<noteq> Ret None \<and> r' = ru_repo s"
    with submit(1) assms(2) show ?thesis by (simp add: audit_inv_def)
  qed
next
  case (take_one e q)
  with assms(2) show ?thesis unfolding audit_inv_def by auto
next
  case (write_one b1 e b2 now line d')
  with assms(2) show ?thesis unfolding audit_inv_def by auto
next
  case leave
  with assms(2) show ?thesis unfolding audit_inv_def by auto
next
  case close
  with assms(2) show ?thesis unfolding audit_inv_def by (auto simp: Shutdown_def)
qed

lemma audit_reach_inv: "audit_reach L pool d s \<Longrightarrow> audit_inv s"
proof (induction rule: audit_reach.induct)
  case start
  show ?case by (simp add: audit_inv_def run0_def NewAuditRepo_def Start_def)
next
  case (step s s')
  then show ?case by (blast intro: audit_step_inv)
qed

section \<open>What the table holds\<close>

text \<open>\<open>rows ns dbn d\<close> is the table \<open>security_audit\<close> of a database.  Written events are in the table of their
  tenant, in the order of the writes, with the tenant filled in; nothing else is added to it.\<close>

definition trail :: "(string \<Rightarrow> string \<Rightarrow> 'd \<Rightarrow> row list) \<Rightarrow> 'd \<Rightarrow> 'd audit_run \<Rightarrow> bool" where
  "trail rows d s \<longleftrightarrow> (\<forall>t. map mapAuditRow (rows ''audit'' t (ru_db s)) = map mapAuditRow (rows ''audit'' t d) @
     map (\<lambda>e. e\<lparr>sv_TenantID := t\<rparr>) (filter (\<lambda>e. audit_db e = t) (ru_written s)))"

lemma parse_audit_create: "parse_create sql_audit_create = Some (''security_audit'',
   [(''user_id'', SVar ''user_id''), (''tenant_id'', SVar ''tenant_id''), (''masked_email'', SVar ''masked_email''),
    (''action'', SVar ''action''), (''resource_type'', SVar ''resource_type''), (''resource_id'', SVar ''resource_id''),
    (''status'', SVar ''status''), (''client_ip'', SVar ''client_ip''), (''reqid'', SVar ''reqid''),
    (''time_stamp'', SDatetime ''time_stamp''), (''expires_at'', SDatetime ''expires_at'')])"
  unfolding sql_audit_create_def by code_simp

lemma mapAuditRow_created:
  "mapAuditRow (assigned (snd (the (parse_create sql_audit_create))) (audit_vars L now t e) rs []) = e\<lparr>sv_TenantID := t\<rparr>"
  by (simp add: parse_audit_create mapAuditRow_def get_assigned audit_vars_def)

lemma writeSecurity_trail:
  assumes "runs_creates db ''security_audit'' rows" and "writeSecurity L now (Some db) e d = (line, d')"
  shows "map mapAuditRow (rows ''audit'' t d') = map mapAuditRow (rows ''audit'' t d) @
    (if line = None \<and> audit_db e = t then [e\<lparr>sv_TenantID := t\<rparr>] else [])"
proof -
  let ?t = "audit_db e" and ?sets = "snd (the (parse_create sql_audit_create))"
  have p: "parse_create sql_audit_create = Some (''security_audit'', ?sets)" by (simp add: parse_audit_create)
  obtain r where q: "db_Query db (WithTimeout Background now (5 * second)) ''audit'' ?t sql_audit_create (audit_vars L now ?t e) d = (r, d')"
    and line: "line = None \<longleftrightarrow> (\<exists>res. r = Inr res)"
    using assms(2) by (auto simp: writeSecurity_def Let_def split: prod.splits sum.splits)
  show ?thesis
  proof (cases r)
    case (Inl err)
    with q line runs_createsD(1) [OF assms(1) p, of _ _ _ _ d err d' "''audit''" t] show ?thesis by auto
  next
    case (Inr res)
    with q obtain rs where "rows ''audit'' t d' = rows ''audit'' t d @
        (if ''audit'' = ''audit'' \<and> t = ?t then [assigned ?sets (audit_vars L now ?t e) rs []] else [])"
      using runs_createsD(2) [OF assms(1) p] by blast
    then show ?thesis using Inr line by (auto simp: mapAuditRow_created)
  qed
qed

lemma audit_step_trail:
  assumes "runs_creates db ''security_audit'' rows" and "audit_step L (Some db) s s'" and "trail rows d s"
  shows "trail rows d s'"
  using assms(2)
proof cases
  case (write_one b1 e b2 now line d')
  from writeSecurity_trail [OF assms(1) write_one(3)] assms(3) write_one(1) show ?thesis by (auto simp: trail_def)
qed (use assms(3) in \<open>simp_all add: trail_def\<close>)

lemma audit_step_nil:
  assumes "audit_step L None s s'"
  shows "ru_written s' = ru_written s \<and> ru_db s' = ru_db s"
  using assms by cases (auto simp: writeSecurity_def)

text \<open>The trail of a run with any pool: without one nothing is ever written.\<close>

definition trail_kept :: "'d db option \<Rightarrow> (string \<Rightarrow> string \<Rightarrow> 'd \<Rightarrow> row list) \<Rightarrow> 'd \<Rightarrow> 'd audit_run \<Rightarrow> bool" where
  "trail_kept pool rows d s \<longleftrightarrow> trail rows d s \<and> (pool = None \<longrightarrow> ru_written s = [] \<and> ru_db s = d)"

lemma trail_kept_step:
  assumes "\<And>db. pool = Some db \<Longrightarrow> runs_creates db ''security_audit'' rows" and "audit_step L pool s s'"
    and "trail_kept pool rows d s"
  shows "trail_kept pool rows d s'"
proof (cases pool)
  case None
  with audit_step_nil [of L s s'] assms(2,3) show ?thesis by (simp add: trail_kept_def trail_def)
next
  case (Some db)
  with audit_step_trail [OF assms(1) [OF Some]] assms(2,3) show ?thesis by (simp add: trail_kept_def)
qed

lemma trail_kept0: "trail_kept pool rows d (run0 d)"
  by (simp add: trail_kept_def trail_def run0_def)

lemma audit_reach_trail:
  assumes "\<And>db. pool = Some db \<Longrightarrow> runs_creates db ''security_audit'' rows" and "audit_reach L pool d s"
  shows "trail_kept pool rows d s"
  using assms(2) by induction (auto intro: trail_kept0 trail_kept_step [OF assms(1)])

text \<open>A database that takes every event leaves nothing to drop.\<close>

definition takes_events :: "'d db \<Rightarrow> bool" where
  "takes_events db \<longleftrightarrow> (\<forall>c t vs d. \<exists>res. fst (db_Query db c ''audit'' t sql_audit_create vs d) = Inr res)"

lemma audit_step_dropped:
  assumes "takes_events db" and "audit_step L (Some db) s s'"
  shows "ru_dropped s' = ru_dropped s"
  using assms(2)
proof cases
  case (write_one b1 e b2 now line d')
  obtain res where "fst (db_Query db (WithTimeout Background now (5 * second)) ''audit'' (audit_db e) sql_audit_create
      (audit_vars L now (audit_db e) e) (ru_db s)) = Inr res" using assms(1) unfolding takes_events_def by blast
  with write_one(3) have "line = None" by (auto simp: writeSecurity_def Let_def split: prod.splits sum.splits)
  with write_one(1) show ?thesis by simp
qed simp_all

lemma audit_reach_dropped:
  assumes "takes_events db" and "audit_reach L (Some db) d s"
  shows "ru_dropped s = []"
  using assms(2)
proof (induction rule: audit_reach.induct)
  case start
  show ?case by (simp add: run0_def)
next
  case (step s s')
  with audit_step_dropped [OF assms(1) step.hyps(2)] show ?case by simp
qed

section \<open>The dates of an event\<close>

lemma div_step:
  fixes n y :: int
  assumes "0 < n"
  shows "(y + 1) div n = y div n + (if n dvd y + 1 then 1 else 0)"
proof -
  define q r where "q = y div n" and "r = y mod n"
  then have y: "y = q * n + r" "0 \<le> r" "r < n" using assms by simp_all
  show ?thesis
  proof (cases "r + 1 = n")
    case True
    then have "y + 1 = (q + 1) * n" using y by (simp add: algebra_simps)
    then show ?thesis using assms by (simp add: q_def [symmetric])
  next
    case False
    then have r: "0 \<le> r + 1" "r + 1 < n" using y by auto
    have e: "y + 1 = (r + 1) + n * q" using y by (simp add: algebra_simps)
    have d: "((r + 1) + n * q) div n = q + (r + 1) div n" "((r + 1) + n * q) mod n = (r + 1) mod n"
      using assms by (simp_all only: div_mult_self2 mod_mult_self2)
    have z: "(r + 1) div n = 0" "(r + 1) mod n = r + 1" using r by simp_all
    have "(y + 1) div n = q" "(y + 1) mod n = r + 1" unfolding e d z by simp_all
    with y(2) show ?thesis by (simp add: q_def [symmetric] dvd_eq_mod_eq_0)
  qed
qed

lemma two_years: "year_start (y + 2) = year_start y + 730 \<or> year_start (y + 2) = year_start y + 731"
proof -
  have two: "(y + 2) div n = y div n + (if n dvd y + 1 then 1 else 0) + (if n dvd y + 2 then 1 else 0)" if "0 < n" for n
  proof -
    have "y + 2 = (y + 1) + 1" by simp
    then show ?thesis using div_step [OF that, of y] div_step [OF that, of "y + 1"] by metis
  qed
  have d: "100 dvd m \<Longrightarrow> 4 dvd m" "400 dvd m \<Longrightarrow> 100 dvd m" for m :: int
    by (auto intro: dvd_trans)
  have "\<not> (4 dvd y + 1 \<and> 4 dvd y + 2)" by presburger
  then show ?thesis
    using d [of "y + 1"] d [of "y + 2"] by (auto simp: year_start_def two)
qed

lemma AddYears2_bounds:
  "t + 730 * day \<le> AddYears2 t" "AddYears2 t \<le> t + 731 * day"
proof -
  let ?z = "t div day" and ?y = "year_of (t div day)"
  have t: "t = ?z * day + t mod day" by (simp add: div_mult_mod_eq [symmetric])
  have "0 < day" by (simp add: day_def hour_def minute_def second_def)
  from two_years [of ?y] have "AddYears2 t = (?z + 730) * day + t mod day \<or> AddYears2 t = (?z + 731) * day + t mod day"
    by (auto simp: AddYears2_def Let_def)
  with t \<open>0 < day\<close> show "t + 730 * day \<le> AddYears2 t" "AddYears2 t \<le> t + 731 * day"
    by (auto simp: algebra_simps)
qed

text \<open>The year found is the one that contains the day.\<close>

lemma year_of_correct: "year_start (year_of z) \<le> z \<and> z < year_start (year_of z + 1)"
proof -
  define n where "n = z + 719468"
  define y where "y = n * 400 div 146097"
  define s where "s = (\<lambda>y :: int. 365 * y + y div 4 - y div 100 + y div 400)"
  have ys: "year_start k = s k - 719468" for k by (simp add: year_start_def s_def)
  have lo: "400 * s k \<le> 146097 * k + 400" and hi: "146097 * k - 800 < 400 * s k" for k
  proof -
    define a b c where "a = k div 4" and "b = k div 100" and "c = k div 400"
    then have "4 * a \<le> k" "k < 4 * a + 4" "100 * b \<le> k" "k < 100 * b + 100" "400 * c \<le> k" "k < 400 * c + 400"
      by linarith+
    moreover have "s k = 365 * k + a - b + c" by (simp add: s_def a_def b_def c_def)
    ultimately show "400 * s k \<le> 146097 * k + 400" "146097 * k - 800 < 400 * s k" by linarith+
  qed
  have y: "146097 * y \<le> n * 400" "n * 400 < 146097 * y + 146097" unfolding y_def by linarith+
  have "400 * s (y - 1) \<le> 400 * n" using lo [of "y - 1"] y(1) by (simp add: algebra_simps)
  moreover have "400 * n < 400 * s (y + 2)" using hi [of "y + 2"] y(2) by (simp add: algebra_simps)
  ultimately have "s (y - 1) \<le> n" "n < s (y + 2)" by simp_all
  then show ?thesis unfolding year_of_def Let_def n_def [symmetric] y_def [symmetric] ys
    by (auto simp: n_def algebra_simps)
qed

section \<open>Properties\<close>

text \<open>No accepted event is lost or written twice: in every reachable state of the queue the accepted events
  are those taken by workers, in the order of acceptance, followed by those that wait; the taken ones are the
  written ones, those dropped with a line in the log and those at the workers; at most 1024 wait and at most
  five are being written; and when a shutdown is over, every accepted event was written or dropped.\<close>

theorem audit_conserved:
  assumes "audit_reach L pool d s"
  shows "ru_accepted s = ru_taken s @ au_ch (ru_repo s) \<and>
    mset (ru_taken s) = mset (ru_written s) + mset (ru_dropped s) + mset (ru_busy s) \<and>
    length (au_ch (ru_repo s)) \<le> 1024 \<and> length (ru_busy s) \<le> 5 \<and>
    (au_workers (ru_repo s) = 0 \<longrightarrow> mset (ru_written s) + mset (ru_dropped s) = mset (ru_accepted s))"
  using audit_reach_inv [OF assms] by (auto simp: audit_inv_def auditQueueSize_def auditWorkerCount_def)

lemma audit_conserved_witness:
  "\<exists>s. audit_reach demo (None :: nat db option) 0 s \<and> ru_accepted s = [no_event] \<and> mset (ru_taken s) = mset (ru_written s) + mset (ru_dropped s) + mset (ru_busy s)"
proof -
  let ?s0 = "run0 (0 :: nat)"
  have "LogSecurityEvent True Background no_event (ru_repo ?s0) = (Ret None, (ru_repo ?s0)\<lparr>au_ch := [no_event]\<rparr>)"
    by (simp add: LogSecurityEvent_def run0_def NewAuditRepo_def Start_def auditQueueSize_def Background_def)
  from audit_step.submit [where s = ?s0, OF this]
  have "audit_step demo (None :: nat db option) ?s0 (?s0\<lparr>ru_repo := (ru_repo ?s0)\<lparr>au_ch := [no_event]\<rparr>, ru_accepted := [no_event]\<rparr>)"
    by (simp add: run0_def)
  from audit_reach.step [OF audit_reach.start this]
  have r: "audit_reach demo (None :: nat db option) 0 (?s0\<lparr>ru_repo := (ru_repo ?s0)\<lparr>au_ch := [no_event]\<rparr>, ru_accepted := [no_event]\<rparr>)" .
  from audit_conserved [OF r] r show ?thesis by (intro exI conjI) (rule r, simp_all add: run0_def)
qed

text \<open>Operators hear of an event exactly when it is critical and was recorded: the service calls the
  publisher once for a critical event that the store took, and not for any other; an error of the
  publisher is not an error of the service.\<close>

theorem log_security_publishes:
  "LogSecurity (Some st) (Some p) c e w =
    (case st c e w of
       (Ret None, w1) \<Rightarrow> (Ret None, if IsCritical e then snd (p c e w1) else w1)
     | r \<Rightarrow> r) \<and>
   (IsCritical e \<longleftrightarrow> sv_Status e \<in> {''failure'', ''denied''} \<or>
      sv_Action e \<in> {''auth.login.fail'', ''auth.tenant_mismatch'', ''session.revoke_all'', ''passkey.fail''})"
  by (auto simp: LogSecurity_def IsCritical_def Let_def split: prod.splits go.splits option.splits)

text \<open>An audit record is kept for two years and in its tenant's own database: a write goes to the
  namespace \<open>audit\<close> and the database of the event's tenant, or of \<open>public\<close> without one, and its
  expiry is 730 or 731 days after its time stamp; the synchronous write refuses an event without a
  tenant or of another tenant than expected, and then touches nothing.\<close>

theorem audit_write_scoped:
  "\<exists>c t. snd (writeSecurity L now (Some db) e d) =
      snd (db_Query db c ''audit'' (audit_db e) sql_audit_create
        (audit_vars L now (audit_db e) e) d) \<and>
    get (audit_vars L now x e) ''expires_at'' = AStr (FormatRFC3339 L t) \<and>
    now + 730 * day \<le> t \<and> t \<le> now + 731 * day \<and>
    ((\<exists>err. LogEvent L now (Some db) c2 e expected d = (Some err, d)) \<or>
      0 < length (sv_TenantID e) \<and> expected \<in> {'''', sv_TenantID e})"
proof (intro exI conjI)
  show "snd (writeSecurity L now (Some db) e d) =
      snd (db_Query db (WithTimeout Background now (5 * second)) ''audit'' (audit_db e)
        sql_audit_create (audit_vars L now (audit_db e) e) d)"
    by (simp add: writeSecurity_def Let_def split: prod.split sum.split)
  show "get (audit_vars L now x e) ''expires_at'' = AStr (FormatRFC3339 L (AddYears2 now))"
    by (simp add: audit_vars_def)
  show "now + 730 * day \<le> AddYears2 now" "AddYears2 now \<le> now + 731 * day" by (rule AddYears2_bounds)+
qed (auto simp: LogEvent_def)


section \<open>The end of a shutdown\<close>

text \<open>The steps of the workers, and the work left for them.\<close>

inductive drain_step :: "golib \<Rightarrow> 'd db option \<Rightarrow> 'd audit_run \<Rightarrow> 'd audit_run \<Rightarrow> bool"
  for L :: golib and pool :: "'d db option" where
  drain_take: "au_ch (ru_repo s) = e # q \<Longrightarrow> length (ru_busy s) < au_workers (ru_repo s) \<Longrightarrow>
    drain_step L pool s (s\<lparr>ru_repo := (ru_repo s)\<lparr>au_ch := q\<rparr>, ru_busy := e # ru_busy s, ru_taken := ru_taken s @ [e]\<rparr>)"
| drain_write: "ru_busy s = b1 @ e # b2 \<Longrightarrow> writeSecurity L now pool e (ru_db s) = (line, d') \<Longrightarrow>
    drain_step L pool s (s\<lparr>ru_busy := b1 @ b2, ru_written := ru_written s @ (if line = None then [e] else []),
      ru_dropped := ru_dropped s @ (if line = None then [] else [e]), ru_db := d'\<rparr>)"
| drain_leave: "au_closed (ru_repo s) \<Longrightarrow> au_ch (ru_repo s) = [] \<Longrightarrow> length (ru_busy s) < au_workers (ru_repo s) \<Longrightarrow>
    drain_step L pool s (s\<lparr>ru_repo := (ru_repo s)\<lparr>au_workers := au_workers (ru_repo s) - 1\<rparr>\<rparr>)"

definition work_left :: "'d audit_run \<Rightarrow> nat" where
  "work_left s = 2 * length (au_ch (ru_repo s)) + length (ru_busy s) + au_workers (ru_repo s)"

lemma drain_step_is_step: "drain_step L pool s s' \<Longrightarrow> audit_step L pool s s'"
  by (induction rule: drain_step.induct) (rule audit_step.intros, assumption+)+

lemma drain_step_effect:
  "drain_step L pool s s' \<Longrightarrow> work_left s' < work_left s \<and> ru_accepted s' = ru_accepted s \<and>
    (au_closed (ru_repo s) \<longrightarrow> au_closed (ru_repo s'))"
  by (induction rule: drain_step.induct) (auto simp: work_left_def)

lemma drain_step_ready:
  assumes "audit_inv s" and "au_closed (ru_repo s)" and "au_workers (ru_repo s) \<noteq> 0"
  shows "\<exists>s'. drain_step L pool s s'"
proof (cases "ru_busy s")
  case busy: Nil
  show ?thesis
  proof (cases "au_ch (ru_repo s)")
    case Nil
    with busy assms(2,3) show ?thesis using drain_leave by fastforce
  next
    case (Cons e q)
    with busy assms(3) show ?thesis using drain_take by fastforce
  qed
next
  case (Cons e b)
  moreover obtain line d' where "writeSecurity L 0 pool e (ru_db s) = (line, d')" by fastforce
  ultimately show ?thesis using drain_write [of s "[]" e b L 0 pool line d'] by (simp only: append_Nil) blast
qed

lemma drain_run:
  "(drain_step L pool ^^ n) s s' \<Longrightarrow> audit_inv s \<Longrightarrow> au_closed (ru_repo s) \<Longrightarrow>
    n + work_left s' \<le> work_left s \<and> audit_inv s' \<and> au_closed (ru_repo s') \<and> ru_accepted s' = ru_accepted s"
proof (induction n arbitrary: s')
  case (Suc n)
  then obtain t where t: "(drain_step L pool ^^ n) s t" "drain_step L pool t s'" by auto
  with Suc.IH [OF t(1) Suc.prems(2,3)] drain_step_effect [OF t(2)] audit_step_inv [OF drain_step_is_step [OF t(2)]]
  show ?case by auto
qed simp

text \<open>The workers can always finish what is left of a closed queue.\<close>

lemma drains:
  assumes "audit_inv r" and "au_closed (ru_repo r)"
  shows "\<exists>r'. (drain_step L db)\<^sup>*\<^sup>* r r' \<and> au_workers (ru_repo r') = 0 \<and> audit_inv r' \<and> au_closed (ru_repo r')"
  using assms
proof (induction "work_left r" arbitrary: r rule: less_induct)
  case less
  show ?case
  proof (cases "au_workers (ru_repo r) = 0")
    case True
    with less.prems show ?thesis by blast
  next
    case False
    then obtain r1 where r1: "drain_step L db r r1" using drain_step_ready [OF less.prems] by blast
    with drain_step_effect [OF r1] audit_step_inv [OF drain_step_is_step [OF r1]] less.prems less.hyps [of r1]
    obtain r' where "(drain_step L db)\<^sup>*\<^sup>* r1 r'" "au_workers (ru_repo r') = 0" "audit_inv r'" "au_closed (ru_repo r')" by blast
    with r1 show ?thesis by (meson converse_rtranclp_into_rtranclp)
  qed
qed

lemma drains_accepted: "(drain_step L db)\<^sup>*\<^sup>* r r' \<Longrightarrow> ru_accepted r' = ru_accepted r"
  by (induction rule: rtranclp_induct) (auto dest: drain_step_effect)

lemma drain_run_reach: "(drain_step L pool ^^ n) s s' \<Longrightarrow> audit_reach L pool d s \<Longrightarrow> audit_reach L pool d s'"
  by (induction n arbitrary: s') (auto intro: audit_reach.step drain_step_is_step)

text \<open>C28: A shutdown ends, and what was accepted is then in the database or was dropped with a line in the log.
  Once the queue is closed the workers take at most two steps for each waiting event, one for each event
  being written and one each to leave, and as long as one of them is left it can take a step.  When the
  last is gone, every accepted event was written or dropped; the table of each tenant holds, after what it
  held at the start, exactly its written events in the order of the writes; a database that takes
  every event has lost none; and without a pool all are lost.\<close>

theorem audit_drains:
  assumes "\<And>db. pool = Some db \<Longrightarrow> runs_creates db ''security_audit'' rows"
    and "audit_reach L pool d s" and "au_closed (ru_repo s)" and "(drain_step L pool ^^ n) s s'"
  shows "n \<le> 2 * length (au_ch (ru_repo s)) + length (ru_busy s) + au_workers (ru_repo s) \<and>
    (if au_workers (ru_repo s') = 0 then
       mset (ru_written s') + mset (ru_dropped s') = mset (ru_accepted s) \<and>
       (\<forall>t. map mapAuditRow (rows ''audit'' t (ru_db s')) = map mapAuditRow (rows ''audit'' t d) @
          map (\<lambda>e. e\<lparr>sv_TenantID := t\<rparr>) (filter (\<lambda>e. audit_db e = t) (ru_written s'))) \<and>
       (case pool of None \<Rightarrow> ru_written s' = [] | Some db \<Rightarrow> takes_events db \<longrightarrow> ru_dropped s' = [])
     else \<exists>s''. drain_step L pool s' s'')"
proof -
  note run = drain_run [OF assms(4) audit_reach_inv [OF assms(2)] assms(3)]
  have reach: "audit_reach L pool d s'" by (rule drain_run_reach [OF assms(4,2)])
  have "n \<le> work_left s" using run by linarith
  moreover have "mset (ru_written s') + mset (ru_dropped s') = mset (ru_accepted s)" if "au_workers (ru_repo s') = 0"
    using run that by (auto simp: audit_inv_def auditWorkerCount_def)
  moreover have "trail rows d s'" "pool = None \<longrightarrow> ru_written s' = []"
    using audit_reach_trail [OF assms(1) reach] by (simp_all add: trail_kept_def)
  moreover have "\<forall>db. pool = Some db \<longrightarrow> takes_events db \<longrightarrow> ru_dropped s' = []"
    using audit_reach_dropped reach by metis
  ultimately show ?thesis using drain_step_ready run
    by (auto simp: work_left_def trail_def split: option.split)
qed

section \<open>Closed examples\<close>

text \<open>A database of tables of events, which runs any CREATE.\<close>

type_synonym event_tables = "string \<Rightarrow> string \<Rightarrow> row list"

definition event_db :: "event_tables db" where
  "event_db = \<lparr>db_Query = (\<lambda>c ns dbn sql vs d. case parse_create sql of
       Some (tab, xs) \<Rightarrow> (if tab = ''security_audit''
         then (Inr [ANil], d(ns := (d ns)(dbn := d ns dbn @ [assigned xs vs demo_sql_reads []]))) else (Inl ''no table'', d))
     | None \<Rightarrow> (Inl ''unknown statement'', d)), db_defaultNS = ''public''\<rparr>"

lemma event_db_creates: "runs_creates event_db ''security_audit'' (\<lambda>ns dbn d. d ns dbn)"
proof -
  have "sql_reads_ok demo_sql_reads" by simp
  then show ?thesis unfolding runs_creates_def by (auto simp: event_db_def intro!: exI [of _ demo_sql_reads])
qed

lemma event_db_takes: "takes_events event_db"
  by (simp add: takes_events_def event_db_def parse_audit_create)

text \<open>A run that has accepted one event and was closed.\<close>

definition one_event :: "event_tables audit_run" where
  "one_event = (run0 (\<lambda>_ _. []))\<lparr>ru_accepted := [no_event], ru_repo := Shutdown (NewAuditRepo\<lparr>au_ch := [no_event]\<rparr>)\<rparr>"

lemma one_event_accepted: "ru_accepted one_event = [no_event]"
  by (simp add: one_event_def)

lemma one_event_reach: "audit_reach demo (Some event_db) (\<lambda>_ _. []) one_event"
proof -
  let ?s0 = "run0 (\<lambda>_ _. []) :: event_tables audit_run"
  have "LogSecurityEvent True Background no_event (ru_repo ?s0) = (Ret None, NewAuditRepo\<lparr>au_ch := [no_event]\<rparr>)"
    by (simp add: LogSecurityEvent_def run0_def NewAuditRepo_def Start_def auditQueueSize_def Background_def)
  from audit_step.submit [where s = ?s0 and L = demo and pool = "Some event_db", OF this]
  have "audit_step demo (Some event_db) ?s0 (?s0\<lparr>ru_repo := NewAuditRepo\<lparr>au_ch := [no_event]\<rparr>, ru_accepted := [no_event]\<rparr>)"
    by (simp add: run0_def)
  from audit_reach.step [OF audit_reach.step [OF audit_reach.start this] audit_step.close] show ?thesis
    by (simp add: one_event_def)
qed

lemma audit_drains_witness:
  "\<exists>n s'. (drain_step demo (Some event_db) ^^ n) one_event s' \<and> au_workers (ru_repo s') = 0 \<and>
     map mapAuditRow (ru_db s' ''audit'' ''public'') = [no_event\<lparr>sv_TenantID := ''public''\<rparr>]"
proof -
  have closed: "au_closed (ru_repo one_event)" by (simp add: one_event_def Shutdown_def)
  obtain s' n where run: "(drain_step demo (Some event_db) ^^ n) one_event s'" and fin: "au_workers (ru_repo s') = 0"
    using drains [OF audit_reach_inv [OF one_event_reach] closed, of demo "Some event_db"] by (meson rtranclp_imp_relpowp)
  have t: "mset (ru_written s') + mset (ru_dropped s') = mset [no_event]" "ru_dropped s' = []"
    "map mapAuditRow (ru_db s' ''audit'' ''public'') = map (\<lambda>e. e\<lparr>sv_TenantID := ''public''\<rparr>) (filter (\<lambda>e. audit_db e = ''public'') (ru_written s'))"
    using audit_drains [OF _ one_event_reach closed run, where rows = "\<lambda>ns dbn d. d ns dbn"] event_db_creates event_db_takes fin
    by (auto simp: one_event_def)
  then have "ru_written s' = [no_event]" by simp
  with t(3) have "map mapAuditRow (ru_db s' ''audit'' ''public'') = [no_event\<lparr>sv_TenantID := ''public''\<rparr>]"
    by (simp add: audit_db_def no_event_def)
  with run fin show ?thesis by (intro exI conjI)
qed

end
