(* ===== verification/AuthHandler.thy ===== *)
theory AuthHandler
  imports Otp Guard TenantRepo AuditLog IdentityDb
begin

text \<open>
  The sign-in routes (internal/interfaces/http/handlers/auth_handler.go): the login page, sending and
  checking a one-time password, the consent page, the rotation of a refresh token and the logout.
  Each handler is the sequence of its calls.  Log lines are left out except for the slices in them,
  which can panic.
\<close>

section \<open>Ports\<close>

text \<open>\<open>identity.RateLimiter\<close>, and the clock readings of its calls.\<close>

record 'w RateLimiter =
  rp_Allow :: "reads \<Rightarrow> ctx \<Rightarrow> string \<Rightarrow> RateLimitPolicy \<Rightarrow> 'w \<Rightarrow> (goerr option \<times> bool) \<times> 'w"
  rp_Reset :: "ctx \<Rightarrow> string \<Rightarrow> 'w \<Rightarrow> goerr option \<times> 'w"
  rp_GetRemaining :: "reads \<Rightarrow> ctx \<Rightarrow> string \<Rightarrow> RateLimitPolicy \<Rightarrow> 'w \<Rightarrow> (goerr option \<times> int) \<times> 'w"

text \<open>\<open>PasskeyPresence\<close>; the adapter \<open>PasskeyPresenceFunc\<close> calls the function it is.\<close>

type_synonym 'w PasskeyPresence = "ctx \<Rightarrow> string \<Rightarrow> string \<Rightarrow> 'w \<Rightarrow> bool \<times> 'w"

definition PasskeyPresenceFunc :: "'w PasskeyPresence \<Rightarrow> 'w PasskeyPresence" where
  "PasskeyPresenceFunc f = (\<lambda>c tenantID email w. f c tenantID email w)"

text \<open>
  \<open>ah_deliver\<close> is what the outputs of the OTP service (mails, or printed lines) do to the world.
\<close>

record 'w AuthHandler =
  ah_otp :: "'w OTPService"
  ah_deliver :: "otp_output list \<Rightarrow> 'w \<Rightarrow> 'w"
  ah_tokens :: "'w SessionAuthService"
  ah_users :: "'w UserStore option"
  ah_tenantResolver :: "'w TenantResolver option"
  ah_audit :: "'w AuditStore option"
  ah_rl :: "'w RateLimiter option"
  ah_passkeys :: "'w PasskeyPresence option"
  ah_pepper :: string

text \<open>The libraries, the environment, and what one request reads from the clock and the random source.\<close>

record runtime =
  rt_lib :: golib
  rt_jwt :: jwtlib
  rt_env :: env
  rt_now :: time
  rt_created :: time
  rt_updated :: time
  rt_digits :: rand_digits
  rt_issue :: issue_reads
  rt_rate :: reads

section \<open>Cookies and audit events\<close>

definition auth_cookie :: "string \<Rightarrow> string \<Rightarrow> int \<Rightarrow> bool \<Rightarrow> cookie" where
  "auth_cookie name v age lax = \<lparr>ck_Name = name, ck_Value = v, ck_Path = ''/'', ck_MaxAge = age,
     ck_HttpOnly = True, ck_Secure = True, ck_Lax = lax\<rparr>"

definition setAuthCookies :: "TokenPair \<Rightarrow> response \<Rightarrow> response" where
  "setAuthCookies pair w =
     SetCookie (auth_cookie ''loxtu_refresh'' (tp_RefreshPlain pair) (86400 * 30) True)
      (SetCookie (auth_cookie ''loxtu_access'' (tp_AccessToken pair) 900 True) w)"

definition clearAuthCookies :: "response \<Rightarrow> response" where
  "clearAuthCookies w =
     SetCookie (auth_cookie ''loxtu_refresh'' '''' (- 1) False)
      (SetCookie (auth_cookie ''loxtu_access'' '''' (- 1) False) w)"

definition security_event :: "request \<Rightarrow> string \<Rightarrow> string \<Rightarrow> string \<Rightarrow> string \<Rightarrow> string \<Rightarrow> SecurityEvent" where
  "security_event r userID tenantID masked action status =
     no_event\<lparr>sv_UserID := userID, sv_TenantID := tenantID, sv_MaskedEmail := masked, sv_Action := action,
       sv_Status := status, sv_ClientIP := GetClientIP r, sv_ReqID := GetRequestID (rq_Context r)\<rparr>"

definition audit_with :: "'w AuditStore option \<Rightarrow> request \<Rightarrow> SecurityEvent \<Rightarrow> (unit, 'w) act" where
  "audit_with store r ev =
     (case store of None \<Rightarrow> ret () | Some st \<Rightarrow> bind_act (world_go (st (rq_Context r) ev)) (\<lambda>_. ret ()))"

definition logSecurity :: "'w AuthHandler \<Rightarrow> request \<Rightarrow> SecurityEvent \<Rightarrow> (unit, 'w) act" where
  "logSecurity h r ev = audit_with (ah_audit h) r ev"

definition consentGranted :: "ctx \<Rightarrow> string \<Rightarrow> string \<Rightarrow> bool" where
  "consentGranted c userID masked = False"

definition issueCookies :: "runtime \<Rightarrow> 'w AuthHandler \<Rightarrow> request \<Rightarrow> string \<Rightarrow> string \<Rightarrow> string \<Rightarrow> (goerr option, 'w) act" where
  "issueCookies rt h r userID tenantID action =
     bind_act (world_go (IssueSession (rt_lib rt) (rt_jwt rt) (rt_env rt) (ah_tokens h) (rq_Context r) (rt_issue rt)
         userID tenantID ''worker'' []))
       (\<lambda>(pair, err). if err \<noteq> None then ret err
         else after (logSecurity h r (security_event r userID tenantID '''' action ''success''))
               (after (respond (setAuthCookies pair)) (ret None)))"

section \<open>The handlers\<close>

definition LoginPage :: "request \<Rightarrow> (unit, 'w) act" where
  "LoginPage r =
     (if WantsJSON r then respond (WriteJSON 200 (json [(''type'', ''login''), (''message'', ''Login form endpoint'')]))
      else respond (Render ''LoginShell'' []))"

definition too_many_attempts :: string where
  "too_many_attempts = ''Too many attempts. Please wait before trying again.''"

text \<open>The tenant of an address: the resolver's answer, or \<open>fallback\<close> without one.\<close>

definition tenant_or :: "golib \<Rightarrow> 'w TenantResolver option \<Rightarrow> request \<Rightarrow> string \<Rightarrow> string \<Rightarrow> (string, 'w) act" where
  "tenant_or L resolver r email fallback =
     bind_act (world_do (ResolveTenantByEmail L resolver (rq_Context r) email))
       (\<lambda>res. ret (case res of Inr t \<Rightarrow> if t \<noteq> '''' then t else fallback | Inl e \<Rightarrow> fallback))"

definition pending_user :: "runtime \<Rightarrow> string \<Rightarrow> string \<Rightarrow> User" where
  "pending_user rt emailHash tenantID = zero_user\<lparr>u_EmailHash := emailHash, u_TenantID := tenantID,
     u_Status := ''pending'', u_IsActive := False, u_CreatedAt := rt_created rt, u_UpdatedAt := rt_updated rt\<rparr>"

text \<open>The user of an address, created when there is none: its id and hash, or the error of \<open>Create\<close>.\<close>

definition find_or_create :: "runtime \<Rightarrow> 'w AuthHandler \<Rightarrow> request \<Rightarrow> string \<Rightarrow> string
    \<Rightarrow> (goerr + string \<times> string, 'w) act" where
  "find_or_create rt h r email tenantID =
     (let emailHash = HashEmail (rt_lib rt) email (ah_pepper h) in
      bind_act (must (deref (ah_users h))) (\<lambda>us.
      bind_act (world_do (us_FindByEmailHash us (rq_Context r) emailHash)) (\<lambda>found.
      let (userID, userIDHash) = (case found of Inr (Some u) \<Rightarrow> (u_UserID u, u_UserIDHash u) | _ \<Rightarrow> ('''', '''')) in
      if userID \<noteq> '''' then ret (Inr (userID, userIDHash))
      else bind_act (world_do (us_Create us (rq_Context r) (pending_user rt emailHash tenantID)))
             (\<lambda>(err, newUser). ret (case err of Some e \<Rightarrow> Inl e
                | None \<Rightarrow> Inr (u_UserID newUser, u_UserIDHash newUser))))))"

text \<open>\<open>h.otp.Send\<close>, its outputs delivered.\<close>

definition send_code :: "runtime \<Rightarrow> 'w AuthHandler \<Rightarrow> request \<Rightarrow> string \<Rightarrow> string \<Rightarrow> (goerr option, 'w) act" where
  "send_code rt h r email userIDHash = world_do (\<lambda>w.
     (let ((err, out), w1) = Send (rt_lib rt) (ah_otp h) (rq_Context r) (rt_digits rt) (rt_now rt) email userIDHash w
      in (err, ah_deliver h out w1)))"

text \<open>Whether the limiter, when there is one, lets the call through.\<close>

definition rate_ok :: "runtime \<Rightarrow> 'w AuthHandler \<Rightarrow> request \<Rightarrow> string \<Rightarrow> (bool, 'w) act" where
  "rate_ok rt h r key =
     (case ah_rl h of None \<Rightarrow> ret True
      | Some rl \<Rightarrow> bind_act (world_do (rp_Allow rl (rt_rate rt) (rq_Context r) key PolicyOTP))
          (\<lambda>(err, allowed). ret allowed))"

definition SendOTP :: "runtime \<Rightarrow> 'w AuthHandler \<Rightarrow> request \<Rightarrow> (unit, 'w) act" where
  "SendOTP rt h r =
     (if rq_FormErr r \<noteq> None then respond (WriteJSON 400 (json [(''error'', ''bad request'')]))
      else let email = TrimSpace (FormValue r ''email'') in
      if email = '''' \<or> \<not> Contains email ''@'' then respond (Render ''LoginFormPartial'' [])
      else after (respond_go (SetLogEmail email))
        (bind_act (rate_ok rt h r (RateKeyOTPSend email)) (\<lambda>allowed.
         if \<not> allowed then respond (Render ''OTPErrorPartial'' [email, '''', too_many_attempts])
         else bind_act (tenant_or (rt_lib rt) (ah_tenantResolver h) r email ''public'') (\<lambda>tenantID.
         bind_act (find_or_create rt h r email tenantID) (\<lambda>user.
         case user of
           Inl e \<Rightarrow> respond (http_Error ''internal error'' 500)
         | Inr (userID, userIDHash) \<Rightarrow>
             bind_act (send_code rt h r email userIDHash) (\<lambda>err.
             if err \<noteq> None then respond (Render ''LoginFormPartial'' [])
             else after (logSecurity h r (security_event r userID tenantID (MaskEmail email)
                           ''auth.otp.send'' ''success''))
                   (respond (Render ''OTPFormPartial'' [email, userIDHash]))))))))"

definition reset_limits :: "'w AuthHandler \<Rightarrow> request \<Rightarrow> string \<Rightarrow> (unit, 'w) act" where
  "reset_limits h r userIDHash =
     (case ah_rl h of None \<Rightarrow> ret ()
      | Some rl \<Rightarrow>
          bind_act (world_do (rp_Reset rl (rq_Context r) (RateKeyOTPSend userIDHash))) (\<lambda>_.
          bind_act (world_do (rp_Reset rl (rq_Context r) (RateKeyOTPFail userIDHash))) (\<lambda>_. ret ())))"

text \<open>The user behind a hash, when the lookup finds one.\<close>

definition user_by_hash :: "'w AuthHandler \<Rightarrow> request \<Rightarrow> string \<Rightarrow> (User option, 'w) act" where
  "user_by_hash h r userIDHash =
     bind_act (must (deref (ah_users h))) (\<lambda>us.
     bind_act (world_do (us_FindByUserIDHash us (rq_Context r) userIDHash)) (\<lambda>found.
     ret (case found of Inr (Some u) \<Rightarrow> Some u | _ \<Rightarrow> None)))"

definition user_tenant :: "User \<Rightarrow> string" where
  "user_tenant u = (if u_TenantID u = '''' then ''public'' else u_TenantID u)"

definition VerifyOTP :: "runtime \<Rightarrow> 'w AuthHandler \<Rightarrow> request \<Rightarrow> (unit, 'w) act" where
  "VerifyOTP rt h r =
     (if rq_FormErr r \<noteq> None then respond (http_Error ''bad request'' 400)
      else let userIDHash = FormValue r ''user_id_hash'';
               code = TrimSpace (Join (all_values (rq_Form r) ''code'') '''') in
      if userIDHash = '''' \<or> code = '''' then respond (http_Error ''bad request'' 400)
      else after (respond_go (SetLogEmail ''***''))
        (bind_act (rate_ok rt h r (RateKeyOTPFail userIDHash)) (\<lambda>allowed.
         if \<not> allowed then respond (Render ''OTPErrorPartial'' ['''', '''', too_many_attempts])
         else bind_act (world_go (Verify (rt_lib rt) (ah_otp h) (rq_Context r) (rt_now rt) userIDHash code)) (\<lambda>(valid, err).
         if \<not> valid then
           after (logSecurity h r (security_event r userIDHash '''' '''' ''auth.otp.verify'' ''failure''))
             (respond (Render ''OTPErrorPartial'' ['''', '''', ''Invalid or expired code. Try again.'']))
         else after (reset_limits h r userIDHash)
         (bind_act (user_by_hash h r userIDHash) (\<lambda>found.
          case found of
            None \<Rightarrow> after (must (log8 userIDHash)) (respond (http_Error ''user not found'' 400))
          | Some u \<Rightarrow>
          (if u_UserID u = '''' then after (must (log8 userIDHash)) (respond (http_Error ''user not found'' 400))
           else let tenantID = user_tenant u; masked = MaskEmail ''***'' in
           after (case ah_passkeys h of None \<Rightarrow> ret ()
                  | Some has \<Rightarrow> bind_act (world_do (has (rq_Context r) tenantID userIDHash)) (\<lambda>_. ret ()))
           (if consentGranted (rq_Context r) (u_UserID u) masked then
              bind_act (issueCookies rt h r (u_UserID u) tenantID ''auth.otp.verify'') (\<lambda>err.
                if err \<noteq> None then ret ()
                else respond (\<lambda>w. WriteHeader 200 (SetHeader ''HX-Redirect'' ''/dashboard'' w)))
            else after (respond (Render ''ConsentPartial'' [userIDHash]))
              (logSecurity h r (security_event r (u_UserID u) tenantID masked ''auth.otp.verify'' ''success''))))))))))"

definition ConsentPage :: "request \<Rightarrow> (unit, 'w) act" where
  "ConsentPage r =
     (let userIDHash = QueryGet r ''user_id_hash'' in
      if userIDHash = '''' then respond (Redirect ''/'' 303) else respond (Render ''ConsentPartial'' [userIDHash]))"

definition ConsentAccept :: "runtime \<Rightarrow> 'w AuthHandler \<Rightarrow> request \<Rightarrow> (unit, 'w) act" where
  "ConsentAccept rt h r =
     (let userIDHash = FormValue r ''user_id_hash'' in
      if userIDHash = '''' \<or> FormValue r ''gdpr'' = '''' \<or> FormValue r ''nis2'' = '''' \<or> FormValue r ''soc2'' = '''' then
        after (must (log8 userIDHash)) (respond (Render ''ConsentPartial'' [userIDHash]))
      else after (respond_go (SetLogEmail ''***''))
        (bind_act (user_by_hash h r userIDHash) (\<lambda>found.
         case found of
           None \<Rightarrow> after (must (log8 userIDHash)) (respond (http_Error ''user not found'' 400))
         | Some u \<Rightarrow>
            (let tenantID = user_tenant u in
             after (audit_with (ah_audit h) r (security_event r (u_UserID u) tenantID '''' ''auth.consent.accept'' ''success''))
             (bind_act (case ah_passkeys h of None \<Rightarrow> ret False
                        | Some has \<Rightarrow> world_do (has (rq_Context r) tenantID userIDHash)) (\<lambda>enrolled.
              after (must (log8 userIDHash))
              (if enrolled then
                 bind_act (issueCookies rt h r (u_UserID u) tenantID ''auth.consent.accept'') (\<lambda>_.
                 respond (\<lambda>w. WriteHeader 200 (SetHeader ''HX-Redirect'' ''/dashboard'' w)))
               else respond (Render ''RegisterPartial'' [userIDHash]))))))))"

definition Refresh :: "runtime \<Rightarrow> 'w AuthHandler \<Rightarrow> request \<Rightarrow> (unit, 'w) act" where
  "Refresh rt h r =
     (case Cookie r ''loxtu_refresh'' of
        None \<Rightarrow> respond (http_Error ''unauthorized'' 401)
      | Some v \<Rightarrow>
          bind_act (world_go (Rotate (rt_lib rt) (rt_jwt rt) (rt_env rt) (ah_tokens h) (rq_Context r) (rt_issue rt) v))
            (\<lambda>(pair, err). if err \<noteq> None then respond (http_Error ''unauthorized'' 401)
              else respond (\<lambda>w. WriteHeader 204 (setAuthCookies pair w))))"

text \<open>Subject and tenant of the cookie's token, whose signature and expiry are not checked.\<close>

definition logout_claims :: "jwtlib \<Rightarrow> request \<Rightarrow> string \<times> string" where
  "logout_claims J r =
     (case Cookie r ''loxtu_access'' of
        None \<Rightarrow> ('''', ''public'')
      | Some v \<Rightarrow>
          (case jwt_unverified J v of
             None \<Rightarrow> ('''', ''public'')
           | Some t \<Rightarrow> (ac_Subject (tk_claims t),
               if ac_TenantID (tk_claims t) \<noteq> '''' then ac_TenantID (tk_claims t) else ''public'')))"

definition Logout :: "runtime \<Rightarrow> 'w AuthHandler \<Rightarrow> request \<Rightarrow> (unit, 'w) act" where
  "Logout rt h r =
     (let (userIDHash, tenantID) = logout_claims (rt_jwt rt) r in
      bind_act (case ah_users h of
                  None \<Rightarrow> ret None
                | Some us \<Rightarrow> if userIDHash = '''' then ret None else user_by_hash h r userIDHash) (\<lambda>found.
      let userID = (case found of Some u \<Rightarrow> u_UserID u | None \<Rightarrow> '''') in
      after (if userID = '''' then ret ()
             else bind_act (world_do (RevokeAllForUser (ah_tokens h) (rq_Context r) userID)) (\<lambda>err.
               if err \<noteq> None then ret ()
               else logSecurity h r (security_event r userIDHash tenantID '''' ''auth.logout'' ''success'')))
      (after (respond clearAuthCookies)
       (if HeaderGet r ''Hx-Request'' = ''true'' then respond (SetHeader ''HX-Redirect'' ''/'')
        else respond (Redirect ''/'' 303)))))"


section \<open>Cookies\<close>

lemma SetLogEmail_no_cookie [intro, simp]: "keeps same_cookies (respond_go (SetLogEmail e))"
  by (rule no_cookie.kept_respond_go) (simp add: same_cookies_def SetLogEmail_frame)

lemma respond_no_cookie [intro, simp]:
  "keeps same_cookies (respond (Render t xs))" "keeps same_cookies (respond (http_Error m n))"
  "keeps same_cookies (respond (WriteJSON n b))" "keeps same_cookies (respond (Redirect u n))"
  "keeps same_cookies (respond (\<lambda>w. WriteHeader n (SetHeader k v w)))"
  by (rule no_cookie.kept_respond, simp add: same_cookies_def)+

lemma audit_no_cookie [intro, simp]:
  "keeps same_cookies (audit_with st r ev)" "keeps same_cookies (logSecurity h r ev)"
  unfolding audit_with_def logSecurity_def by (rule no_cookie.kept_rules)+

lemma steps_no_cookie [intro, simp]:
  "keeps same_cookies (tenant_or L res r e fb)" "keeps same_cookies (find_or_create rt h r e t)"
  "keeps same_cookies (send_code rt h r e i)" "keeps same_cookies (rate_ok rt h r key)"
  "keeps same_cookies (reset_limits h r i)" "keeps same_cookies (user_by_hash h r i)"
  unfolding tenant_or_def find_or_create_def send_code_def rate_ok_def reset_limits_def user_by_hash_def Let_def
  by (rule no_cookie.kept_rules)+

text \<open>Neither asking for a code nor presenting a right one signs anyone in: none of the one-time
  password routes adds a cookie to the answer, whatever the world is.\<close>

theorem otp_routes_set_no_cookie:
  "rs_cookies (snd (snd (SendOTP rt h r s))) = rs_cookies (snd s) \<and>
   rs_cookies (snd (snd (VerifyOTP rt h r s))) = rs_cookies (snd s)"
proof -
  have "keeps same_cookies (SendOTP rt h r)"
    unfolding SendOTP_def Let_def by (rule no_cookie.kept_rules respond_no_cookie audit_no_cookie steps_no_cookie SetLogEmail_no_cookie)+
  moreover have "keeps same_cookies (VerifyOTP rt h r)"
    unfolding VerifyOTP_def Let_def consentGranted_def if_False
    by (rule no_cookie.kept_rules respond_no_cookie audit_no_cookie steps_no_cookie SetLogEmail_no_cookie)+
  ultimately show ?thesis unfolding keeps_def same_cookies_def by blast
qed


section \<open>Logout\<close>

text \<open>In this state and context the audit store answers every event, and leaves what \<open>view\<close> reads alone.
  The queue of \<open>main\<close> does so until it is closed.\<close>

definition audit_answers :: "'w AuditStore option \<Rightarrow> ctx \<Rightarrow> ('w \<Rightarrow> 'v) \<Rightarrow> 'w \<Rightarrow> bool" where
  "audit_answers store c view w \<longleftrightarrow> (case store of None \<Rightarrow> True
     | Some st \<Rightarrow> \<forall>ev. (\<exists>e. fst (st c ev w) = Ret e) \<and> view (snd (st c ev w)) = view w)"

lemma audit_with_answers:
  assumes "audit_answers store (rq_Context r) view w"
  obtains w' where "audit_with store r ev (w, resp) = (Ret (), w', resp)" and "view w' = view w"
proof (cases store)
  case None
  then show ?thesis using that [of w] by (simp add: audit_with_def)
next
  case (Some st)
  with assms obtain e where e: "fst (st (rq_Context r) ev w) = Ret e" and v: "view (snd (st (rq_Context r) ev w)) = view w"
    by (auto simp: audit_answers_def)
  show ?thesis using that [of "snd (st (rq_Context r) ev w)"] e v Some
    by (simp add: audit_with_def bind_act_def world_go_def)
qed

lemma user_by_hash_found:
  assumes "user_lookup us users" and "ah_users h = Some us"
  shows "user_by_hash h r i s = (Ret (find (\<lambda>u. u_UserIDHash u = i) (users (rq_Context r) (fst s))), s)"
  using user_lookup.find_hash [OF assms(1), of "rq_Context r" i "fst s"] assms(2)
  by (auto simp: user_by_hash_def split: option.splits)

text \<open>C32: Logging out asks for no proof.  A request whose access cookie merely names a user, in a token
  whose signature and expiry nobody checks, removes every session of that user.\<close>

theorem logout_trusts_token:
  assumes "user_lookup us users" and "session_store ss view"
    and "ah_users h = Some us" and "sas_sessions (ah_tokens h) = Some ss"
    and "Cookie r ''loxtu_access'' = Some raw" and "jwt_unverified (rt_jwt rt) raw = Some t"
    and "ac_Subject (tk_claims t) \<noteq> ''''"
    and "find (\<lambda>u. u_UserIDHash u = ac_Subject (tk_claims t)) (users (rq_Context r) w) = Some u" and "u_UserID u \<noteq> ''''"
    and "audit_answers (ah_audit h) (rq_Context r) (view (rq_Context r)) (snd (ss_RevokeByUserID ss (rq_Context r) (u_UserID u) w))"
  shows "\<exists>w' resp'. Logout rt h r (w, resp) = (Ret (), w', resp') \<and>
    (\<forall>k y. view (rq_Context r) w' k = Some y \<longrightarrow> se_UserID y \<noteq> u_UserID u)"
proof -
  define w1 where "w1 = snd (ss_RevokeByUserID ss (rq_Context r) (u_UserID u) w)"
  have gone: "se_UserID y \<noteq> u_UserID u" if "view (rq_Context r) w1 k = Some y" for k y
    using that session_store.revoke_view [OF assms(2), of "rq_Context r" "u_UserID u" w k]
    by (auto simp: w1_def split: option.splits if_splits)
  obtain tenant where claims: "logout_claims (rt_jwt rt) r = (ac_Subject (tk_claims t), tenant)"
    using assms(5,6) by (simp add: logout_claims_def)
  obtain w' where audit: "logSecurity h r (security_event r (ac_Subject (tk_claims t)) tenant '''' ''auth.logout'' ''success'') (w1, resp)
      = (Ret (), w', resp)" and same: "view (rq_Context r) w' = view (rq_Context r) w1"
    unfolding logSecurity_def by (rule audit_with_answers [OF assms(10) [folded w1_def]])
  have "ss_RevokeByUserID ss (rq_Context r) (u_UserID u) w = (None, w1)"
    using session_store.revoke_ok [OF assms(2)] by (simp add: w1_def prod_eq_iff)
  then have "\<exists>resp'. Logout rt h r (w, resp) = (Ret (), w', resp')"
    using assms(3,4,7-9) user_by_hash_found [OF assms(1,3), of r _ "(w, resp)"] audit
    by (simp add: Logout_def claims Let_def after_def bind_act_eq(1) RevokeAllForUser_def bind_act_def)
  then show ?thesis using gone same by metis
qed


section \<open>Refreshing\<close>

lemma Refresh_error:
  assumes "Cookie r ''loxtu_refresh'' = Some v"
    and "Rotate (rt_lib rt) (rt_jwt rt) (rt_env rt) (ah_tokens h) (rq_Context r) (rt_issue rt) v w = (Ret (pair, Some e), w')"
  shows "Refresh rt h r (w, resp) = (Ret (), w', http_Error ''unauthorized'' 401 resp)"
  using assms by (simp add: Refresh_def bind_act_def world_go_def)

text \<open>A refresh cookie is good for one request.  Once the refresh route has answered a request with it,
  granted or refused, every later request of the same tenant that carries it, at whatever time and with
  whatever clock and random source, is answered with a 401 and changes nothing.\<close>

lemma refresh_cookie_once:
  assumes "token_service us users ss view" and "sas_sessions (ah_tokens h) = Some ss" and "sas_users (ah_tokens h) = Some us"
    and "sha_ok (rt_lib rt)" and "\<And>b. ir_rand (rt_issue rt) 32 = Inr b \<Longrightarrow> HashToken (rt_lib rt) (hex_EncodeToString b) \<noteq> HashToken (rt_lib rt) v"
    and "Cookie r ''loxtu_refresh'' = Some v" and "Refresh rt h r (w, resp) = (Ret (), w', resp')"
    and "token_service us2 users ss2 view" and "sas_sessions (ah_tokens h2) = Some ss2" and "sas_users (ah_tokens h2) = Some us2"
    and "Cookie r2 ''loxtu_refresh'' = Some v" and "rq_Context r2 = rq_Context r" and "rt_lib rt2 = rt_lib rt"
  shows "Refresh rt2 h2 r2 (w', resp2) = (Ret (), w', http_Error ''unauthorized'' 401 resp2)"
proof -
  from assms(7) obtain pair err where rot: "Rotate (rt_lib rt) (rt_jwt rt) (rt_env rt) (ah_tokens h) (rq_Context r) (rt_issue rt) v w
      = (Ret (pair, err), w')"
    unfolding Refresh_def assms(6) option.case
    by (elim bind_act_RetE) (auto simp: world_go_def prod_eq_iff split: if_splits)
  have "HashToken (rt_lib rt) v \<noteq> ''''" using sha_hex_nonempty [OF assms(4)] by (simp add: HashToken_def sha_hex_def)
  then have "tp_RefreshHash pair \<noteq> HashToken (rt_lib rt) v"
    using token_service.rotate_pair [OF assms(1-3) rot] assms(5) by (auto simp: no_pair_def)
  then have "view (rq_Context r2) w' (HashToken (rt_lib rt2) v) = None"
    using token_service.rotate_consumes [OF assms(1-3) rot] assms(12,13) by simp
  from token_service.rotate_unknown [OF assms(8-10) this] show ?thesis by (rule Refresh_error [OF assms(11)])
qed


section \<open>What the page of the code shows\<close>

lemma find_or_create_found:
  assumes "user_lookup us users" and "ah_users h = Some us"
    and "find (\<lambda>u. u_EmailHash u = HashEmail (rt_lib rt) email (ah_pepper h)) (users (rq_Context r) (fst s)) = Some u"
    and "u_UserID u \<noteq> ''''"
  shows "find_or_create rt h r email t s = (Ret (Inr (u_UserID u, u_UserIDHash u)), s)"
  using user_lookup.find_email [OF assms(1), of "rq_Context r" "HashEmail (rt_lib rt) email (ah_pepper h)" "fst s"] assms(2-4)
  by (auto simp: find_or_create_def Let_def)

text \<open>The whole of \<open>SendOTP\<close> for a known address, from the answers of its four calls.\<close>

lemma SendOTP_known:
  assumes "rq_FormErr r = None" and "Contains email ''@''" and "\<not> HasPrefix email ''@''" and "email = TrimSpace (FormValue r ''email'')"
    and "\<And>resp. rate_ok rt h r (RateKeyOTPSend email) (w, resp) = (Ret True, w1, resp)"
    and "\<And>resp. tenant_or (rt_lib rt) (ah_tenantResolver h) r email ''public'' (w1, resp) = (Ret t, w2, resp)"
    and "\<And>resp. find_or_create rt h r email t (w2, resp) = (Ret (Inr (i, k)), w2, resp)"
    and "\<And>resp. send_code rt h r email k (w2, resp) = (Ret None, w3, resp)"
    and "\<And>resp. logSecurity h r (security_event r i t (MaskEmail email) ''auth.otp.send'' ''success'') (w3, resp) = (Ret (), w4, resp)"
  shows "\<exists>resp'. SendOTP rt h r (w, resp) = (Ret (), w4, resp') \<and> rs_bodies resp' = rs_bodies resp @ [Template ''OTPFormPartial'' [email, k]]"
proof -
  have "\<not> is_panic (SetLogEmail email resp)" using assms(3) by (simp add: SetLogEmail_panics)
  then obtain resp1 where log: "SetLogEmail email resp = Ret resp1" by (cases "SetLogEmail email resp") auto
  have ne: "email \<noteq> ''''" using assms(2) by auto
  have "SendOTP rt h r (w, resp) = (Ret (), w4, Render ''OTPFormPartial'' [email, k] resp1)"
    using assms(1,2) ne unfolding SendOTP_def Let_def assms(4) [symmetric]
    by (simp add: after_def bind_act_def respond_go_def log assms(5-9))
  then show ?thesis using SetLogEmail_frame(4) [OF log] by simp
qed


section \<open>Closed examples\<close>

text \<open>The user u1 of acme, reachable as ann@acme.com, over the small database.\<close>

definition web_mail :: string where "web_mail = ''ann@acme.com''"
definition web_hash :: string where "web_hash = sha_hex demo ''u1''"

definition web_row :: row where
  "web_row = [(''user_id'', AStr ''u1''), (''user_id_hash'', AStr web_hash), (''email_hash'', AStr (HashEmail demo web_mail '''')),
     (''tenant_id'', AStr ''acme''), (''role'', AStr ''admin'')]"

definition web_world :: mini where "web_world = demo_world\<lparr>mi_users := (\<lambda>_. [web_row])\<rparr>"

abbreviation web_users :: "mini UserStore" where "web_users \<equiv> UserRepository demo demo_reads (Some mini_db)"
abbreviation web_sessions :: "mini SessionStore" where "web_sessions \<equiv> SessionRepo demo (Some mini_db)"
abbreviation web_view :: "ctx \<Rightarrow> mini \<Rightarrow> string \<Rightarrow> Session option" where "web_view \<equiv> session_view mini_db mini_tbl demo"
abbreviation web_list :: "ctx \<Rightarrow> mini \<Rightarrow> User list" where
  "web_list \<equiv> (\<lambda>c d. map mapUserRowV2 (mini_rows (ns_of mini_db c) d))"

definition web_auth :: "mini AuthHandler" where
  "web_auth = \<lparr>ah_otp = \<lparr>svc_sender = None, svc_store = None\<rparr>, ah_deliver = (\<lambda>_ w. w), ah_tokens = demo_svc,
     ah_users = Some web_users, ah_tenantResolver = None, ah_audit = None, ah_rl = None, ah_passkeys = None, ah_pepper = ''''\<rparr>"

definition web_rt :: runtime where
  "web_rt = \<lparr>rt_lib = demo, rt_jwt = demo_jwt, rt_env = demo_env, rt_now = 0, rt_created = 0, rt_updated = 0,
     rt_digits = (\<lambda>_. Inr 7), rt_issue = demo_issue, rt_rate = \<lparr>rd_create = 0, rd_since = 0, rd_start = 0\<rparr>\<rparr>"

lemma web_simps [simp]:
  "rt_lib web_rt = demo" "rt_jwt web_rt = demo_jwt" "rt_env web_rt = demo_env" "rt_issue web_rt = demo_issue"
  "ah_users web_auth = Some web_users" "ah_tokens web_auth = demo_svc" "ah_audit web_auth = None"
  "ah_rl web_auth = None" "ah_tenantResolver web_auth = None" "ah_pepper web_auth = ''''"
  by (simp_all add: web_rt_def web_auth_def)

lemma web_service: "user_lookup web_users web_list" "session_store web_sessions web_view"
  by (rule token_service.axioms [OF mini.is_service])+

lemma web_rows: "web_list c web_world = [mapUserRowV2 web_row]"
proof -
  have "web_hash \<noteq> []" by (simp add: web_hash_def sha_hex_nonempty)
  moreover have "HashEmail demo web_mail '''' \<noteq> []" using HashEmail_length [of demo web_mail "''''"] by auto
  ultimately show ?thesis by (simp add: mini_rows_def web_world_def web_row_def keyed_def)
qed

lemma web_user [simp]:
  "u_UserID (mapUserRowV2 web_row) = ''u1''" "u_UserIDHash (mapUserRowV2 web_row) = web_hash"
  "u_EmailHash (mapUserRowV2 web_row) = HashEmail demo web_mail ''''" "u_TenantID (mapUserRowV2 web_row) = ''acme''"
  by (simp_all add: mapUserRowV2_def web_row_def)

lemma web_found: "find (\<lambda>u. u_UserIDHash u = web_hash) (web_list c web_world) = Some (mapUserRowV2 web_row)"
  by (simp add: web_rows)


lemma web_views:
  "web_view Background web_world (HashToken demo ''old'') = Some demo_old"
  "web_view Background web_world (HashToken demo (hex_EncodeToString (replicate 32 CHR ''q''))) = None"
  by (simp_all add: session_view_def mini_tbl_def web_world_def demo_world_def)

lemma web_mail_simps: "Contains web_mail ''@''" "\<not> HasPrefix web_mail ''@''" "TrimSpace web_mail = web_mail"
  by (simp_all add: web_mail_def HasPrefix_def TrimSpace_visible visible_def)

lemma logout_trusts_token_witness:
  "\<exists>raw w' resp'. fst (get_claims raw) = ''forged'' \<and>
    Logout web_rt web_auth (a_request\<lparr>rq_Cookies := [(''loxtu_access'', raw)]\<rparr>) (web_world, fresh_response) = (Ret (), w', resp') \<and>
    web_view Background web_world (HashToken demo ''old'') = Some demo_old \<and> web_view Background w' (HashToken demo ''old'') \<noteq> Some demo_old"
proof -
  define cl where "cl = (access_claims demo 0 ''u1'' ''acme'' ''admin'' [] 0)"
  define raw where "raw = put_claims ''forged'' cl"
  define r where "r = a_request\<lparr>rq_Cookies := [(''loxtu_access'', raw)]\<rparr>"
  have g: "get_claims raw = (''forged'', cl)" by (simp add: raw_def)
  have r: "Cookie r ''loxtu_access'' = Some raw" "rq_Context r = Background"
    by (simp_all add: r_def Cookie_def a_request_def)
  have cl: "ac_Subject cl = web_hash" by (simp add: cl_def web_hash_def)
  have "\<exists>w' resp'. Logout web_rt web_auth r (web_world, fresh_response) = (Ret (), w', resp') \<and>
    (\<forall>k y. web_view (rq_Context r) w' k = Some y \<longrightarrow> se_UserID y \<noteq> u_UserID (mapUserRowV2 web_row))"
    by (rule logout_trusts_token [where users = web_list and us = web_users and ss = web_sessions and raw = raw
          and t = "hs256_token cl False"])
      (simp_all add: r web_service g cl web_found audit_answers_def, simp add: web_hash_def sha_hex_nonempty)
  then obtain w' resp' where "Logout web_rt web_auth r (web_world, fresh_response) = (Ret (), w', resp')"
    and "\<forall>k y. web_view Background w' k = Some y \<longrightarrow> se_UserID y \<noteq> ''u1''" by (auto simp: r)
  moreover from this(2) have "web_view Background w' (HashToken demo ''old'') \<noteq> Some demo_old"
    using demo_session_user by blast
  ultimately show ?thesis using g web_views(1) unfolding r_def
    by (intro exI [of _ raw] exI [of _ w'] exI [of _ resp']) (simp only: fst_conv simp_thms)
qed

end
