(* ===== verification/CredRepo.thy ===== *)
theory CredRepo
  imports Surreal Stores
begin

text \<open>
  The SurrealDB store of WebAuthn users and credentials (cred_repo.go).  \<open>SaveCredential\<close> writes its
  values into the text of the statement; the lemmas say what the table holds afterwards, and that
  a saved credential is read back.
\<close>

section \<open>Statements\<close>

definition sql_passkey_user_upsert :: string where
  "sql_passkey_user_upsert = ''UPSERT passkey_users SET user_id = $uid, handle = $handle, tenant_id = $tid''"

definition sql_passkey_handle :: string where
  "sql_passkey_handle = ''SELECT handle FROM passkey_users WHERE user_id = $uid LIMIT 1''"

definition sql_passkey_by_handle :: string where
  "sql_passkey_by_handle = ''SELECT user_id, tenant_id, handle FROM passkey_users WHERE handle = $handle LIMIT 1''"

definition sql_cred_by_user :: string where
  "sql_cred_by_user = ''SELECT * FROM passkey_credentials WHERE user_id = $uid''"

definition sql_cred_by_kid :: string where
  "sql_cred_by_kid = ''SELECT * FROM passkey_credentials WHERE kid = $kid LIMIT 1''"

definition sql_cred_sign_count :: string where
  "sql_cred_sign_count = ''UPDATE passkey_credentials SET sign_count = $sc WHERE user_id = $uid AND kid = $kid''"

abbreviation squote :: char where "squote \<equiv> CHR 0x27"

text \<open>\<open>'%s'\<close> and \<open>%v\<close> of a boolean.\<close>

definition in_quotes :: "string \<Rightarrow> string" where
  "in_quotes s = squote # s @ [squote]"

definition show_bool :: "bool \<Rightarrow> string" where
  "show_bool b = (if b then ''true'' else ''false'')"

definition escape_quotes :: "string \<Rightarrow> string" where
  "escape_quotes s = ReplaceAll s squote [squote, squote]"

definition sql_cred_delete :: "string \<Rightarrow> string" where
  "sql_cred_delete u = ''DELETE passkey_credentials WHERE user_id = '' @ in_quotes u"

definition sql_cred_create :: "string \<Rightarrow> string \<Rightarrow> string \<Rightarrow> 32 word \<Rightarrow> string \<Rightarrow> bool \<Rightarrow> bool \<Rightarrow> string" where
  "sql_cred_create u kid pk sc aaguid be bs =
     ''CREATE passkey_credentials SET user_id = '' @ in_quotes u @ '', kid = '' @ in_quotes kid @
     '', public_key = '' @ in_quotes pk @ '', sign_count = '' @ show_nat (unat sc) @
     '', transports = [], aaguid = '' @ in_quotes aaguid @ '', backup_eligible = '' @ show_bool be @
     '', backup_state = '' @ show_bool bs"

section \<open>Rows\<close>

text \<open>
  The bytes that \<open>DecodeString\<close> has written when it fails, which \<open>x, _ = DecodeString(s)\<close> keeps: those of
  the whole groups before the bad one.
\<close>

fun b64_groups :: "b64 \<Rightarrow> string \<Rightarrow> string" where
  "b64_groups e (a # b # c # d # r) =
     (case (b64_value e a, b64_value e b, b64_value e c, b64_value e d) of
        (Some x, Some y, Some z, Some w) \<Rightarrow>
          byte (x * 4 + y div 16) # byte (y mod 16 * 16 + z div 4) # byte (z mod 4 * 64 + w) # b64_groups e r
      | _ \<Rightarrow> [])"
| "b64_groups e _ = []"

definition decode_kept :: "string \<Rightarrow> string" where
  "decode_kept s = (case b64_DecodeString RawURLEncoding s of
     Inr bs \<Rightarrow> bs
   | Inl _ \<Rightarrow> b64_groups RawURLEncoding (filter (\<lambda>c. \<not> is_newline c) s))"

definition as_sign_count :: "any \<Rightarrow> 32 word" where
  "as_sign_count v = (case v of
     AFloat m e \<Rightarrow> word_of_int (float_to_int m e)
   | AInt i \<Rightarrow> word_of_int i
   | AUint32 w \<Rightarrow> w
   | _ \<Rightarrow> 0)"

definition mapCredentialRow :: "golib \<Rightarrow> row \<Rightarrow> PasskeyCredential" where
  "mapCredentialRow L rm =
     \<lparr>pc_CredentialID = (case as_string (get rm ''kid'') of Some s \<Rightarrow> decode_kept s | None \<Rightarrow> []),
      pc_UserID = str_or_empty (get rm ''user_id''),
      pc_PublicKey = (case as_string (get rm ''public_key'') of Some s \<Rightarrow> decode_kept s | None \<Rightarrow> []),
      pc_SignCount = as_sign_count (get rm ''sign_count''),
      pc_Transports = (case as_list (get rm ''transports'') of Some vs \<Rightarrow> strings_of vs | None \<Rightarrow> []),
      pc_AAGUID = str_or_empty (get rm ''aaguid''),
      pc_BackupEligible = (case as_bool (get rm ''backup_eligible'') of Some b \<Rightarrow> b | None \<Rightarrow> False),
      pc_BackupState = (case as_bool (get rm ''backup_state'') of Some b \<Rightarrow> b | None \<Rightarrow> False),
      pc_CreatedAt = (case parseTime L (get rm ''created_at'') of (t, ok) \<Rightarrow> if ok then t else zero_time)\<rparr>"

definition transportFromStrings :: "string list \<Rightarrow> string list" where
  "transportFromStrings ss = map (\<lambda>s. s) ss"

definition webauthnCredsFromDomainV2 :: "PasskeyCredential list \<Rightarrow> WaCredential list" where
  "webauthnCredsFromDomainV2 cs = map (\<lambda>c.
     \<lparr>wc_ID = pc_CredentialID c, wc_PublicKey = pc_PublicKey c, wc_SignCount = pc_SignCount c,
      wc_AAGUID = pc_AAGUID c, wc_BackupEligible = pc_BackupEligible c, wc_BackupState = pc_BackupState c,
      wc_Transport = transportFromStrings (pc_Transports c)\<rparr>) cs"

definition rows_of :: "any list \<Rightarrow> row list" where
  "rows_of results = List.map_filter as_map (firstRows results)"

section \<open>Operations\<close>

definition cred_SaveUser :: "'d db option \<Rightarrow> ctx \<Rightarrow> string \<Rightarrow> string \<Rightarrow> string \<Rightarrow> 'd \<Rightarrow> goerr option \<times> 'd" where
  "cred_SaveUser pool c userID handle tenantID d =
     (case pool of None \<Rightarrow> (Some no_db, d)
      | Some db \<Rightarrow> wrap_err [] (tenant_Query db c sql_passkey_user_upsert
          [(''uid'', AStr userID), (''handle'', ABytes handle), (''tid'', AStr tenantID)] d))"

definition cred_FindHandleByUserID :: "'d db option \<Rightarrow> ctx \<Rightarrow> string \<Rightarrow> 'd \<Rightarrow> (goerr + string) \<times> 'd" where
  "cred_FindHandleByUserID pool c userID d =
     (case pool of None \<Rightarrow> (Inl no_db, d)
      | Some db \<Rightarrow>
          (case tenant_Query db c sql_passkey_handle [(''uid'', AStr userID)] d of
             (Inl e, d1) \<Rightarrow> (Inl e, d1)
           | (Inr results, d1) \<Rightarrow>
               (case first_map results of
                  Some (Some rm) \<Rightarrow> (Inr (case asBytes (get rm ''handle'') of Some b \<Rightarrow> b | None \<Rightarrow> []), d1)
                | _ \<Rightarrow> (Inr [], d1))))"

definition cred_SaveCredential :: "'d db option \<Rightarrow> ctx \<Rightarrow> PasskeyCredential option \<Rightarrow> 'd \<Rightarrow> goerr option \<times> 'd" where
  "cred_SaveCredential pool c cred d =
     (case pool of None \<Rightarrow> (Some no_db, d)
      | Some db \<Rightarrow>
          (case cred of None \<Rightarrow> (Some ''nil credential'', d)
           | Some k \<Rightarrow>
               (let userID = escape_quotes (pc_UserID k);
                    kidB64 = b64_EncodeToString RawURLEncoding (pc_CredentialID k);
                    pkB64 = b64_EncodeToString RawURLEncoding (pc_PublicKey k);
                    aaguid = escape_quotes (pc_AAGUID k);
                    d1 = snd (tenant_Query db c (sql_cred_delete userID) [] d)
                in wrap_err [] (tenant_Query db c
                     (sql_cred_create userID kidB64 pkB64 (pc_SignCount k) aaguid (pc_BackupEligible k)
                        (pc_BackupState k)) [] d1))))"

definition cred_FindCredentialsByUserID :: "golib \<Rightarrow> 'd db option \<Rightarrow> ctx \<Rightarrow> string \<Rightarrow> 'd
    \<Rightarrow> (goerr + PasskeyCredential list) \<times> 'd" where
  "cred_FindCredentialsByUserID L pool c userID d =
     (case pool of None \<Rightarrow> (Inl no_db, d)
      | Some db \<Rightarrow>
          (case tenant_Query db c sql_cred_by_user [(''uid'', AStr userID)] d of
             (Inl e, d1) \<Rightarrow> (Inl e, d1)
           | (Inr results, d1) \<Rightarrow> (Inr (map (mapCredentialRow L) (rows_of results)), d1)))"

definition cred_FindCredentialByKID :: "golib \<Rightarrow> 'd db option \<Rightarrow> ctx \<Rightarrow> string \<Rightarrow> 'd
    \<Rightarrow> (goerr + PasskeyCredential option) \<times> 'd" where
  "cred_FindCredentialByKID L pool c kid d =
     (case pool of None \<Rightarrow> (Inl no_db, d)
      | Some db \<Rightarrow>
          (case tenant_Query db c sql_cred_by_kid
                  [(''kid'', AStr (b64_EncodeToString RawURLEncoding kid))] d of
             (Inl e, d1) \<Rightarrow> (Inl e, d1)
           | (Inr results, d1) \<Rightarrow>
               (case first_map results of
                  Some (Some rm) \<Rightarrow> (Inr (Some (mapCredentialRow L rm)), d1)
                | _ \<Rightarrow> (Inr None, d1))))"

definition cred_FindUserByHandle :: "golib \<Rightarrow> 'd db option \<Rightarrow> ctx \<Rightarrow> string \<Rightarrow> 'd
    \<Rightarrow> (goerr + PasskeyUser option) \<times> 'd" where
  "cred_FindUserByHandle L pool c handle d =
     (case pool of None \<Rightarrow> (Inl no_db, d)
      | Some db \<Rightarrow>
          (case tenant_Query db c sql_passkey_by_handle [(''handle'', ABytes handle)] d of
             (Inl e, d1) \<Rightarrow> (Inl e, d1)
           | (Inr results, d1) \<Rightarrow>
               (case first_map results of
                  Some (Some rm) \<Rightarrow>
                    (let userID = str_or_empty (get rm ''user_id'');
                         h = (case asBytes (get rm ''handle'') of Some b \<Rightarrow> b | None \<Rightarrow> []);
                         (creds, d2) = cred_FindCredentialsByUserID L pool c userID d1
                     in (Inr (Some \<lparr>pu_UserID = userID, pu_TenantID = str_or_empty (get rm ''tenant_id''),
                           pu_Email = [], pu_Handle = (if h = [] then handle else h),
                           pu_Credentials = webauthnCredsFromDomainV2
                             (case creds of Inr cs \<Rightarrow> cs | Inl _ \<Rightarrow> [])\<rparr>), d2))
                | _ \<Rightarrow> (Inr None, d1))))"

definition cred_UpdateSignCount :: "'d db option \<Rightarrow> ctx \<Rightarrow> string \<Rightarrow> string \<Rightarrow> 32 word \<Rightarrow> 'd \<Rightarrow> goerr option \<times> 'd" where
  "cred_UpdateSignCount pool c userID kid newCount d =
     (case pool of None \<Rightarrow> (Some no_db, d)
      | Some db \<Rightarrow> wrap_err [] (tenant_Query db c sql_cred_sign_count
          [(''uid'', AStr userID), (''kid'', AStr (b64_EncodeToString RawURLEncoding kid)),
           (''sc'', AUint32 newCount)] d))"

definition CredRepo :: "golib \<Rightarrow> 'd db option \<Rightarrow> 'd CredentialStore" where
  "CredRepo L pool = \<lparr>cs_SaveUser = cred_SaveUser pool, cs_SaveCredential = cred_SaveCredential pool,
     cs_FindCredentialsByUserID = cred_FindCredentialsByUserID L pool,
     cs_FindCredentialByKID = cred_FindCredentialByKID L pool,
     cs_FindUserByHandle = cred_FindUserByHandle L pool,
     cs_FindHandleByUserID = cred_FindHandleByUserID pool,
     cs_UpdateSignCount = cred_UpdateSignCount pool\<rparr>"

section \<open>What the statements do\<close>

text \<open>A value that can stand between quotes as it is.\<close>

definition plain :: "string \<Rightarrow> bool" where
  "plain s \<longleftrightarrow> squote \<notin> set s \<and> CHR 0x5C \<notin> set s"

lemma escape_plain [simp]: "plain s \<Longrightarrow> escape_quotes s = s"
proof -
  assume "plain s"
  then have "squote \<notin> set s" by (simp add: plain_def)
  then show ?thesis unfolding escape_quotes_def ReplaceAll_def by (induction s) auto
qed

lemma plain_alphabet: "plain (b64_alphabet RawURLEncoding)"
  unfolding plain_def b64_alphabet_def by simp

lemma plain_b64 [simp]: "plain (b64_EncodeToString RawURLEncoding bs)"
  using b64_encode_chars [of RawURLEncoding bs] plain_alphabet by (auto simp: plain_def)

text \<open>
  The rows of \<open>passkey_credentials\<close> in a namespace, in the order of the answers.  The statements are
  fixed texts around plain values.
\<close>

definition row_has :: "string \<Rightarrow> string \<Rightarrow> row \<Rightarrow> bool" where
  "row_has k v rm \<longleftrightarrow> get rm k = AStr v"

definition cred_row :: "row \<Rightarrow> string \<Rightarrow> string \<Rightarrow> string \<Rightarrow> 32 word \<Rightarrow> string \<Rightarrow> bool \<Rightarrow> bool \<Rightarrow> bool" where
  "cred_row rm u kid pk sc aaguid be bs \<longleftrightarrow>
     get rm ''user_id'' = AStr u \<and> get rm ''kid'' = AStr kid \<and> get rm ''public_key'' = AStr pk \<and>
     as_sign_count (get rm ''sign_count'') = sc \<and> get rm ''transports'' = AList [] \<and>
     get rm ''aaguid'' = AStr aaguid \<and> get rm ''backup_eligible'' = ABool be \<and> get rm ''backup_state'' = ABool bs"

locale surreal_creds =
  fixes db :: "'d db"
    and crows :: "string \<Rightarrow> 'd \<Rightarrow> row list"
  assumes by_user: "db_Query db c ns ns sql_cred_by_user [(''uid'', AStr u)] d =
      (Inr [AList (map AMap (filter (row_has ''user_id'' u) (crows ns d)))], d)"
    and by_kid: "db_Query db c ns ns sql_cred_by_kid [(''kid'', AStr k)] d =
      (Inr [AList (map AMap (take 1 (filter (row_has ''kid'' k) (crows ns d))))], d)"
    and delete_rows: "plain u \<Longrightarrow> \<exists>res d'. db_Query db c ns ns (sql_cred_delete u) [] d = (Inr res, d') \<and>
      crows ns d' = filter (\<lambda>rm. \<not> row_has ''user_id'' u rm) (crows ns d)"
    and create_row: "plain u \<Longrightarrow> plain kid \<Longrightarrow> plain pk \<Longrightarrow> plain a \<Longrightarrow>
      \<exists>res d' rm. db_Query db c ns ns (sql_cred_create u kid pk sc a be bs) [] d = (Inr res, d') \<and>
        cred_row rm u kid pk sc a be bs \<and> crows ns d' = crows ns d @ [rm]"
begin

lemma find_by_user:
  "cred_FindCredentialsByUserID L (Some db) c u d =
    (Inr (map (mapCredentialRow L) (filter (row_has ''user_id'' u) (crows (ns_of db c) d))), d)"
proof -
  have "List.map_filter as_map (map AMap rs) = rs" for rs
    by (induction rs) (auto simp: map_filter_simps)
  then show ?thesis
    by (simp add: cred_FindCredentialsByUserID_def tenant_Query_def by_user rows_of_def firstRows_def)
qed

lemma find_by_kid:
  "cred_FindCredentialByKID L (Some db) c k d =
    (Inr (map_option (mapCredentialRow L)
      (find (row_has ''kid'' (b64_EncodeToString RawURLEncoding k)) (crows (ns_of db c) d))), d)"
proof -
  let ?P = "row_has ''kid'' (b64_EncodeToString RawURLEncoding k)"
  have "find ?P rs = (case filter ?P rs of [] \<Rightarrow> None | r # _ \<Rightarrow> Some r)" for rs
    by (induction rs) auto
  then show ?thesis
    by (cases "filter ?P (crows (ns_of db c) d)")
      (simp_all add: cred_FindCredentialByKID_def tenant_Query_def by_kid)
qed

lemma read_back:
  assumes "cred_row rm u (b64_EncodeToString RawURLEncoding kid) (b64_EncodeToString RawURLEncoding pk) sc a be bs"
  shows "mapCredentialRow L rm = \<lparr>pc_CredentialID = kid, pc_UserID = u, pc_PublicKey = pk, pc_SignCount = sc,
    pc_Transports = [], pc_AAGUID = a, pc_BackupEligible = be, pc_BackupState = bs,
    pc_CreatedAt = pc_CreatedAt (mapCredentialRow L rm)\<rparr>"
  using assms by (simp add: mapCredentialRow_def cred_row_def decode_kept_def)

lemma save_credential:
  assumes "plain (pc_UserID k)" and "plain (pc_AAGUID k)"
  obtains d' rm where "cred_SaveCredential (Some db) c (Some k) d = (None, d')"
    and "cred_row rm (pc_UserID k) (b64_EncodeToString RawURLEncoding (pc_CredentialID k))
      (b64_EncodeToString RawURLEncoding (pc_PublicKey k)) (pc_SignCount k) (pc_AAGUID k)
      (pc_BackupEligible k) (pc_BackupState k)"
    and "crows (ns_of db c) d' =
      filter (\<lambda>rm. \<not> row_has ''user_id'' (pc_UserID k) rm) (crows (ns_of db c) d) @ [rm]"
proof -
  obtain res d1 where "db_Query db c (ns_of db c) (ns_of db c) (sql_cred_delete (pc_UserID k)) [] d = (Inr res, d1)"
    and "crows (ns_of db c) d1 = filter (\<lambda>rm. \<not> row_has ''user_id'' (pc_UserID k) rm) (crows (ns_of db c) d)"
    using delete_rows [OF assms(1)] by blast
  moreover obtain res' d' rm where "db_Query db c (ns_of db c) (ns_of db c) (sql_cred_create (pc_UserID k)
      (b64_EncodeToString RawURLEncoding (pc_CredentialID k)) (b64_EncodeToString RawURLEncoding (pc_PublicKey k))
      (pc_SignCount k) (pc_AAGUID k) (pc_BackupEligible k) (pc_BackupState k)) [] d1 = (Inr res', d')"
    and "cred_row rm (pc_UserID k) (b64_EncodeToString RawURLEncoding (pc_CredentialID k))
      (b64_EncodeToString RawURLEncoding (pc_PublicKey k)) (pc_SignCount k) (pc_AAGUID k)
      (pc_BackupEligible k) (pc_BackupState k)"
    and "crows (ns_of db c) d' = crows (ns_of db c) d1 @ [rm]"
    using create_row [OF assms(1) plain_b64 plain_b64 assms(2)] by blast
  ultimately show ?thesis using assms
    by (intro that [of d' rm]) (simp_all add: cred_SaveCredential_def tenant_Query_def Let_def)
qed

lemma saved_alone:
  assumes "plain (pc_UserID k)" and "plain (pc_AAGUID k)"
  shows "\<exists>d' t. cred_SaveCredential (Some db) c (Some k) d = (None, d') \<and>
    cred_FindCredentialsByUserID L (Some db) c (pc_UserID k) d'
      = (Inr [k\<lparr>pc_Transports := [], pc_CreatedAt := t\<rparr>], d') \<and>
    (\<forall>u. u \<noteq> pc_UserID k \<longrightarrow> fst (cred_FindCredentialsByUserID L (Some db) c u d')
      = fst (cred_FindCredentialsByUserID L (Some db) c u d))"
proof -
  obtain d' rm where s: "cred_SaveCredential (Some db) c (Some k) d = (None, d')"
    and r: "cred_row rm (pc_UserID k) (b64_EncodeToString RawURLEncoding (pc_CredentialID k))
      (b64_EncodeToString RawURLEncoding (pc_PublicKey k)) (pc_SignCount k) (pc_AAGUID k)
      (pc_BackupEligible k) (pc_BackupState k)"
    and t: "crows (ns_of db c) d' =
      filter (\<lambda>rm. \<not> row_has ''user_id'' (pc_UserID k) rm) (crows (ns_of db c) d) @ [rm]"
    by (rule save_credential [OF assms])
  have u: "row_has ''user_id'' u rm \<longleftrightarrow> u = pc_UserID k" for u
    using r by (auto simp: cred_row_def row_has_def)
  have m: "mapCredentialRow L rm = k\<lparr>pc_Transports := [], pc_CreatedAt := pc_CreatedAt (mapCredentialRow L rm)\<rparr>"
    by (subst read_back [OF r]) simp
  have own: "filter (row_has ''user_id'' (pc_UserID k)) (crows (ns_of db c) d') = [rm]"
    by (simp add: t u filter_False)
  have other: "filter (row_has ''user_id'' v) (crows (ns_of db c) d')
      = filter (row_has ''user_id'' v) (crows (ns_of db c) d)" if "v \<noteq> pc_UserID k" for v
  proof -
    have "filter (\<lambda>x. \<not> row_has ''user_id'' (pc_UserID k) x \<and> row_has ''user_id'' v x) = filter (row_has ''user_id'' v)"
      using that by (intro ext filter_cong) (auto simp: row_has_def)
    with that show ?thesis by (simp add: t u)
  qed
  show ?thesis
    using s m by (intro exI [of _ d'] exI [of _ "pc_CreatedAt (mapCredentialRow L rm)"])
      (simp add: find_by_user own other)
qed

lemma saved_by_kid:
  assumes "plain (pc_UserID k)" and "plain (pc_AAGUID k)"
    and "\<And>rm. rm \<in> set (crows (ns_of db c) d) \<Longrightarrow>
      row_has ''kid'' (b64_EncodeToString RawURLEncoding (pc_CredentialID k)) rm \<Longrightarrow> row_has ''user_id'' (pc_UserID k) rm"
  shows "\<exists>t. fst (cred_FindCredentialByKID L (Some db) c (pc_CredentialID k)
      (snd (cred_SaveCredential (Some db) c (Some k) d))) = Inr (Some (k\<lparr>pc_Transports := [], pc_CreatedAt := t\<rparr>))"
proof -
  obtain d' rm where s: "cred_SaveCredential (Some db) c (Some k) d = (None, d')"
    and r: "cred_row rm (pc_UserID k) (b64_EncodeToString RawURLEncoding (pc_CredentialID k))
      (b64_EncodeToString RawURLEncoding (pc_PublicKey k)) (pc_SignCount k) (pc_AAGUID k)
      (pc_BackupEligible k) (pc_BackupState k)"
    and t: "crows (ns_of db c) d' =
      filter (\<lambda>rm. \<not> row_has ''user_id'' (pc_UserID k) rm) (crows (ns_of db c) d) @ [rm]"
    by (rule save_credential [OF assms(1,2)])
  let ?P = "row_has ''kid'' (b64_EncodeToString RawURLEncoding (pc_CredentialID k))"
  have "find ?P (filter (\<lambda>rm. \<not> row_has ''user_id'' (pc_UserID k) rm) (crows (ns_of db c) d)) = None"
    using assms(3) by (auto simp: find_None_iff)
  moreover have "find ?P (xs @ ys) = (case find ?P xs of None \<Rightarrow> find ?P ys | Some z \<Rightarrow> Some z)" for xs ys
    by (induction xs) auto
  moreover have "?P rm" using r by (simp add: cred_row_def row_has_def)
  ultimately have "find ?P (crows (ns_of db c) d') = Some rm" by (simp add: t)
  moreover have "mapCredentialRow L rm = k\<lparr>pc_Transports := [], pc_CreatedAt := pc_CreatedAt (mapCredentialRow L rm)\<rparr>"
    by (subst read_back [OF r]) simp
  ultimately show ?thesis
    by (intro exI [of _ "pc_CreatedAt (mapCredentialRow L rm)"]) (simp add: find_by_kid s)
qed

end

section \<open>An instance\<close>

text \<open>
  A table that runs the statements: the text is split at its quotes, and the pieces between them are
  compared with those of the fixed texts.
\<close>

function pieces :: "string \<Rightarrow> string list" where
  "pieces s = (case cut_at squote s of None \<Rightarrow> [s] | Some (a, b) \<Rightarrow> a # pieces b)"
  by pat_completeness auto
termination by (relation "measure length") (auto simp: cut_at_Some_iff)

declare pieces.simps [simp del]

lemma pieces_simps [simp]:
  "squote \<notin> set s \<Longrightarrow> pieces s = [s]"
  "squote \<notin> set a \<Longrightarrow> pieces (a @ squote # b) = a # pieces b"
  by (subst pieces.simps, simp add: cut_at_None_iff [THEN iffD2])
     (subst pieces.simps, simp)

type_synonym cred_table = "row list"

definition run_create :: "string list \<Rightarrow> row option" where
  "run_create ps = (case ps of
     [a, u, b, kid, c, pk, e, aaguid, f] \<Rightarrow>
       Some [(''user_id'', AStr u), (''kid'', AStr kid), (''public_key'', AStr pk),
         (''sign_count'', AInt (int (digits_value (takeWhile is_digit (drop 15 e))))),
         (''transports'', AList []), (''aaguid'', AStr aaguid),
         (''backup_eligible'', ABool (HasPrefix f '', backup_eligible = true'')),
         (''backup_state'', ABool (HasSuffix f '', backup_state = true''))]
   | _ \<Rightarrow> None)"

definition cred_text :: "string \<Rightarrow> cred_table \<Rightarrow> (goerr + any list) \<times> cred_table" where
  "cred_text sql d = (case pieces sql of
       [a, u, b] \<Rightarrow> (Inr [AList []], filter (\<lambda>rm. \<not> row_has ''user_id'' u rm) d)
     | ps \<Rightarrow> (case run_create ps of Some rm \<Rightarrow> (Inr [AList [AMap rm]], d @ [rm]) | None \<Rightarrow> (Inl ''parse error'', d)))"

definition cred_db :: "cred_table db" where
  "cred_db = \<lparr>db_Query = (\<lambda>c ns dbn sql vs d.
     if sql = sql_cred_by_user then
       (Inr [AList (map AMap (filter (\<lambda>rm. get rm ''user_id'' = get vs ''uid'') d))], d)
     else if sql = sql_cred_by_kid then
       (Inr [AList (map AMap (take 1 (filter (\<lambda>rm. get rm ''kid'' = get vs ''kid'') d)))], d)
     else cred_text sql d), db_defaultNS = ''main''\<rparr>"

lemma show_bool_plain [simp]: "squote \<notin> set (show_bool b)"
  by (simp add: show_bool_def)

lemma show_nat_plain [simp]: "squote \<notin> set (show_nat n)"
proof
  assume "squote \<in> set (show_nat n)"
  moreover have "list_all is_digit (show_nat n)" using show_nat_digits [of n] by simp
  ultimately have "is_digit squote" by (auto simp: list_all_iff)
  then show False by (simp add: is_digit_def)
qed

lemma pieces_delete: "plain u \<Longrightarrow> pieces (sql_cred_delete u) = [''DELETE passkey_credentials WHERE user_id = '', u, []]"
proof -
  assume "plain u"
  moreover have "sql_cred_delete u = ''DELETE passkey_credentials WHERE user_id = '' @ squote # u @ squote # []"
    by (simp add: sql_cred_delete_def in_quotes_def)
  moreover have "squote \<notin> set ''DELETE passkey_credentials WHERE user_id = ''" by simp
  ultimately show ?thesis by (simp only: pieces_simps plain_def list.set empty_iff not_False_eq_True)
qed

lemma pieces_create:
  assumes "plain u" and "plain kid" and "plain pk" and "plain a"
  shows "pieces (sql_cred_create u kid pk sc a be bs) =
    [''CREATE passkey_credentials SET user_id = '', u, '', kid = '', kid, '', public_key = '', pk,
     '', sign_count = '' @ show_nat (unat sc) @ '', transports = [], aaguid = '', a,
     '', backup_eligible = '' @ show_bool be @ '', backup_state = '' @ show_bool bs]"
proof -
  have e: "sql_cred_create u kid pk sc a be bs = ''CREATE passkey_credentials SET user_id = '' @ squote # u @ squote #
     '', kid = '' @ squote # kid @ squote # '', public_key = '' @ squote # pk @ squote #
     ('', sign_count = '' @ show_nat (unat sc) @ '', transports = [], aaguid = '') @ squote # a @ squote #
     ('', backup_eligible = '' @ show_bool be @ '', backup_state = '' @ show_bool bs)"
    by (simp add: sql_cred_create_def in_quotes_def)
  have q: "squote \<notin> set ''CREATE passkey_credentials SET user_id = ''" "squote \<notin> set '', kid = ''"
    "squote \<notin> set '', public_key = ''"
    "squote \<notin> set ('', sign_count = '' @ show_nat (unat sc) @ '', transports = [], aaguid = '')"
    "squote \<notin> set ('', backup_eligible = '' @ show_bool be @ '', backup_state = '' @ show_bool bs)"
    by simp_all
  have p: "squote \<notin> set u" "squote \<notin> set kid" "squote \<notin> set pk" "squote \<notin> set a"
    using assms by (simp_all add: plain_def)
  show ?thesis unfolding e by (simp only: pieces_simps q p not_False_eq_True)
qed

lemma sign_count_text:
  "takeWhile is_digit (drop 15 ('', sign_count = '' @ show_nat n @ '', transports = [], aaguid = '')) = show_nat n"
proof -
  have "takeWhile is_digit (show_nat n @ CHR '','' # r) = show_nat n" for r
    using show_nat_digits [of n] by (subst takeWhile_append2) (auto simp: list_all_iff is_digit_def)
  then show ?thesis by simp
qed

interpretation cred_table: surreal_creds cred_db "\<lambda>ns d. d"
proof
  fix c ns u d
  show "db_Query cred_db c ns ns sql_cred_by_user [(''uid'', AStr u)] d =
      (Inr [AList (map AMap (filter (row_has ''user_id'' u) d))], d)"
    by (simp add: cred_db_def row_has_def [abs_def])
next
  fix c ns k d
  show "db_Query cred_db c ns ns sql_cred_by_kid [(''kid'', AStr k)] d =
      (Inr [AList (map AMap (take 1 (filter (row_has ''kid'' k) d)))], d)"
    by (simp add: cred_db_def row_has_def [abs_def] sql_cred_by_user_def sql_cred_by_kid_def)
next
  fix u :: string and c ns d
  assume "plain u"
  moreover have "sql_cred_delete u \<noteq> sql_cred_by_user" "sql_cred_delete u \<noteq> sql_cred_by_kid"
    by (simp_all add: sql_cred_delete_def sql_cred_by_user_def sql_cred_by_kid_def)
  ultimately show "\<exists>res d'. db_Query cred_db c ns ns (sql_cred_delete u) [] d = (Inr res, d') \<and>
      d' = filter (\<lambda>rm. \<not> row_has ''user_id'' u rm) d"
    by (simp add: cred_db_def cred_text_def pieces_delete)
next
  fix u kid pk a :: string and sc be bs c ns d
  assume p: "plain u" "plain kid" "plain pk" "plain a"
  have n: "sql_cred_create u kid pk sc a be bs \<noteq> sql_cred_by_user" "sql_cred_create u kid pk sc a be bs \<noteq> sql_cred_by_kid"
    by (simp_all add: sql_cred_create_def sql_cred_by_user_def sql_cred_by_kid_def)
  let ?rm = "[(''user_id'', AStr u), (''kid'', AStr kid), (''public_key'', AStr pk),
         (''sign_count'', AInt (int (unat sc))),
         (''transports'', AList []), (''aaguid'', AStr a),
         (''backup_eligible'', ABool be), (''backup_state'', ABool bs)]"
  have be: "HasPrefix ('', backup_eligible = '' @ show_bool be @ '', backup_state = '' @ show_bool bs) '', backup_eligible = true'' = be"
    by (cases be; cases bs; simp add: show_bool_def HasPrefix_def)
  have bs: "HasSuffix ('', backup_eligible = '' @ show_bool be @ '', backup_state = '' @ show_bool bs) '', backup_state = true'' = bs"
    by (cases be; cases bs; simp add: show_bool_def HasSuffix_def)
  have "run_create (pieces (sql_cred_create u kid pk sc a be bs)) = Some ?rm"
    unfolding pieces_create [OF p] run_create_def list.case be bs sign_count_text digits_value_show ..
  then have "cred_text (sql_cred_create u kid pk sc a be bs) d = (Inr [AList [AMap ?rm]], d @ [?rm])"
    unfolding cred_text_def pieces_create [OF p] by simp
  moreover have "cred_row ?rm u kid pk sc a be bs" by (simp add: cred_row_def as_sign_count_def)
  ultimately show "\<exists>res d' rm. db_Query cred_db c ns ns (sql_cred_create u kid pk sc a be bs) [] d = (Inr res, d') \<and>
        cred_row rm u kid pk sc a be bs \<and> d' = d @ [rm]"
    using n by (simp add: cred_db_def)
qed

section \<open>Properties\<close>

text \<open>C35: Saving a credential replaces all credentials of its user: afterwards the user has this one alone,
  with every field but the transports, which are dropped, and the credentials of other users are as
  they were.\<close>

theorem save_credential_replaces:
  assumes "surreal_creds db crows" and "plain (pc_UserID k)" and "plain (pc_AAGUID k)"
  shows "\<exists>d' t. cred_SaveCredential (Some db) c (Some k) d = (None, d') \<and>
    cred_FindCredentialsByUserID L (Some db) c (pc_UserID k) d'
      = (Inr [k\<lparr>pc_Transports := [], pc_CreatedAt := t\<rparr>], d') \<and>
    (\<forall>u. u \<noteq> pc_UserID k \<longrightarrow> fst (cred_FindCredentialsByUserID L (Some db) c u d')
      = fst (cred_FindCredentialsByUserID L (Some db) c u d))"
  by (rule surreal_creds.saved_alone [OF assms])

definition demo_key :: PasskeyCredential where
  "demo_key = \<lparr>pc_CredentialID = ''k1'', pc_UserID = ''u1'', pc_PublicKey = ''pk'', pc_SignCount = 7,
     pc_Transports = [''usb''], pc_AAGUID = ''00'', pc_BackupEligible = True, pc_BackupState = False, pc_CreatedAt = 0\<rparr>"

lemma save_credential_replaces_witness:
  "\<exists>d' t. cred_SaveCredential (Some cred_db) Background (Some demo_key) [] = (None, d') \<and>
    cred_FindCredentialsByUserID demo (Some cred_db) Background ''u1'' d'
      = (Inr [demo_key\<lparr>pc_Transports := [], pc_CreatedAt := t\<rparr>], d')"
proof -
  have "plain (pc_UserID demo_key)" "plain (pc_AAGUID demo_key)" by (simp_all add: demo_key_def plain_def)
  from save_credential_replaces [OF cred_table.surreal_creds_axioms this, where c = Background and d = "[]" and L = demo]
  show ?thesis by (auto simp: demo_key_def)
qed

text \<open>A saved credential is the one that a login finds by its id, with the counter and flags of the
  authenticator, unless another user has a credential of the same id.\<close>

theorem saved_credential_found:
  assumes "surreal_creds db crows" and "plain (pc_UserID k)" and "plain (pc_AAGUID k)"
    and "\<And>rm. rm \<in> set (crows (ns_of db c) d) \<Longrightarrow>
      row_has ''kid'' (b64_EncodeToString RawURLEncoding (pc_CredentialID k)) rm \<Longrightarrow> row_has ''user_id'' (pc_UserID k) rm"
  shows "\<exists>t. fst (cred_FindCredentialByKID L (Some db) c (pc_CredentialID k)
      (snd (cred_SaveCredential (Some db) c (Some k) d))) = Inr (Some (k\<lparr>pc_Transports := [], pc_CreatedAt := t\<rparr>))"
  by (rule surreal_creds.saved_by_kid [OF assms])

lemma saved_credential_found_witness:
  "\<exists>t. fst (cred_FindCredentialByKID demo (Some cred_db) Background ''k1''
      (snd (cred_SaveCredential (Some cred_db) Background (Some demo_key) []))) =
    Inr (Some (demo_key\<lparr>pc_Transports := [], pc_CreatedAt := t\<rparr>))"
proof -
  have "plain (pc_UserID demo_key)" "plain (pc_AAGUID demo_key)" by (simp_all add: demo_key_def plain_def)
  from saved_credential_found [OF cred_table.surreal_creds_axioms this, where c = Background and d = "[]" and L = demo]
  show ?thesis by (simp add: demo_key_def)
qed

end
