(* ===== verification/Worlds.thy ===== *)
theory Worlds
  imports Session CredRepo
begin

text \<open>
  Stores over a part of a larger world: the services of the program share one world and each store
  reads and writes its part of it.  The contracts of a store carry over to the larger world.
\<close>

definition on_part :: "('w \<Rightarrow> 'a) \<Rightarrow> ('a \<Rightarrow> 'w \<Rightarrow> 'w) \<Rightarrow> ('a \<Rightarrow> 'r \<times> 'a) \<Rightarrow> 'w \<Rightarrow> 'r \<times> 'w" where
  "on_part g p f w = (fst (f (g w)), p (snd (f (g w))) w)"

definition part_users :: "('w \<Rightarrow> 'a) \<Rightarrow> ('a \<Rightarrow> 'w \<Rightarrow> 'w) \<Rightarrow> 'a UserStore \<Rightarrow> 'w UserStore" where
  "part_users g p us = \<lparr>us_Create = (\<lambda>c u. on_part g p (us_Create us c u)),
     us_FindByUserID = (\<lambda>c i. on_part g p (us_FindByUserID us c i)),
     us_FindByEmailHash = (\<lambda>c h. on_part g p (us_FindByEmailHash us c h)),
     us_FindByUserIDHash = (\<lambda>c h. on_part g p (us_FindByUserIDHash us c h)),
     us_Update = (\<lambda>c u. on_part g p (us_Update us c u)),
     us_Erase = (\<lambda>c i. on_part g p (us_Erase us c i))\<rparr>"

definition part_sessions :: "('w \<Rightarrow> 'a) \<Rightarrow> ('a \<Rightarrow> 'w \<Rightarrow> 'w) \<Rightarrow> 'a SessionStore \<Rightarrow> 'w SessionStore" where
  "part_sessions g p ss = \<lparr>ss_Create = (\<lambda>c x. on_part g p (ss_Create ss c x)),
     ss_FindByTokenHash = (\<lambda>c h. on_part g p (ss_FindByTokenHash ss c h)),
     ss_RevokeByUserID = (\<lambda>c u. on_part g p (ss_RevokeByUserID ss c u)),
     ss_RevokeByTokenHash = (\<lambda>c h. on_part g p (ss_RevokeByTokenHash ss c h)),
     ss_CleanupExpired = (\<lambda>c. on_part g p (ss_CleanupExpired ss c))\<rparr>"

definition part_creds :: "('w \<Rightarrow> 'a) \<Rightarrow> ('a \<Rightarrow> 'w \<Rightarrow> 'w) \<Rightarrow> 'a CredentialStore \<Rightarrow> 'w CredentialStore" where
  "part_creds g p cs = \<lparr>cs_SaveUser = (\<lambda>c u h t. on_part g p (cs_SaveUser cs c u h t)),
     cs_SaveCredential = (\<lambda>c k. on_part g p (cs_SaveCredential cs c k)),
     cs_FindCredentialsByUserID = (\<lambda>c u. on_part g p (cs_FindCredentialsByUserID cs c u)),
     cs_FindCredentialByKID = (\<lambda>c k. on_part g p (cs_FindCredentialByKID cs c k)),
     cs_FindUserByHandle = (\<lambda>c h. on_part g p (cs_FindUserByHandle cs c h)),
     cs_FindHandleByUserID = (\<lambda>c u. on_part g p (cs_FindHandleByUserID cs c u)),
     cs_UpdateSignCount = (\<lambda>c u k n. on_part g p (cs_UpdateSignCount cs c u k n))\<rparr>"

lemmas part_defs = part_users_def part_sessions_def part_creds_def on_part_def

text \<open>A part that is read back as it was put, and whose writing back changes nothing.\<close>

locale part =
  fixes g :: "'w \<Rightarrow> 'a" and p :: "'a \<Rightarrow> 'w \<Rightarrow> 'w"
  assumes get_put [simp]: "g (p a w) = a" and put_get [simp]: "p (g w) w = w"
begin

lemma lookup_part:
  assumes "user_lookup us users"
  shows "user_lookup (part_users g p us) (\<lambda>c w. users c (g w))"
proof
    fix c i h and w :: 'w
    show "\<exists>r. us_FindByUserID (part_users g p us) c i w = (r, w) \<and>
      (r = Inr (find (\<lambda>u. u_UserID u = i) (users c (g w))) \<or> (find (\<lambda>u. u_UserID u = i) (users c (g w)) = None \<and> (\<exists>e. r = Inl e)))"
      using user_lookup.find_id [OF assms, of c i "g w"] by (auto simp: part_defs)
    show "\<exists>r. us_FindByUserIDHash (part_users g p us) c h w = (r, w) \<and>
      (r = Inr (find (\<lambda>u. u_UserIDHash u = h) (users c (g w))) \<or> (find (\<lambda>u. u_UserIDHash u = h) (users c (g w)) = None \<and> (\<exists>e. r = Inl e)))"
      using user_lookup.find_hash [OF assms, of c h "g w"] by (auto simp: part_defs)
    show "\<exists>r. us_FindByEmailHash (part_users g p us) c h w = (r, w) \<and>
      (r = Inr (find (\<lambda>u. u_EmailHash u = h) (users c (g w))) \<or> (find (\<lambda>u. u_EmailHash u = h) (users c (g w)) = None \<and> (\<exists>e. r = Inl e)))"
      using user_lookup.find_email [OF assms, of c h "g w"] by (auto simp: part_defs)
qed

lemma sessions_part:
  assumes "session_store ss view"
  shows "session_store (part_sessions g p ss) (\<lambda>c w. view c (g w))"
  by unfold_locales
    (simp_all add: part_defs session_store.find_view [OF assms] session_store.create_new [OF assms]
      session_store.create_others [OF assms] session_store.revoke_ok [OF assms] session_store.revoke_view [OF assms])

lemma service_part:
  assumes "token_service us users ss view"
  shows "token_service (part_users g p us) (\<lambda>c w. users c (g w)) (part_sessions g p ss) (\<lambda>c w. view c (g w))"
  using lookup_part [OF token_service.axioms(1) [OF assms]] sessions_part [OF token_service.axioms(2) [OF assms]]
    token_service.revoke_users [OF assms]
  by (simp add: token_service_def token_service_axioms_def part_sessions_def on_part_def)

end

text \<open>The parts of a pair and of a triple.\<close>

interpretation fst_part: part fst "\<lambda>a w. (a, snd w)"
  by unfold_locales simp_all

interpretation snd_part: part snd "\<lambda>a w. (fst w, a)"
  by unfold_locales simp_all

end
