(* ===== verification/Passkey.thy ===== *)
theory Passkey
  imports Worlds Crypto
begin

text \<open>
  WebAuthn ceremonies (internal/core/identity/passkey_service.go).  The library (go-webauthn, not
  under src/) is the record \<open>webauthn\<close>: it makes challenges and checks answers.  The service keeps
  the challenges it has handed out in a table; the lemmas say that each is good for one answer, whom
  an accepted answer signs in, and for which user a credential is stored.
\<close>

section \<open>The library\<close>

text \<open>\<open>SessionData\<close> is its challenge and an opaque rest; options and parsed answers are values.\<close>

record WaSession =
  ws_Challenge :: string
  ws_Data :: any

text \<open>
  \<open>ValidateDiscoverableLogin\<close> calls the handler it is given, which loads a user and notes it in a
  variable of the caller: the state of that call is the world and the variable.
\<close>

record 'w webauthn =
  wa_BeginRegistration :: "PasskeyUser \<Rightarrow> 'w \<Rightarrow> (goerr + any \<times> WaSession) \<times> 'w"
  wa_BeginLogin :: "PasskeyUser \<Rightarrow> 'w \<Rightarrow> (goerr + any \<times> WaSession) \<times> 'w"
  wa_BeginDiscoverableLogin :: "'w \<Rightarrow> (goerr + any \<times> WaSession) \<times> 'w"
  wa_CreateCredential :: "PasskeyUser \<Rightarrow> WaSession \<Rightarrow> any \<Rightarrow> goerr + WaCredential"
  wa_ValidateLogin :: "PasskeyUser \<Rightarrow> WaSession \<Rightarrow> any \<Rightarrow> goerr + WaCredential option"
  wa_ValidateDiscoverableLogin :: "(string \<Rightarrow> string \<Rightarrow> 'w \<times> PasskeyUser option
      \<Rightarrow> (goerr + PasskeyUser) \<times> 'w \<times> PasskeyUser option) \<Rightarrow> WaSession \<Rightarrow> any
      \<Rightarrow> 'w \<times> PasskeyUser option \<Rightarrow> (goerr + WaCredential option) \<times> 'w \<times> PasskeyUser option"

section \<open>The service\<close>

record CeremonySession =
  ce_Challenge :: string
  ce_UserID :: string
  ce_UserEmail :: string
  ce_TenantID :: string
  ce_UserHandle :: string
  ce_AllowedCredentialIDs :: "string list"
  ce_Expires :: int
  ce_UserVerification :: string
  ce_WASession :: WaSession

definition ceremony :: "string \<Rightarrow> string \<Rightarrow> string \<Rightarrow> string \<Rightarrow> string \<Rightarrow> WaSession \<Rightarrow> CeremonySession" where
  "ceremony challenge userID email tenantID handle session =
     \<lparr>ce_Challenge = challenge, ce_UserID = userID, ce_UserEmail = email, ce_TenantID = tenantID,
      ce_UserHandle = handle, ce_AllowedCredentialIDs = [], ce_Expires = 0, ce_UserVerification = [],
      ce_WASession = session\<rparr>"

record 'w PasskeyService =
  pk_users :: "'w UserStore"
  pk_creds :: "'w CredentialStore"
  pk_wa :: "'w webauthn option"
  pk_pepper :: string
  pk_sessions :: "string \<Rightarrow> CeremonySession option"

definition NewPasskeyService :: "'w UserStore \<Rightarrow> 'w CredentialStore \<Rightarrow> 'w webauthn option \<Rightarrow> string \<Rightarrow> 'w PasskeyService" where
  "NewPasskeyService users creds wa pepper =
     \<lparr>pk_users = users, pk_creds = creds, pk_wa = wa, pk_pepper = pepper, pk_sessions = Map.empty\<rparr>"

definition storeSession :: "string \<Rightarrow> CeremonySession \<Rightarrow> 'w PasskeyService \<Rightarrow> 'w PasskeyService" where
  "storeSession challenge data s = s\<lparr>pk_sessions := (pk_sessions s)(challenge \<mapsto> data)\<rparr>"

definition takeSession :: "string \<Rightarrow> 'w PasskeyService \<Rightarrow> (goerr + CeremonySession) \<times> 'w PasskeyService" where
  "takeSession challenge s =
     (case pk_sessions s challenge of
        None \<Rightarrow> (Inl ''session not found'', s)
      | Some data \<Rightarrow> (Inr data, s\<lparr>pk_sessions := (pk_sessions s)(challenge := None)\<rparr>))"

definition webauthnCredsFromDomain :: "PasskeyCredential list \<Rightarrow> WaCredential list" where
  "webauthnCredsFromDomain cs = map (\<lambda>c.
     \<lparr>wc_ID = pc_CredentialID c, wc_PublicKey = pc_PublicKey c, wc_SignCount = pc_SignCount c,
      wc_AAGUID = pc_AAGUID c, wc_BackupEligible = pc_BackupEligible c, wc_BackupState = pc_BackupState c,
      wc_Transport = []\<rparr>) cs"

definition transportStrings :: "string list \<Rightarrow> string list" where
  "transportStrings ts = map (\<lambda>t. t) ts"

text \<open>\<open>x, _ = f()\<close> for a slice: nil with the error.\<close>

definition or_nil :: "goerr + 'a list \<Rightarrow> 'a list" where
  "or_nil r = (case r of Inl e \<Rightarrow> [] | Inr xs \<Rightarrow> xs)"

lemma or_nil_simps [simp]: "or_nil (Inl e) = []" "or_nil (Inr xs) = xs"
  by (simp_all add: or_nil_def)

definition ResolveUserID :: "golib \<Rightarrow> 'w PasskeyService \<Rightarrow> ctx \<Rightarrow> string \<Rightarrow> 'w \<Rightarrow> (goerr + string) \<times> 'w" where
  "ResolveUserID L s c email w =
     (case us_FindByEmailHash (pk_users s) c (EmailHashWithPepper L email (pk_pepper s)) w of
        (Inl e, w1) \<Rightarrow> (Inl (''lookup user: '' @ e), w1)
      | (Inr None, w1) \<Rightarrow> (Inl (''user not found: '' @ email), w1)
      | (Inr (Some u), w1) \<Rightarrow>
          (if u_UserID u = '''' then (Inl (''user not found: '' @ email), w1) else (Inr (u_UserID u), w1)))"

definition ResolveUserByHash :: "'w PasskeyService \<Rightarrow> ctx \<Rightarrow> string \<Rightarrow> 'w \<Rightarrow> (goerr + string) \<times> 'w" where
  "ResolveUserByHash s c userIDHash w =
     (case us_FindByUserIDHash (pk_users s) c userIDHash w of
        (Inl e, w1) \<Rightarrow> (Inl (''lookup user by hash: '' @ e), w1)
      | (Inr None, w1) \<Rightarrow> (Inl ''user not found by hash'', w1)
      | (Inr (Some u), w1) \<Rightarrow>
          (if u_UserID u = '''' then (Inl ''user not found by hash'', w1) else (Inr (u_UserID u), w1)))"

text \<open>The handle and, when there is one, the credentials of a user.\<close>

definition load_handle :: "'w PasskeyService \<Rightarrow> ctx \<Rightarrow> string \<Rightarrow> 'w \<Rightarrow> (string \<times> WaCredential list) \<times> 'w" where
  "load_handle s c userID w =
     (let (h, w1) = cs_FindHandleByUserID (pk_creds s) c userID w;
          handle = or_nil h
      in if handle = [] then (([], []), w1)
         else (let (cs, w2) = cs_FindCredentialsByUserID (pk_creds s) c userID w1
               in ((handle, webauthnCredsFromDomain (or_nil cs)), w2)))"

definition principal :: "string \<Rightarrow> string \<Rightarrow> string \<Rightarrow> string \<Rightarrow> WaCredential list \<Rightarrow> PasskeyUser" where
  "principal userID tenantID email handle creds =
     \<lparr>pu_UserID = userID, pu_TenantID = tenantID, pu_Email = email, pu_Handle = handle, pu_Credentials = creds\<rparr>"

text \<open>A new handle, saved for the user.\<close>

definition new_handle :: "rand \<Rightarrow> 'w PasskeyService \<Rightarrow> ctx \<Rightarrow> string \<Rightarrow> string \<Rightarrow> 'w \<Rightarrow> (goerr + string) \<times> 'w" where
  "new_handle r s c userID tenantID w =
     (case GenerateHandleWithTenant r tenantID of
        Inl e \<Rightarrow> (Inl (''generate handle: '' @ e), w)
      | Inr handle \<Rightarrow>
          (case cs_SaveUser (pk_creds s) c userID handle tenantID w of
             (Some e, w1) \<Rightarrow> (Inl (''save passkey user: '' @ e), w1)
           | (None, w1) \<Rightarrow> (Inr handle, w1)))"

definition FindOrCreatePasskeyUser :: "golib \<Rightarrow> rand \<Rightarrow> 'w PasskeyService \<Rightarrow> ctx \<Rightarrow> string \<Rightarrow> string \<Rightarrow> 'w
    \<Rightarrow> (goerr + PasskeyUser) \<times> 'w" where
  "FindOrCreatePasskeyUser L r s c email tenantID w =
     (case ResolveUserID L s c email w of
        (Inl e, w1) \<Rightarrow> (Inl e, w1)
      | (Inr userID, w1) \<Rightarrow>
          (case load_handle s c userID w1 of
             ((handle, creds), w2) \<Rightarrow>
               if handle \<noteq> [] then (Inr (principal userID tenantID email handle creds), w2)
               else (case new_handle r s c userID tenantID w2 of
                       (Inl e, w3) \<Rightarrow> (Inl e, w3)
                     | (Inr h, w3) \<Rightarrow> (Inr (principal userID tenantID email h []), w3))))"

definition GetUser :: "golib \<Rightarrow> 'w PasskeyService \<Rightarrow> ctx \<Rightarrow> string \<Rightarrow> 'w \<Rightarrow> (goerr + PasskeyUser) \<times> 'w" where
  "GetUser L s c email w =
     (case ResolveUserID L s c email w of
        (Inl e, w1) \<Rightarrow> (Inl e, w1)
      | (Inr userID, w1) \<Rightarrow>
          (case cs_FindCredentialsByUserID (pk_creds s) c userID w1 of
             (Inl e, w2) \<Rightarrow> (Inl (''load credentials: '' @ e), w2)
           | (Inr creds, w2) \<Rightarrow>
               (if creds = [] then (Inl (''no passkey credentials for user '' @ userID), w2)
                else (Inr (principal userID '''' email '''' (webauthnCredsFromDomain creds)), w2))))"

definition pk_SaveCredential :: "time \<Rightarrow> 'w PasskeyService \<Rightarrow> ctx \<Rightarrow> string \<Rightarrow> WaCredential \<Rightarrow> 'w \<Rightarrow> goerr option \<times> 'w" where
  "pk_SaveCredential now s c userID cred w =
     cs_SaveCredential (pk_creds s) c (Some
       \<lparr>pc_CredentialID = wc_ID cred, pc_UserID = userID, pc_PublicKey = wc_PublicKey cred,
        pc_SignCount = wc_SignCount cred, pc_Transports = transportStrings (wc_Transport cred),
        pc_AAGUID = hex_EncodeToString (wc_AAGUID cred), pc_BackupEligible = wc_BackupEligible cred,
        pc_BackupState = wc_BackupState cred, pc_CreatedAt = now\<rparr>) w"

definition UpdateCredentialSignCount :: "'w PasskeyService \<Rightarrow> ctx \<Rightarrow> string \<Rightarrow> string \<Rightarrow> 32 word \<Rightarrow> 'w \<Rightarrow> goerr option \<times> 'w" where
  "UpdateCredentialSignCount s c userID kid newCount w = cs_UpdateSignCount (pk_creds s) c userID kid newCount w"

definition pk_FindUserByHandle :: "'w PasskeyService \<Rightarrow> ctx \<Rightarrow> string \<Rightarrow> 'w \<Rightarrow> (goerr + PasskeyUser) \<times> 'w" where
  "pk_FindUserByHandle s c userHandle w =
     (case cs_FindUserByHandle (pk_creds s) c userHandle w of
        (Inr (Some u), w1) \<Rightarrow> (Inr u, w1)
      | (_, w1) \<Rightarrow> (Inl ''user not found by handle'', w1))"

section \<open>Ceremonies\<close>

text \<open>The end of each \<open>Begin\<close>: the library's answer is stored under its challenge.\<close>

definition start_ceremony :: "string \<Rightarrow> PasskeyUser \<Rightarrow> string \<Rightarrow> string \<Rightarrow> 'w PasskeyService
    \<Rightarrow> (goerr + any \<times> WaSession) \<times> 'w \<Rightarrow> (goerr + any \<times> string) \<times> 'w PasskeyService \<times> 'w" where
  "start_ceremony what u tenantID handle s begun =
     (case begun of
        (Inl e, w1) \<Rightarrow> (Inl (what @ e), s, w1)
      | (Inr (options, session), w1) \<Rightarrow>
          (let challenge = ws_Challenge session in
           (Inr (options, challenge),
            storeSession challenge (ceremony challenge (pu_UserID u) (pu_Email u) tenantID handle session) s, w1)))"

definition not_initialised :: goerr where "not_initialised = ''webauthn not initialised''"

definition BeginRegistrationByHash :: "rand \<Rightarrow> ctx \<Rightarrow> string \<Rightarrow> string \<Rightarrow> 'w PasskeyService \<times> 'w
    \<Rightarrow> (goerr + any \<times> string) go \<times> 'w PasskeyService \<times> 'w" where
  "BeginRegistrationByHash r c userIDHash tenantID = (\<lambda>(s, w).
     case pk_wa s of
       None \<Rightarrow> (Ret (Inl not_initialised), s, w)
     | Some wa \<Rightarrow>
        (case us_FindByUserIDHash (pk_users s) c userIDHash w of
           (Inl e, w1) \<Rightarrow> (Ret (Inl ''user not found by hash''), s, w1)
         | (Inr None, w1) \<Rightarrow> (Ret (Inl ''user not found by hash''), s, w1)
         | (Inr (Some u), w1) \<Rightarrow>
            (case (if u_MaskedEmail u = '''' then gbind (slice_to (u_UserID u) 8) (\<lambda>x. Ret (x @ ''...''))
                   else Ret (u_MaskedEmail u)) of
               Panic p \<Rightarrow> (Panic p, s, w1)
             | Ret email \<Rightarrow>
                (case load_handle s c (u_UserID u) w1 of
                   ((existing, creds), w2) \<Rightarrow>
                     if existing \<noteq> [] then
                       (let pu = principal (u_UserID u) tenantID email existing creds;
                            (x, s3) = start_ceremony ''begin registration: '' pu tenantID existing s
                              (wa_BeginRegistration wa pu w2)
                        in (Ret x, s3))
                     else (case new_handle r s c (u_UserID u) tenantID w2 of
                         (Inl e, w3) \<Rightarrow> (Ret (Inl e), s, w3)
                       | (Inr handle, w3) \<Rightarrow>
                          (let pu = principal (u_UserID u) tenantID email handle [];
                               (x, s3) = start_ceremony ''begin registration: '' pu tenantID handle s
                                 (wa_BeginRegistration wa pu w3)
                           in (Ret x, s3)))))))"

definition BeginRegistration :: "golib \<Rightarrow> rand \<Rightarrow> ctx \<Rightarrow> string \<Rightarrow> string \<Rightarrow> 'w PasskeyService \<times> 'w
    \<Rightarrow> (goerr + any \<times> string) \<times> 'w PasskeyService \<times> 'w" where
  "BeginRegistration L r c email tenantID = (\<lambda>(s, w).
     case pk_wa s of
       None \<Rightarrow> (Inl not_initialised, s, w)
     | Some wa \<Rightarrow>
        (case FindOrCreatePasskeyUser L r s c email tenantID w of
           (Inl e, w1) \<Rightarrow> (Inl e, s, w1)
         | (Inr u, w1) \<Rightarrow> start_ceremony ''begin registration: '' u tenantID (pu_Handle u) s
             (wa_BeginRegistration wa u w1)))"

definition FinishRegistration :: "time \<Rightarrow> ctx \<Rightarrow> string \<Rightarrow> any \<Rightarrow> 'w PasskeyService \<times> 'w
    \<Rightarrow> (goerr + WaCredential \<times> PasskeyUser) \<times> 'w PasskeyService \<times> 'w" where
  "FinishRegistration now c challenge parsed = (\<lambda>(s, w).
     case pk_wa s of
       None \<Rightarrow> (Inl not_initialised, s, w)
     | Some wa \<Rightarrow>
        (case takeSession challenge s of
           (Inl e, s1) \<Rightarrow> (Inl e, s1, w)
         | (Inr cs, s1) \<Rightarrow>
            (case load_handle s c (ce_UserID cs) w of
               ((existing, creds), w1) \<Rightarrow>
                 (let u = principal (ce_UserID cs) (ce_TenantID cs) (ce_UserEmail cs) (ce_UserHandle cs)
                        (if existing \<noteq> [] then creds else [])
                  in case wa_CreateCredential wa u (ce_WASession cs) parsed of
                       Inl e \<Rightarrow> (Inl (''create credential: '' @ e), s1, w1)
                     | Inr cred \<Rightarrow>
                        (case pk_SaveCredential now s c (pu_UserID u) cred w1 of
                           (Some e, w2) \<Rightarrow> (Inl e, s1, w2)
                         | (None, w2) \<Rightarrow>
                             (Inr (cred, u\<lparr>pu_Credentials := pu_Credentials u @ [cred]\<rparr>), s1, w2))))))"

definition BeginLoginDiscoverable :: "ctx \<Rightarrow> string \<Rightarrow> 'w PasskeyService \<times> 'w
    \<Rightarrow> (goerr + any \<times> string) \<times> 'w PasskeyService \<times> 'w" where
  "BeginLoginDiscoverable c tenantID = (\<lambda>(s, w).
     case pk_wa s of
       None \<Rightarrow> (Inl not_initialised, s, w)
     | Some wa \<Rightarrow> start_ceremony ''begin discoverable login: '' (principal '''' '''' '''' '''' []) tenantID '''' s
         (wa_BeginDiscoverableLogin wa w))"

definition pk_BeginLogin :: "golib \<Rightarrow> ctx \<Rightarrow> string \<Rightarrow> string \<Rightarrow> 'w PasskeyService \<times> 'w
    \<Rightarrow> (goerr + any \<times> string) \<times> 'w PasskeyService \<times> 'w" where
  "pk_BeginLogin L c email tenantID = (\<lambda>(s, w).
     case pk_wa s of
       None \<Rightarrow> (Inl not_initialised, s, w)
     | Some wa \<Rightarrow>
        (case GetUser L s c email w of
           (Inl e, w1) \<Rightarrow> (Inl e, s, w1)
         | (Inr u, w1) \<Rightarrow> start_ceremony ''begin login: '' u tenantID '''' s (wa_BeginLogin wa u w1)))"

text \<open>The handler that a discoverable login gives to the library.\<close>

definition discover :: "'w PasskeyService \<Rightarrow> ctx \<Rightarrow> CeremonySession \<Rightarrow> string \<Rightarrow> string \<Rightarrow> 'w \<times> PasskeyUser option
    \<Rightarrow> (goerr + PasskeyUser) \<times> 'w \<times> PasskeyUser option" where
  "discover s c cs rawID userHandle = (\<lambda>(w, user).
     case cs_FindCredentialByKID (pk_creds s) c rawID w of
       (Inr (Some cred), w1) \<Rightarrow>
         (let (h, w2) = cs_FindHandleByUserID (pk_creds s) c (pc_UserID cred) w1;
              handle = (if or_nil h = [] then userHandle else or_nil h);
              (all, w3) = cs_FindCredentialsByUserID (pk_creds s) c (pc_UserID cred) w2;
              pu = principal (pc_UserID cred) (ce_TenantID cs) '''' handle (webauthnCredsFromDomain (or_nil all))
          in (Inr pu, w3, Some pu))
     | (_, w1) \<Rightarrow>
         (case pk_FindUserByHandle s c userHandle w1 of
            (Inl e, w2) \<Rightarrow> (Inl e, w2, user)
          | (Inr u, w2) \<Rightarrow> (Inr u, w2, Some u)))"

definition pk_FinishLogin :: "golib \<Rightarrow> ctx \<Rightarrow> string \<Rightarrow> any \<Rightarrow> 'w PasskeyService \<times> 'w
    \<Rightarrow> (goerr + PasskeyUser \<times> WaCredential option) \<times> 'w PasskeyService \<times> 'w" where
  "pk_FinishLogin L c challenge parsed = (\<lambda>(s, w).
     case pk_wa s of
       None \<Rightarrow> (Inl not_initialised, s, w)
     | Some wa \<Rightarrow>
        (case takeSession challenge s of
           (Inl e, s1) \<Rightarrow> (Inl e, s1, w)
         | (Inr cs, s1) \<Rightarrow>
            (if ce_UserEmail cs \<noteq> '''' then
               (case GetUser L s c (ce_UserEmail cs) w of
                  (Inl e, w1) \<Rightarrow> (Inl e, s1, w1)
                | (Inr u, w1) \<Rightarrow>
                   (case wa_ValidateLogin wa u (ce_WASession cs) parsed of
                      Inl e \<Rightarrow> (Inl (''validate login: '' @ e), s1, w1)
                    | Inr None \<Rightarrow> (Inr (u, None), s1, w1)
                    | Inr (Some cred) \<Rightarrow>
                        (Inr (u, Some cred), s1,
                         snd (UpdateCredentialSignCount s c (pu_UserID u) (wc_ID cred) (wc_SignCount cred) w1))))
             else
               (case wa_ValidateDiscoverableLogin wa (discover s c cs) (ce_WASession cs) parsed (w, None) of
                  (Inl e, w1, _) \<Rightarrow> (Inl (''validate discoverable login: '' @ e), s1, w1)
                | (Inr cred, w1, None) \<Rightarrow> (Inl ''user not resolved from discoverable login'', s1, w1)
                | (Inr None, w1, Some u) \<Rightarrow> (Inr (u, None), s1, w1)
                | (Inr (Some cred), w1, Some u) \<Rightarrow>
                    (Inr (u, Some cred), s1,
                     snd (UpdateCredentialSignCount s c (pu_UserID u) (wc_ID cred) (wc_SignCount cred) w1))))))"

section \<open>Challenges\<close>

lemma takeSession_simps [simp]:
  "pk_sessions s ch = None \<Longrightarrow> takeSession ch s = (Inl ''session not found'', s)"
  "pk_sessions s ch = Some d \<Longrightarrow> takeSession ch s = (Inr d, s\<lparr>pk_sessions := (pk_sessions s)(ch := None)\<rparr>)"
  by (simp_all add: takeSession_def)

text \<open>A finished ceremony, accepted or not, has used up its challenge and touched no other.\<close>

lemma FinishRegistration_service:
  "fst (snd (FinishRegistration now c ch parsed (s, w))) =
    (if pk_wa s = None then s else s\<lparr>pk_sessions := (pk_sessions s)(ch := None)\<rparr>)"
proof -
  have "s\<lparr>pk_sessions := (pk_sessions s)(ch := None)\<rparr> = s" if "pk_sessions s ch = None"
    using that by (simp add: fun_upd_idem)
  then show ?thesis
    by (cases "pk_sessions s ch")
      (auto simp: FinishRegistration_def Let_def split: option.splits sum.splits prod.splits)
qed

lemma FinishLogin_service:
  "fst (snd (pk_FinishLogin L c ch parsed (s, w))) =
    (if pk_wa s = None then s else s\<lparr>pk_sessions := (pk_sessions s)(ch := None)\<rparr>)"
proof -
  have "s\<lparr>pk_sessions := (pk_sessions s)(ch := None)\<rparr> = s" if "pk_sessions s ch = None"
    using that by (simp add: fun_upd_idem)
  then show ?thesis
    by (cases "pk_sessions s ch")
      (auto simp: pk_FinishLogin_def Let_def split: option.splits sum.splits prod.splits)
qed

lemma finish_unknown:
  assumes "pk_wa s = Some wa" and "pk_sessions s ch = None"
  shows "FinishRegistration now c ch parsed (s, w) = (Inl ''session not found'', s, w)"
    and "pk_FinishLogin L c ch parsed (s, w) = (Inl ''session not found'', s, w)"
  using assms by (simp_all add: FinishRegistration_def pk_FinishLogin_def)

text \<open>A begun ceremony adds its own challenge at most.\<close>

lemma start_ceremony_cases:
  assumes "start_ceremony what u t h s b = (x, s', w')"
  shows "s' = s \<or> (\<exists>opts ch d. x = Inr (opts, ch) \<and> s' = s\<lparr>pk_sessions := (pk_sessions s)(ch \<mapsto> d)\<rparr>)"
  using assms by (auto simp: start_ceremony_def storeSession_def Let_def split: sum.splits prod.splits)

datatype ceremony_event =
    BeginByHash rand ctx string string
  | BeginByEmail rand ctx string string
  | BeginDiscoverable ctx string
  | BeginKnown ctx string string
  | FinishReg time ctx string any
  | FinishLog ctx string any

text \<open>What an event does to the service and the world, and the challenge it hands out.\<close>

definition ceremony_exec :: "golib \<Rightarrow> ceremony_event \<Rightarrow> 'w PasskeyService \<times> 'w \<Rightarrow> 'w PasskeyService \<times> 'w" where
  "ceremony_exec L e sw = (case e of
     BeginByHash r c h t \<Rightarrow> snd (BeginRegistrationByHash r c h t sw)
   | BeginByEmail r c m t \<Rightarrow> snd (BeginRegistration L r c m t sw)
   | BeginDiscoverable c t \<Rightarrow> snd (BeginLoginDiscoverable c t sw)
   | BeginKnown c m t \<Rightarrow> snd (pk_BeginLogin L c m t sw)
   | FinishReg now c ch p \<Rightarrow> snd (FinishRegistration now c ch p sw)
   | FinishLog c ch p \<Rightarrow> snd (pk_FinishLogin L c ch p sw))"

definition challenge_of :: "(goerr + any \<times> string) \<Rightarrow> string option" where
  "challenge_of r = (case r of Inl e \<Rightarrow> None | Inr (opts, ch) \<Rightarrow> Some ch)"

definition hands_out :: "golib \<Rightarrow> ceremony_event \<Rightarrow> 'w PasskeyService \<times> 'w \<Rightarrow> string option" where
  "hands_out L e sw = (case e of
     BeginByHash r c h t \<Rightarrow> (case fst (BeginRegistrationByHash r c h t sw) of Panic p \<Rightarrow> None | Ret x \<Rightarrow> challenge_of x)
   | BeginByEmail r c m t \<Rightarrow> challenge_of (fst (BeginRegistration L r c m t sw))
   | BeginDiscoverable c t \<Rightarrow> challenge_of (fst (BeginLoginDiscoverable c t sw))
   | BeginKnown c m t \<Rightarrow> challenge_of (fst (pk_BeginLogin L c m t sw))
   | _ \<Rightarrow> None)"

fun ceremonies :: "golib \<Rightarrow> ceremony_event list \<Rightarrow> 'w PasskeyService \<times> 'w \<Rightarrow> 'w PasskeyService \<times> 'w" where
  "ceremonies L [] sw = sw"
| "ceremonies L (e # es) sw = ceremonies L es (ceremony_exec L e sw)"

fun reissued :: "golib \<Rightarrow> string \<Rightarrow> ceremony_event list \<Rightarrow> 'w PasskeyService \<times> 'w \<Rightarrow> bool" where
  "reissued L ch [] sw = False"
| "reissued L ch (e # es) sw = (hands_out L e sw = Some ch \<or> reissued L ch es (ceremony_exec L e sw))"

definition keeps_gone :: "string \<Rightarrow> string option \<Rightarrow> 'w PasskeyService \<Rightarrow> 'w PasskeyService \<Rightarrow> bool" where
  "keeps_gone ch out s s' \<longleftrightarrow> pk_wa s' = pk_wa s \<and>
     (pk_sessions s ch = None \<longrightarrow> out \<noteq> Some ch \<longrightarrow> pk_sessions s' ch = None)"

lemma keeps_gone_same [simp]: "keeps_gone ch out s s"
  by (simp add: keeps_gone_def)

lemma keeps_gone_start [simp]:
  "keeps_gone ch (challenge_of (fst (start_ceremony what u t h s b))) s (fst (snd (start_ceremony what u t h s b)))"
proof -
  obtain x s' w' where e: "start_ceremony what u t h s b = (x, s', w')" using prod_cases3 by blast
  from start_ceremony_cases [OF e] show ?thesis
    by (auto simp: e keeps_gone_def challenge_of_def)
qed

lemma keeps_gone_silent: "pk_wa s' = pk_wa s \<Longrightarrow> pk_sessions s' = pk_sessions s \<Longrightarrow> keeps_gone ch out s s'"
  by (simp add: keeps_gone_def)

lemma by_hash_gone:
  assumes wa: "pk_wa s = Some wa"
  shows "keeps_gone ch (case fst (BeginRegistrationByHash r c h t (s, w)) of Panic p \<Rightarrow> None | Ret x \<Rightarrow> challenge_of x)
    s (fst (snd (BeginRegistrationByHash r c h t (s, w))))"
proof -
  obtain q w1 where q: "us_FindByUserIDHash (pk_users s) c h w = (q, w1)" by fastforce
  show ?thesis
  proof (cases "\<exists>u. q = Inr (Some u)")
    case False
    then show ?thesis
      by (cases q) (auto simp: BeginRegistrationByHash_def wa q split: option.splits)
  next
    case True
    then obtain u where u: "q = Inr (Some u)" by blast
    let ?m = "if u_MaskedEmail u = '''' then gbind (slice_to (u_UserID u) 8) (\<lambda>x. Ret (x @ ''...''))
                   else Ret (u_MaskedEmail u)"
    show ?thesis
    proof (cases ?m)
      case (Panic p)
      then have "BeginRegistrationByHash r c h t (s, w) = (Panic p, s, w1)"
        by (simp add: BeginRegistrationByHash_def wa q u)
      then show ?thesis by simp
    next
      case (Ret email)
      obtain hd cs w2 where l: "load_handle s c (u_UserID u) w1 = ((hd, cs), w2)" using prod_cases3 by (metis surj_pair)
      obtain n w3 where n: "new_handle r s c (u_UserID u) t w2 = (n, w3)" by fastforce
      have "BeginRegistrationByHash r c h t (s, w) =
        (if hd \<noteq> [] then (let sc = start_ceremony ''begin registration: '' (principal (u_UserID u) t email hd cs) t hd s
             (wa_BeginRegistration wa (principal (u_UserID u) t email hd cs) w2) in (Ret (fst sc), snd sc))
         else (case n of Inl e \<Rightarrow> (Ret (Inl e), s, w3)
           | Inr h' \<Rightarrow> (let sc = start_ceremony ''begin registration: '' (principal (u_UserID u) t email h' []) t h' s
             (wa_BeginRegistration wa (principal (u_UserID u) t email h' []) w3) in (Ret (fst sc), snd sc))))"
        using Ret by (simp add: BeginRegistrationByHash_def wa q u l n Let_def split_beta split: sum.split)
      then show ?thesis by (cases n) (simp_all add: Let_def challenge_of_def [where r = "Inl e" for e])
    qed
  qed
qed

lemma exec_gone:
  assumes "pk_wa (fst sw) \<noteq> None"
  shows "keeps_gone ch (hands_out L e sw) (fst sw) (fst (ceremony_exec L e sw))"
proof -
  obtain s w wa where sw: "sw = (s, w)" and wa: "pk_wa s = Some wa" using assms by (cases sw) auto
  show ?thesis
  proof (cases e)
    case (BeginByHash r c h t)
    with by_hash_gone [OF wa, of ch r c h t w] show ?thesis
      by (simp add: sw ceremony_exec_def hands_out_def)
  next
    case (BeginByEmail r c m t)
    then show ?thesis
      by (auto simp: sw ceremony_exec_def hands_out_def BeginRegistration_def wa split: sum.splits prod.splits)
  next
    case (BeginDiscoverable c t)
    then show ?thesis by (simp add: sw ceremony_exec_def hands_out_def BeginLoginDiscoverable_def wa)
  next
    case (BeginKnown c m t)
    then show ?thesis
      by (auto simp: sw ceremony_exec_def hands_out_def pk_BeginLogin_def wa split: sum.splits prod.splits)
  next
    case (FinishReg now c ch' p)
    then show ?thesis
      using FinishRegistration_service [of now c ch' p s w] by (simp add: sw ceremony_exec_def keeps_gone_def wa)
  next
    case (FinishLog c ch' p)
    then show ?thesis
      using FinishLogin_service [of L c ch' p s w] by (simp add: sw ceremony_exec_def keeps_gone_def wa)
  qed
qed

lemma ceremonies_gone:
  assumes "pk_wa (fst sw) = Some wa" and "pk_sessions (fst sw) ch = None" and "\<not> reissued L ch es sw"
  shows "pk_wa (fst (ceremonies L es sw)) = Some wa \<and> pk_sessions (fst (ceremonies L es sw)) ch = None"
  using assms
proof (induction es arbitrary: sw)
  case Nil
  then show ?case by simp
next
  case (Cons e es)
  from exec_gone [of sw ch L e] Cons.prems
  have "pk_wa (fst (ceremony_exec L e sw)) = Some wa" "pk_sessions (fst (ceremony_exec L e sw)) ch = None"
    by (auto simp: keeps_gone_def)
  with Cons show ?case by simp
qed

section \<open>Whom a ceremony is for\<close>

text \<open>
  The documented shape of a discoverable login: the library checks the session, has the handler load
  the user of the answer once, and checks the answer against that user.
\<close>

definition discoverable_ok :: "'w webauthn \<Rightarrow> (any \<Rightarrow> string) \<Rightarrow> (any \<Rightarrow> string) \<Rightarrow> (WaSession \<Rightarrow> any \<Rightarrow> goerr option)
    \<Rightarrow> (PasskeyUser \<Rightarrow> WaSession \<Rightarrow> any \<Rightarrow> goerr + WaCredential option) \<Rightarrow> bool" where
  "discoverable_ok wa raw uh pre chk \<longleftrightarrow> (\<forall>h sess parsed st. wa_ValidateDiscoverableLogin wa h sess parsed st =
     (case pre sess parsed of Some e \<Rightarrow> (Inl e, st)
      | None \<Rightarrow> (case h (raw parsed) (uh parsed) st of
            (Inl e, st') \<Rightarrow> (Inl e, st')
          | (Inr u, st') \<Rightarrow> (chk u sess parsed, st'))))"

lemma discoverable_cases:
  assumes "discoverable_ok wa raw uh pre chk" and "wa_ValidateDiscoverableLogin wa h sess parsed st = (Inr cred, st')"
  obtains u where "h (raw parsed) (uh parsed) st = (Inr u, st')" and "chk u sess parsed = Inr cred"
proof -
  have e: "(Inr cred, st') = (case pre sess parsed of Some e \<Rightarrow> (Inl e, st)
      | None \<Rightarrow> (case h (raw parsed) (uh parsed) st of (Inl e, st') \<Rightarrow> (Inl e, st') | (Inr u, st') \<Rightarrow> (chk u sess parsed, st')))"
    using assms(1) unfolding discoverable_ok_def assms(2) [symmetric] by blast
  obtain x st2 where h: "h (raw parsed) (uh parsed) st = (x, st2)" by (rule prod.exhaust)
  from e h have "pre sess parsed = None" by (auto split: option.splits)
  with e h obtain u where "x = Inr u" "st2 = st'" "chk u sess parsed = Inr cred" by (cases x) auto
  with h that show ?thesis by blast
qed

lemma FinishLogin_discoverable:
  assumes "pk_wa s = Some wa" and "pk_sessions s ch = Some cs" and "ce_UserEmail cs = ''''"
    and "pk_FinishLogin L c ch parsed (s, w) = (Inr (u, cred), s', w')"
  obtains w1 where "wa_ValidateDiscoverableLogin wa (discover s c cs) (ce_WASession cs) parsed (w, None) = (Inr cred, w1, Some u)"
proof -
  obtain x w1 v where v: "wa_ValidateDiscoverableLogin wa (discover s c cs) (ce_WASession cs) parsed (w, None) = (x, w1, v)"
    using prod_cases3 by blast
  from assms(4) have "x = Inr cred \<and> v = Some u"
    by (simp add: pk_FinishLogin_def assms(1-3) v split: sum.splits option.splits)
  with v that show ?thesis by blast
qed

text \<open>Whom the answer of an authenticator stands for: the owner of its credential, or, for a credential that is not
  known, the user of its handle.\<close>

definition owner_of :: "'w PasskeyService \<Rightarrow> ctx \<Rightarrow> CeremonySession \<Rightarrow> string \<Rightarrow> string \<Rightarrow> 'w \<Rightarrow> PasskeyUser \<Rightarrow> bool" where
  "owner_of s c cs rawID userHandle w u =
     (case cs_FindCredentialByKID (pk_creds s) c rawID w of
        (Inr (Some k), w0) \<Rightarrow>
          (let stored = or_nil (fst (cs_FindHandleByUserID (pk_creds s) c (pc_UserID k) w0))
           in pu_UserID u = pc_UserID k \<and> pu_TenantID u = ce_TenantID cs \<and>
              WebAuthnID u = (if stored = [] then userHandle else stored))
      | (_, w0) \<Rightarrow> fst (cs_FindUserByHandle (pk_creds s) c userHandle w0) = Inr (Some u))"

lemma discover_owner:
  assumes "discover s c cs rawID uh (w, None) = (Inr u, w1, v)"
  shows "owner_of s c cs rawID uh w u" and "v = Some u"
  using assms
  by (auto simp: discover_def owner_of_def principal_def WebAuthnID_def pk_FindUserByHandle_def Let_def
      split: prod.splits sum.splits option.splits if_splits)

section \<open>An authenticator for the examples\<close>

type_synonym demo_pk = "mem_users \<times> cred_table"

definition demo_cred :: WaCredential where
  "demo_cred = \<lparr>wc_ID = ''k2'', wc_PublicKey = ''mine'', wc_SignCount = 1, wc_AAGUID = ''a'',
     wc_BackupEligible = False, wc_BackupState = False, wc_Transport = []\<rparr>"

text \<open>It answers with the challenge itself.\<close>

definition demo_check :: "PasskeyUser \<Rightarrow> WaSession \<Rightarrow> any \<Rightarrow> goerr + WaCredential option" where
  "demo_check u sess parsed = (if parsed = AStr (ws_Challenge sess) then Inr (Some demo_cred) else Inl ''invalid'')"

definition demo_wa :: "demo_pk webauthn" where
  "demo_wa = \<lparr>wa_BeginRegistration = (\<lambda>u w. (Inr (ANil, \<lparr>ws_Challenge = ''r1'', ws_Data = ANil\<rparr>), w)),
     wa_BeginLogin = (\<lambda>u w. (Inr (ANil, \<lparr>ws_Challenge = ''c1'', ws_Data = ANil\<rparr>), w)),
     wa_BeginDiscoverableLogin = (\<lambda>w. (Inr (ANil, \<lparr>ws_Challenge = ''d1'', ws_Data = ANil\<rparr>), w)),
     wa_CreateCredential = (\<lambda>u sess parsed. if parsed = AStr (ws_Challenge sess) then Inr demo_cred else Inl ''invalid''),
     wa_ValidateLogin = demo_check,
     wa_ValidateDiscoverableLogin = (\<lambda>h sess parsed st. case h ''k1'' ''h1'' st of
         (Inl e, st') \<Rightarrow> (Inl e, st') | (Inr u, st') \<Rightarrow> (demo_check u sess parsed, st'))\<rparr>"

lemma demo_discoverable: "discoverable_ok demo_wa (\<lambda>_. ''k1'') (\<lambda>_. ''h1'') (\<lambda>_ _. None) demo_check"
  by (simp add: discoverable_ok_def demo_wa_def)

definition pk_users_store :: "demo_pk UserStore" where
  "pk_users_store = part_users fst (\<lambda>a w. (a, snd w)) mock_users"

definition pk_creds_store :: "demo_pk CredentialStore" where
  "pk_creds_store = part_creds snd (\<lambda>a w. (fst w, a)) (CredRepo demo (Some cred_db))"

definition demo_pks :: "demo_pk PasskeyService" where
  "demo_pks = NewPasskeyService pk_users_store pk_creds_store (Some demo_wa) ''pep''"

definition ann :: User where
  "ann = zero_user\<lparr>u_UserID := ''u-ann'', u_EmailHash := EmailHashWithPepper demo ''ann@acme.com'' ''pep''\<rparr>"

definition ann_key :: row where
  "ann_key = [(''user_id'', AStr ''u-ann''), (''kid'', AStr (b64_EncodeToString RawURLEncoding ''k1''))]"

abbreviation demo_pkw :: demo_pk where "demo_pkw \<equiv> ([ann], [ann_key])"

lemma demo_pks_simps [simp]:
  "pk_wa demo_pks = Some demo_wa" "pk_users demo_pks = pk_users_store" "pk_creds demo_pks = pk_creds_store"
  "pk_pepper demo_pks = ''pep''" "pk_sessions demo_pks = Map.empty"
  by (simp_all add: demo_pks_def NewPasskeyService_def)

lemma pk_creds_by_kid:
  "cs_FindCredentialByKID pk_creds_store c k w =
    (Inr (map_option (mapCredentialRow demo) (find (row_has ''kid'' (b64_EncodeToString RawURLEncoding k)) (snd w))), w)"
  by (cases w) (simp add: pk_creds_store_def part_defs CredRepo_def cred_table.find_by_kid)

lemma ann_key_simps [simp]:
  "row_has ''user_id'' u ann_key \<longleftrightarrow> u = ''u-ann''"
  "row_has ''kid'' k ann_key \<longleftrightarrow> k = b64_EncodeToString RawURLEncoding ''k1''"
  by (auto simp: ann_key_def row_has_def)

section \<open>Properties\<close>

text \<open>C14: A challenge is good for one answer: once a registration or a login was finished with it, accepted or
  refused, every later answer to the same challenge is refused without a look at the answer or the
  stores, until the library hands the challenge out again.\<close>

theorem passkey_challenge_once:
  assumes "pk_wa s = Some wa"
    and "sw' = snd (FinishRegistration now c ch parsed (s, w)) \<or> sw' = snd (pk_FinishLogin L c ch parsed (s, w))"
    and "\<not> reissued L ch es sw'" and "ceremonies L es sw' = (s2, w2)"
  shows "FinishRegistration now2 c2 ch parsed2 (s2, w2) = (Inl ''session not found'', s2, w2) \<and>
    pk_FinishLogin L c2 ch parsed2 (s2, w2) = (Inl ''session not found'', s2, w2)"
proof -
  from assms(2) have "pk_wa (fst sw') = Some wa \<and> pk_sessions (fst sw') ch = None"
    using FinishRegistration_service [of now c ch parsed s w] FinishLogin_service [of L c ch parsed s w] assms(1) by auto
  with ceremonies_gone [of sw' wa ch L es] assms(3,4) have "pk_wa s2 = Some wa" "pk_sessions s2 ch = None" by auto
  then show ?thesis by (simp add: finish_unknown)
qed

lemma passkey_challenge_once_witness:
  "\<exists>s2 w2. FinishRegistration 0 Background ''c1'' (AStr ''c1'') (s2, w2) = (Inl ''session not found'', s2 :: demo_pk PasskeyService, w2)"
proof -
  obtain s2 w2 where r: "snd (pk_FinishLogin demo Background ''c1'' (AStr ''c1'') (demo_pks, demo_pkw)) = (s2, w2)" by (rule prod.exhaust)
  have "ceremonies demo [] (snd (pk_FinishLogin demo Background ''c1'' (AStr ''c1'') (demo_pks, demo_pkw))) = (s2, w2)"
    by (simp add: r)
  from passkey_challenge_once [OF demo_pks_simps(1) disjI2 [OF refl] _ this, where ?now2.0 = 0 and ?c2.0 = Background
      and ?parsed2.0 = "AStr ''c1''"] show ?thesis by (intro exI [of _ s2] exI [of _ w2]) simp
qed

text \<open>C15: A discoverable login signs in the right user.  Whoever \<open>FinishLogin\<close> returns, the library's check of the
  answer against that user and the session of the ceremony succeeded, and the user is the owner of the credential
  that the answer names, in the tenant of the ceremony and with the handle stored for the owner, or the one of the
  authenticator when none is stored; only for a credential that the store does not know is it the user whom the
  store has for the handle of the answer.  Nobody is returned when the store knows neither.\<close>

theorem discoverable_login_owner:
  assumes "pk_wa s = Some wa" and "discoverable_ok wa raw uh pre chk" and "pk_sessions s ch = Some cs"
    and "ce_UserEmail cs = ''''" and "pk_FinishLogin L c ch parsed (s, w) = (Inr (u, cred), s', w')"
  shows "chk u (ce_WASession cs) parsed = Inr cred \<and>
    (case cs_FindCredentialByKID (pk_creds s) c (raw parsed) w of
       (Inr (Some k), w0) \<Rightarrow>
         (let stored = or_nil (fst (cs_FindHandleByUserID (pk_creds s) c (pc_UserID k) w0))
          in pu_UserID u = pc_UserID k \<and> pu_TenantID u = ce_TenantID cs \<and>
             WebAuthnID u = (if stored = [] then uh parsed else stored))
     | (_, w0) \<Rightarrow> fst (cs_FindUserByHandle (pk_creds s) c (uh parsed) w0) = Inr (Some u))"
proof -
  obtain w1 where "wa_ValidateDiscoverableLogin wa (discover s c cs) (ce_WASession cs) parsed (w, None) = (Inr cred, w1, Some u)"
    by (rule FinishLogin_discoverable [OF assms(1,3,4,5)])
  then obtain u' where d: "discover s c cs (raw parsed) (uh parsed) (w, None) = (Inr u', w1, Some u)"
    and "chk u' (ce_WASession cs) parsed = Inr cred"
    by (rule discoverable_cases [OF assms(2)])
  moreover have "u' = u" "owner_of s c cs (raw parsed) (uh parsed) w u'" using discover_owner [OF d] by simp_all
  ultimately show ?thesis by (simp only: owner_of_def)
qed

lemma discoverable_login_owner_witness:
  "\<exists>s1 w1 u cred s' w'. snd (BeginLoginDiscoverable Background ''acme'' (demo_pks, demo_pkw)) = (s1, w1) \<and>
     pk_FinishLogin demo Background ''d1'' (AStr ''d1'') (s1, w1) = (Inr (u, cred), s', w') \<and> pu_UserID u = ''u-ann''"
proof -
  let ?sess = "\<lparr>ws_Challenge = ''d1'', ws_Data = ANil\<rparr>"
  let ?cs = "ceremony ''d1'' '''' '''' ''acme'' '''' ?sess"
  let ?s1 = "demo_pks\<lparr>pk_sessions := [''d1'' \<mapsto> ?cs]\<rparr>"
  have b: "snd (BeginLoginDiscoverable Background ''acme'' (demo_pks, demo_pkw)) = (?s1, demo_pkw)"
    by (simp add: BeginLoginDiscoverable_def demo_wa_def start_ceremony_def principal_def storeSession_def Let_def)
  have k: "cs_FindCredentialByKID (pk_creds ?s1) Background ''k1'' demo_pkw = (Inr (Some (mapCredentialRow demo ann_key)), demo_pkw)"
    by (simp add: pk_creds_by_kid)
  obtain u w3 where d: "discover ?s1 Background ?cs ''k1'' ''h1'' (demo_pkw, None) = (Inr u, w3, Some u)"
    using k by (auto simp: discover_def Let_def split_beta)
  have v: "wa_ValidateDiscoverableLogin demo_wa h x p st = (case h ''k1'' ''h1'' st of
         (Inl e, st') \<Rightarrow> (Inl e, st') | (Inr u, st') \<Rightarrow> (demo_check u x p, st'))" for h x p st
    by (simp add: demo_wa_def)
  have "\<exists>cred s' w'. pk_FinishLogin demo Background ''d1'' (AStr ''d1'') (?s1, demo_pkw) = (Inr (u, cred), s', w')"
    using d by (simp add: pk_FinishLogin_def v ceremony_def demo_check_def)
  then obtain cred s' w' where f: "pk_FinishLogin demo Background ''d1'' (AStr ''d1'') (?s1, demo_pkw) = (Inr (u, cred), s', w')"
    by blast
  have "pu_UserID u = pc_UserID (mapCredentialRow demo ann_key)"
    using discoverable_login_owner [of ?s1 demo_wa "\<lambda>_. ''k1''" "\<lambda>_. ''h1''" "\<lambda>_ _. None" demo_check "''d1''" ?cs, OF _ demo_discoverable _ _ f]
      k by (simp add: ceremony_def Let_def)
  then have "pu_UserID u = ''u-ann''" by (simp add: mapCredentialRow_def ann_key_def)
  with b f show ?thesis by blast
qed

end
