(* ===== verification/PasskeyHandler.thy ===== *)
theory PasskeyHandler
  imports AuthHandler Passkey
begin

text \<open>
  The passkey routes (internal/interfaces/http/handlers/passkey_handler.go).  Their world is the passkey
  service beside the world of the stores; \<open>within\<close> runs an action on the latter.  The parsers of the
  two WebAuthn bodies are the library's; they give the parsed answer and the challenge in it.
\<close>

record passkey_parsers =
  pp_creation :: "request \<Rightarrow> goerr + any \<times> string"
  pp_assertion :: "request \<Rightarrow> goerr + any \<times> string"

record 'w PasskeyHandler =
  ph_tokens :: "'w SessionAuthService"
  ph_tenantResolver :: "'w TenantResolver option"
  ph_audit :: "'w AuditStore option"

definition within :: "('a, 'w) act \<Rightarrow> ('a, 's \<times> 'w) act" where
  "within m = (\<lambda>((s, w), resp). case m (w, resp) of (x, w1, resp1) \<Rightarrow> (x, (s, w1), resp1))"

text \<open>\<open>h.tokens.IssueSession\<close> for a worker without permissions.\<close>

definition issue_worker :: "runtime \<Rightarrow> 'w SessionAuthService \<Rightarrow> request \<Rightarrow> string \<Rightarrow> string \<Rightarrow> (TokenPair \<times> goerr option, 'w) act" where
  "issue_worker rt tokens r userID tenantID =
     world_go (IssueSession (rt_lib rt) (rt_jwt rt) (rt_env rt) tokens (rq_Context r) (rt_issue rt) userID tenantID ''worker'' [])"

definition json_error :: "nat \<Rightarrow> string \<Rightarrow> (unit, 'w) act" where
  "json_error code msg = respond (WriteJSON code (json [(''error'', msg)]))"

definition or_public :: "string \<Rightarrow> string" where
  "or_public t = (if t = '''' then ''public'' else t)"

definition json_done :: "response \<Rightarrow> response" where
  "json_done = WriteJSON 200 (json [(''status'', ''ok''), (''redirect'', ''/dashboard'')])"

definition pkh_RegisterPage :: "request \<Rightarrow> (unit, 'w) act" where
  "pkh_RegisterPage r =
     (let email = QueryGet r ''email'' in
      if email = '''' then respond (Redirect ''/'' 303) else respond (Render ''RegisterPage'' [email]))"

definition pkh_BeginRegistration :: "rand \<Rightarrow> request \<Rightarrow> (unit, 'w PasskeyService \<times> 'w) act" where
  "pkh_BeginRegistration rnd r =
     (if rq_FormErr r \<noteq> None then json_error 400 ''bad request''
      else let userIDHash = FormValue r ''user_id_hash'' in
      if userIDHash = '''' then json_error 400 ''user_id_hash required''
      else after (respond_go (SetLogEmail ''***''))
        (bind_act (world_go (BeginRegistrationByHash rnd (rq_Context r) userIDHash (or_public (GetTenantID (rq_Context r))))) (\<lambda>begun.
         case begun of
           Inl e \<Rightarrow> json_error 500 ''failed to begin''
         | Inr (options, challenge) \<Rightarrow>
             after (must (log8 userIDHash)) (respond (WriteJSON 200 (Value options))))))"

definition pkh_FinishRegistration :: "runtime \<Rightarrow> passkey_parsers \<Rightarrow> 'w PasskeyHandler \<Rightarrow> request
    \<Rightarrow> (unit, 'w PasskeyService \<times> 'w) act" where
  "pkh_FinishRegistration rt pp h r =
     (case pp_creation pp r of
        Inl e \<Rightarrow> json_error 400 ''invalid credential''
      | Inr (parsed, inner) \<Rightarrow>
          (let challenge = (if HeaderGet r ''X-Webauthn-Challenge'' = '''' then inner else HeaderGet r ''X-Webauthn-Challenge'') in
           bind_act (world_do (FinishRegistration (rt_now rt) (rq_Context r) challenge parsed)) (\<lambda>res.
           case res of
             Inl e \<Rightarrow> json_error 400 e
           | Inr (cred, user) \<Rightarrow>
               (let tenantID = or_public (pu_TenantID user) in
                within (after (audit_with (ph_audit h) r
                    (security_event r (pu_UserID user) tenantID (MaskEmail (pu_Email user)) ''passkey.register'' ''success''))
                 (bind_act (issue_worker rt (ph_tokens h) r (pu_UserID user) tenantID) (\<lambda>(pair, err).
                  after (whenever (err = None) (respond (setAuthCookies pair)))
                  (respond json_done))))))))"

definition Skip :: "runtime \<Rightarrow> 'w PasskeyHandler \<Rightarrow> request \<Rightarrow> (unit, 'w PasskeyService \<times> 'w) act" where
  "Skip rt h r =
     (if rq_FormErr r \<noteq> None then respond (http_Error ''bad request'' 400)
      else let userIDHash = FormValue r ''user_id_hash'' in
      if userIDHash = '''' then respond (Redirect ''/'' 303)
      else after (respond_go (SetLogEmail ''***''))
        (after (must (log8 userIDHash))
        (bind_act (world_do (\<lambda>(s, w). case ResolveUserByHash s (rq_Context r) userIDHash w of (x, w1) \<Rightarrow> (x, (s, w1)))) (\<lambda>found.
         case found of
           Inl e \<Rightarrow> after (must (log8 userIDHash)) (respond (Redirect ''/'' 303))
         | Inr userID \<Rightarrow>
             within (bind_act (issue_worker rt (ph_tokens h) r userID (or_public (GetTenantID (rq_Context r)))) (\<lambda>(pair, err).
              after (whenever (err = None) (respond (setAuthCookies pair)))
              (respond (\<lambda>w. WriteHeader 200 (SetHeader ''HX-Redirect'' ''/dashboard'' w)))))))))"

definition no_credentials :: "response \<Rightarrow> response" where
  "no_credentials = WriteJSON 200 (json [(''status'', ''no-credentials'')])"

definition pkh_BeginLogin :: "runtime \<Rightarrow> 'w PasskeyHandler \<Rightarrow> request \<Rightarrow> (unit, 'w PasskeyService \<times> 'w) act" where
  "pkh_BeginLogin rt h r =
     (let email = QueryGet r ''email'' in
      if email = '''' then
        bind_act (world_do (BeginLoginDiscoverable (rq_Context r) (GetTenantID (rq_Context r)))) (\<lambda>begun.
        case begun of Inl e \<Rightarrow> respond no_credentials | Inr (options, _) \<Rightarrow> respond (WriteJSON 200 (Value options)))
      else bind_act (within (tenant_or (rt_lib rt) (ph_tenantResolver h) r email '''')) (\<lambda>tenantID.
        bind_act (world_do (pk_BeginLogin (rt_lib rt) (rq_Context r) email tenantID)) (\<lambda>begun.
        case begun of Inl e \<Rightarrow> respond no_credentials | Inr (options, _) \<Rightarrow> respond (WriteJSON 200 (Value options)))))"

definition pkh_FinishLogin :: "runtime \<Rightarrow> passkey_parsers \<Rightarrow> 'w PasskeyHandler \<Rightarrow> request
    \<Rightarrow> (unit, 'w PasskeyService \<times> 'w) act" where
  "pkh_FinishLogin rt pp h r =
     (case pp_assertion pp r of
        Inl e \<Rightarrow> json_error 400 ''invalid assertion''
      | Inr (parsed, challenge) \<Rightarrow>
          bind_act (world_do (pk_FinishLogin (rt_lib rt) (rq_Context r) challenge parsed)) (\<lambda>res.
          case res of
            Inl e \<Rightarrow> json_error 401 ''auth failed''
          | Inr (user, cred) \<Rightarrow>
              (let tenantID = or_public (pu_TenantID user) in
               within (bind_act (issue_worker rt (ph_tokens h) r (pu_UserID user) tenantID) (\<lambda>(pair, err).
                if err \<noteq> None then json_error 500 ''token issue''
                else after (respond (setAuthCookies pair))
                  (after (audit_with (ph_audit h) r
                     (security_event r (pu_UserID user) tenantID (MaskEmail (pu_Email user)) ''passkey.login'' ''success''))
                   (respond json_done)))))))"


section \<open>Signing in\<close>

text \<open>
  The answer \<open>resp'\<close> adds the two session cookies to \<open>resp\<close>, and the access token in them is good, until
  it expires, for the user \<open>u\<close> in the tenant \<open>t\<close>.
\<close>

definition signs_in :: "runtime \<Rightarrow> duration \<Rightarrow> response \<Rightarrow> response \<Rightarrow> string \<Rightarrow> string \<Rightarrow> bool" where
  "signs_in rt ttl resp resp' u t \<longleftrightarrow>
     (\<exists>pair :: TokenPair. rs_cookies resp' = rs_cookies resp @ [auth_cookie ''loxtu_access'' (tp_AccessToken pair) 900 True,
          auth_cookie ''loxtu_refresh'' (tp_RefreshPlain pair) (86400 * 30) True] \<and>
        (\<forall>now < whole_second (ir_access (rt_issue rt) + ttl).
           \<exists>cl. ValidateAccessToken (rt_jwt rt) (rt_env rt) now (tp_AccessToken pair) = Ret (Inr cl) \<and>
             ac_UserIDHash cl = sha_hex (rt_lib rt) u \<and> ac_TenantID cl = t))"

lemma signs_inI:
  assumes "jwt_ok (rt_jwt rt)" and "rt_env rt ''LOXTU_JWT_SECRET'' \<noteq> ''''" and "t \<noteq> []"
    and "Issue (rt_lib rt) (rt_jwt rt) (rt_env rt) svc (rt_issue rt) u t role ps = Ret (Inr pair)"
    and "rs_cookies resp' = rs_cookies (setAuthCookies pair resp)"
  shows "signs_in rt (sas_accessTTL svc) resp resp' u t"
  unfolding signs_in_def
proof (intro exI [of _ pair] conjI allI impI)
  show "rs_cookies resp' = rs_cookies resp @ [auth_cookie ''loxtu_access'' (tp_AccessToken pair) 900 True,
          auth_cookie ''loxtu_refresh'' (tp_RefreshPlain pair) (86400 * 30) True]"
    using assms(5) by (simp add: setAuthCookies_def)
  fix now assume "now < whole_second (ir_access (rt_issue rt) + sas_accessTTL svc)"
  from validate_issued [OF assms(1,2) Issue_Ret(1) [OF assms(4)] this] assms(3)
  show "\<exists>cl. ValidateAccessToken (rt_jwt rt) (rt_env rt) now (tp_AccessToken pair) = Ret (Inr cl) \<and>
     ac_UserIDHash cl = sha_hex (rt_lib rt) u \<and> ac_TenantID cl = t" by simp
qed

lemma or_public_nonempty [simp]: "or_public t \<noteq> []"
  by (simp add: or_public_def)

lemma ResolveUserByHash_found:
  assumes "user_lookup (pk_users s) users" and "find (\<lambda>u. u_UserIDHash u = h) (users c w) = Some u" and "u_UserID u \<noteq> ''''"
  shows "ResolveUserByHash s c h w = (Inr (u_UserID u), w)"
  using user_lookup.find_hash [OF assms(1), of c h w] assms(2,3) by (auto simp: ResolveUserByHash_def)

lemma log8_ok: "8 \<le> length h \<Longrightarrow> log8 h = Ret ()"
  by (simp add: log8_def slice_to_def)

text \<open>The \<open>user_id_hash\<close> of a user is all that is needed to become that user: a \<open>POST\<close> of it to
  /auth/passkey/skip, with no code, no passkey and no cookie, is answered with a session for the
  user, stored on the server and good for the dashboard.\<close>

theorem skip_signs_in:
  assumes "user_lookup (pk_users s) users" and "session_store ss view" and "sas_sessions (ph_tokens h) = Some ss"
    and "jwt_ok (rt_jwt rt)" and "rt_env rt ''LOXTU_JWT_SECRET'' \<noteq> ''''" and "ir_rand (rt_issue rt) 32 = Inr b"
    and "view (rq_Context r) w (HashToken (rt_lib rt) (hex_EncodeToString b)) = None"
    and "rq_FormErr r = None" and "8 \<le> length (FormValue r ''user_id_hash'')"
    and "find (\<lambda>u. u_UserIDHash u = FormValue r ''user_id_hash'') (users (rq_Context r) w) = Some u" and "u_UserID u \<noteq> ''''"
  shows "\<exists>w' resp'. Skip rt h r ((s, w), resp) = (Ret (), (s, w'), resp') \<and>
    signs_in rt (sas_accessTTL (ph_tokens h)) resp resp' (u_UserID u) (or_public (GetTenantID (rq_Context r))) \<and>
    (\<exists>k y. view (rq_Context r) w' k = Some y \<and> se_UserID y = u_UserID u)"
proof -
  let ?t = "or_public (GetTenantID (rq_Context r))"
  obtain pair w' where iss: "IssueSession (rt_lib rt) (rt_jwt rt) (rt_env rt) (ph_tokens h) (rq_Context r) (rt_issue rt)
      (u_UserID u) ?t ''worker'' [] w = (Ret (pair, None), w')"
    and pair: "Issue (rt_lib rt) (rt_jwt rt) (rt_env rt) (ph_tokens h) (rt_issue rt) (u_UserID u) ?t ''worker'' [] = Ret (Inr pair)"
    and stored: "\<exists>y. view (rq_Context r) w' (tp_RefreshHash pair) = Some y \<and> se_UserID y = u_UserID u"
    by (rule session_store.issue_ok [OF assms(2,3), where J = "rt_jwt rt" and env = "rt_env rt" and ir = "rt_issue rt"
          and L = "rt_lib rt" and c = "rq_Context r" and w = w and u = "u_UserID u" and t = ?t
          and r = "''worker''" and ps = "[]", OF assms(4-7)])
  obtain resp1 where log: "SetLogEmail ''***'' resp = Ret resp1" using SetLogEmail_stars by blast
  let ?resp' = "WriteHeader 200 (SetHeader ''HX-Redirect'' ''/dashboard'' (setAuthCookies pair resp1))"
  have "Skip rt h r ((s, w), resp) = (Ret (), (s, w'), ?resp')"
    using assms(8-11) log8_ok [OF assms(9)] ResolveUserByHash_found [OF assms(1,10,11)]
    by (auto simp: Skip_def Let_def after_def bind_act_def respond_go_def log must_def within_def issue_worker_def world_go_def iss
        whenever_def)
  moreover have "rs_cookies ?resp' = rs_cookies (setAuthCookies pair resp)"
    using SetLogEmail_frame(2) [OF log] by (simp add: setAuthCookies_def)
  ultimately show ?thesis using signs_inI [OF assms(4,5) or_public_nonempty pair] stored by blast
qed


definition web_pk :: "mini PasskeyService" where
  "web_pk = NewPasskeyService web_users (CredRepo demo (None :: mini db option)) None ''''"

definition web_pkh :: "mini PasskeyHandler" where
  "web_pkh = \<lparr>ph_tokens = demo_svc, ph_tenantResolver = None, ph_audit = None\<rparr>"

lemma skip_signs_in_witness:
  "\<exists>w' resp'. Skip web_rt web_pkh (a_request\<lparr>rq_Form := [(''user_id_hash'', web_hash)]\<rparr>) ((web_pk, web_world), fresh_response)
      = (Ret (), (web_pk, w'), resp') \<and>
    signs_in web_rt (sas_accessTTL demo_svc) fresh_response resp' ''u1'' ''public''"
proof -
  define r where "r = a_request\<lparr>rq_Form := [(''user_id_hash'', web_hash)]\<rparr>"
  have r: "FormValue r ''user_id_hash'' = web_hash" "rq_FormErr r = None" "rq_Context r = Background"
    by (simp_all add: FormValue_def r_def a_request_def)
  have len: "8 \<le> length web_hash" by (simp add: web_hash_def sha_hex_length)
  have "\<exists>w' resp'. Skip web_rt web_pkh r ((web_pk, web_world), fresh_response) = (Ret (), (web_pk, w'), resp') \<and>
    signs_in web_rt (sas_accessTTL (ph_tokens web_pkh)) fresh_response resp' (u_UserID (mapUserRowV2 web_row)) (or_public (GetTenantID (rq_Context r))) \<and>
    (\<exists>k y. web_view (rq_Context r) w' k = Some y \<and> se_UserID y = u_UserID (mapUserRowV2 web_row))"
    by (rule skip_signs_in [where users = web_list and ss = web_sessions and b = "replicate 32 CHR ''q''"])
      (simp_all add: r len web_pk_def NewPasskeyService_def web_pkh_def web_service web_views web_found demo_issue_rand)
  then show ?thesis by (auto simp: web_pkh_def or_public_def r_def a_request_def)
qed

end
