(* ===== verification/OAuthRepo.thy ===== *)
theory OAuthRepo
  imports Surreal Stores
begin

text \<open>
  The SurrealDB store of links between external accounts and users (oauth_repo.go).  The lemmas give
  its contract: a link is made once, and later logins return the user of the first.
\<close>

definition sql_oauth_create :: string where
  "sql_oauth_create = ''CREATE oauth_accounts SET id = $id, user_id = $uid, tenant_id = $tid, provider = $prov, provider_sub = $sub, created_at = <datetime>$ca''"

definition sql_oauth_by_provider :: string where
  "sql_oauth_by_provider = ''SELECT * FROM oauth_accounts WHERE provider = $prov AND provider_sub = $sub LIMIT 1''"

definition sql_oauth_by_user :: string where
  "sql_oauth_by_user = ''SELECT * FROM oauth_accounts WHERE user_id = $uid''"

definition sql_oauth_unlink :: string where
  "sql_oauth_unlink = ''DELETE oauth_accounts WHERE user_id = $uid AND provider = $prov''"

definition mapOAuthRow :: "golib \<Rightarrow> row \<Rightarrow> OAuthAccount" where
  "mapOAuthRow L rm =
     \<lparr>oa_ID = str_or_empty (get rm ''id''), oa_UserID = str_or_empty (get rm ''user_id''),
      oa_TenantID = str_or_empty (get rm ''tenant_id''), oa_Provider = str_or_empty (get rm ''provider''),
      oa_ProviderSub = str_or_empty (get rm ''provider_sub''),
      oa_CreatedAt = (case parseTime L (get rm ''created_at'') of (t, ok) \<Rightarrow> if ok then t else zero_time)\<rparr>"

definition oauth_FindByProvider :: "golib \<Rightarrow> 'd db option \<Rightarrow> ctx \<Rightarrow> string \<Rightarrow> string \<Rightarrow> 'd
    \<Rightarrow> (goerr + OAuthAccount option) \<times> 'd" where
  "oauth_FindByProvider L pool c provider providerSub d =
     (case pool of None \<Rightarrow> (Inl no_db, d)
      | Some db \<Rightarrow>
          (case tenant_Query db c sql_oauth_by_provider [(''prov'', AStr provider), (''sub'', AStr providerSub)] d of
             (Inl e, d1) \<Rightarrow> (Inl e, d1)
           | (Inr results, d1) \<Rightarrow>
               (case first_map results of
                  Some (Some rm) \<Rightarrow> (Inr (Some (mapOAuthRow L rm)), d1)
                | _ \<Rightarrow> (Inr None, d1))))"

definition oauth_FindByUserID :: "golib \<Rightarrow> 'd db option \<Rightarrow> ctx \<Rightarrow> string \<Rightarrow> 'd
    \<Rightarrow> (goerr + OAuthAccount list) \<times> 'd" where
  "oauth_FindByUserID L pool c userID d =
     (case pool of None \<Rightarrow> (Inl no_db, d)
      | Some db \<Rightarrow>
          (case tenant_Query db c sql_oauth_by_user [(''uid'', AStr userID)] d of
             (Inl e, d1) \<Rightarrow> (Inl e, d1)
           | (Inr results, d1) \<Rightarrow>
               (Inr (map (mapOAuthRow L) (List.map_filter as_map (firstRows results))), d1)))"

text \<open>\<open>LinkOrCreate\<close> reads the clock when the account has no creation time.\<close>

definition oauth_LinkOrCreate :: "golib \<Rightarrow> time \<Rightarrow> 'd db option \<Rightarrow> ctx \<Rightarrow> OAuthAccount \<Rightarrow> 'd
    \<Rightarrow> (goerr + string) \<times> 'd" where
  "oauth_LinkOrCreate L now pool c account d =
     (case pool of None \<Rightarrow> (Inl no_db, d)
      | Some db \<Rightarrow>
          (case oauth_FindByProvider L pool c (oa_Provider account) (oa_ProviderSub account) d of
             (Inr (Some existing), d1) \<Rightarrow> (Inr (oa_UserID existing), d1)
           | (_, d1) \<Rightarrow>
               (let i = (if oa_ID account = '''' then ''oauth_'' @ oa_Provider account @ ''_'' @ oa_ProviderSub account
                         else oa_ID account);
                    ca = (if oa_CreatedAt account = zero_time then now else oa_CreatedAt account)
                in case tenant_Query db c sql_oauth_create
                     [(''id'', AStr i), (''uid'', AStr (oa_UserID account)), (''tid'', AStr (oa_TenantID account)),
                      (''prov'', AStr (oa_Provider account)), (''sub'', AStr (oa_ProviderSub account)),
                      (''ca'', AStr (FormatRFC3339 L ca))] d1 of
                     (Inl e, d2) \<Rightarrow> (Inl e, d2)
                   | (Inr res, d2) \<Rightarrow> (Inr (oa_UserID account), d2))))"

definition oauth_Unlink :: "'d db option \<Rightarrow> ctx \<Rightarrow> string \<Rightarrow> string \<Rightarrow> 'd \<Rightarrow> goerr option \<times> 'd" where
  "oauth_Unlink pool c userID provider d =
     (case pool of None \<Rightarrow> (Some no_db, d)
      | Some db \<Rightarrow> wrap_err [] (tenant_Query db c sql_oauth_unlink
          [(''uid'', AStr userID), (''prov'', AStr provider)] d))"

definition OAuthRepo :: "golib \<Rightarrow> time \<Rightarrow> 'd db option \<Rightarrow> 'd OAuthAccountStore" where
  "OAuthRepo L now pool = \<lparr>as_LinkOrCreate = oauth_LinkOrCreate L now pool,
     as_FindByProvider = oauth_FindByProvider L pool, as_FindByUserID = oauth_FindByUserID L pool,
     as_Unlink = oauth_Unlink pool\<rparr>"

section \<open>The contract of the links\<close>

text \<open>
  Seen from the services, links map a provider and a subject to a user.  The store below keeps the
  first link of an account.
\<close>

locale link_store =
  fixes as :: "'s OAuthAccountStore"
    and link :: "ctx \<Rightarrow> 's \<Rightarrow> string \<Rightarrow> string \<Rightarrow> string option"
  assumes link_old: "link c s (oa_Provider a) (oa_ProviderSub a) = Some u \<Longrightarrow> as_LinkOrCreate as c a s = (Inr u, s)"
    and link_new: "link c s (oa_Provider a) (oa_ProviderSub a) = None \<Longrightarrow> \<exists>s'. as_LinkOrCreate as c a s = (Inr (oa_UserID a), s') \<and>
      (\<forall>p q. link c s' p q = (if p = oa_Provider a \<and> q = oa_ProviderSub a then Some (oa_UserID a) else link c s p q))"
begin

text \<open>Whatever a later login claims, it gets the user of the first.\<close>

lemma relink:
  assumes "oa_Provider b = oa_Provider a" and "oa_ProviderSub b = oa_ProviderSub a"
  shows "fst (as_LinkOrCreate as c b (snd (as_LinkOrCreate as c a s))) = fst (as_LinkOrCreate as c a s)"
proof (cases "link c s (oa_Provider a) (oa_ProviderSub a)")
  case None
  from link_new [OF None] obtain s' where s: "as_LinkOrCreate as c a s = (Inr (oa_UserID a), s')"
    and "link c s' (oa_Provider b) (oa_ProviderSub b) = Some (oa_UserID a)" using assms by auto
  with link_old [of c s' b] show ?thesis by simp
next
  case (Some u)
  with link_old [of c s a] link_old [of c s b] assms show ?thesis by simp
qed

end

text \<open>Rows of \<open>oauth_accounts\<close> by provider and subject, in which the columns are strings.\<close>

locale surreal_links =
  fixes db :: "'d db"
    and ltbl :: "string \<Rightarrow> 'd \<Rightarrow> string \<Rightarrow> string \<Rightarrow> row option"
  assumes find_link: "db_Query db c ns ns sql_oauth_by_provider [(''prov'', AStr p), (''sub'', AStr q)] d =
      (Inr [AList (case ltbl ns d p q of None \<Rightarrow> [] | Some rm \<Rightarrow> [AMap rm])], d)"
    and create_link: "ltbl ns d p q = None \<Longrightarrow> \<exists>res d' rm. db_Query db c ns ns sql_oauth_create
        [(''id'', i), (''uid'', AStr u), (''tid'', t), (''prov'', AStr p), (''sub'', AStr q), (''ca'', ca)] d = (Inr res, d') \<and>
        get rm ''user_id'' = AStr u \<and>
        (\<forall>p' q'. ltbl ns d' p' q' = (if p' = p \<and> q' = q then Some rm else ltbl ns d p' q'))"
begin

lemma find_provider:
  "oauth_FindByProvider L (Some db) c p q d = (Inr (map_option (mapOAuthRow L) (ltbl (ns_of db c) d p q)), d)"
  by (cases "ltbl (ns_of db c) d p q") (simp_all add: oauth_FindByProvider_def tenant_Query_def find_link)

end

definition link_view :: "'d db \<Rightarrow> (string \<Rightarrow> 'd \<Rightarrow> string \<Rightarrow> string \<Rightarrow> row option) \<Rightarrow> ctx \<Rightarrow> 'd \<Rightarrow> string \<Rightarrow> string \<Rightarrow> string option" where
  "link_view db ltbl c d p q = map_option (\<lambda>rm. str_or_empty (get rm ''user_id'')) (ltbl (ns_of db c) d p q)"

sublocale surreal_links \<subseteq> repo: link_store "OAuthRepo L now (Some db)" "link_view db ltbl"
proof
  fix c d u and a :: OAuthAccount
  assume "link_view db ltbl c d (oa_Provider a) (oa_ProviderSub a) = Some u"
  then show "as_LinkOrCreate (OAuthRepo L now (Some db)) c a d = (Inr u, d)"
    by (auto simp: link_view_def OAuthRepo_def oauth_LinkOrCreate_def find_provider mapOAuthRow_def)
next
  fix c d and a :: OAuthAccount
  assume n: "link_view db ltbl c d (oa_Provider a) (oa_ProviderSub a) = None"
  let ?i = "if oa_ID a = '''' then ''oauth_'' @ oa_Provider a @ ''_'' @ oa_ProviderSub a else oa_ID a"
  let ?ca = "if oa_CreatedAt a = zero_time then now else oa_CreatedAt a"
  from n have "ltbl (ns_of db c) d (oa_Provider a) (oa_ProviderSub a) = None" by (simp add: link_view_def)
  from create_link [OF this, of c "AStr ?i" "oa_UserID a" "AStr (oa_TenantID a)" "AStr (FormatRFC3339 L ?ca)"]
  obtain res d' rm where q: "db_Query db c (ns_of db c) (ns_of db c) sql_oauth_create
      [(''id'', AStr ?i), (''uid'', AStr (oa_UserID a)), (''tid'', AStr (oa_TenantID a)),
       (''prov'', AStr (oa_Provider a)), (''sub'', AStr (oa_ProviderSub a)), (''ca'', AStr (FormatRFC3339 L ?ca))] d = (Inr res, d')"
    and r: "get rm ''user_id'' = AStr (oa_UserID a)"
    and t: "\<And>p' q'. ltbl (ns_of db c) d' p' q' = (if p' = oa_Provider a \<and> q' = oa_ProviderSub a then Some rm
        else ltbl (ns_of db c) d p' q')" by blast
  have "as_LinkOrCreate (OAuthRepo L now (Some db)) c a d = (Inr (oa_UserID a), d')"
    using n q by (simp add: link_view_def OAuthRepo_def oauth_LinkOrCreate_def find_provider tenant_Query_def Let_def)
  moreover have "link_view db ltbl c d' p q = (if p = oa_Provider a \<and> q = oa_ProviderSub a then Some (oa_UserID a)
      else link_view db ltbl c d p q)" for p q using r by (simp add: link_view_def t)
  ultimately show "\<exists>s'. as_LinkOrCreate (OAuthRepo L now (Some db)) c a d = (Inr (oa_UserID a), s') \<and>
      (\<forall>p q. link_view db ltbl c s' p q = (if p = oa_Provider a \<and> q = oa_ProviderSub a then Some (oa_UserID a)
        else link_view db ltbl c d p q))" by blast
qed

text \<open>A table that runs the statements, keyed by provider and subject.\<close>

definition link_db :: "row list db" where
  "link_db = \<lparr>db_Query = (\<lambda>c ns dbn sql vs d.
     let here = (\<lambda>rm. get rm ''provider'' = get vs ''prov'' \<and> get rm ''provider_sub'' = get vs ''sub'') in
     if sql = sql_oauth_by_provider then (Inr [AList (case find here d of None \<Rightarrow> [] | Some rm \<Rightarrow> [AMap rm])], d)
     else if sql = sql_oauth_create then
       (Inr [AList []], d @ [[(''id'', get vs ''id''), (''user_id'', get vs ''uid''), (''tenant_id'', get vs ''tid''),
          (''provider'', get vs ''prov''), (''provider_sub'', get vs ''sub''), (''created_at'', get vs ''ca'')]])
     else (Inl ''parse error'', d)), db_defaultNS = ''main''\<rparr>"

definition link_rows :: "string \<Rightarrow> row list \<Rightarrow> string \<Rightarrow> string \<Rightarrow> row option" where
  "link_rows ns d p q = find (\<lambda>rm. get rm ''provider'' = AStr p \<and> get rm ''provider_sub'' = AStr q) d"

interpretation link_db: surreal_links link_db link_rows
proof
  fix c ns p q d
  show "db_Query link_db c ns ns sql_oauth_by_provider [(''prov'', AStr p), (''sub'', AStr q)] d =
      (Inr [AList (case link_rows ns d p q of None \<Rightarrow> [] | Some rm \<Rightarrow> [AMap rm])], d)"
    by (simp add: link_db_def link_rows_def Let_def)
next
  fix ns d p q c i u t ca
  assume n: "link_rows ns d p q = None"
  let ?rm = "[(''id'', i), (''user_id'', AStr u), (''tenant_id'', t), (''provider'', AStr p), (''provider_sub'', AStr q), (''created_at'', ca)]"
  have "sql_oauth_create \<noteq> sql_oauth_by_provider" by (simp add: sql_oauth_create_def sql_oauth_by_provider_def)
  then have "db_Query link_db c ns ns sql_oauth_create
        [(''id'', i), (''uid'', AStr u), (''tid'', t), (''prov'', AStr p), (''sub'', AStr q), (''ca'', ca)] d =
        (Inr [AList []], d @ [?rm])" by (simp add: link_db_def Let_def)
  moreover have "link_rows ns (d @ [?rm]) p' q' = (if p' = p \<and> q' = q then Some ?rm else link_rows ns d p' q')" for p' q'
    using n by (auto simp: link_rows_def find_snoc split: option.splits)
  ultimately show "\<exists>res d' rm. db_Query link_db c ns ns sql_oauth_create
        [(''id'', i), (''uid'', AStr u), (''tid'', t), (''prov'', AStr p), (''sub'', AStr q), (''ca'', ca)] d = (Inr res, d') \<and>
        get rm ''user_id'' = AStr u \<and>
        (\<forall>p' q'. link_rows ns d' p' q' = (if p' = p \<and> q' = q then Some rm else link_rows ns d p' q'))"
    by (intro exI [of _ "[AList []]"] exI [of _ "d @ [?rm]"] exI [of _ ?rm]) simp
qed

end
