(* ===== verification/OAuth.thy ===== *)
theory OAuth
  imports OAuthRepo Session Email
begin

text \<open>
  Sign-in with external identity providers: the service of
  internal/core/identity/oauth_service.go with its table of pending states, and the manager of
  oauth_manager.go.  Runs of the service are lists of events; the lemmas follow a state from the
  request that made it to the one that consumes it, and the user id that a login yields.
\<close>

section \<open>Providers and the service\<close>

record OAuthToken =
  ot_AccessToken :: string
  ot_RefreshToken :: string
  ot_IDToken :: string
  ot_ExpiresIn :: int
  ot_TokenType :: string

record OAuthUserInfo =
  ou_Provider :: string
  ou_ProviderSub :: string
  ou_Email :: string
  ou_Name :: string
  ou_Verified :: bool

record 'w OAuthProvider =
  op_Name :: string
  op_AuthURL :: "string \<Rightarrow> string \<Rightarrow> string"
  op_ExchangeCode :: "ctx \<Rightarrow> string \<Rightarrow> string \<Rightarrow> 'w \<Rightarrow> (goerr + OAuthToken) \<times> 'w"
  op_GetUserInfo :: "ctx \<Rightarrow> string \<Rightarrow> 'w \<Rightarrow> (goerr + OAuthUserInfo) \<times> 'w"

record oauthState =
  st_CreatedAt :: time
  st_CodeChallenge :: string
  st_TenantID :: string
  st_RedirectURI :: string

text \<open>The map of providers is an association list in the order in which the runtime ranges over it.\<close>

record 'w OAuthService =
  ox_providers :: "(string \<times> 'w OAuthProvider) list"
  ox_accounts :: "'w OAuthAccountStore"
  ox_users :: "'w UserStore option"
  ox_pepper :: string
  ox_states :: "string \<Rightarrow> oauthState option"

definition NewOAuthService :: "'w OAuthAccountStore \<Rightarrow> 'w UserStore option \<Rightarrow> string \<Rightarrow> 'w OAuthService" where
  "NewOAuthService accounts users pepper =
     \<lparr>ox_providers = [], ox_accounts = accounts, ox_users = users, ox_pepper = pepper, ox_states = Map.empty\<rparr>"

definition RegisterProvider :: "'w OAuthProvider \<Rightarrow> 'w OAuthService \<Rightarrow> 'w OAuthService" where
  "RegisterProvider p s = s\<lparr>ox_providers := filter (\<lambda>np. fst np \<noteq> op_Name p) (ox_providers s) @ [(op_Name p, p)]\<rparr>"

definition GetProviders :: "'w OAuthService \<Rightarrow> string list" where
  "GetProviders s = map fst (ox_providers s)"

text \<open>The error of \<open>rand.Read\<close> is ignored: the buffer then stays zero.\<close>

definition generateState :: "rand \<Rightarrow> string" where
  "generateState r = hex_EncodeToString (case r 16 of Inr b \<Rightarrow> b | Inl e \<Rightarrow> replicate 16 (byte 0))"

definition BeginAuth :: "rand \<Rightarrow> rand \<Rightarrow> time \<Rightarrow> string \<Rightarrow> string \<Rightarrow> string \<Rightarrow> 'w OAuthService
    \<Rightarrow> (goerr + string \<times> string) \<times> 'w OAuthService" where
  "BeginAuth r1 r2 now providerName tenantID redirectURI s =
     (case map_of (ox_providers s) providerName of
        None \<Rightarrow> (Inl (''unknown provider: '' @ providerName), s)
      | Some p \<Rightarrow>
          (let state = generateState r1;
               codeChallenge = generateState r2;
               s1 = s\<lparr>ox_states := (ox_states s)(state \<mapsto>
                 \<lparr>st_CreatedAt = now, st_CodeChallenge = codeChallenge, st_TenantID = tenantID,
                  st_RedirectURI = redirectURI\<rparr>)\<rparr>
           in (Inr (op_AuthURL p state codeChallenge, state), s1)))"

definition CompleteAuth :: "time \<Rightarrow> ctx \<Rightarrow> string \<Rightarrow> string \<Rightarrow> string \<Rightarrow> 'w OAuthService \<times> 'w
    \<Rightarrow> (goerr + OAuthUserInfo \<times> string) \<times> 'w OAuthService \<times> 'w" where
  "CompleteAuth now c providerName state code = (\<lambda>(s, w).
     case map_of (ox_providers s) providerName of
       None \<Rightarrow> (Inl (''unknown provider: '' @ providerName), s, w)
     | Some p \<Rightarrow>
        (case ox_states s state of
           None \<Rightarrow> (Inl ''invalid or expired state'', s, w)
         | Some st \<Rightarrow>
            (let s1 = s\<lparr>ox_states := (ox_states s)(state := None)\<rparr> in
             if now - st_CreatedAt st > 10 * minute then (Inl ''state expired'', s1, w)
             else (case op_ExchangeCode p c code (st_CodeChallenge st) w of
                 (Inl e, w1) \<Rightarrow> (Inl (''exchange code: '' @ e), s1, w1)
               | (Inr token, w1) \<Rightarrow>
                  (case op_GetUserInfo p c (ot_AccessToken token) w1 of
                     (Inl e, w2) \<Rightarrow> (Inl (''get user info: '' @ e), s1, w2)
                   | (Inr info, w2) \<Rightarrow>
                      (case as_LinkOrCreate (ox_accounts s) c
                         \<lparr>oa_ID = '''', oa_UserID = '''', oa_TenantID = st_TenantID st, oa_Provider = providerName,
                          oa_ProviderSub = ou_ProviderSub info, oa_CreatedAt = zero_time\<rparr> w2 of
                         (Inl e, w3) \<Rightarrow> (Inl (''link account: '' @ e), s1, w3)
                       | (Inr userID, w3) \<Rightarrow> (Inr (info, userID), s1, w3)))))))"

section \<open>The manager\<close>

record ExternalIdentity =
  ei_Provider :: string
  ei_Subject :: string
  ei_Email :: string
  ei_Name :: string
  ei_TenantHint :: string
  ei_Groups :: "string list"

record 'w OAuthManager =
  om_users :: "'w UserStore"
  om_sessions :: "'w SessionStore option"

definition NewOAuthManager :: "'w UserStore \<Rightarrow> 'w SessionStore option \<Rightarrow> 'w OAuthManager" where
  "NewOAuthManager users sessions = \<lparr>om_users = users, om_sessions = sessions\<rparr>"

definition generateUUIDv7 :: string where "generateUUIDv7 = ''placeholder-uuid-v7''"

definition fresh_user :: "golib \<Rightarrow> time \<times> time \<Rightarrow> string \<Rightarrow> string \<Rightarrow> string \<Rightarrow> User" where
  "fresh_user L now hash tenantID role = zero_user\<lparr>u_UserID := generateUUIDv7, u_EmailHash := hash,
     u_TenantID := tenantID, u_Role := role, u_Status := ''active'', u_IsActive := True,
     u_CreatedAt := fst now, u_UpdatedAt := snd now\<rparr>"

definition LinkAndIssue :: "golib \<Rightarrow> jwtlib \<Rightarrow> env \<Rightarrow> time \<times> time \<Rightarrow> issue_reads \<Rightarrow> 'w OAuthManager \<Rightarrow> ctx \<Rightarrow> string
    \<Rightarrow> ExternalIdentity \<Rightarrow> string \<Rightarrow> 'w \<Rightarrow> (goerr + TokenPair \<times> User) go \<times> 'w" where
  "LinkAndIssue L J env now ir m c tenantID0 ext role0 w =
     (if ei_Email ext = '''' then (Ret (Inl ''external identity missing email''), w)
      else (let tenantID = (if tenantID0 = '''' then ''public'' else tenantID0);
                role = (if role0 = '''' then ''worker'' else role0);
                hash = EmailHash L (ei_Email ext);
                issue = (\<lambda>user w'. (gbind (IssueTokens L J env ir (u_UserID user) tenantID (u_Role user)
                     (u_Permissions user) AccessTokenTTL)
                   (\<lambda>res. Ret (case res of Inl e \<Rightarrow> Inl e | Inr pair \<Rightarrow> Inr (pair, user))), w'));
                create = (\<lambda>w'. case us_Create (om_users m) c (fresh_user L now hash tenantID role) w' of
                   ((Some e, u), w2) \<Rightarrow> (Ret (Inl (''create user: '' @ e)), w2)
                 | ((None, u), w2) \<Rightarrow> issue u w2)
            in case us_FindByEmailHash (om_users m) c hash w of
                 (Inr (Some user), w1) \<Rightarrow> issue (if u_Role user = '''' then user\<lparr>u_Role := role\<rparr> else user) w1
               | (_, w1) \<Rightarrow> create w1))"

fun MapEntraGroups :: "string list \<Rightarrow> string" where
  "MapEntraGroups [] = ''worker''"
| "MapEntraGroups (g # gs) =
     (if g = ''LOXTU-Admin'' \<or> g = ''Admin'' then ''admin''
      else if g = ''LOXTU-Manager'' \<or> g = ''Manager'' then ''manager''
      else MapEntraGroups gs)"

section \<open>Runs of the service\<close>

datatype oauth_event =
    Begin rand rand time string string string
  | Complete time ctx string string string

definition oauth_exec :: "oauth_event \<Rightarrow> 'w OAuthService \<times> 'w \<Rightarrow> 'w OAuthService \<times> 'w" where
  "oauth_exec e sw = (case e of
     Begin r1 r2 now p t uri \<Rightarrow> (snd (BeginAuth r1 r2 now p t uri (fst sw)), snd sw)
   | Complete now c p st code \<Rightarrow> snd (CompleteAuth now c p st code sw))"

definition oauth_run :: "oauth_event list \<Rightarrow> 'w OAuthService \<times> 'w \<Rightarrow> 'w OAuthService \<times> 'w" where
  "oauth_run es sw = fold oauth_exec es sw"

lemma oauth_run_simps [simp]:
  "oauth_run [] sw = sw" "oauth_run (es @ [e]) sw = oauth_exec e (oauth_run es sw)"
  "oauth_run (e # es) sw = oauth_run es (oauth_exec e sw)"
  by (simp_all add: oauth_run_def)

text \<open>Which events make a state, and which use it up.\<close>

definition makes :: "'w OAuthService \<Rightarrow> string \<Rightarrow> time \<Rightarrow> oauth_event \<Rightarrow> bool" where
  "makes s state t e \<longleftrightarrow> (\<exists>r1 r2 p tid uri. e = Begin r1 r2 t p tid uri \<and> generateState r1 = state \<and>
     p \<in> fst ` set (ox_providers s))"

definition uses :: "'w OAuthService \<Rightarrow> string \<Rightarrow> oauth_event \<Rightarrow> bool" where
  "uses s state e \<longleftrightarrow> (\<exists>now c p code. e = Complete now c p state code \<and> p \<in> fst ` set (ox_providers s))"

lemma map_of_None_fst: "map_of xs k = None \<longleftrightarrow> k \<notin> fst ` set xs"
  by (simp add: map_of_eq_None_iff)

lemma CompleteAuth_state:
  "ox_providers (fst (snd (CompleteAuth now c p state code (s, w)))) = ox_providers s"
  "ox_accounts (fst (snd (CompleteAuth now c p state code (s, w)))) = ox_accounts s"
  "ox_states (fst (snd (CompleteAuth now c p state code (s, w)))) =
    (if p \<in> fst ` set (ox_providers s) then (ox_states s)(state := None) else ox_states s)"
proof -
  show "ox_providers (fst (snd (CompleteAuth now c p state code (s, w)))) = ox_providers s"
    "ox_accounts (fst (snd (CompleteAuth now c p state code (s, w)))) = ox_accounts s"
    by (auto simp: CompleteAuth_def Let_def split: option.splits sum.splits prod.splits)
  show "ox_states (fst (snd (CompleteAuth now c p state code (s, w)))) =
    (if p \<in> fst ` set (ox_providers s) then (ox_states s)(state := None) else ox_states s)"
  proof (cases "map_of (ox_providers s) p")
    case None
    then have "p \<notin> fst ` set (ox_providers s)" unfolding map_of_None_fst .
    with None show ?thesis by (simp add: CompleteAuth_def)
  next
    case (Some pr)
    then have p: "p \<in> fst ` set (ox_providers s)" using map_of_SomeD by force
    from Some p show ?thesis
      by (cases "ox_states s state")
        (auto simp: CompleteAuth_def Let_def fun_upd_idem split: sum.splits prod.splits)
  qed
qed

lemma BeginAuth_state:
  "ox_providers (snd (BeginAuth r1 r2 now p t uri s)) = ox_providers s"
  "ox_accounts (snd (BeginAuth r1 r2 now p t uri s)) = ox_accounts s"
  "map_option st_CreatedAt (ox_states (snd (BeginAuth r1 r2 now p t uri s)) x) =
    (if p \<in> fst ` set (ox_providers s) \<and> x = generateState r1 then Some now else map_option st_CreatedAt (ox_states s x))"
proof -
  show "ox_providers (snd (BeginAuth r1 r2 now p t uri s)) = ox_providers s"
    "ox_accounts (snd (BeginAuth r1 r2 now p t uri s)) = ox_accounts s"
    by (auto simp: BeginAuth_def Let_def split: option.splits)
  show "map_option st_CreatedAt (ox_states (snd (BeginAuth r1 r2 now p t uri s)) x) =
    (if p \<in> fst ` set (ox_providers s) \<and> x = generateState r1 then Some now else map_option st_CreatedAt (ox_states s x))"
  proof (cases "map_of (ox_providers s) p")
    case None
    then have "p \<notin> fst ` set (ox_providers s)" unfolding map_of_None_fst .
    with None show ?thesis by (simp add: BeginAuth_def)
  next
    case (Some pr)
    then have "p \<in> fst ` set (ox_providers s)" using map_of_SomeD by force
    with Some show ?thesis by (simp add: BeginAuth_def Let_def)
  qed
qed

text \<open>The age of a state after one event.\<close>

lemma exec_state:
  "ox_providers (fst (oauth_exec e sw)) = ox_providers (fst sw)"
  "ox_accounts (fst (oauth_exec e sw)) = ox_accounts (fst sw)"
  "map_option st_CreatedAt (ox_states (fst (oauth_exec e sw)) x) = Some t \<Longrightarrow>
     makes (fst sw) x t e \<or> (map_option st_CreatedAt (ox_states (fst sw) x) = Some t \<and> \<not> uses (fst sw) x e)"
  "ox_states (fst sw) x = None \<Longrightarrow> \<nexists>t. makes (fst sw) x t e \<Longrightarrow> ox_states (fst (oauth_exec e sw)) x = None"
proof -
  obtain s w where sw: "sw = (s, w)" by (cases sw)
  show "ox_providers (fst (oauth_exec e sw)) = ox_providers (fst sw)"
    "ox_accounts (fst (oauth_exec e sw)) = ox_accounts (fst sw)"
    by (cases e; simp add: oauth_exec_def BeginAuth_state CompleteAuth_state sw)+
  show "makes (fst sw) x t e \<or> (map_option st_CreatedAt (ox_states (fst sw) x) = Some t \<and> \<not> uses (fst sw) x e)"
    if "map_option st_CreatedAt (ox_states (fst (oauth_exec e sw)) x) = Some t"
    using that by (cases e) (auto simp: oauth_exec_def BeginAuth_state CompleteAuth_state makes_def uses_def sw split: if_splits)
  show "ox_states (fst (oauth_exec e sw)) x = None" if n: "ox_states (fst sw) x = None" "\<nexists>t. makes (fst sw) x t e"
  proof -
    have "map_option st_CreatedAt (ox_states (fst (oauth_exec e sw)) x) = None"
      using n by (cases e) (auto simp: oauth_exec_def BeginAuth_state CompleteAuth_state makes_def sw)
    then show ?thesis by simp
  qed
qed

lemma run_services:
  "ox_providers (fst (oauth_run es sw)) = ox_providers (fst sw)"
  "ox_accounts (fst (oauth_run es sw)) = ox_accounts (fst sw)"
  by (induction es rule: rev_induct) (simp_all add: exec_state)

lemma makes_cong: "ox_providers s = ox_providers s' \<Longrightarrow> makes s = makes s'"
  by (simp add: fun_eq_iff makes_def)

lemma uses_cong: "ox_providers s = ox_providers s' \<Longrightarrow> uses s = uses s'"
  by (simp add: fun_eq_iff uses_def)

lemma run_state_made:
  assumes "ox_states (fst sw) x = None" and "map_option st_CreatedAt (ox_states (fst (oauth_run es sw)) x) = Some t"
  shows "\<exists>pre e post. es = pre @ e # post \<and> makes (fst sw) x t e \<and> \<not> list_ex (uses (fst sw) x) post"
  using assms(2)
proof (induction es rule: rev_induct)
  case Nil
  with assms(1) show ?case by simp
next
  case (snoc e es)
  note same = run_services(1) [of es sw]
  from exec_state(3) [of e "oauth_run es sw" x t] snoc.prems
  have "makes (fst sw) x t e \<or> (map_option st_CreatedAt (ox_states (fst (oauth_run es sw)) x) = Some t \<and> \<not> uses (fst sw) x e)"
    by (simp add: makes_cong [OF same] uses_cong [OF same])
  then show ?case
  proof
    assume "makes (fst sw) x t e"
    then show ?thesis by (intro exI [of _ es] exI [of _ e] exI [of _ "[]"]) simp
  next
    assume "map_option st_CreatedAt (ox_states (fst (oauth_run es sw)) x) = Some t \<and> \<not> uses (fst sw) x e"
    then obtain pre e' post where "es = pre @ e' # post" "makes (fst sw) x t e'" "\<not> list_ex (uses (fst sw) x) post"
      and "\<not> uses (fst sw) x e" using snoc.IH by blast
    then show ?thesis by (intro exI [of _ pre] exI [of _ e'] exI [of _ "post @ [e]"]) simp
  qed
qed

lemma run_state_gone:
  assumes "ox_states (fst sw) x = None" and "\<not> list_ex (\<lambda>e. \<exists>t. makes (fst sw) x t e) es"
  shows "ox_states (fst (oauth_run es sw)) x = None"
  using assms(2)
proof (induction es rule: rev_induct)
  case Nil
  with assms(1) show ?case by simp
next
  case (snoc e es)
  then show ?case
    using exec_state(4) [of "oauth_run es sw" x e] by (simp add: makes_cong [OF run_services(1)])
qed

lemma CompleteAuth_accepts:
  assumes "CompleteAuth now c p state code (s, w) = (Inr (info, u), s', w')"
  obtains st where "ox_states s state = Some st" and "now - st_CreatedAt st \<le> 10 * minute"
    and "p \<in> fst ` set (ox_providers s)"
proof -
  from assms obtain st pr where "ox_states s state = Some st" and "now - st_CreatedAt st \<le> 10 * minute"
    and "map_of (ox_providers s) p = Some pr"
    by (auto simp: CompleteAuth_def Let_def split: option.splits if_splits)
  moreover from this(3) have "p \<in> fst ` set (ox_providers s)" using map_of_SomeD by force
  ultimately show ?thesis using that by blast
qed

lemma CompleteAuth_unknown:
  "ox_states s state = None \<Longrightarrow> \<exists>e. CompleteAuth now c p state code (s, w) = (Inl e, s, w)"
  by (auto simp: CompleteAuth_def split: option.splits)

section \<open>The user of a login\<close>

text \<open>The calls of the providers go to the network and leave the links alone.\<close>

definition remote :: "(ctx \<Rightarrow> 'w \<Rightarrow> string \<Rightarrow> string \<Rightarrow> string option) \<Rightarrow> 'w OAuthProvider \<Rightarrow> bool" where
  "remote link p \<longleftrightarrow> (\<forall>c c' code v w. link c (snd (op_ExchangeCode p c' code v w)) = link c w) \<and>
     (\<forall>c c' a w. link c (snd (op_GetUserInfo p c' a w)) = link c w)"

definition no_users :: "(ctx \<Rightarrow> 'w \<Rightarrow> string \<Rightarrow> string \<Rightarrow> string option) \<Rightarrow> ctx \<Rightarrow> 'w \<Rightarrow> bool" where
  "no_users link c w \<longleftrightarrow> (\<forall>p q. link c w p q = None \<or> link c w p q = Some '''')"

context link_store
begin

lemma complete_no_user:
  assumes "ox_accounts s = as" and "no_users link c w"
    and "\<And>p. p \<in> snd ` set (ox_providers s) \<Longrightarrow> remote link p"
    and "CompleteAuth now c p state code (s, w) = (r, s', w')"
  shows "no_users link c w'" and "r = Inr (info, u) \<Longrightarrow> u = ''''"
proof -
  have "no_users link c w' \<and> (r = Inr (info, u) \<longrightarrow> u = '''')"
  proof (cases "map_of (ox_providers s) p")
    case None
    with assms show ?thesis by (auto simp: CompleteAuth_def)
  next
    case (Some pr)
    then have "pr \<in> snd ` set (ox_providers s)" using map_of_SomeD by force
    then have rem: "remote link pr" by (rule assms(3))
    let ?a = "\<lambda>st info. \<lparr>oa_ID = '''', oa_UserID = '''', oa_TenantID = st_TenantID st, oa_Provider = p,
                          oa_ProviderSub = ou_ProviderSub info, oa_CreatedAt = zero_time\<rparr>"
    have links: "no_users link c (snd (as_LinkOrCreate as c (?a st i) w2)) \<and>
        fst (as_LinkOrCreate as c (?a st i) w2) = Inr ''''" if n: "no_users link c w2" for st i w2
    proof (cases "link c w2 p (ou_ProviderSub i)")
      case None
      with link_new [of c w2 "?a st i"] obtain w3 where "as_LinkOrCreate as c (?a st i) w2 = (Inr '''', w3)"
        and "\<And>x y. link c w3 x y = (if x = p \<and> y = ou_ProviderSub i then Some '''' else link c w2 x y)" by auto
      with n show ?thesis by (simp add: no_users_def)
    next
      case (Some v)
      with n have "v = ''''" unfolding no_users_def by (metis option.distinct(1) option.inject)
      with Some link_old [of c w2 "?a st i"] n show ?thesis by simp
    qed
    show ?thesis
    proof (cases "ox_states s state")
      case None
      with Some assms show ?thesis by (auto simp: CompleteAuth_def)
    next
      case st: (Some st)
      show ?thesis
      proof (cases "now - st_CreatedAt st > 10 * minute")
        case True
        with Some st assms show ?thesis by (auto simp: CompleteAuth_def)
      next
        case False
        obtain t w1 where x: "op_ExchangeCode pr c code (st_CodeChallenge st) w = (t, w1)" by fastforce
        with rem assms(2) have n1: "no_users link c w1"
          unfolding remote_def no_users_def by (metis snd_conv)
        show ?thesis
        proof (cases t)
          case (Inl e)
          with Some st False x n1 assms show ?thesis by (auto simp: CompleteAuth_def Let_def)
        next
          case (Inr tok)
          obtain i w2 where g: "op_GetUserInfo pr c (ot_AccessToken tok) w1 = (i, w2)" by fastforce
          with rem n1 have n2: "no_users link c w2"
            unfolding remote_def no_users_def by (metis snd_conv)
          show ?thesis
          proof (cases i)
            case (Inl e)
            with Some st False x g Inr n2 assms show ?thesis by (auto simp: CompleteAuth_def Let_def)
          next
            case i: (Inr inf)
            obtain l w3 where "as_LinkOrCreate as c (?a st inf) w2 = (l, w3)" by fastforce
            with links [OF n2, of st inf] Some st False x g Inr i assms show ?thesis
              by (auto simp: CompleteAuth_def Let_def)
          qed
        qed
      qed
    qed
  qed
  then show "no_users link c w'" and "r = Inr (info, u) \<Longrightarrow> u = ''''" by auto
qed

end

definition in_context :: "ctx \<Rightarrow> oauth_event \<Rightarrow> bool" where
  "in_context c e = (case e of Begin r1 r2 now p t uri \<Rightarrow> True | Complete now c' p st code \<Rightarrow> c' = c)"

context link_store
begin

lemma run_no_users:
  assumes "ox_accounts (fst sw) = as" and "no_users link c (snd sw)"
    and "\<And>p. p \<in> snd ` set (ox_providers (fst sw)) \<Longrightarrow> remote link p" and "list_all (in_context c) es"
  shows "no_users link c (snd (oauth_run es sw))"
  using assms(4)
proof (induction es rule: rev_induct)
  case Nil
  with assms(2) show ?case by simp
next
  case (snoc e es)
  obtain s w where sw: "oauth_run es sw = (s, w)" by fastforce
  have s: "ox_accounts s = as" "ox_providers s = ox_providers (fst sw)"
    using run_services [of es sw] sw assms(1) by simp_all
  have n: "no_users link c w" using snoc sw by simp
  show ?case
  proof (cases e)
    case (Begin r1 r2 now p t uri)
    then show ?thesis using n by (simp add: oauth_exec_def sw)
  next
    case (Complete now c' p st code)
    with snoc.prems have c: "c' = c" by (simp add: in_context_def)
    obtain r s' w' where "CompleteAuth now c p st code (s, w) = (r, s', w')" using prod_cases3 by blast
    with complete_no_user(1) [OF s(1) n _ this] assms(3) s(2) Complete c show ?thesis
      by (simp add: oauth_exec_def sw)
  qed
qed

end

section \<open>A provider for the examples\<close>

definition demo_provider :: "row list OAuthProvider" where
  "demo_provider = \<lparr>op_Name = ''google'', op_AuthURL = (\<lambda>s ch. ''https://idp.example/?state='' @ s),
     op_ExchangeCode = (\<lambda>c code v w. (Inr \<lparr>ot_AccessToken = code, ot_RefreshToken = '''', ot_IDToken = '''',
       ot_ExpiresIn = 3600, ot_TokenType = ''Bearer''\<rparr>, w)),
     op_GetUserInfo = (\<lambda>c a w. (Inr \<lparr>ou_Provider = ''google'', ou_ProviderSub = a, ou_Email = ''ann@acme.com'',
       ou_Name = ''Ann'', ou_Verified = True\<rparr>, w))\<rparr>"

definition demo_oauth :: "row list OAuthService" where
  "demo_oauth = RegisterProvider demo_provider (NewOAuthService (OAuthRepo demo 0 (Some link_db)) None ''pepper'')"

definition demo_rand :: "char \<Rightarrow> rand" where
  "demo_rand ch n = Inr (replicate n ch)"

lemma demo_oauth_simps [simp]:
  "ox_providers demo_oauth = [(''google'', demo_provider)]" "ox_states demo_oauth = Map.empty"
  "ox_accounts demo_oauth = OAuthRepo demo 0 (Some link_db)"
  by (simp_all add: demo_oauth_def RegisterProvider_def NewOAuthService_def demo_provider_def)

lemma demo_remote: "remote link demo_provider"
  by (simp add: remote_def demo_provider_def)

abbreviation demo_begin :: oauth_event where
  "demo_begin \<equiv> Begin (demo_rand CHR ''a'') (demo_rand CHR ''b'') 0 ''google'' ''acme'' ''/dashboard''"

lemma demo_begun:
  "oauth_run [demo_begin] (demo_oauth, []) = (demo_oauth\<lparr>ox_states := [generateState (demo_rand CHR ''a'') \<mapsto>
      \<lparr>st_CreatedAt = 0, st_CodeChallenge = generateState (demo_rand CHR ''b''), st_TenantID = ''acme'',
       st_RedirectURI = ''/dashboard''\<rparr>]\<rparr>, [])"
  by (simp add: oauth_exec_def BeginAuth_def Let_def)

lemma demo_completed:
  "\<exists>info s' w'. CompleteAuth 5 Background ''google'' (generateState (demo_rand CHR ''a'')) ''g1''
     (oauth_run [demo_begin] (demo_oauth, [])) = (Inr (info, ''''), s', w')"
proof -
  have d: "db_Query link_db c ns dbn sql_oauth_by_provider vs [] = (Inr [AList []], [])" for c ns dbn vs
    by (simp add: link_db_def)
  have e: "\<exists>w'. db_Query link_db c ns dbn sql_oauth_create vs [] = (Inr [AList []], w')" for c ns dbn vs
    by (simp add: link_db_def sql_oauth_create_def sql_oauth_by_provider_def)
  have "\<exists>w'. as_LinkOrCreate (OAuthRepo demo 0 (Some link_db)) Background
     \<lparr>oa_ID = '''', oa_UserID = '''', oa_TenantID = ''acme'', oa_Provider = ''google'', oa_ProviderSub = ''g1'',
      oa_CreatedAt = zero_time\<rparr> [] = (Inr '''', w')"
  proof -
    have "oauth_FindByProvider demo (Some link_db) Background ''google'' ''g1'' [] = (Inr None, [])"
      by (simp add: oauth_FindByProvider_def tenant_Query_def d)
    moreover obtain w' where "tenant_Query link_db Background sql_oauth_create
        [(''id'', AStr ''oauth_google_g1''), (''uid'', AStr ''''), (''tid'', AStr ''acme''), (''prov'', AStr ''google''),
         (''sub'', AStr ''g1''), (''ca'', AStr (FormatRFC3339 demo 0))] [] = (Inr [AList []], w')"
      using e unfolding tenant_Query_def by blast
    ultimately show ?thesis by (simp add: OAuthRepo_def oauth_LinkOrCreate_def Let_def)
  qed
  then show ?thesis unfolding demo_begun
    by (auto simp: CompleteAuth_def demo_provider_def Let_def dur_defs)
qed

section \<open>Properties\<close>

text \<open>No login without a begin: when a callback is accepted after any run of the service, its state was made
  by a \<open>BeginAuth\<close> of that run at most ten minutes before, and no callback with the same state came
  in between.\<close>

theorem oauth_login_begun:
  assumes "ox_states s0 = Map.empty"
    and "CompleteAuth now c p state code (oauth_run es (s0, w0)) = (Inr (info, u), s', w')"
  shows "\<exists>pre e post t. es = pre @ e # post \<and> makes s0 state t e \<and> now - t \<le> 10 * minute \<and>
    \<not> list_ex (uses s0 state) post"
proof -
  obtain s w where sw: "oauth_run es (s0, w0) = (s, w)" by fastforce
  from assms(2) obtain st where st: "ox_states s state = Some st" and now: "now - st_CreatedAt st \<le> 10 * minute"
    unfolding sw by (rule CompleteAuth_accepts)
  from run_state_made [of "(s0, w0)" state es "st_CreatedAt st"] assms(1) st sw
  obtain pre e post where "es = pre @ e # post" "makes s0 state (st_CreatedAt st) e" "\<not> list_ex (uses s0 state) post" by auto
  with now show ?thesis by blast
qed

lemma oauth_login_begun_witness:
  "\<exists>pre e post t. [demo_begin] = pre @ e # post \<and> makes demo_oauth (generateState (demo_rand CHR ''a'')) t e \<and>
    (5 :: time) - t \<le> 10 * minute"
proof -
  obtain info s' w' where "CompleteAuth 5 Background ''google'' (generateState (demo_rand CHR ''a'')) ''g1''
     (oauth_run [demo_begin] (demo_oauth, [])) = (Inr (info, ''''), s', w')" using demo_completed by blast
  from oauth_login_begun [OF demo_oauth_simps(2) this] show ?thesis by blast
qed

text \<open>C16: A state is good for one callback: after one was accepted, every further callback with the same state is
  refused, whatever the service does in between, unless it makes the same state again; the refused
  callback asks no provider and changes nothing.\<close>

theorem oauth_state_single_use:
  assumes "CompleteAuth now c p state code (s, w) = (Inr (info, u), s', w')"
    and "\<not> list_ex (\<lambda>e. \<exists>t. makes s state t e) es"
  shows "\<exists>e. CompleteAuth now2 c2 p2 state code2 (oauth_run es (s', w')) = (Inl e, oauth_run es (s', w'))"
proof -
  from assms(1) have "p \<in> fst ` set (ox_providers s)" by (rule CompleteAuth_accepts)
  with CompleteAuth_state [of now c p state code s w] assms(1)
  have gone: "ox_states s' state = None" and same: "ox_providers s' = ox_providers s" by auto
  obtain s2 w2 where r: "oauth_run es (s', w') = (s2, w2)" by fastforce
  have "ox_states s2 state = None"
    using run_state_gone [of "(s', w')" state es] gone assms(2) r by (simp add: makes_cong [OF same])
  from CompleteAuth_unknown [OF this] show ?thesis by (simp add: r)
qed

lemma oauth_state_single_use_witness:
  "\<exists>s' w' e. CompleteAuth 6 Background ''google'' (generateState (demo_rand CHR ''a'')) ''g1'' (s', w') = (Inl e, s' :: row list OAuthService, w')"
proof -
  let ?st = "generateState (demo_rand CHR ''a'')"
  obtain s w where sw: "oauth_run [demo_begin] (demo_oauth, []) = (s, w)" by fastforce
  then obtain info s' w' where "CompleteAuth 5 Background ''google'' ?st ''g1'' (s, w) = (Inr (info, ''''), s', w')"
    using demo_completed by (metis sw)
  from oauth_state_single_use [OF this, of "[]" 6 Background "''google''" "''g1''"] show ?thesis by auto
qed

text \<open>C18: External logins have no user: the service never gives a link a user id, so that, from a store without
  linked users, every callback accepted in any run signs in the user with the empty id.\<close>

theorem oauth_user_always_empty:
  assumes "link_store as link" and "ox_accounts s0 = as" and "no_users link c w0"
    and "list_all (\<lambda>np. remote link (snd np)) (ox_providers s0)" and "list_all (in_context c) es"
    and "CompleteAuth now c p state code (oauth_run es (s0, w0)) = (Inr (info, u), s', w')"
  shows "u = ''''"
proof -
  obtain s w where sw: "oauth_run es (s0, w0) = (s, w)" by fastforce
  have rem: "remote link pr" if "pr \<in> snd ` set (ox_providers s0)" for pr
    using assms(4) that by (auto simp: list_all_iff)
  have n: "no_users link c w"
    using link_store.run_no_users [OF assms(1), of "(s0, w0)" c es] assms(2,3,5) rem sw by simp
  have "ox_accounts s = as" "ox_providers s = ox_providers s0"
    using run_services [of es "(s0, w0)"] sw assms(2) by simp_all
  with link_store.complete_no_user(2) [OF assms(1) _ n, of s now p state code "Inr (info, u)" s' w' info u] rem assms(6) sw
  show ?thesis by simp
qed

lemma oauth_user_always_empty_witness:
  "\<exists>info s' w'. CompleteAuth 5 Background ''google'' (generateState (demo_rand CHR ''a'')) ''g1''
     (oauth_run [demo_begin] (demo_oauth, [])) = (Inr (info, ''''), s', w')"
proof -
  obtain info s' w' where r: "CompleteAuth 5 Background ''google'' (generateState (demo_rand CHR ''a'')) ''g1''
     (oauth_run [demo_begin] (demo_oauth, [])) = (Inr (info, ''''), s', w')" using demo_completed by blast
  have "link_store (OAuthRepo demo 0 (Some link_db)) (link_view link_db link_rows)"
    by (rule link_db.repo.link_store_axioms)
  moreover have "no_users (link_view link_db link_rows) Background []"
    by (simp add: no_users_def link_view_def link_rows_def)
  ultimately have "('''' :: string) = ''''"
    by (rule oauth_user_always_empty [OF _ demo_oauth_simps(3) _ _ _ r]) (simp_all add: demo_remote in_context_def)
  with r show ?thesis by blast
qed

end
