(* ===== verification/OAuthHandler.thy ===== *)
theory OAuthHandler
  imports PasskeyHandler OAuth
begin

text \<open>
  The routes of external sign-in (internal/interfaces/http/handlers/oauth_handler.go).  The provider is
  the path parameter that the router cuts out of the request.
\<close>

record 'w OAuthHandler =
  oh_tokens :: "'w SessionAuthService"
  oh_tenantResolver :: "'w TenantResolver option"

definition state_cookie :: "string \<Rightarrow> cookie" where
  "state_cookie state = auth_cookie ''oauth_state'' state 600 True"

definition dead_state_cookie :: cookie where
  "dead_state_cookie = \<lparr>ck_Name = ''oauth_state'', ck_Value = '''', ck_Path = ''/'', ck_MaxAge = - 1,
     ck_HttpOnly = False, ck_Secure = False, ck_Lax = False\<rparr>"

definition oh_BeginAuth :: "rand \<Rightarrow> rand \<Rightarrow> time \<Rightarrow> string \<Rightarrow> request \<Rightarrow> (unit, 'w OAuthService \<times> 'w) act" where
  "oh_BeginAuth r1 r2 now provider r =
     (if provider = '''' then respond (http_Error ''provider required'' 400)
      else let tenantID = GetTenantID (rq_Context r);
               redirectURI = (if QueryGet r ''redirect_uri'' = '''' then ''/dashboard'' else QueryGet r ''redirect_uri'') in
      bind_act (world_do (\<lambda>(s, w). case BeginAuth r1 r2 now provider tenantID redirectURI s of (x, s1) \<Rightarrow> (x, (s1, w)))) (\<lambda>begun.
      case begun of
        Inl e \<Rightarrow> respond (http_Error ''OAuth not available'' 400)
      | Inr (authURL, state) \<Rightarrow>
          after (respond (SetCookie (state_cookie state))) (respond (Redirect authURL 307))))"

definition oh_Callback :: "runtime \<Rightarrow> 'w OAuthHandler \<Rightarrow> string \<Rightarrow> request \<Rightarrow> (unit, 'w OAuthService \<times> 'w) act" where
  "oh_Callback rt h provider r =
     (let code = (if QueryGet r ''code'' = '''' then FormValue r ''code'' else QueryGet r ''code'');
          state = (if QueryGet r ''state'' = '''' then FormValue r ''state'' else QueryGet r ''state'') in
      if code = '''' then respond (http_Error ''code required'' 400)
      else if Cookie r ''oauth_state'' \<noteq> Some state then respond (http_Error ''invalid state'' 400)
      else after (respond (SetCookie dead_state_cookie))
        (bind_act (world_do (CompleteAuth (rt_now rt) (rq_Context r) provider state code)) (\<lambda>res.
         case res of
           Inl e \<Rightarrow> respond (http_Error ''OAuth failed'' 500)
         | Inr (info, userID) \<Rightarrow>
             bind_act (within (tenant_or (rt_lib rt) (oh_tenantResolver h) r (ou_Email info) ''public'')) (\<lambda>tenantID.
             bind_act (within (issue_worker rt (oh_tokens h) r userID tenantID)) (\<lambda>(pair, err).
             if err \<noteq> None then respond (http_Error ''auth failed'' 500)
             else after (respond (setAuthCookies pair))
               (let redirect = (if QueryGet r ''redirect_uri'' \<noteq> '''' then QueryGet r ''redirect_uri'' else ''/dashboard'') in
                if HeaderGet r ''Hx-Request'' = ''true'' then
                  respond (\<lambda>w. WriteHeader 200 (SetHeader ''HX-Redirect'' redirect w))
                else respond (Redirect redirect 303)))))))"

definition oh_GetProviders :: "'w OAuthService \<Rightarrow> string list" where
  "oh_GetProviders s = GetProviders s"


section \<open>The state of a callback\<close>

text \<open>C17: A callback works only in the browser that began the sign-in: without an \<open>oauth_state\<close> cookie equal
  to the state it carries it is answered with 400, no provider is asked, no session is issued and the
  pending states stay as they are; and \<open>BeginAuth\<close> gives the browser the very state that it registers and
  puts into the address of the provider.\<close>

theorem callback_needs_state:
  assumes "rs_status resp = None"
    and "Cookie r ''oauth_state'' \<noteq> Some (if QueryGet r ''state'' = '''' then FormValue r ''state'' else QueryGet r ''state'')"
    and "map_of (ox_providers os) provider = Some p" and "provider \<noteq> ''''"
  shows "(\<exists>resp'. oh_Callback rt h provider r ((os, w), resp) = (Ret (), (os, w), resp') \<and> status_of resp' = 400 \<and>
      rs_cookies resp' = rs_cookies resp) \<and>
    (\<exists>os' resp' challenge. oh_BeginAuth r1 r2 now provider r2q ((os, w), resp) = (Ret (), (os', w), resp') \<and>
      rs_cookies resp' = rs_cookies resp @ [state_cookie (generateState r1)] \<and>
      header_of resp' ''Location'' = op_AuthURL p (generateState r1) challenge \<and> ox_states os' (generateState r1) \<noteq> None)"
proof
  show "\<exists>resp'. oh_Callback rt h provider r ((os, w), resp) = (Ret (), (os, w), resp') \<and> status_of resp' = 400 \<and>
      rs_cookies resp' = rs_cookies resp"
    using assms(1,2) by (auto simp: oh_Callback_def Let_def status_of_def)
  show "\<exists>os' resp' challenge. oh_BeginAuth r1 r2 now provider r2q ((os, w), resp) = (Ret (), (os', w), resp') \<and>
      rs_cookies resp' = rs_cookies resp @ [state_cookie (generateState r1)] \<and>
      header_of resp' ''Location'' = op_AuthURL p (generateState r1) challenge \<and> ox_states os' (generateState r1) \<noteq> None"
    using assms(3,4)
    by (intro exI [of _ "snd (BeginAuth r1 r2 now provider (GetTenantID (rq_Context r2q))
            (if QueryGet r2q ''redirect_uri'' = '''' then ''/dashboard'' else QueryGet r2q ''redirect_uri'') os)"]
          exI [of _ "Redirect (op_AuthURL p (generateState r1) (generateState r2)) 307 (SetCookie (state_cookie (generateState r1)) resp)"]
          exI [of _ "generateState r2"])
      (simp add: oh_BeginAuth_def BeginAuth_def Let_def after_def bind_act_def header_of_def Redirect_def)
qed

definition web_oauth :: "row list OAuthHandler" where
  "web_oauth = \<lparr>oh_tokens = NewTokenService None None, oh_tenantResolver = None\<rparr>"

lemma callback_needs_state_witness:
  "\<exists>resp'. oh_Callback web_rt web_oauth ''google'' (a_request\<lparr>rq_Query := [(''code'', ''c''), (''state'', ''forged'')],
       rq_Cookies := [(''oauth_state'', ''mine'')]\<rparr>) ((demo_oauth, []), fresh_response) = (Ret (), (demo_oauth, []), resp') \<and>
     status_of resp' = 400"
proof -
  have p: "map_of (ox_providers demo_oauth) ''google'' = Some demo_provider" by simp
  define r where "r = a_request\<lparr>rq_Query := [(''code'', ''c''), (''state'', ''forged'')], rq_Cookies := [(''oauth_state'', ''mine'')]\<rparr>"
  have "Cookie r ''oauth_state'' \<noteq> Some (if QueryGet r ''state'' = '''' then FormValue r ''state'' else QueryGet r ''state'')"
    by (simp add: r_def Cookie_def QueryGet_def)
  from callback_needs_state [OF fresh_simps(1) this p, of web_rt web_oauth "[]"] show ?thesis
    unfolding r_def by blast
qed

end
