(* ===== verification/Dashboard.thy ===== *)
theory Dashboard
  imports Guard TenantRepo
begin

text \<open>
  The dashboard (internal/interfaces/http/handlers/dashboard_handler.go): the cards of a tenant, built
  from its features, and the five routes that show them.  \<open>marshal\<close> is \<open>json.Marshal\<close>.
\<close>

text \<open>The bytes of a UTF-8 text outside ASCII.\<close>

definition utf8 :: "nat list \<Rightarrow> string" where "utf8 = map byte"

record BentoCard =
  bc_Type :: string
  bc_Title :: string
  bc_Value :: string
  bc_Text :: string
  bc_Label :: string
  bc_URL :: string
  bc_Icon :: string

record DashboardData =
  dd_Context :: string
  dd_Type :: string
  dd_Name :: string
  dd_TenantID :: string
  dd_Features :: "string list"
  dd_Cards :: "BentoCard list"

text \<open>
  The JSON values; a field marked \<open>omitempty\<close> is left out when it is empty.  A nil slice of features,
  which is written as null, is the empty list here.
\<close>

definition omit_empty :: "string \<Rightarrow> string \<Rightarrow> row" where
  "omit_empty k v = (if v = '''' then [] else [(k, AStr v)])"

definition card_json :: "BentoCard \<Rightarrow> any" where
  "card_json b = AMap ([(''type'', AStr (bc_Type b)), (''title'', AStr (bc_Title b))] @ omit_empty ''value'' (bc_Value b) @
     omit_empty ''text'' (bc_Text b) @ omit_empty ''label'' (bc_Label b) @ omit_empty ''url'' (bc_URL b) @
     omit_empty ''icon'' (bc_Icon b))"

definition data_json :: "DashboardData \<Rightarrow> any" where
  "data_json d = AMap [(''@context'', AStr (dd_Context d)), (''@type'', AStr (dd_Type d)), (''name'', AStr (dd_Name d)),
     (''tenant_id'', AStr (dd_TenantID d)), (''features'', AList (map AStr (dd_Features d))),
     (''cards'', AList (map card_json (dd_Cards d)))]"

type_synonym 'w tenant_getter = "ctx \<Rightarrow> string \<Rightarrow> 'w \<Rightarrow> (goerr + Tenant option) \<times> 'w"

record 'w DashboardHandler =
  dh_tenants :: "'w tenant_getter option"

definition NewDashboardHandler :: "'w DashboardHandler" where
  "NewDashboardHandler = \<lparr>dh_tenants = None\<rparr>"

definition NewDashboardHandlerWithTenant :: "'w tenant_getter \<Rightarrow> 'w DashboardHandler" where
  "NewDashboardHandlerWithTenant tenants = \<lparr>dh_tenants = Some tenants\<rparr>"

definition default_features :: "string list" where
  "default_features = [''flights'', ''crew'', ''gates'', ''fuel'', ''weather'', ''messages'']"

definition bento :: "string \<Rightarrow> string \<Rightarrow> string \<Rightarrow> string \<Rightarrow> string \<Rightarrow> string \<Rightarrow> BentoCard" where
  "bento ty title val txt label icon = \<lparr>bc_Type = ty, bc_Title = title, bc_Value = val, bc_Text = txt,
     bc_Label = label, bc_URL = '''', bc_Icon = icon\<rparr>"

definition feature_card :: "string \<Rightarrow> BentoCard" where
  "feature_card f =
     (if f = ''flights'' then bento ''stats'' ''Active Flights'' ''12'' '''' ''currently in operation'' (utf8 [226, 156, 136, 239, 184, 143])
      else if f = ''crew'' then bento ''stats'' ''Crew On Duty'' ''47'' '''' ''3 schedule changes'' (utf8 [240, 159, 145, 165])
      else if f = ''gates'' then bento ''stats'' ''Gate Utilisation'' ''87%'' '''' ''+3% vs yesterday'' (utf8 [240, 159, 154, 170])
      else if f = ''fuel'' then bento ''stats'' ''Fuel Orders'' ''6'' '''' ''2 pending delivery'' (utf8 [226, 155, 189])
      else if f = ''weather'' then bento ''fact'' ''Weather Briefing'' '''' ''METAR EGLL 181250Z 26012KT 9999 FEW045 22/14 Q1015'' '''' (utf8 [240, 159, 140, 164, 239, 184, 143])
      else if f = ''messages'' then bento ''stats'' ''Messages'' ''5'' '''' ''2 urgent'' (utf8 [240, 159, 146, 172])
      else if f = ''delay'' then bento ''action'' ''Delay Report'' '''' (''BA2490 '' @ utf8 [226, 128, 148] @ '' 45min delay, mechanical. Passenger rebooking initiated.'') '''' (utf8 [226, 143, 177, 239, 184, 143])
      else if f = ''ramp'' then bento ''action'' ''Ramp Check'' '''' (''Stand 14 '' @ utf8 [226, 128, 148] @ '' pushback approved. Ground crew: Team Bravo.'') '''' (utf8 [240, 159, 154, 155])
      else if f = ''on_time'' then bento ''stats'' ''On-Time Rate'' ''94%'' '''' ''above target 90%'' (utf8 [240, 159, 147, 138])
      else bento ''fact'' f '''' ''Feature configured for this tenant.'' '''' (utf8 [240, 159, 147, 139]))"

definition quick_actions :: BentoCard where
  "quick_actions = bento ''action'' ''Quick Actions'' '''' (''Delay report '' @ utf8 [194, 183] @ '' Ramp check '' @ utf8 [194, 183] @ '' Fuel order '' @ utf8 [194, 183] @ '' Crew swap'') '''' (utf8 [226, 154, 161])"

fun feature_cards :: "string list \<Rightarrow> BentoCard list \<Rightarrow> BentoCard list" where
  "feature_cards [] cards = cards"
| "feature_cards (f # fs) cards = feature_cards fs (cards @ [feature_card f])"

definition getDashboardData :: "'w DashboardHandler \<Rightarrow> request \<Rightarrow> 'w \<Rightarrow> DashboardData \<times> 'w" where
  "getDashboardData h r w =
     (let tenantID = (if GetTenantID (rq_Context r) = '''' then ''public'' else GetTenantID (rq_Context r));
          (features, w1) =
            (case dh_tenants h of
               None \<Rightarrow> (default_features, w)
             | Some get_tenant \<Rightarrow>
                 (case get_tenant (rq_Context r) tenantID w of
                    (Inr (Some tenant), w') \<Rightarrow> (t_Features tenant, w')
                  | (_, w') \<Rightarrow> (default_features, w')));
          cards = feature_cards features [] @ [quick_actions]
      in (\<lparr>dd_Context = ''https://schema.org'', dd_Type = ''Dashboard'', dd_Name = ''Loxtu Dashboard'',
           dd_TenantID = tenantID, dd_Features = features, dd_Cards = cards\<rparr>, w1))"

definition dash_json :: "'w DashboardHandler \<Rightarrow> request \<Rightarrow> (unit, 'w) act" where
  "dash_json h r = bind_act (world_do (getDashboardData h r)) (\<lambda>d. respond (WriteJSON 200 (Value (data_json d))))"

definition DashboardPage :: "(any \<Rightarrow> string) \<Rightarrow> 'w DashboardHandler \<Rightarrow> request \<Rightarrow> (unit, 'w) act" where
  "DashboardPage marshal h r =
     bind_act (world_do (getDashboardData h r)) (\<lambda>d.
     let email = (if GetEmail r = '''' then ''user@loxtu.com'' else GetEmail r) in
     if WantsJSON r then respond (WriteJSON 200 (Value (data_json d)))
     else respond (Render ''DashboardShell'' [email, marshal (data_json d)]))"

definition Grid :: "'w DashboardHandler \<Rightarrow> request \<Rightarrow> (unit, 'w) act" where
  "Grid h r = (if WantsJSON r then dash_json h r else respond (Render ''DashboardGrid'' []))"

definition DashboardJSON :: "'w DashboardHandler \<Rightarrow> request \<Rightarrow> (unit, 'w) act" where
  "DashboardJSON h r = dash_json h r"

definition trigger :: "string \<Rightarrow> string" where
  "trigger event = [CHR ''{'', CHR 0x22] @ event @ [CHR 0x22] @ '':true}''"

definition DetailPanel :: "request \<Rightarrow> (unit, 'w) act" where
  "DetailPanel r =
     (let title = QueryGet r ''title''; val = QueryGet r ''value''; label = QueryGet r ''label'';
          detail = ''Detailed information about '' @ title @ ''. Current value is '' @ val @ ''. '' @ label in
      if WantsJSON r then respond (WriteJSON 200 (json [(''title'', title), (''value'', val), (''label'', label), (''detail'', detail)]))
      else respond (\<lambda>w. Render ''DetailPanelContent'' [title, val, label, detail]
             (SetHeader ''HX-Trigger-After-Swap'' (trigger ''openDetailPanel'') w)))"

definition ClosePanel :: "request \<Rightarrow> (unit, 'w) act" where
  "ClosePanel r = respond (\<lambda>w. WriteBody (Text '''')
     (SetHeader ''HX-Trigger-After-Swap'' (trigger ''closeDetailPanel'') w))"

lemma feature_cards_eq: "feature_cards fs cards = cards @ map feature_card fs"
  by (induction fs arbitrary: cards) simp_all

lemma dashboard_of_tenant:
  assumes "GetTenantID (rq_Context r) = t" and "t \<noteq> ''''" and "dh_tenants h = Some get_tenant"
    and "get_tenant (rq_Context r) t w = (Inr (Some tenant), w1)"
  shows "\<exists>resp'. DashboardJSON h r (w, resp) = (Ret (), w1, resp') \<and>
    rs_bodies resp' = rs_bodies resp @ [Value (AMap [(''@context'', AStr ''https://schema.org''), (''@type'', AStr ''Dashboard''),
      (''name'', AStr ''Loxtu Dashboard''), (''tenant_id'', AStr t), (''features'', AList (map AStr (t_Features tenant))),
      (''cards'', AList (map card_json (map feature_card (t_Features tenant) @ [quick_actions])))])]"
  using assms by (simp add: DashboardJSON_def dash_json_def getDashboardData_def data_json_def feature_cards_eq Let_def)

end
