(* ===== verification/Csrf.thy ===== *)
theory Csrf
  imports Http
begin

text \<open>
  The CSRF middleware (internal/interfaces/http/middleware/csrf.go): a set of outstanding tokens, a
  cookie with a fresh token for a page, and the check of a token on POST, PUT and DELETE.  The
  lemmas say exactly which requests reach the next handler and what becomes of the tokens.
\<close>

text \<open>\<open>rand.Read\<close>'s error is ignored: the buffer then stays zero.\<close>

definition generateCSRFToken :: "rand \<Rightarrow> string" where
  "generateCSRFToken r = (case r 32 of
     Inr b \<Rightarrow> hex_EncodeToString b
   | Inl e \<Rightarrow> hex_EncodeToString (replicate 32 (byte 0)))"

definition csrf_cookie :: "string \<Rightarrow> cookie" where
  "csrf_cookie token = \<lparr>ck_Name = ''loxtu_csrf'', ck_Value = token, ck_Path = ''/'', ck_MaxAge = 0,
     ck_HttpOnly = False, ck_Secure = True, ck_Lax = True\<rparr>"

text \<open>The middleware's own state is beside that of the next handler.\<close>

type_synonym 'w csrf_state = "string set \<times> 'w io"

definition run_next :: "'w handler \<Rightarrow> request \<Rightarrow> 'w csrf_state \<Rightarrow> unit go \<times> 'w csrf_state" where
  "run_next next_h r s = (let (x, io) = next_h r (snd s) in (x, fst s, io))"

definition csrf_reply :: "(response \<Rightarrow> response) \<Rightarrow> 'w csrf_state \<Rightarrow> 'w csrf_state" where
  "csrf_reply f s = (fst s, fst (snd s), f (snd (snd s)))"

fun any_prefix :: "string list \<Rightarrow> string \<Rightarrow> bool" where
  "any_prefix [] path = False"
| "any_prefix (p # ps) path = (if HasPrefix path p then True else any_prefix ps path)"

definition CSRF :: "string list \<Rightarrow> rand \<Rightarrow> 'w handler \<Rightarrow> request \<Rightarrow> 'w csrf_state \<Rightarrow> unit go \<times> 'w csrf_state" where
  "CSRF publicPaths rnd next_h r s =
     (if any_prefix publicPaths (rq_Path r) then run_next next_h r s
      else if HasPrefix (HeaderGet r ''Accept'') ''application/json'' \<or>
              HeaderGet r ''X-Requested-With'' = ''XMLHttpRequest'' then run_next next_h r s
      else if rq_Method r = ''GET'' \<or> rq_Method r = ''HEAD'' then
        (let token = generateCSRFToken rnd
         in run_next next_h r (csrf_reply (SetCookie (csrf_cookie token)) (insert token (fst s), snd s)))
      else if rq_Method r = ''POST'' \<or> rq_Method r = ''PUT'' \<or> rq_Method r = ''DELETE'' then
        (let token0 = HeaderGet r ''X-Csrf-Token'';
             token = (if token0 = '''' then FormValue r ''_csrf'' else token0)
         in case Cookie r ''loxtu_csrf'' of
              None \<Rightarrow> (Ret (), csrf_reply (http_Error ''CSRF token missing'' 403) s)
            | Some cv \<Rightarrow>
               (if cv = '''' then (Ret (), csrf_reply (http_Error ''CSRF token missing'' 403) s)
                else (let got = TrimSpace token; expected = TrimSpace cv;
                          valid = (got \<in> fst s);
                          s1 = (if valid then (fst s - {got}, snd s) else s)
                      in if \<not> valid then (Ret (), csrf_reply (http_Error ''CSRF token invalid'' 403) s1)
                         else if got \<noteq> expected then (Ret (), csrf_reply (http_Error ''CSRF token invalid'' 403) s1)
                         else (let newToken = generateCSRFToken rnd
                               in run_next next_h r (csrf_reply (SetCookie (csrf_cookie newToken))
                                    (insert newToken (fst s1), snd s1))))))
      else run_next next_h r s)"

section \<open>Which requests are checked\<close>

lemma any_prefix_iff: "any_prefix ps path \<longleftrightarrow> (\<exists>p \<in> set ps. HasPrefix path p)"
  by (induction ps) auto

definition csrf_checked :: "string list \<Rightarrow> request \<Rightarrow> bool" where
  "csrf_checked ps r \<longleftrightarrow> \<not> any_prefix ps (rq_Path r) \<and>
     \<not> HasPrefix (HeaderGet r ''Accept'') ''application/json'' \<and>
     HeaderGet r ''X-Requested-With'' \<noteq> ''XMLHttpRequest'' \<and>
     rq_Method r \<in> {''POST'', ''PUT'', ''DELETE''}"

definition submitted_token :: "request \<Rightarrow> string" where
  "submitted_token r = TrimSpace (if HeaderGet r ''X-Csrf-Token'' = '''' then FormValue r ''_csrf''
     else HeaderGet r ''X-Csrf-Token'')"

definition csrf_valid :: "string set \<Rightarrow> request \<Rightarrow> bool" where
  "csrf_valid tokens r \<longleftrightarrow> (\<exists>cv. Cookie r ''loxtu_csrf'' = Some cv \<and> cv \<noteq> '''' \<and>
     submitted_token r = TrimSpace cv \<and> submitted_token r \<in> tokens)"

lemma CSRF_checked_cases:
  assumes "csrf_checked ps r"
  shows "CSRF ps rnd next_h r (tokens, w, resp) =
    (if csrf_valid tokens r then
       run_next next_h r (insert (generateCSRFToken rnd) (tokens - {submitted_token r}), w,
         SetCookie (csrf_cookie (generateCSRFToken rnd)) resp)
     else (Ret (), (if Cookie r ''loxtu_csrf'' \<in> {None, Some ''''} then tokens else tokens - {submitted_token r}), w,
       http_Error (if Cookie r ''loxtu_csrf'' \<in> {None, Some ''''} then ''CSRF token missing'' else ''CSRF token invalid'') 403 resp))"
proof -
  have m: "rq_Method r \<noteq> ''GET''" "rq_Method r \<noteq> ''HEAD''"
    "rq_Method r = ''POST'' \<or> rq_Method r = ''PUT'' \<or> rq_Method r = ''DELETE''"
    and p: "\<not> any_prefix ps (rq_Path r)" "\<not> HasPrefix (HeaderGet r ''Accept'') ''application/json''"
      "HeaderGet r ''X-Requested-With'' \<noteq> ''XMLHttpRequest''"
    using assms by (auto simp: csrf_checked_def)
  have step: "CSRF ps rnd next_h r (tokens, w, resp) = (case Cookie r ''loxtu_csrf'' of
      None \<Rightarrow> (Ret (), tokens, w, http_Error ''CSRF token missing'' 403 resp)
    | Some cv \<Rightarrow> if cv = '''' then (Ret (), tokens, w, http_Error ''CSRF token missing'' 403 resp)
        else if submitted_token r \<notin> tokens then (Ret (), tokens, w, http_Error ''CSRF token invalid'' 403 resp)
        else if submitted_token r \<noteq> TrimSpace cv
        then (Ret (), tokens - {submitted_token r}, w, http_Error ''CSRF token invalid'' 403 resp)
        else run_next next_h r (insert (generateCSRFToken rnd) (tokens - {submitted_token r}), w,
               SetCookie (csrf_cookie (generateCSRFToken rnd)) resp))"
    unfolding CSRF_def submitted_token_def Let_def
    by (simp only: m p if_False if_True simp_thms) (simp add: csrf_reply_def split: option.splits)
  show ?thesis
  proof (cases "Cookie r ''loxtu_csrf''")
    case None
    then show ?thesis by (simp add: step csrf_valid_def)
  next
    case (Some cv)
    then show ?thesis by (cases "cv = []") (simp_all add: step csrf_valid_def)
  qed
qed

text \<open>The tokens never shrink by a request that is not checked.\<close>

lemma CSRF_unchecked:
  assumes "\<not> csrf_checked ps r"
  shows "\<exists>t w'. CSRF ps rnd next_h r (tokens, w, resp) = run_next next_h r (t, w, w') \<and> tokens \<subseteq> t \<and>
    t \<subseteq> insert (generateCSRFToken rnd) tokens"
  using assms by (auto simp: CSRF_def csrf_checked_def csrf_reply_def Let_def)

section \<open>Properties\<close>

text \<open>A POST, PUT or DELETE that is not exempt reaches the handler only with a token that was issued, is
  still outstanding and equals the cookie; otherwise the answer is 403, no handler runs and the
  world is unchanged.\<close>

theorem csrf_blocks_without_token:
  assumes "csrf_checked ps r" and "\<not> csrf_valid tokens r" and "rs_status resp = None"
  shows "\<exists>t resp'. CSRF ps rnd next_h r (tokens, w, resp) = (Ret (), t, w, resp') \<and> t \<subseteq> tokens \<and>
    rs_status resp' = Some 403 \<and> rs_cookies resp' = rs_cookies resp"
  using assms by (auto simp: CSRF_checked_cases)

lemma csrf_blocks_without_token_witness:
  "\<exists>t resp'. CSRF [''/auth/otp/send''] (\<lambda>n. Inr (replicate n CHR ''t'')) (\<lambda>r. reply (WriteHeader 200))
     (a_request\<lparr>rq_Method := ''POST'', rq_Path := ''/auth/oauth/apple/callback''\<rparr>) ({''tok''}, 7 :: nat, fresh_response)
     = (Ret (), t, 7, resp') \<and> rs_status resp' = Some 403"
proof -
  let ?r = "a_request\<lparr>rq_Method := ''POST'', rq_Path := ''/auth/oauth/apple/callback''\<rparr>"
  have "csrf_checked [''/auth/otp/send''] ?r"
    by (simp add: csrf_checked_def a_request_def HeaderGet_def HasPrefix_def)
  moreover have "\<not> csrf_valid {''tok''} ?r" by (simp add: csrf_valid_def Cookie_def a_request_def)
  ultimately show ?thesis
    using csrf_blocks_without_token [of "[''/auth/otp/send'']" ?r "{''tok''}" fresh_response
        "\<lambda>n. Inr (replicate n CHR ''t'')" "\<lambda>r. reply (WriteHeader 200)" 7] by auto
qed

text \<open>C21: A token is good for one request: after a checked request with a valid token the next handler has
  run on a state in which the token is spent and a fresh one, set as the cookie, is outstanding;
  replaying the same request with the next handler's tokens is refused.\<close>

theorem csrf_token_single_use:
  assumes "csrf_checked ps r" and "csrf_valid tokens r" and "generateCSRFToken rnd \<noteq> submitted_token r"
    and "CSRF ps rnd next_h r (tokens, w, resp) = (x, tokens', w', resp')"
  shows "tokens' = insert (generateCSRFToken rnd) (tokens - {submitted_token r}) \<and> \<not> csrf_valid tokens' r"
  using assms by (auto simp: CSRF_checked_cases run_next_def csrf_valid_def split: prod.splits)

lemma csrf_token_single_use_witness:
  "\<not> csrf_valid (fst (snd (CSRF [] (\<lambda>n. Inr (replicate n CHR ''t'')) (\<lambda>r. reply (WriteHeader 200))
     (a_request\<lparr>rq_Method := ''POST'', rq_Header := [(''X-Csrf-Token'', ''tok'')], rq_Cookies := [(''loxtu_csrf'', ''tok'')]\<rparr>)
       ({''tok''}, 7 :: nat, fresh_response))))
     (a_request\<lparr>rq_Method := ''POST'', rq_Header := [(''X-Csrf-Token'', ''tok'')], rq_Cookies := [(''loxtu_csrf'', ''tok'')]\<rparr>)"
proof -
  let ?r = "a_request\<lparr>rq_Method := ''POST'', rq_Header := [(''X-Csrf-Token'', ''tok'')], rq_Cookies := [(''loxtu_csrf'', ''tok'')]\<rparr>"
  let ?rnd = "\<lambda>n. Inr (replicate n CHR ''t'') :: goerr + string"
  have t: "TrimSpace ''tok'' = ''tok''" by (simp add: TrimSpace_visible visible_def)
  have "csrf_checked [] ?r" by (simp add: csrf_checked_def a_request_def HeaderGet_def HasPrefix_def)
  moreover have "csrf_valid {''tok''} ?r"
    using t by (simp add: csrf_valid_def Cookie_def submitted_token_def HeaderGet_def)
  moreover have "length (generateCSRFToken ?rnd) = 64" by (simp add: generateCSRFToken_def)
  then have "generateCSRFToken ?rnd \<noteq> submitted_token ?r"
    using t by (auto simp: submitted_token_def HeaderGet_def)
  moreover obtain x t' w' resp' where
    "CSRF [] ?rnd (\<lambda>r. reply (WriteHeader 200)) ?r ({''tok''}, 7 :: nat, fresh_response) = (x, t', w', resp')"
    by (metis surj_pair)
  ultimately show ?thesis
    using csrf_token_single_use [of "[]" ?r "{''tok''}" ?rnd "\<lambda>r. reply (WriteHeader 200)" 7 fresh_response] by auto
qed

end
