(* ===== verification/SlidingWindow.thy ===== *)
theory SlidingWindow
  imports Http
begin

text \<open>
  The rate-limit middleware (internal/interfaces/http/middleware/ratelimit.go): a sliding window of
  time stamps per key, the rules by path prefix and the general limit by address.  The lemmas bound
  the requests let through in any window and say when a refused caller is let in again.
\<close>

section \<open>The window\<close>

record slidingWindow =
  sw_entries :: "time list"
  sw_limit :: int
  sw_window :: duration

type_synonym rateLimiter = "string \<Rightarrow> slidingWindow option"

definition newRateLimiter :: rateLimiter where "newRateLimiter = Map.empty"

text \<open>
  The result is the answer and the time to wait.  The first request of a key is recorded without a
  look at the limit; with a full window the oldest entry is read, and \<open>sw.entries[0]\<close> panics when
  the limit is not positive and no entry is left.
\<close>

definition rl_allow :: "time \<Rightarrow> string \<Rightarrow> int \<Rightarrow> duration \<Rightarrow> rateLimiter \<Rightarrow> (bool \<times> duration) go \<times> rateLimiter" where
  "rl_allow now key limit window rl =
     (case rl key of
        None \<Rightarrow> (Ret (True, 0), rl(key \<mapsto> \<lparr>sw_entries = [now], sw_limit = limit, sw_window = window\<rparr>))
      | Some sw \<Rightarrow>
          (let cutoff = now - window;
               valid = filter (\<lambda>t. cutoff < t) (sw_entries sw);
               sw1 = sw\<lparr>sw_entries := valid\<rparr>
           in if int (length valid) \<ge> limit then
                (case valid of
                   [] \<Rightarrow> (Panic ''index out of range'', rl(key \<mapsto> sw1))
                 | t # _ \<Rightarrow> (Ret (False, t + window - now), rl(key \<mapsto> sw1)))
              else (Ret (True, 0), rl(key \<mapsto> sw1\<lparr>sw_entries := valid @ [now]\<rparr>))))"

definition let_in :: "(bool \<times> duration) go \<Rightarrow> bool" where
  "let_in r = (case r of Ret (b, _) \<Rightarrow> b | Panic _ \<Rightarrow> False)"

lemma let_in_simps [simp]: "let_in (Ret (b, d)) = b" "\<not> let_in (Panic p)"
  by (simp_all add: let_in_def)

definition stamps :: "rateLimiter \<Rightarrow> string \<Rightarrow> time list" where
  "stamps rl k = (case rl k of None \<Rightarrow> [] | Some sw \<Rightarrow> sw_entries sw)"

lemma rl_allow_cases:
  fixes k :: string and rl :: rateLimiter
  assumes "1 \<le> limit" and "0 < window"
  defines "valid \<equiv> \<lambda>now. filter (\<lambda>t. now - window < t) (stamps rl k)"
  shows "let_in (fst (rl_allow now k limit window rl)) \<longleftrightarrow> int (length (valid now)) < limit"
    and "stamps (snd (rl_allow now k limit window rl)) k
      = valid now @ (if int (length (valid now)) < limit then [now] else [])"
    and "k' \<noteq> k \<Longrightarrow> snd (rl_allow now k limit window rl) k' = rl k'"
    and "\<not> is_panic (fst (rl_allow now k limit window rl))"
  using assms(1,2)
  by (auto simp: rl_allow_def stamps_def valid_def Let_def split: option.splits list.splits)

text \<open>The clock at successive calls on a key; the time stamps let in.\<close>

primrec admitted :: "string \<Rightarrow> int \<Rightarrow> duration \<Rightarrow> time list \<Rightarrow> rateLimiter \<Rightarrow> time list" where
  "admitted k limit window [] rl = []"
| "admitted k limit window (t # ts) rl =
     (let (r, rl1) = rl_allow t k limit window rl
      in (if let_in r then [t] else []) @ admitted k limit window ts rl1)"

lemma admitted_Cons:
  "admitted k limit window (t # ts) rl =
    (if let_in (fst (rl_allow t k limit window rl)) then [t] else []) @
    admitted k limit window ts (snd (rl_allow t k limit window rl))"
  by (simp add: split_beta)

declare admitted.simps(2) [simp del]

lemma admitted_sub: "set (admitted k l w ts rl) \<subseteq> set ts"
  by (induction ts arbitrary: rl) (auto simp: admitted_Cons)

lemma filter_length_mono: "(\<And>x. x \<in> set xs \<Longrightarrow> P x \<Longrightarrow> Q x) \<Longrightarrow> length (filter P xs) \<le> length (filter Q xs)"
  by (induction xs) auto

text \<open>
  In every half-open interval of one window's length the stamps in the table together with those
  let in later are at most the limit, when the clock does not run backwards.
\<close>

lemma window_bound:
  assumes "1 \<le> limit" and "0 < window"
    and "sorted (stamps rl k @ ts)"
    and "int (length (filter (\<lambda>t. a \<le> t \<and> t < a + window) (stamps rl k))) \<le> limit"
  shows "int (length (filter (\<lambda>t. a \<le> t \<and> t < a + window)
     (stamps rl k @ admitted k limit window ts rl))) \<le> limit"
  using assms(3,4)
proof (induction ts arbitrary: rl)
  case Nil
  then show ?case by simp
next
  case (Cons t ts)
  let ?in = "\<lambda>x. a \<le> x \<and> x < a + window"
  let ?valid = "filter (\<lambda>x. t - window < x) (stamps rl k)"
  let ?rl1 = "snd (rl_allow t k limit window rl)"
  note rc = rl_allow_cases [OF assms(1,2), where now = t and k = k and rl = rl]
  have le: "\<forall>x \<in> set (stamps rl k). x \<le> t" and ts: "\<forall>x \<in> set ts. t \<le> x" and so: "sorted (stamps rl k)" "sorted ts"
    using Cons.prems(1) by (auto simp: sorted_append)
  have s1: "stamps ?rl1 k = ?valid @ (if int (length ?valid) < limit then [t] else [])" by (rule rc(2))
  have sorted1: "sorted (stamps ?rl1 k @ ts)"
  proof -
    have "sorted ?valid" using so(1) sorted_filter [of "\<lambda>x. x"] by simp
    then show ?thesis using so le ts unfolding s1 by (auto simp: sorted_append intro: order_trans)
  qed
  have b1: "int (length (filter ?in (stamps ?rl1 k))) \<le> limit"
  proof (cases "int (length ?valid) < limit")
    case True
    have "length (filter ?in ?valid) \<le> length ?valid" by (rule length_filter_le)
    with True show ?thesis unfolding s1 by simp
  next
    case False
    have "length (filter ?in ?valid) \<le> length (filter ?in (stamps rl k))"
      by (simp add: filter_filter) (rule filter_length_mono, simp)
    with False Cons.prems(2) show ?thesis unfolding s1 by simp
  qed
  note IH = Cons.IH [OF sorted1 b1]
  let ?adm = "admitted k limit window ts ?rl1"
  have adm: "admitted k limit window (t # ts) rl = (if int (length ?valid) < limit then [t] else []) @ ?adm"
    using rc(1) by (simp add: admitted_Cons)
  have split: "length (filter ?in (stamps rl k @ admitted k limit window (t # ts) rl))
     = length (filter ?in (stamps rl k)) + length (filter ?in (if int (length ?valid) < limit then [t] else []))
       + length (filter ?in ?adm)"
    unfolding adm by simp
  show ?case
  proof (cases "?in t \<or> t < a")
    case True
    have "filter ?in ?valid = filter ?in (stamps rl k)"
      unfolding filter_filter by (rule filter_cong) (use True in auto)
    with IH s1 split show ?thesis by (auto split: if_splits)
  next
    case False
    then have "a + window \<le> t" by auto
    with ts admitted_sub [of k limit window ts ?rl1] have "filter ?in ?adm = []"
      by (fastforce simp: filter_empty_conv)
    moreover have "\<not> ?in t" using \<open>a + window \<le> t\<close> by simp
    ultimately show ?thesis using split Cons.prems(2) by simp
  qed
qed

text \<open>A refused caller who comes back after the announced wait is let in, if nobody else called since.\<close>

lemma retry_after_works:
  assumes "1 \<le> limit" and "0 < window" and "sorted (stamps rl k)"
    and "\<forall>x \<in> set (stamps rl k). x \<le> now" and "int (length (stamps rl k)) \<le> limit"
    and "rl_allow now k limit window rl = (Ret (False, d), rl1)" and "now + d \<le> now'"
  shows "0 < d \<and> d \<le> window \<and> let_in (fst (rl_allow now' k limit window rl1))"
proof -
  let ?valid = "filter (\<lambda>t. now - window < t) (stamps rl k)"
  from assms(6) obtain t rest where v: "?valid = t # rest" and d: "d = t + window - now"
    by (auto simp: rl_allow_def stamps_def Let_def split: option.splits list.splits if_splits)
  have t: "now - window < t" "t \<in> set (stamps rl k)"
  proof -
    have "t \<in> set ?valid" by (simp add: v)
    then show "now - window < t" "t \<in> set (stamps rl k)" by simp_all
  qed
  then have tn: "t \<le> now" using assms(4) by blast
  note rc = rl_allow_cases [OF assms(1,2), where now = now and k = k and rl = rl]
  have full: "\<not> int (length ?valid) < limit" using rc(1) assms(6) by simp
  then have s1: "stamps rl1 k = t # rest" using rc(2) assms(6) v by simp
  have "length ?valid \<le> length (stamps rl k)" by simp
  with full assms(5) v have len: "int (length (t # rest)) = limit" by simp
  have "now' - window \<ge> t" using assms(7) d by simp
  then have "length (filter (\<lambda>x. now' - window < x) (t # rest)) \<le> length rest"
    by simp
  with len have "int (length (filter (\<lambda>x. now' - window < x) (stamps rl1 k))) < limit"
    unfolding s1 by simp
  then have "let_in (fst (rl_allow now' k limit window rl1))"
    using rl_allow_cases(1) [OF assms(1,2), where now = now' and k = k and rl = rl1] by simp
  with t(1) tn d assms(2) show ?thesis by simp
qed

section \<open>The middleware\<close>

record RateLimitRule =
  rr_Pattern :: string
  rr_Limit :: int
  rr_Window :: duration
  rr_KeyFunc :: "request \<Rightarrow> string"
  rr_Methods :: "string list"

text \<open>\<open>itoa\<close> writes the digits into a buffer of ten bytes: an eleventh digit is out of range.\<close>

function itoa_digits :: "int \<Rightarrow> string \<Rightarrow> string go" where
  "itoa_digits n buf =
     (if n > 0 then
        (if length buf < 10 then itoa_digits (n div 10) (byte (nat (48 + n mod 10)) # buf)
         else Panic ''index out of range'')
      else Ret buf)"
  by pat_completeness auto
termination by (relation "measure (\<lambda>(n, buf). nat n)") auto

declare itoa_digits.simps [simp del]

definition itoa :: "int \<Rightarrow> string go" where
  "itoa n = (if n = 0 then Ret ''0'' else itoa_digits n [])"

text \<open>\<open>int(d.Seconds())\<close> drops the fraction.\<close>

definition whole_seconds :: "duration \<Rightarrow> int" where
  "whole_seconds d = (if 0 \<le> d then d div second else - ((- d) div second))"

type_synonym 'w rl_state = "rateLimiter \<times> 'w io"

definition too_many :: "duration \<Rightarrow> 'w rl_state \<Rightarrow> unit go \<times> 'w rl_state" where
  "too_many retryAfter s =
     (case itoa (whole_seconds retryAfter + 1) of
        Panic p \<Rightarrow> (Panic p, s)
      | Ret seconds \<Rightarrow> (Ret (), fst s, fst (snd s),
          http_Error ''Too Many Requests'' 429 (SetHeader ''Retry-After'' seconds (snd (snd s)))))"

text \<open>The first rule that matches the path and the method; a rule for other methods is passed over.\<close>

fun matching_rule :: "RateLimitRule list \<Rightarrow> request \<Rightarrow> RateLimitRule option" where
  "matching_rule [] r = None"
| "matching_rule (rule # rules) r =
     (if HasPrefix (rq_Path r) (rr_Pattern rule) then
        (if rr_Methods rule \<noteq> [] \<and> rq_Method r \<notin> set (rr_Methods rule) then matching_rule rules r
         else Some rule)
      else matching_rule rules r)"

definition general_limit :: "time \<Rightarrow> 'w handler \<Rightarrow> request \<Rightarrow> 'w rl_state \<Rightarrow> unit go \<times> 'w rl_state" where
  "general_limit now next_h r s =
     (case rl_allow now (''ip:'' @ rq_RemoteAddr r) 100 minute (fst s) of
        (Panic p, rl1) \<Rightarrow> (Panic p, rl1, snd s)
      | (Ret (ok, retryAfter), rl1) \<Rightarrow>
          (if \<not> ok then too_many retryAfter (rl1, snd s)
           else (let (x, io) = next_h r (snd s) in (x, rl1, io))))"

definition RateLimit :: "RateLimitRule list \<Rightarrow> time \<times> time \<Rightarrow> 'w handler \<Rightarrow> request \<Rightarrow> 'w rl_state
    \<Rightarrow> unit go \<times> 'w rl_state" where
  "RateLimit rules nows next_h r s =
     (case matching_rule rules r of
        None \<Rightarrow> general_limit (snd nows) next_h r s
      | Some rule \<Rightarrow>
          (case rl_allow (fst nows) (rr_KeyFunc rule r) (rr_Limit rule) (rr_Window rule) (fst s) of
             (Panic p, rl1) \<Rightarrow> (Panic p, rl1, snd s)
           | (Ret (ok, retryAfter), rl1) \<Rightarrow>
               (if \<not> ok then too_many retryAfter (rl1, snd s)
                else general_limit (snd nows) next_h r (rl1, snd s))))"

definition DefaultRateLimitRules :: "RateLimitRule list" where
  "DefaultRateLimitRules =
    [\<lparr>rr_Pattern = ''/auth/otp/send'', rr_Limit = 3, rr_Window = hour,
      rr_KeyFunc = (\<lambda>r. ''email:'' @ FormValue r ''email''), rr_Methods = [''POST'']\<rparr>,
     \<lparr>rr_Pattern = ''/auth/otp/verify'', rr_Limit = 5, rr_Window = 5 * minute,
      rr_KeyFunc = (\<lambda>r. ''email:'' @ FormValue r ''email''), rr_Methods = [''POST'']\<rparr>,
     \<lparr>rr_Pattern = ''/auth/passkey/begin'', rr_Limit = 10, rr_Window = 5 * minute,
      rr_KeyFunc = (\<lambda>r. ''ip:'' @ rq_RemoteAddr r), rr_Methods = [''POST'']\<rparr>,
     \<lparr>rr_Pattern = ''/auth/passkey/finish'', rr_Limit = 10, rr_Window = 5 * minute,
      rr_KeyFunc = (\<lambda>r. ''ip:'' @ rq_RemoteAddr r), rr_Methods = [''POST'']\<rparr>,
     \<lparr>rr_Pattern = ''/auth/refresh'', rr_Limit = 10, rr_Window = 5 * minute,
      rr_KeyFunc = (\<lambda>r. ''ip:'' @ rq_RemoteAddr r), rr_Methods = [''POST'']\<rparr>]"

text \<open>Every digit string that fits the buffer is the decimal notation.\<close>

lemma itoa_digits_show:
  assumes "0 < n" and "length (show_nat n) + length buf \<le> 10"
  shows "itoa_digits (int n) buf = Ret (show_nat n @ buf)"
  using assms
proof (induction n arbitrary: buf rule: show_nat.induct)
  case (1 n)
  have d: "byte (nat (48 + int n mod 10)) = digit_char (n mod 10)"
    by (simp add: byte_def digit_char_def nat_add_distrib zmod_int nat_int_add)
       (metis nat_int of_nat_mod of_nat_numeral)
  show ?case
  proof (cases "n < 10")
    case True
    then have "show_nat n = [digit_char n]" by (subst show_nat.simps) simp
    moreover have "itoa_digits 0 b = Ret b" for b by (subst itoa_digits.simps) simp
    ultimately show ?thesis using 1(2,3) True d
      by (subst itoa_digits.simps) (simp add: zdiv_int [symmetric])
  next
    case False
    then have s: "show_nat n = show_nat (n div 10) @ [digit_char (n mod 10)]"
      by (subst show_nat.simps) simp
    have "show_nat (n div 10) \<noteq> []" using show_nat_digits by blast
    then have "length buf < 10" using 1(3) s by (cases "show_nat (n div 10)") auto
    moreover have "itoa_digits (int (n div 10)) (digit_char (n mod 10) # buf)
        = Ret (show_nat (n div 10) @ digit_char (n mod 10) # buf)"
      using 1(1) [OF False] 1(3) s False by simp
    moreover have "int n div 10 = int (n div 10)" by (simp add: zdiv_int)
    ultimately show ?thesis using 1(2) s d by (subst itoa_digits.simps) simp
  qed
qed

lemma itoa_show:
  assumes "length (show_nat n) \<le> 10"
  shows "itoa (int n) = Ret (show_nat n)"
proof (cases "n = 0")
  case True
  moreover have "show_nat 0 = ''0''" by code_simp
  ultimately show ?thesis by (simp add: itoa_def)
next
  case False
  with itoa_digits_show [of n "[]"] assms show ?thesis by (simp add: itoa_def)
qed

section \<open>Properties\<close>

text \<open>C34: The sliding window keeps its promise: with a clock that does not run backwards, the requests for one
  key let in within any interval of one window's length, counting those the table still holds, are
  at most the limit.\<close>

theorem sliding_window_bound:
  assumes "1 \<le> limit" and "0 < window" and "sorted (stamps rl k @ ts)"
    and "int (length (filter (\<lambda>t. a \<le> t \<and> t < a + window) (stamps rl k))) \<le> limit"
  shows "int (length (filter (\<lambda>t. a \<le> t \<and> t < a + window)
     (stamps rl k @ admitted k limit window ts rl))) \<le> limit"
  by (rule window_bound [OF assms])

lemma sliding_window_bound_witness:
  "int (length (filter (\<lambda>t. 0 \<le> t \<and> t < 0 + 60) (stamps newRateLimiter ''k'' @ admitted ''k'' 3 60 [1, 2, 3, 4, 5, 70] newRateLimiter))) \<le> 3"
  by (rule sliding_window_bound) (simp_all add: stamps_def newRateLimiter_def)

text \<open>A refusal tells the truth: the announced wait is positive and at most the window, and a caller who
  comes back after it, with no call in between, is let in.\<close>

theorem retry_after_truthful:
  assumes "1 \<le> limit" and "0 < window" and "sorted (stamps rl k)"
    and "\<forall>x \<in> set (stamps rl k). x \<le> now" and "int (length (stamps rl k)) \<le> limit"
    and "rl_allow now k limit window rl = (Ret (False, d), rl1)" and "now + d \<le> now'"
  shows "0 < d \<and> d \<le> window \<and> let_in (fst (rl_allow now' k limit window rl1))"
  by (rule retry_after_works [OF assms])

lemma retry_after_truthful_witness:
  "let_in (fst (rl_allow 61 ''k'' 2 60 [''k'' \<mapsto> \<lparr>sw_entries = [1, 2], sw_limit = 2, sw_window = 60\<rparr>]))"
proof -
  let ?rl = "[''k'' \<mapsto> \<lparr>sw_entries = [1, 2], sw_limit = 2, sw_window = 60\<rparr>] :: rateLimiter"
  have "rl_allow 3 ''k'' 2 60 ?rl = (Ret (False, 58), ?rl)" by (simp add: rl_allow_def)
  from retry_after_truthful [OF _ _ _ _ _ this, of 61] show ?thesis by (simp add: stamps_def)
qed

end
