(* ===== verification/Smtp.thy ===== *)
theory Smtp
  imports Otp Email
begin

text \<open>
  The mail adapter (internal/adapters/messaging/smtp/client.go and templates.go): the message of a
  one-time password and the steps of sending it.  The mail server is a function that answers each
  step with an error or none; the deferred closing of the connection is left out.
\<close>

record SmtpConfig =
  sm_Host :: string
  sm_Port :: int
  sm_User :: string
  sm_Password :: string
  sm_FromAddr :: string
  sm_FromName :: string
  sm_Enabled :: bool
  sm_Timeout :: duration
  sm_TLSServerName :: string

section \<open>The message\<close>

text \<open>Texts with a single quote or outside ASCII are put together from their parts.\<close>

definition quote1 :: string where "quote1 = [CHR 0x27]"
definition quote2 :: string where "quote2 = [CHR 0x22]"
definition nl :: string where "nl = [CHR 0x0A]"
definition crlf :: string where "crlf = [CHR 0x0D, CHR 0x0A]"

definition mail_head :: string where
  "mail_head = concat
     [''<!DOCTYPE html>'', nl, ''<html lang='', quote2, ''en'', quote2, ''>'', nl, ''<head>'', nl,
      ''  <meta charset='', quote2, ''UTF-8'', quote2, ''>'', nl, ''  <meta name='', quote2, ''viewport'',
      quote2, '' content='', quote2, ''width=device-width, initial-scale=1.0'', quote2, ''>'', nl,
      ''  <style>'', nl, ''    @import url('', quote1,
      ''https://api.fontshare.com/v2/css?f[]=clash-display@200,400,700&f[]=satoshi@400,500,700&display=swap'',
      quote1, '');'', nl, ''    body { margin: 0; padding: 0; background-color: #f4f6f9; font-family: '',
      quote1, ''Satoshi'', quote1, '', -apple-system, BlinkMacSystemFont, '', quote1, ''Segoe UI'', quote1,
      '', Roboto, sans-serif; }'', nl,
      ''    .container { max-width: 480px; margin: 40px auto; background: #ffffff; border-radius: 16px; overflow: hidden; box-shadow: 0 8px 32px rgba(0,0,0,0.08); }'',
      nl,
      ''    .header { background: linear-gradient(135deg, #1a1f2e 0%, #2a3040 100%); padding: 36px 24px; text-align: center; }'',
      nl, ''    .header h1 { color: #ffffff; margin: 0; font-family: '', quote1, ''Clash Display'', quote1,
      '', sans-serif; font-size: 28px; font-weight: 400; letter-spacing: 4px; }'', nl,
      ''    .body { padding: 36px 28px; }'', nl,
      ''    .body p { color: #475569; font-size: 15px; line-height: 1.6; margin: 0 0 20px; font-family: '',
      quote1, ''Satoshi'', quote1, '', sans-serif; }'', nl,
      ''    .code-box { background: linear-gradient(135deg, #f8fafc 0%, #eef2f6 100%); border: none; border-radius: 16px; padding: 28px 20px; text-align: center; margin: 28px 0; box-shadow: inset 0 1px 2px rgba(255,255,255,0.8), 0 2px 8px rgba(0,0,0,0.04); }'',
      nl,
      ''    .code { font-size: 44px; font-weight: 700; letter-spacing: 10px; color: #1a1f2e; font-family: '',
      quote1, ''Clash Display'', quote1, '', '', quote1, ''Courier New'', quote1, '', monospace; }'', nl,
      ''    .expiry { color: #64748b; font-size: 13px; text-align: center; margin: 16px 0 0; font-family: '',
      quote1, ''Satoshi'', quote1, '', sans-serif; }'', nl,
      ''    .warning { background: #fef2f2; border-left: 4px solid #ef4444; padding: 12px 16px; border-radius: 8px; margin: 24px 0; }'',
      nl, ''    .warning p { color: #dc2626; font-size: 13px; margin: 0; font-family: '', quote1,
      ''Satoshi'', quote1, '', sans-serif; }'', nl,
      ''    .footer { padding: 24px 28px; background: #f8fafc; text-align: center; }'', nl,
      ''    .footer p { color: #94a3b8; font-size: 12px; margin: 0; font-family: '', quote1, ''Satoshi'',
      quote1, '', sans-serif; letter-spacing: 1px; }'', nl, ''  </style>'', nl, ''</head>'', nl, ''<body>'',
      nl, ''  <div class='', quote2, ''container'', quote2, ''>'', nl, ''    <div class='', quote2,
      ''header'', quote2, ''>'', nl, ''      <h1>LOXTU</h1>'', nl, ''    </div>'', nl, ''    <div class='',
      quote2, ''body'', quote2, ''>'', nl, ''      <p>Your verification code to sign in:</p>'', nl,
      ''      <div class='', quote2, ''code-box'', quote2, ''>'', nl, ''        <div class='', quote2,
      ''code'', quote2, ''>'']"

definition mail_tail_parts :: "string list" where
  "mail_tail_parts =
     [''</div>'', nl, ''      </div>'', nl, ''      <p class='', quote2, ''expiry'', quote2,
      ''>This code expires in <strong>'', ''5 minutes'', ''</strong>.</p>'', nl, ''      <div class='',
      quote2, ''warning'', quote2, ''>'', nl, ''        <p>'', map byte [226, 154, 160],
      map byte [239, 184, 143],
      '' If you did not request this code, please ignore this email and ensure your account security.</p>'',
      nl, ''      </div>'', nl, ''    </div>'', nl, ''    <div class='', quote2, ''footer'', quote2, ''>'',
      nl, ''      <p>LOXTU Limited</p>'', nl, ''    </div>'', nl, ''  </div>'', nl, ''</body>'', nl,
      ''</html>'']"

definition mail_tail :: string where "mail_tail = concat mail_tail_parts"

definition GenerateOTPEmail :: "string \<Rightarrow> string" where
  "GenerateOTPEmail code = mail_head @ code @ mail_tail"

definition buildMessage :: "string \<Rightarrow> string \<Rightarrow> string \<Rightarrow> string \<Rightarrow> string" where
  "buildMessage sender to subject body =
     (let headers = ''From: '' @ sender @ crlf @ ''To: '' @ to @ crlf @ ''Subject: '' @ subject @ crlf @ ''MIME-Version: 1.0'' @ crlf @
            ''Content-Type: text/html; charset='' @ quote2 @ ''UTF-8'' @ quote2 @ crlf @ crlf
      in headers @ body)"

section \<open>Sending\<close>

text \<open>\<open>net.JoinHostPort\<close>.\<close>

definition JoinHostPort :: "string \<Rightarrow> string \<Rightarrow> string" where
  "JoinHostPort host port =
     (if CHR '':'' \<in> set host \<or> CHR ''%'' \<in> set host then ''['' @ host @ '']:'' @ port else host @ '':'' @ port)"

datatype smtp_cmd =
    Dial string string duration
  | Greet string
  | Auth string string string
  | Mail string
  | Rcpt string
  | DataCmd
  | WriteMsg string
  | CloseMsg

type_synonym 'm smtp_server = "smtp_cmd \<Rightarrow> 'm \<Rightarrow> goerr option \<times> 'm"

text \<open>\<open>if err := step; err != nil { return fmt.Errorf(...) }\<close>.\<close>

definition try_cmd :: "'m smtp_server \<Rightarrow> string \<Rightarrow> smtp_cmd \<Rightarrow> ('m \<Rightarrow> goerr option go \<times> 'm) \<Rightarrow> 'm \<Rightarrow> goerr option go \<times> 'm" where
  "try_cmd srv wrap cmd k m =
     (case srv cmd m of (Some e, m1) \<Rightarrow> (Ret (Some (wrap @ e)), m1) | (None, m1) \<Rightarrow> k m1)"

definition dial_timeout :: "SmtpConfig \<Rightarrow> time \<Rightarrow> ctx \<Rightarrow> duration" where
  "dial_timeout cfg now c =
     (let timeout = (if sm_Timeout cfg = 0 then 10 * second else sm_Timeout cfg) in
      case ctx_deadline c of
        None \<Rightarrow> timeout
      | Some dl \<Rightarrow> (let rem = dl - now in if rem > 0 \<and> rem < timeout then rem else timeout))"

definition smtp_SendOTP :: "SmtpConfig \<Rightarrow> time \<Rightarrow> 'm smtp_server \<Rightarrow> ctx \<Rightarrow> OTPNotification \<Rightarrow> 'm \<Rightarrow> goerr option go \<times> 'm" where
  "smtp_SendOTP cfg now srv c notif m =
     (let to = on_RecipientID notif; code = on_Code notif in
      if to = '''' \<or> code = '''' then (Ret (Some ''OTP notification missing RecipientID or Code''), m)
      else if \<not> sm_Enabled cfg then (gbind (httputil_MaskEmail to) (\<lambda>_. Ret None), m)
      else case ctx_err c of
        Some e \<Rightarrow> (Ret (Some e), m)
      | None \<Rightarrow>
         (let subject = ''Your LOXTU verification code'';
              body = GenerateOTPEmail code;
              msg = buildMessage (sm_FromAddr cfg) to subject body;
              addr = JoinHostPort (sm_Host cfg) (show_int (sm_Port cfg));
              tlsServerName = (if sm_TLSServerName cfg = '''' then sm_Host cfg else sm_TLSServerName cfg);
              deliver = try_cmd srv ''MAIL FROM: '' (Mail (sm_FromAddr cfg))
                (try_cmd srv ''RCPT TO: '' (Rcpt to)
                (try_cmd srv ''DATA: '' DataCmd
                (try_cmd srv ''write body: '' (WriteMsg msg)
                (try_cmd srv ''close body: '' CloseMsg
                (\<lambda>m'. (gbind (httputil_MaskEmail to) (\<lambda>_. Ret None), m'))))))
          in try_cmd srv ''dial SMTP: '' (Dial addr tlsServerName (dial_timeout cfg now c))
              (try_cmd srv ''SMTP client: '' (Greet (sm_Host cfg))
              (if sm_User cfg \<noteq> '''' \<and> sm_Password cfg \<noteq> ''''
               then try_cmd srv ''SMTP auth: '' (Auth (sm_User cfg) (sm_Password cfg) (sm_Host cfg)) deliver
               else deliver)) m))"

section \<open>The steps as a list\<close>

text \<open>The steps of one mail, each with the prefix of its error, and the run of a list of steps.\<close>

definition mail_steps :: "SmtpConfig \<Rightarrow> time \<Rightarrow> ctx \<Rightarrow> string \<Rightarrow> string \<Rightarrow> (string \<times> smtp_cmd) list" where
  "mail_steps cfg now c to code =
     [(''dial SMTP: '', Dial (JoinHostPort (sm_Host cfg) (show_int (sm_Port cfg)))
        (if sm_TLSServerName cfg = '''' then sm_Host cfg else sm_TLSServerName cfg) (dial_timeout cfg now c)),
      (''SMTP client: '', Greet (sm_Host cfg))] @
     (if sm_User cfg = '''' \<or> sm_Password cfg = '''' then []
      else [(''SMTP auth: '', Auth (sm_User cfg) (sm_Password cfg) (sm_Host cfg))]) @
     [(''MAIL FROM: '', Mail (sm_FromAddr cfg)), (''RCPT TO: '', Rcpt to), (''DATA: '', DataCmd),
      (''write body: '', WriteMsg (buildMessage (sm_FromAddr cfg) to ''Your LOXTU verification code'' (GenerateOTPEmail code))),
      (''close body: '', CloseMsg)]"

fun run_steps :: "'m smtp_server \<Rightarrow> (string \<times> smtp_cmd) list \<Rightarrow> 'm \<Rightarrow> goerr option \<times> 'm" where
  "run_steps srv [] m = (None, m)"
| "run_steps srv ((wrap, cmd) # steps) m =
     (case srv cmd m of (Some e, m1) \<Rightarrow> (Some (wrap @ e), m1) | (None, m1) \<Rightarrow> run_steps srv steps m1)"

lemma try_cmd_run:
  assumes "\<And>m. k m = (case run_steps srv steps m of (err, m1) \<Rightarrow> (Ret err, m1))"
  shows "try_cmd srv wrap cmd k m = (case run_steps srv ((wrap, cmd) # steps) m of (err, m1) \<Rightarrow> (Ret err, m1))"
  by (simp add: try_cmd_def assms split: prod.split option.split)

text \<open>C39: For an address that does not begin with \<open>@\<close>, sending is the same as running the steps of the mail
  one after the other until one fails: no step is taken after a failure, the error names the step,
  and there is no error exactly when every step went through.\<close>

theorem mail_is_its_steps:
  assumes "sm_Enabled cfg" and "ctx_err c = None" and "on_RecipientID notif \<noteq> ''''" and "on_Code notif \<noteq> ''''"
    and "\<not> HasPrefix (on_RecipientID notif) ''@''"
  shows "smtp_SendOTP cfg now srv c notif m =
    (case run_steps srv (mail_steps cfg now c (on_RecipientID notif) (on_Code notif)) m of (err, m1) \<Rightarrow> (Ret err, m1))"
proof -
  have "\<not> is_panic (httputil_MaskEmail (on_RecipientID notif))"
    using assms(5) by (simp add: httputil_MaskEmail_panics)
  then obtain masked where masked: "httputil_MaskEmail (on_RecipientID notif) = Ret masked"
    by (cases "httputil_MaskEmail (on_RecipientID notif)") auto
  have last: "(\<lambda>m'. (gbind (httputil_MaskEmail (on_RecipientID notif)) (\<lambda>_. Ret None), m')) m
      = (case run_steps srv [] m of (err, m1) \<Rightarrow> (Ret err, m1))" for m by (simp add: masked)
  show ?thesis
    using assms(1-4)
    by (simp add: smtp_SendOTP_def mail_steps_def Let_def del: run_steps.simps)
      (intro conjI impI try_cmd_run last)
qed

lemma mail_is_its_steps_witness:
  "smtp_SendOTP \<lparr>sm_Host = ''mx'', sm_Port = 465, sm_User = '''', sm_Password = '''', sm_FromAddr = ''a@b'', sm_FromName = ''L'',
      sm_Enabled = True, sm_Timeout = 0, sm_TLSServerName = ''''\<rparr> 0
     (\<lambda>cmd m. (if cmd = Rcpt ''x@y'' then Some ''no such user'' else None, m @ [cmd])) Background
     \<lparr>on_RecipientID = ''x@y'', on_Code = ''123456'', on_Expiry = 0\<rparr> [] =
   (Ret (Some ''RCPT TO: no such user''), [Dial ''mx:465'' ''mx'' (10 * second), Greet ''mx'', Mail ''a@b'', Rcpt ''x@y''])"
proof -
  have "show_int 465 = ''465''" by code_simp
  then show ?thesis
    by (subst mail_is_its_steps)
      (simp_all add: Background_def HasPrefix_def mail_steps_def dial_timeout_def JoinHostPort_def)
qed

text \<open>The mail gives the code five minutes; the service gives it three.\<close>

lemma concat_has: "x \<in> set xs \<Longrightarrow> \<exists>a b. concat xs = a @ x @ b"
  by (metis concat.simps(2) concat_append in_set_conv_decomp)

lemma mail_says_five_minutes: "(\<exists>pre post. mail_tail = pre @ ''5 minutes'' @ post) \<and> otpLifetime = 3 * minute"
proof -
  have "''5 minutes'' \<in> set mail_tail_parts" unfolding mail_tail_parts_def by (simp only: list.set insert_iff simp_thms)
  from concat_has [OF this] show ?thesis unfolding mail_tail_def otpLifetime_def by blast
qed

end
