(* ===== verification/Settings.thy ===== *)
theory Settings
  imports Crypto Smtp Pool
begin

text \<open>
  The settings read from the environment (internal/config/env.go), and the checks that
  cmd/server/main.go makes before it serves anything.  \<open>env k\<close> is the value of a variable, empty when it
  is not set.
\<close>

section \<open>The environment\<close>

record SurrealDBConfig =
  sd_Endpoint :: string
  sd_Username :: string
  sd_Password :: string
  sd_Namespace :: string
  sd_Database :: string
  sd_MaxConns :: int

record SMTPConfig =
  sf_Host :: string
  sf_Port :: int
  sf_User :: string
  sf_Password :: string
  sf_FromAddr :: string
  sf_FromName :: string
  sf_Enabled :: bool
  sf_Timeout :: duration
  sf_TLSServerName :: string

definition envOr :: "env \<Rightarrow> string \<Rightarrow> string \<Rightarrow> string" where
  "envOr env key fallback = (if env key \<noteq> '''' then env key else fallback)"

definition envInt :: "env \<Rightarrow> string \<Rightarrow> int \<Rightarrow> int" where
  "envInt env key fallback =
     (if env key \<noteq> '''' then (case Atoi (env key) of Some n \<Rightarrow> n | None \<Rightarrow> fallback) else fallback)"

definition SurrealDBFromEnv :: "env \<Rightarrow> SurrealDBConfig" where
  "SurrealDBFromEnv env = \<lparr>sd_Endpoint = envOr env ''SURREALDB_ENDPOINT'' ''ws://surrealdb:8881/rpc'',
     sd_Username = envOr env ''SURREALDB_USER'' ''root'', sd_Password = envOr env ''SURREALDB_PASS'' ''root'',
     sd_Namespace = envOr env ''SURREALDB_NS'' ''loxtu'', sd_Database = envOr env ''SURREALDB_DB'' ''loxtu'',
     sd_MaxConns = envInt env ''SURREALDB_POOL_SIZE'' 10\<rparr>"

definition SMTPFromEnv :: "env \<Rightarrow> SMTPConfig" where
  "SMTPFromEnv env = \<lparr>sf_Host = envOr env ''SMTP_HOST'' ''stalwart'', sf_Port = envInt env ''SMTP_PORT'' 465,
     sf_User = envOr env ''SMTP_USER'' ''noreply@loxtu.com'', sf_Password = envOr env ''SMTP_PASSWORD'' '''',
     sf_FromAddr = envOr env ''SMTP_FROM'' ''noreply@loxtu.com'', sf_FromName = envOr env ''SMTP_FROM_NAME'' ''LOXTU'',
     sf_Enabled = (envOr env ''SMTP_ENABLED'' ''false'' = ''true''), sf_Timeout = 10 * second,
     sf_TLSServerName = envOr env ''SMTP_TLS_SERVERNAME'' ''''\<rparr>"

section \<open>Start-up\<close>

definition pool_config :: "SurrealDBConfig \<Rightarrow> Config" where
  "pool_config d = \<lparr>cf_Endpoint = sd_Endpoint d, cf_Username = sd_Username d, cf_Password = sd_Password d,
     cf_Namespace = sd_Namespace d, cf_Database = sd_Database d, cf_MaxConns = sd_MaxConns d\<rparr>"

definition mail_config :: "SMTPConfig \<Rightarrow> SmtpConfig" where
  "mail_config s = \<lparr>sm_Host = sf_Host s, sm_Port = sf_Port s, sm_User = sf_User s, sm_Password = sf_Password s,
     sm_FromAddr = sf_FromAddr s, sm_FromName = sf_FromName s, sm_Enabled = sf_Enabled s,
     sm_Timeout = sf_Timeout s, sm_TLSServerName = sf_TLSServerName s\<rparr>"

text \<open>\<open>webauthn.Config\<close> as \<open>NewWebAuthn\<close> fills it in; the library's constructor is \<open>new\<close>, which checks it.\<close>

record WebAuthnConfig =
  wc_RPID :: string
  wc_RPDisplayName :: string
  wc_RPOrigins :: "string list"
  wc_Login :: "bool \<times> duration"
  wc_Registration :: "bool \<times> duration"

definition NewWebAuthn :: "(WebAuthnConfig \<Rightarrow> goerr + 'wa) \<Rightarrow> string \<Rightarrow> string \<Rightarrow> goerr + 'wa" where
  "NewWebAuthn new rpid origin = new \<lparr>wc_RPID = rpid, wc_RPDisplayName = ''LOXTU'', wc_RPOrigins = [origin],
     wc_Login = (True, 60 * second), wc_Registration = (True, 120 * second)\<rparr>"

record 'wa startup =
  su_addr :: string
  su_security :: SecurityConfig
  su_mail :: SmtpConfig
  su_pool :: Pool
  su_keys :: EnvKeyManager
  su_wa :: 'wa

text \<open>
  The start of \<open>main\<close> with all its checks; \<open>log.Fatal\<close> ends the process with the message, and without
  the deferred calls.  \<open>now\<close> is the clock when the context of the pool is made.
\<close>

definition main_start :: "env \<Rightarrow> 'd driver \<Rightarrow> (WebAuthnConfig \<Rightarrow> goerr + 'wa) \<Rightarrow> time \<Rightarrow> 'd \<Rightarrow> (goerr + 'wa startup) \<times> 'd" where
  "main_start env D new now d =
     (let rpID = envOr env ''WEBAUTHN_RPID'' ''app.loxtu.com'';
          rpOrigin = envOr env ''WEBAUTHN_ORIGIN'' ''https://app.loxtu.com'' in
      if env ''LOXTU_JWT_SECRET'' = '''' then (Inl ''[main] LOXTU_JWT_SECRET is not set'', d)
      else case SecurityFromEnv env of
        Inl e \<Rightarrow> (Inl (''[main] Security config: '' @ e), d)
      | Inr sec \<Rightarrow>
          (case NewPool D (WithTimeout Background now (30 * second)) (pool_config (SurrealDBFromEnv env)) d of
             (Inl e, d1) \<Rightarrow> (Inl (''[main] DB pool init failed: '' @ e), d1)
           | (Inr pool, d1) \<Rightarrow>
               (case NewEnvKeyManager env of
                  Inl e \<Rightarrow> (Inl (''[main] KeyManager init failed: '' @ e), d1)
                | Inr km \<Rightarrow>
                    (case NewWebAuthn new rpID rpOrigin of
                       Inl e \<Rightarrow> (Inl (''[main] WebAuthn init failed: '' @ e), d1)
                     | Inr wa \<Rightarrow>
                         (Inr \<lparr>su_addr = envOr env ''LISTEN_ADDR'' ''0.0.0.0:8880'', su_security = sec,
                            su_mail = mail_config (SMTPFromEnv env), su_pool = pool, su_keys = km, su_wa = wa\<rparr>, d1)))))"


lemma b64_DecodeString_empty: "b64_DecodeString e [] = Inr []"
  by (simp add: b64_DecodeString_def)

lemma key_manager_iff:
  "NewEnvKeyManager env = Inr km \<longleftrightarrow>
    b64_DecodeString StdEncoding (env ''LOXTU_DATA_KEY'') = Inr (km_kek km) \<and> length (km_kek km) = 32"
  by (cases km) (auto simp: NewEnvKeyManager_def Let_def b64_DecodeString_empty split: sum.splits)

text \<open>C36: The process does not start without its secrets: \<open>main\<close> gets past its checks, and on to serving, exactly
  when the JWT secret and the pepper are not empty, the data key is the base64 of 32 bytes, the pool of
  the database can be filled, and the WebAuthn library accepts the configured relying party and origin
  (those of app.loxtu.com by default); after a good security configuration the key manager never fails.\<close>

theorem start_requires_secrets:
  "(\<exists>s. fst (main_start env D new now d) = Inr s) \<longleftrightarrow>
    env ''LOXTU_JWT_SECRET'' \<noteq> '''' \<and> env ''LOXTU_HASH_PEPPER'' \<noteq> '''' \<and>
    (\<exists>kek. b64_DecodeString StdEncoding (env ''LOXTU_DATA_KEY'') = Inr kek \<and> length kek = 32) \<and>
    (\<exists>pool. fst (NewPool D (WithTimeout Background now (30 * second)) (pool_config (SurrealDBFromEnv env)) d) = Inr pool) \<and>
    (\<exists>wa. new \<lparr>wc_RPID = (if env ''WEBAUTHN_RPID'' = '''' then ''app.loxtu.com'' else env ''WEBAUTHN_RPID''), wc_RPDisplayName = ''LOXTU'',
       wc_RPOrigins = [if env ''WEBAUTHN_ORIGIN'' = '''' then ''https://app.loxtu.com'' else env ''WEBAUTHN_ORIGIN''],
       wc_Login = (True, 60 * second), wc_Registration = (True, 120 * second)\<rparr> = Inr wa)"
  (is "?start \<longleftrightarrow> ?jwt \<and> ?pepper \<and> ?key \<and> ?pool \<and> ?wa")
proof -
  have sec: "(\<exists>sec. SecurityFromEnv env = Inr sec) \<longleftrightarrow> ?pepper \<and> ?key"
  proof
    assume "\<exists>sec. SecurityFromEnv env = Inr sec"
    then show "?pepper \<and> ?key" by (auto simp: SecurityFromEnv_iff key_manager_iff)
  next
    assume "?pepper \<and> ?key"
    then obtain kek where "b64_DecodeString StdEncoding (env ''LOXTU_DATA_KEY'') = Inr kek" "length kek = 32" by blast
    with \<open>?pepper \<and> ?key\<close> have "SecurityFromEnv env = Inr \<lparr>sc_KEK = kek, sc_HashPepper = env ''LOXTU_HASH_PEPPER''\<rparr>"
      by (simp add: SecurityFromEnv_iff key_manager_iff)
    then show "\<exists>sec. SecurityFromEnv env = Inr sec" by blast
  qed
  have keys: "\<exists>km. NewEnvKeyManager env = Inr km" if "SecurityFromEnv env = Inr s" for s
    using that SecurityFromEnv_iff by blast
  have wa: "(\<exists>wa. NewWebAuthn new (envOr env ''WEBAUTHN_RPID'' ''app.loxtu.com'') (envOr env ''WEBAUTHN_ORIGIN'' ''https://app.loxtu.com'') = Inr wa) \<longleftrightarrow> ?wa"
    by (simp add: NewWebAuthn_def envOr_def if_distrib cong: if_cong)
  have "?start \<longleftrightarrow> ?jwt \<and> (\<exists>sec. SecurityFromEnv env = Inr sec) \<and> ?pool \<and>
      (\<exists>wa. NewWebAuthn new (envOr env ''WEBAUTHN_RPID'' ''app.loxtu.com'') (envOr env ''WEBAUTHN_ORIGIN'' ''https://app.loxtu.com'') = Inr wa)"
  proof (cases "SecurityFromEnv env")
    case (Inr s)
    with keys obtain km where km: "NewEnvKeyManager env = Inr km" by blast
    obtain res d1 where "NewPool D (WithTimeout Background now (30 * second)) (pool_config (SurrealDBFromEnv env)) d = (res, d1)"
      by (rule prod.exhaust)
    with Inr km show ?thesis
      by (cases res; cases "NewWebAuthn new (envOr env ''WEBAUTHN_RPID'' ''app.loxtu.com'') (envOr env ''WEBAUTHN_ORIGIN'' ''https://app.loxtu.com'')")
        (simp_all add: main_start_def Let_def)
  qed (simp add: main_start_def Let_def)
  then show ?thesis unfolding wa using sec by blast
qed

end
