(* ===== verification/Providers.thy ===== *)
theory Providers
  imports OAuth
begin

text \<open>
  The adapters for Google, Microsoft Entra and Apple (internal/adapters/oauth/providers.go): the
  authorization URL, the exchange of the code and the profile request.  The HTTP client is a
  parameter; forms and query strings are written out.  The lemmas say that a server which parses
  the URL gets back the parameters.
\<close>

section \<open>Query strings\<close>

definition unreserved :: "char \<Rightarrow> bool" where
  "unreserved c \<longleftrightarrow> c \<in> set (''ABCDEFGHIJKLMNOPQRSTUVWXYZabcdefghijklmnopqrstuvwxyz0123456789-_.~'')"

definition upper_digits :: string where "upper_digits = ''0123456789ABCDEF''"

definition upper_hex :: "nat \<Rightarrow> char" where
  "upper_hex n = upper_digits ! n"

definition escape_char :: "char \<Rightarrow> string" where
  "escape_char c = (if unreserved c then [c] else if c = CHR '' '' then ''+''
     else [CHR ''%'', upper_hex (ord c div 16), upper_hex (ord c mod 16)])"

definition QueryEscape :: "string \<Rightarrow> string" where
  "QueryEscape s = concat (map escape_char s)"

text \<open>\<open>url.Values.Encode\<close> of a map with one value for each key: sorted by key.\<close>

fun str_less :: "string \<Rightarrow> string \<Rightarrow> bool" where
  "str_less s [] = False"
| "str_less [] (d # t) = True"
| "str_less (c # s) (d # t) = (if c = d then str_less s t else ord c < ord d)"

fun insert_pair :: "string \<times> string \<Rightarrow> (string \<times> string) list \<Rightarrow> (string \<times> string) list" where
  "insert_pair kv [] = [kv]"
| "insert_pair kv (kv' # r) =
     (if str_less (fst kv) (fst kv') then kv # kv' # r else kv' # insert_pair kv r)"

definition sort_pairs :: "(string \<times> string) list \<Rightarrow> (string \<times> string) list" where
  "sort_pairs kvs = foldr insert_pair kvs []"

definition pair_text :: "string \<times> string \<Rightarrow> string" where
  "pair_text kv = QueryEscape (fst kv) @ CHR ''='' # QueryEscape (snd kv)"

definition Encode :: "(string \<times> string) list \<Rightarrow> string" where
  "Encode kvs = Join (map pair_text (sort_pairs kvs)) ''&''"

text \<open>What a server does with a query string.\<close>

definition hex_value :: "char \<Rightarrow> nat" where
  "hex_value c = (case index_of c upper_digits of Some n \<Rightarrow> n | None \<Rightarrow> 0)"

fun unescape :: "string \<Rightarrow> string" where
  "unescape [] = []"
| "unescape (c # r) =
     (if c = CHR ''+'' then CHR '' '' # unescape r
      else if c = CHR ''%'' then (case r of a # b # r' \<Rightarrow> byte (hex_value a * 16 + hex_value b) # unescape r' | _ \<Rightarrow> [])
      else c # unescape r)"

function split_at :: "char \<Rightarrow> string \<Rightarrow> string list" where
  "split_at c s = (case cut_at c s of None \<Rightarrow> [s] | Some (a, b) \<Rightarrow> a # split_at c b)"
  by pat_completeness auto
termination by (relation "measure (\<lambda>(c, s). length s)") (auto simp: cut_at_Some_iff)

declare split_at.simps [simp del]

definition parse_pair :: "string \<Rightarrow> string \<times> string" where
  "parse_pair s = (case cut_at CHR ''='' s of Some (k, v) \<Rightarrow> (unescape k, unescape v) | None \<Rightarrow> (unescape s, []))"

definition ParseQuery :: "string \<Rightarrow> (string \<times> string) list" where
  "ParseQuery s = map parse_pair (split_at CHR ''&'' s)"

section \<open>Decoding JSON into a struct\<close>

text \<open>
  A body that is a JSON object is its list of members.  A field takes the members whose name equals
  its tag up to case, the last one wins; \<open>null\<close> leaves the field as it is, a value of another type is
  an error.
\<close>

fun json_string :: "string \<Rightarrow> row \<Rightarrow> string \<Rightarrow> goerr + string" where
  "json_string k [] acc = Inr acc"
| "json_string k ((k', v) # m) acc =
     (if EqualFold k' k then (case v of AStr s \<Rightarrow> json_string k m s | ANil \<Rightarrow> json_string k m acc
        | _ \<Rightarrow> Inl ''json: cannot unmarshal into Go struct field'')
      else json_string k m acc)"

fun json_int :: "string \<Rightarrow> row \<Rightarrow> int \<Rightarrow> goerr + int" where
  "json_int k [] acc = Inr acc"
| "json_int k ((k', v) # m) acc =
     (if EqualFold k' k then (case v of AInt i \<Rightarrow> json_int k m i | ANil \<Rightarrow> json_int k m acc
        | _ \<Rightarrow> Inl ''json: cannot unmarshal into Go struct field'')
      else json_int k m acc)"

fun json_bool :: "string \<Rightarrow> row \<Rightarrow> bool \<Rightarrow> goerr + bool" where
  "json_bool k [] acc = Inr acc"
| "json_bool k ((k', v) # m) acc =
     (if EqualFold k' k then (case v of ABool b \<Rightarrow> json_bool k m b | ANil \<Rightarrow> json_bool k m acc
        | _ \<Rightarrow> Inl ''json: cannot unmarshal into Go struct field'')
      else json_bool k m acc)"

definition bind_sum :: "goerr + 'a \<Rightarrow> ('a \<Rightarrow> goerr + 'b) \<Rightarrow> goerr + 'b" where
  "bind_sum x f = (case x of Inl e \<Rightarrow> Inl e | Inr a \<Rightarrow> f a)"

lemma bind_sum_simps [simp]: "bind_sum (Inl e) f = Inl e" "bind_sum (Inr a) f = f a"
  by (simp_all add: bind_sum_def)

section \<open>The HTTP client\<close>

record http_request =
  hq_Method :: string
  hq_URL :: string
  hq_Header :: "(string \<times> string) list"
  hq_Body :: string

text \<open>A response has its status, its raw body and what decoding the body as a JSON object gives.\<close>

record http_response =
  hr_Status :: nat
  hr_Body :: string
  hr_JSON :: "goerr + row"

type_synonym 'w http_client = "ctx \<Rightarrow> http_request \<Rightarrow> 'w \<Rightarrow> (goerr + http_response) \<times> 'w"

section \<open>The adapters\<close>

record ProviderConfig =
  pv_ClientID :: string
  pv_ClientSecret :: string
  pv_RedirectURI :: string
  pv_Scopes :: "string list"

definition googleAuthURL :: string where "googleAuthURL = ''https://accounts.google.com/o/oauth2/v2/auth''"
definition googleTokenURL :: string where "googleTokenURL = ''https://oauth2.googleapis.com/token''"
definition googleUserURL :: string where "googleUserURL = ''https://www.googleapis.com/oauth2/v2/userinfo''"
definition entraAuthURL :: string where "entraAuthURL = ''https://login.microsoftonline.com/common/oauth2/v2.0/authorize''"
definition entraTokenURL :: string where "entraTokenURL = ''https://login.microsoftonline.com/common/oauth2/v2.0/token''"
definition entraUserURL :: string where "entraUserURL = ''https://graph.microsoft.com/v1.0/me''"
definition appleAuthURL :: string where "appleAuthURL = ''https://appleid.apple.com/auth/authorize''"
definition appleTokenURL :: string where "appleTokenURL = ''https://appleid.apple.com/auth/token''"

definition default_scopes :: "string list \<Rightarrow> ProviderConfig \<Rightarrow> ProviderConfig" where
  "default_scopes ss cfg = (if pv_Scopes cfg = [] then cfg\<lparr>pv_Scopes := ss\<rparr> else cfg)"

definition NewGoogleProvider :: "ProviderConfig \<Rightarrow> ProviderConfig" where
  "NewGoogleProvider cfg = default_scopes [''openid'', ''email'', ''profile''] cfg"

definition NewEntraProvider :: "ProviderConfig \<Rightarrow> ProviderConfig" where
  "NewEntraProvider cfg = default_scopes [''openid'', ''email'', ''profile'', ''User.Read''] cfg"

definition NewAppleProvider :: "ProviderConfig \<Rightarrow> ProviderConfig" where
  "NewAppleProvider cfg = default_scopes [''name'', ''email''] cfg"

definition google_params :: "ProviderConfig \<Rightarrow> string \<Rightarrow> (string \<times> string) list" where
  "google_params cfg state =
     [(''client_id'', pv_ClientID cfg), (''redirect_uri'', pv_RedirectURI cfg), (''response_type'', ''code''),
      (''scope'', Join (pv_Scopes cfg) '' ''), (''state'', state), (''access_type'', ''offline''), (''prompt'', ''consent'')]"

definition google_AuthURL :: "ProviderConfig \<Rightarrow> string \<Rightarrow> string \<Rightarrow> string" where
  "google_AuthURL cfg state codeChallenge = googleAuthURL @ ''?'' @ Encode (google_params cfg state)"

definition entra_params :: "ProviderConfig \<Rightarrow> string \<Rightarrow> (string \<times> string) list" where
  "entra_params cfg state =
     [(''client_id'', pv_ClientID cfg), (''redirect_uri'', pv_RedirectURI cfg), (''response_type'', ''code''),
      (''scope'', Join (pv_Scopes cfg) '' ''), (''state'', state), (''response_mode'', ''query'')]"

definition entra_AuthURL :: "ProviderConfig \<Rightarrow> string \<Rightarrow> string \<Rightarrow> string" where
  "entra_AuthURL cfg state codeChallenge = entraAuthURL @ ''?'' @ Encode (entra_params cfg state)"

definition apple_params :: "ProviderConfig \<Rightarrow> string \<Rightarrow> string \<Rightarrow> (string \<times> string) list" where
  "apple_params cfg state codeChallenge =
     [(''client_id'', pv_ClientID cfg), (''redirect_uri'', pv_RedirectURI cfg), (''response_type'', ''code''),
      (''scope'', Join (pv_Scopes cfg) '' ''), (''state'', state), (''response_mode'', ''form_post'')] @
     (if codeChallenge \<noteq> '''' then [(''code_challenge'', codeChallenge), (''code_challenge_method'', ''S256'')] else [])"

definition apple_AuthURL :: "ProviderConfig \<Rightarrow> string \<Rightarrow> string \<Rightarrow> string" where
  "apple_AuthURL cfg state codeChallenge = appleAuthURL @ ''?'' @ Encode (apple_params cfg state codeChallenge)"

text \<open>The three exchanges differ in the URL and the name in the error.\<close>

definition token_form :: "ProviderConfig \<Rightarrow> string \<Rightarrow> string \<Rightarrow> (string \<times> string) list" where
  "token_form cfg code codeVerifier =
     [(''code'', code), (''client_id'', pv_ClientID cfg), (''client_secret'', pv_ClientSecret cfg),
      (''redirect_uri'', pv_RedirectURI cfg), (''grant_type'', ''authorization_code'')] @
     (if codeVerifier \<noteq> '''' then [(''code_verifier'', codeVerifier)] else [])"

definition decode_token :: "row \<Rightarrow> goerr + OAuthToken" where
  "decode_token m =
     bind_sum (json_string ''access_token'' m []) (\<lambda>a.
     bind_sum (json_string ''refresh_token'' m []) (\<lambda>r.
     bind_sum (json_string ''id_token'' m []) (\<lambda>i.
     bind_sum (json_int ''expires_in'' m 0) (\<lambda>x.
     bind_sum (json_string ''token_type'' m []) (\<lambda>t.
       Inr \<lparr>ot_AccessToken = a, ot_RefreshToken = r, ot_IDToken = i, ot_ExpiresIn = x, ot_TokenType = t\<rparr>)))))"

definition exchange :: "string \<Rightarrow> string \<Rightarrow> 'w http_client \<Rightarrow> ProviderConfig \<Rightarrow> ctx \<Rightarrow> string \<Rightarrow> string \<Rightarrow> 'w
    \<Rightarrow> (goerr + OAuthToken) \<times> 'w" where
  "exchange name url http cfg c code codeVerifier w =
     (case http c \<lparr>hq_Method = ''POST'', hq_URL = url,
         hq_Header = [(''Content-Type'', ''application/x-www-form-urlencoded'')],
         hq_Body = Encode (token_form cfg code codeVerifier)\<rparr> w of
        (Inl e, w1) \<Rightarrow> (Inl e, w1)
      | (Inr resp, w1) \<Rightarrow>
          (if hr_Status resp \<noteq> 200 then
             (Inl (name @ '' token exchange failed ('' @ show_nat (hr_Status resp) @ ''): '' @ hr_Body resp), w1)
           else (bind_sum (hr_JSON resp) decode_token, w1)))"

definition google_ExchangeCode :: "'w http_client \<Rightarrow> ProviderConfig \<Rightarrow> ctx \<Rightarrow> string \<Rightarrow> string \<Rightarrow> 'w
    \<Rightarrow> (goerr + OAuthToken) \<times> 'w" where
  "google_ExchangeCode http cfg = exchange ''google'' googleTokenURL http cfg"

definition entra_ExchangeCode :: "'w http_client \<Rightarrow> ProviderConfig \<Rightarrow> ctx \<Rightarrow> string \<Rightarrow> string \<Rightarrow> 'w
    \<Rightarrow> (goerr + OAuthToken) \<times> 'w" where
  "entra_ExchangeCode http cfg = exchange ''entra'' entraTokenURL http cfg"

definition apple_ExchangeCode :: "'w http_client \<Rightarrow> ProviderConfig \<Rightarrow> ctx \<Rightarrow> string \<Rightarrow> string \<Rightarrow> 'w
    \<Rightarrow> (goerr + OAuthToken) \<times> 'w" where
  "apple_ExchangeCode http cfg = exchange ''apple'' appleTokenURL http cfg"

definition user_request :: "string \<Rightarrow> string \<Rightarrow> http_request" where
  "user_request url accessToken = \<lparr>hq_Method = ''GET'', hq_URL = url,
     hq_Header = [(''Authorization'', ''Bearer '' @ accessToken)], hq_Body = []\<rparr>"

definition google_profile :: "row \<Rightarrow> goerr + OAuthUserInfo" where
  "google_profile m =
     bind_sum (json_string ''id'' m []) (\<lambda>i.
     bind_sum (json_string ''email'' m []) (\<lambda>e.
     bind_sum (json_string ''name'' m []) (\<lambda>n.
     bind_sum (json_bool ''verified_email'' m False) (\<lambda>v.
       Inr \<lparr>ou_Provider = ''google'', ou_ProviderSub = i, ou_Email = e, ou_Name = n, ou_Verified = v\<rparr>))))"

definition google_GetUserInfo :: "'w http_client \<Rightarrow> ProviderConfig \<Rightarrow> ctx \<Rightarrow> string \<Rightarrow> 'w
    \<Rightarrow> (goerr + OAuthUserInfo) \<times> 'w" where
  "google_GetUserInfo http cfg c accessToken w =
     (case http c (user_request googleUserURL accessToken) w of
        (Inl e, w1) \<Rightarrow> (Inl e, w1)
      | (Inr resp, w1) \<Rightarrow>
          (if hr_Status resp \<noteq> 200 then (Inl (''google userinfo failed: '' @ show_nat (hr_Status resp)), w1)
           else (bind_sum (hr_JSON resp) google_profile, w1)))"

definition entra_profile :: "row \<Rightarrow> goerr + OAuthUserInfo" where
  "entra_profile m =
     bind_sum (json_string ''id'' m []) (\<lambda>i.
     bind_sum (json_string ''mail'' m []) (\<lambda>mail.
     bind_sum (json_string ''userPrincipalName'' m []) (\<lambda>upn.
     bind_sum (json_string ''displayName'' m []) (\<lambda>n.
       Inr \<lparr>ou_Provider = ''entra'', ou_ProviderSub = i, ou_Email = (if mail = '''' then upn else mail),
            ou_Name = n, ou_Verified = True\<rparr>))))"

definition entra_GetUserInfo :: "'w http_client \<Rightarrow> ProviderConfig \<Rightarrow> ctx \<Rightarrow> string \<Rightarrow> 'w
    \<Rightarrow> (goerr + OAuthUserInfo) \<times> 'w" where
  "entra_GetUserInfo http cfg c accessToken w =
     (case http c (user_request entraUserURL accessToken) w of
        (Inl e, w1) \<Rightarrow> (Inl e, w1)
      | (Inr resp, w1) \<Rightarrow>
          (if hr_Status resp \<noteq> 200 then (Inl (''entra userinfo failed: '' @ show_nat (hr_Status resp)), w1)
           else (bind_sum (hr_JSON resp) entra_profile, w1)))"

definition apple_GetUserInfo :: "ProviderConfig \<Rightarrow> ctx \<Rightarrow> string \<Rightarrow> 'w \<Rightarrow> (goerr + OAuthUserInfo) \<times> 'w" where
  "apple_GetUserInfo cfg c accessToken w =
     (Inr \<lparr>ou_Provider = ''apple'', ou_ProviderSub = [], ou_Email = [], ou_Name = [], ou_Verified = True\<rparr>, w)"

definition GoogleProvider :: "'w http_client \<Rightarrow> ProviderConfig \<Rightarrow> 'w OAuthProvider" where
  "GoogleProvider http cfg = \<lparr>op_Name = ''google'', op_AuthURL = google_AuthURL cfg,
     op_ExchangeCode = google_ExchangeCode http cfg, op_GetUserInfo = google_GetUserInfo http cfg\<rparr>"

definition EntraProvider :: "'w http_client \<Rightarrow> ProviderConfig \<Rightarrow> 'w OAuthProvider" where
  "EntraProvider http cfg = \<lparr>op_Name = ''entra'', op_AuthURL = entra_AuthURL cfg,
     op_ExchangeCode = entra_ExchangeCode http cfg, op_GetUserInfo = entra_GetUserInfo http cfg\<rparr>"

definition AppleProvider :: "'w http_client \<Rightarrow> ProviderConfig \<Rightarrow> 'w OAuthProvider" where
  "AppleProvider http cfg = \<lparr>op_Name = ''apple'', op_AuthURL = apple_AuthURL cfg,
     op_ExchangeCode = apple_ExchangeCode http cfg, op_GetUserInfo = apple_GetUserInfo cfg\<rparr>"

section \<open>Round trips\<close>

lemma upper_hex_value [simp]: "n < 16 \<Longrightarrow> hex_value (upper_hex n) = n"
proof -
  assume "n < 16"
  have "distinct upper_digits" "length upper_digits = 16" by (simp_all add: upper_digits_def)
  with \<open>n < 16\<close> have "index_of (upper_digits ! n) upper_digits = Some n" by (simp add: index_of_nth)
  then show ?thesis by (simp add: hex_value_def upper_hex_def)
qed

lemma unreserved_plain: "unreserved c \<Longrightarrow> c \<noteq> CHR ''+'' \<and> c \<noteq> CHR ''%'' \<and> c \<noteq> CHR ''&'' \<and> c \<noteq> CHR ''=''"
  by (auto simp: unreserved_def)

lemma upper_hex_plain: "n < 16 \<Longrightarrow> upper_hex n \<noteq> CHR ''&'' \<and> upper_hex n \<noteq> CHR ''=''"
proof -
  assume "n < 16"
  then have "upper_hex n \<in> set upper_digits"
    unfolding upper_hex_def by (intro nth_mem) (simp add: upper_digits_def)
  moreover have "CHR ''&'' \<notin> set upper_digits" "CHR ''='' \<notin> set upper_digits"
    by (simp_all add: upper_digits_def)
  ultimately show ?thesis by metis
qed

lemma unescape_char: "unescape (escape_char c @ r) = c # unescape r"
proof -
  have "ord c div 16 < 16" using ord_less [of c] by linarith
  moreover have "byte (ord c div 16 * 16 + ord c mod 16) = c" by simp
  ultimately show ?thesis using unreserved_plain [of c] by (simp add: escape_char_def)
qed

lemma unescape_escape [simp]: "unescape (QueryEscape s) = s"
  by (induction s) (simp_all add: QueryEscape_def unescape_char)

lemma escape_char_plain: "CHR ''&'' \<notin> set (escape_char c)" "CHR ''='' \<notin> set (escape_char c)"
proof -
  have "ord c div 16 < 16" using ord_less [of c] by linarith
  from upper_hex_plain [OF this] upper_hex_plain [of "ord c mod 16"] unreserved_plain [of c]
  show "CHR ''&'' \<notin> set (escape_char c)" "CHR ''='' \<notin> set (escape_char c)"
    by (auto simp: escape_char_def)
qed

lemma QueryEscape_plain [simp]: "CHR ''&'' \<notin> set (QueryEscape s)" "CHR ''='' \<notin> set (QueryEscape s)"
  by (simp_all add: QueryEscape_def escape_char_plain)

lemma pair_text_plain [simp]: "CHR ''&'' \<notin> set (pair_text kv)"
  by (simp add: pair_text_def)

lemma parse_pair_text [simp]: "parse_pair (pair_text kv) = kv"
  by (simp add: parse_pair_def pair_text_def)

lemma split_at_simps:
  "c \<notin> set a \<Longrightarrow> split_at c a = [a]" "c \<notin> set a \<Longrightarrow> split_at c (a @ c # b) = a # split_at c b"
  by (subst split_at.simps, simp add: cut_at_None_iff [THEN iffD2])
     (subst split_at.simps, simp)

lemma split_Join: "xs \<noteq> [] \<Longrightarrow> \<forall>x \<in> set xs. c \<notin> set x \<Longrightarrow> split_at c (Join xs [c]) = xs"
proof (induction xs)
  case Nil
  then show ?case by simp
next
  case (Cons x xs)
  then show ?case by (cases xs) (simp_all add: split_at_simps)
qed

lemma sort_pairs_set [simp]: "set (sort_pairs kvs) = set kvs"
proof -
  have "set (insert_pair kv r) = insert kv (set r)" for kv r by (induction r) auto
  then show ?thesis unfolding sort_pairs_def by (induction kvs) auto
qed

lemma sort_pairs_distinct: "distinct (map fst kvs) \<Longrightarrow> distinct (map fst (sort_pairs kvs))"
proof -
  have "distinct (map fst (insert_pair kv r)) = (distinct (map fst r) \<and> fst kv \<notin> fst ` set r)" for kv r
  proof (induction r)
    case Nil
    then show ?case by simp
  next
    case (Cons a r)
    have "set (insert_pair kv r) = insert kv (set r)" by (induction r) auto
    with Cons show ?case by auto
  qed
  moreover have "set (foldr insert_pair kvs []) = set kvs" for kvs
    using sort_pairs_set [of kvs] by (simp add: sort_pairs_def)
  ultimately show "distinct (map fst kvs) \<Longrightarrow> distinct (map fst (sort_pairs kvs))"
    unfolding sort_pairs_def by (induction kvs) simp_all
qed

lemma ParseQuery_Encode: "kvs \<noteq> [] \<Longrightarrow> ParseQuery (Encode kvs) = sort_pairs kvs"
proof -
  assume "kvs \<noteq> []"
  then have "map pair_text (sort_pairs kvs) \<noteq> []" using sort_pairs_set [of kvs] by fastforce
  then have "split_at CHR ''&'' (Encode kvs) = map pair_text (sort_pairs kvs)"
    unfolding Encode_def by (rule split_Join) simp
  then show ?thesis by (simp add: ParseQuery_def map_idI)
qed

lemma map_of_ParseQuery:
  assumes "kvs \<noteq> []" and "distinct (map fst kvs)"
  shows "map_of (ParseQuery (Encode kvs)) = map_of kvs"
  using assms by (simp add: ParseQuery_Encode map_of_inject_set sort_pairs_distinct)

section \<open>Properties\<close>

text \<open>What a provider sees of a URL: what stands before the question mark, and the parameters behind it.\<close>

definition url_base :: "string \<Rightarrow> string" where
  "url_base u = takeWhile (\<lambda>c. c \<noteq> CHR ''?'') u"

definition url_query :: "string \<Rightarrow> string \<rightharpoonup> string" where
  "url_query u = map_of (ParseQuery (drop 1 (dropWhile (\<lambda>c. c \<noteq> CHR ''?'') u)))"

lemma url_parts:
  assumes "CHR ''?'' \<notin> set base" and "kvs \<noteq> []" and "distinct (map fst kvs)"
  shows "url_base (base @ ''?'' @ Encode kvs) = base" and "url_query (base @ ''?'' @ Encode kvs) = map_of kvs"
proof -
  have "takeWhile (\<lambda>c. c \<noteq> CHR ''?'') (base @ ''?'' @ q) = base" "dropWhile (\<lambda>c. c \<noteq> CHR ''?'') (base @ ''?'' @ q) = ''?'' @ q" for q
    using assms(1) by (induction base) auto
  then show "url_base (base @ ''?'' @ Encode kvs) = base" and "url_query (base @ ''?'' @ Encode kvs) = map_of kvs"
    using map_of_ParseQuery [OF assms(2,3)] by (simp_all add: url_base_def url_query_def)
qed

definition scope_text :: "string list \<Rightarrow> string \<Rightarrow> string" where
  "scope_text scopes fallback = (if scopes = [] then fallback else Join scopes '' '')"

text \<open>C37: The authorization URL says what the service means.  A provider that parses it finds exactly these
  parameters with these values, whatever characters they contain: the client id and the redirect URI of the
  configuration, the scopes (or the provider's own when none are configured), the state of the service, and the
  flow; Apple finds the code challenge when there is one, Google and Entra never.\<close>

theorem auth_url_roundtrip:
  "url_base (google_AuthURL (NewGoogleProvider cfg) state ch) = ''https://accounts.google.com/o/oauth2/v2/auth'' \<and>
   url_query (google_AuthURL (NewGoogleProvider cfg) state ch) =
     [''client_id'' \<mapsto> pv_ClientID cfg, ''redirect_uri'' \<mapsto> pv_RedirectURI cfg, ''response_type'' \<mapsto> ''code'',
      ''scope'' \<mapsto> scope_text (pv_Scopes cfg) ''openid email profile'', ''state'' \<mapsto> state, ''access_type'' \<mapsto> ''offline'',
      ''prompt'' \<mapsto> ''consent''] \<and>
   url_base (entra_AuthURL (NewEntraProvider cfg) state ch) = ''https://login.microsoftonline.com/common/oauth2/v2.0/authorize'' \<and>
   url_query (entra_AuthURL (NewEntraProvider cfg) state ch) =
     [''client_id'' \<mapsto> pv_ClientID cfg, ''redirect_uri'' \<mapsto> pv_RedirectURI cfg, ''response_type'' \<mapsto> ''code'',
      ''scope'' \<mapsto> scope_text (pv_Scopes cfg) ''openid email profile User.Read'', ''state'' \<mapsto> state,
      ''response_mode'' \<mapsto> ''query''] \<and>
   url_base (apple_AuthURL (NewAppleProvider cfg) state ch) = ''https://appleid.apple.com/auth/authorize'' \<and>
   url_query (apple_AuthURL (NewAppleProvider cfg) state ch) =
     (if ch = '''' then Map.empty else [''code_challenge'' \<mapsto> ch, ''code_challenge_method'' \<mapsto> ''S256'']) ++
     [''client_id'' \<mapsto> pv_ClientID cfg, ''redirect_uri'' \<mapsto> pv_RedirectURI cfg, ''response_type'' \<mapsto> ''code'',
      ''scope'' \<mapsto> scope_text (pv_Scopes cfg) ''name email'', ''state'' \<mapsto> state, ''response_mode'' \<mapsto> ''form_post'']"
proof -
  have scopes: "Join [''openid'', ''email'', ''profile''] '' '' = ''openid email profile''"
    "Join [''openid'', ''email'', ''profile'', ''User.Read''] '' '' = ''openid email profile User.Read''"
    "Join [''name'', ''email''] '' '' = ''name email''" by code_simp+
  have base: "CHR ''?'' \<notin> set googleAuthURL" "CHR ''?'' \<notin> set entraAuthURL" "CHR ''?'' \<notin> set appleAuthURL"
    by (simp_all add: googleAuthURL_def entraAuthURL_def appleAuthURL_def)
  have g: "google_params c state \<noteq> []" "distinct (map fst (google_params c state))"
    and e: "entra_params c state \<noteq> []" "distinct (map fst (entra_params c state))"
    and a: "apple_params c state ch \<noteq> []" "distinct (map fst (apple_params c state ch))" for c
    by (simp_all add: google_params_def entra_params_def) (cases "ch = []"; simp add: apple_params_def)+
  have google: "map_of (google_params (NewGoogleProvider cfg) state) =
     [''client_id'' \<mapsto> pv_ClientID cfg, ''redirect_uri'' \<mapsto> pv_RedirectURI cfg, ''response_type'' \<mapsto> ''code'',
      ''scope'' \<mapsto> scope_text (pv_Scopes cfg) ''openid email profile'', ''state'' \<mapsto> state, ''access_type'' \<mapsto> ''offline'',
      ''prompt'' \<mapsto> ''consent'']"
    by (rule ext) (simp add: google_params_def NewGoogleProvider_def default_scopes_def scope_text_def scopes)
  have entra: "map_of (entra_params (NewEntraProvider cfg) state) =
     [''client_id'' \<mapsto> pv_ClientID cfg, ''redirect_uri'' \<mapsto> pv_RedirectURI cfg, ''response_type'' \<mapsto> ''code'',
      ''scope'' \<mapsto> scope_text (pv_Scopes cfg) ''openid email profile User.Read'', ''state'' \<mapsto> state, ''response_mode'' \<mapsto> ''query'']"
    by (rule ext) (simp add: entra_params_def NewEntraProvider_def default_scopes_def scope_text_def scopes)
  have apple: "map_of (apple_params (NewAppleProvider cfg) state ch) =
     (if ch = '''' then Map.empty else [''code_challenge'' \<mapsto> ch, ''code_challenge_method'' \<mapsto> ''S256'']) ++
     [''client_id'' \<mapsto> pv_ClientID cfg, ''redirect_uri'' \<mapsto> pv_RedirectURI cfg, ''response_type'' \<mapsto> ''code'',
      ''scope'' \<mapsto> scope_text (pv_Scopes cfg) ''name email'', ''state'' \<mapsto> state, ''response_mode'' \<mapsto> ''form_post'']"
    by (rule ext) (simp add: apple_params_def NewAppleProvider_def default_scopes_def scope_text_def scopes map_add_def)
  show ?thesis
    unfolding google [symmetric] entra [symmetric] apple [symmetric] google_AuthURL_def entra_AuthURL_def apple_AuthURL_def
      url_parts [OF base(1) g] url_parts [OF base(2) e] url_parts [OF base(3) a]
    by (simp add: googleAuthURL_def entraAuthURL_def appleAuthURL_def)
qed

end
