(* ===== verification/Server.thy ===== *)
theory Server
  imports OAuthHandler Dashboard Csrf SlidingWindow Settings Providers OtpRepo Worlds
begin

text \<open>
  The composition root (cmd/server/main.go): how the repositories, services and handlers are put
  together over one world, and which middleware stands in front of which route.  The router (chi) with its
  Recoverer and RealIP is not under src/: it is the record \<open>router\<close>.
\<close>

section \<open>The world\<close>

text \<open>The database behind the pool, the limiter, the audit queue, and what the OTP service has sent.\<close>

record 'd site =
  si_db :: 'd
  si_limits :: MemoryRateLimiter
  si_audit :: AuditRepo
  si_outbox :: "otp_output list"

definition put_db :: "'d \<Rightarrow> 'd site \<Rightarrow> 'd site" where "put_db d w = w\<lparr>si_db := d\<rparr>"
definition put_limits :: "MemoryRateLimiter \<Rightarrow> 'd site \<Rightarrow> 'd site" where "put_limits l w = w\<lparr>si_limits := l\<rparr>"
definition put_audit :: "AuditRepo \<Rightarrow> 'd site \<Rightarrow> 'd site" where "put_audit a w = w\<lparr>si_audit := a\<rparr>"

interpretation db_part: part si_db put_db
  by unfold_locales (simp_all add: put_db_def)

text \<open>What one request reads from the clock, the random source and the scheduler.\<close>

record moment =
  mt_rt :: runtime
  mt_users :: user_reads
  mt_pick :: bool
  mt_link :: time
  mt_id :: "time \<times> rand"
  mt_csrf :: rand
  mt_rate :: "time \<times> time"
  mt_handle :: rand
  mt_state1 :: rand
  mt_state2 :: rand

text \<open>What \<open>main\<close> has when it wires the program: the settings, the pool, and the libraries.\<close>

record 'd wiring =
  wi_env :: env
  wi_pepper :: string
  wi_db :: "'d db"
  wi_mail :: OTPSender
  wi_wa :: "'d site webauthn"
  wi_http :: "'d site http_client"
  wi_marshal :: "any \<Rightarrow> string"
  wi_parsers :: passkey_parsers

section \<open>Adapters\<close>

definition main_users :: "'d wiring \<Rightarrow> moment \<Rightarrow> 'd site UserStore" where
  "main_users W m = part_users si_db put_db (UserRepository (rt_lib (mt_rt m)) (mt_users m) (Some (wi_db W)))"

definition main_sessions :: "'d wiring \<Rightarrow> moment \<Rightarrow> 'd site SessionStore" where
  "main_sessions W m = part_sessions si_db put_db (SessionRepo (rt_lib (mt_rt m)) (Some (wi_db W)))"

definition main_creds :: "'d wiring \<Rightarrow> moment \<Rightarrow> 'd site CredentialStore" where
  "main_creds W m = part_creds si_db put_db (CredRepo (rt_lib (mt_rt m)) (Some (wi_db W)))"

definition main_tenants :: "'d wiring \<Rightarrow> moment \<Rightarrow> 'd site TenantResolver" where
  "main_tenants W m = (\<lambda>c domain. on_part si_db put_db
     (ResolveByDomain (rt_lib (mt_rt m)) (NewTenantRepo (Some (wi_db W))) c domain))"

definition main_tenant_by_id :: "'d wiring \<Rightarrow> 'd site tenant_getter" where
  "main_tenant_by_id W = (\<lambda>c i. on_part si_db put_db (GetByTenantID (NewTenantRepo (Some (wi_db W))) c i))"

definition main_audit :: "moment \<Rightarrow> 'd site AuditStore" where
  "main_audit m = (\<lambda>c ev. on_part si_audit put_audit (LogSecurityEvent (mt_pick m) c ev))"

definition main_limiter :: "'d site RateLimiter" where
  "main_limiter = \<lparr>rp_Allow = (\<lambda>rd c key p. on_part si_limits put_limits (Allow rd key p)),
     rp_Reset = (\<lambda>c key. on_part si_limits put_limits (Reset key)),
     rp_GetRemaining = (\<lambda>rd c key p. on_part si_limits put_limits (GetRemaining rd key p))\<rparr>"

definition main_otp :: "'d wiring \<Rightarrow> moment \<Rightarrow> 'd site OTPService" where
  "main_otp W m = (let repo = SurrealOTPRepo (rt_lib (mt_rt m)) (Some (wi_db W)) in
     \<lparr>svc_sender = Some (wi_mail W),
      svc_store = Some \<lparr>os_Save = (\<lambda>c k h e. on_part si_db put_db (os_Save repo c k h e)),
        os_Get = (\<lambda>c k. on_part si_db put_db (os_Get repo c k)),
        os_IncrementAttempts = (\<lambda>c k. on_part si_db put_db (os_IncrementAttempts repo c k)),
        os_Delete = (\<lambda>c k. on_part si_db put_db (os_Delete repo c k))\<rparr>\<rparr>)"

definition main_accounts :: "'d wiring \<Rightarrow> moment \<Rightarrow> 'd site OAuthAccountStore" where
  "main_accounts W m = (let repo = OAuthRepo (rt_lib (mt_rt m)) (mt_link m) (Some (wi_db W)) in
     \<lparr>as_LinkOrCreate = (\<lambda>c a. on_part si_db put_db (as_LinkOrCreate repo c a)),
      as_FindByProvider = (\<lambda>c p s. on_part si_db put_db (as_FindByProvider repo c p s)),
      as_FindByUserID = (\<lambda>c u. on_part si_db put_db (as_FindByUserID repo c u)),
      as_Unlink = (\<lambda>c u p. on_part si_db put_db (as_Unlink repo c u p))\<rparr>)"

text \<open>The function \<open>passkeyPresence\<close>: it takes its second string for an e-mail address.\<close>

definition passkeyPresence :: "'d wiring \<Rightarrow> moment \<Rightarrow> 'd site PasskeyPresence" where
  "passkeyPresence W m = PasskeyPresenceFunc (\<lambda>c tenantID email w.
     (let emailHash = HashEmail (rt_lib (mt_rt m)) email (wi_pepper W) in
      case us_FindByEmailHash (main_users W m) c emailHash w of
        (Inr (Some u), w1) \<Rightarrow>
          (let (creds, w2) = cs_FindCredentialsByUserID (main_creds W m) c (u_UserID u) w1
           in (or_nil creds \<noteq> [], w2))
      | (_, w1) \<Rightarrow> (False, w1)))"

section \<open>Services and handlers\<close>

definition main_tokens :: "'d wiring \<Rightarrow> moment \<Rightarrow> 'd site SessionAuthService" where
  "main_tokens W m = NewTokenService (Some (main_users W m)) (Some (main_sessions W m))"

definition main_auth :: "'d wiring \<Rightarrow> moment \<Rightarrow> 'd site AuthHandler" where
  "main_auth W m = \<lparr>ah_otp = main_otp W m, ah_deliver = (\<lambda>out w. w\<lparr>si_outbox := si_outbox w @ out\<rparr>),
     ah_tokens = main_tokens W m, ah_users = Some (main_users W m), ah_tenantResolver = Some (main_tenants W m),
     ah_audit = Some (main_audit m), ah_rl = Some main_limiter, ah_passkeys = Some (passkeyPresence W m),
     ah_pepper = wi_pepper W\<rparr>"

definition main_passkey :: "'d wiring \<Rightarrow> moment \<Rightarrow> 'd site PasskeyHandler" where
  "main_passkey W m = \<lparr>ph_tokens = main_tokens W m, ph_tenantResolver = Some (main_tenants W m),
     ph_audit = Some (main_audit m)\<rparr>"

definition main_oauth :: "'d wiring \<Rightarrow> moment \<Rightarrow> 'd site OAuthHandler" where
  "main_oauth W m = \<lparr>oh_tokens = main_tokens W m, oh_tenantResolver = Some (main_tenants W m)\<rparr>"

definition main_dashboard :: "'d wiring \<Rightarrow> 'd site DashboardHandler" where
  "main_dashboard W = NewDashboardHandlerWithTenant (main_tenant_by_id W)"

definition passkey_service :: "'d wiring \<Rightarrow> moment \<Rightarrow> 'd site PasskeyService" where
  "passkey_service W m = NewPasskeyService (main_users W m) (main_creds W m) (Some (wi_wa W)) (wi_pepper W)"

definition provider_config :: "env \<Rightarrow> string \<Rightarrow> string \<Rightarrow> string \<Rightarrow> string \<Rightarrow> ProviderConfig" where
  "provider_config env idvar secvar urivar uri = \<lparr>pv_ClientID = envOr env idvar '''', pv_ClientSecret = envOr env secvar '''',
     pv_RedirectURI = envOr env urivar uri, pv_Scopes = []\<rparr>"

definition register_if :: "bool \<Rightarrow> 'w OAuthProvider \<Rightarrow> 'w OAuthService \<Rightarrow> 'w OAuthService" where
  "register_if b p s = (if b then RegisterProvider p s else s)"

definition oauth_service :: "'d wiring \<Rightarrow> moment \<Rightarrow> 'd site OAuthService" where
  "oauth_service W m =
     (let env = wi_env W;
          s0 = NewOAuthService (main_accounts W m) (Some (main_users W m)) (wi_pepper W);
          s1 = register_if (envOr env ''GOOGLE_CLIENT_ID'' '''' \<noteq> '''') (GoogleProvider (wi_http W) (NewGoogleProvider
                 (provider_config env ''GOOGLE_CLIENT_ID'' ''GOOGLE_CLIENT_SECRET'' ''GOOGLE_REDIRECT_URI''
                    ''https://app.loxtu.com/auth/oauth/google/callback''))) s0;
          s2 = register_if (envOr env ''ENTRA_CLIENT_ID'' '''' \<noteq> '''') (EntraProvider (wi_http W) (NewEntraProvider
                 (provider_config env ''ENTRA_CLIENT_ID'' ''ENTRA_CLIENT_SECRET'' ''ENTRA_REDIRECT_URI''
                    ''https://app.loxtu.com/auth/oauth/entra/callback''))) s1
      in register_if (envOr env ''APPLE_CLIENT_ID'' '''' \<noteq> '''') (AppleProvider (wi_http W) (NewAppleProvider
                 (provider_config env ''APPLE_CLIENT_ID'' ''APPLE_CLIENT_SECRET'' ''APPLE_REDIRECT_URI''
                    ''https://app.loxtu.com/auth/oauth/apple/callback''))) s2)"


section \<open>Routes\<close>

text \<open>The mutable services beside the site.\<close>

type_synonym 'd services = "'d site OAuthService \<times> 'd site PasskeyService \<times> 'd site"

definition on_site :: "('a, 'd site) act \<Rightarrow> ('a, 'd services) act" where
  "on_site m = within (within m)"

definition on_passkeys :: "('a, 'd site PasskeyService \<times> 'd site) act \<Rightarrow> ('a, 'd services) act" where
  "on_passkeys m = within m"

definition on_oauth :: "('a, 'd site OAuthService \<times> 'd site) act \<Rightarrow> ('a, 'd services) act" where
  "on_oauth m = (\<lambda>((os, ps, w), resp). case m ((os, w), resp) of (x, (os1, w1), resp1) \<Rightarrow> (x, (os1, ps, w1), resp1))"

text \<open>The services keep their maps; their ports read the clock and the random source of the request.\<close>

definition at_moment :: "'d wiring \<Rightarrow> moment \<Rightarrow> (unit, 'd services) act \<Rightarrow> (unit, 'd services) act" where
  "at_moment W m act = (\<lambda>((os, ps, w), resp). act
     ((os\<lparr>ox_accounts := main_accounts W m, ox_users := Some (main_users W m)\<rparr>,
       ps\<lparr>pk_users := main_users W m, pk_creds := main_creds W m\<rparr>, w), resp))"

text \<open>
  The router's own part: what it finds for /auth/oauth/{provider} and, with True, for the same path with
  /callback; its answers for unknown paths and methods; the file server and the icon file; RealIP.
\<close>

record router =
  ro_provider :: "request \<Rightarrow> (string \<times> bool) option"
  ro_missing :: "request \<Rightarrow> response \<Rightarrow> response"
  ro_static :: "request \<Rightarrow> response \<Rightarrow> response"
  ro_favicon :: "goerr + string"
  ro_RealIP :: "request \<Rightarrow> request"

definition authPublicPaths :: "string list" where
  "authPublicPaths = [''/health'', ''/auth/otp/send'', ''/auth/otp/verify'', ''/auth/passkey/begin'', ''/auth/passkey/finish'',
     ''/auth/passkey/skip'', ''/auth/passkey/register'', ''/auth/passkey/login/begin'', ''/auth/passkey/login/finish'',
     ''/auth/refresh'', ''/auth/logout'', ''/auth/consent'', ''/static/'']"

definition auth_gets :: "'d wiring \<Rightarrow> moment \<Rightarrow> request \<Rightarrow> (string \<times> (unit, 'd services) act) list" where
  "auth_gets W m r =
     [(''/'', on_site (LoginPage r)), (''/auth/consent'', on_site (ConsentPage r)),
      (''/auth/passkey/register'', on_passkeys (pkh_RegisterPage r)),
      (''/auth/passkey/login/begin'', on_passkeys (pkh_BeginLogin (mt_rt m) (main_passkey W m) r))]"

definition auth_posts :: "'d wiring \<Rightarrow> moment \<Rightarrow> request \<Rightarrow> (string \<times> (unit, 'd services) act) list" where
  "auth_posts W m r =
     [(''/auth/otp/send'', on_site (SendOTP (mt_rt m) (main_auth W m) r)),
      (''/auth/otp/verify'', on_site (VerifyOTP (mt_rt m) (main_auth W m) r)),
      (''/auth/consent'', on_site (ConsentAccept (mt_rt m) (main_auth W m) r)),
      (''/auth/refresh'', on_site (Refresh (mt_rt m) (main_auth W m) r)),
      (''/auth/logout'', on_site (Logout (mt_rt m) (main_auth W m) r)),
      (''/auth/passkey/begin'', on_passkeys (pkh_BeginRegistration (mt_handle m) r)),
      (''/auth/passkey/finish'', on_passkeys (pkh_FinishRegistration (mt_rt m) (wi_parsers W) (main_passkey W m) r)),
      (''/auth/passkey/skip'', on_passkeys (Skip (mt_rt m) (main_passkey W m) r)),
      (''/auth/passkey/login/finish'', on_passkeys (pkh_FinishLogin (mt_rt m) (wi_parsers W) (main_passkey W m) r))]"

definition oauth_route :: "'d wiring \<Rightarrow> moment \<Rightarrow> router \<Rightarrow> request \<Rightarrow> (unit, 'd services) act option" where
  "oauth_route W m ro r =
     (case ro_provider ro r of
        None \<Rightarrow> None
      | Some (provider, callback) \<Rightarrow>
          (if callback then
             (if rq_Method r = ''GET'' \<or> rq_Method r = ''POST''
              then Some (on_oauth (oh_Callback (mt_rt m) (main_oauth W m) provider r)) else None)
           else if rq_Method r = ''GET''
           then Some (on_oauth (oh_BeginAuth (mt_state1 m) (mt_state2 m) (rt_now (mt_rt m)) provider r)) else None))"

definition auth_route :: "'d wiring \<Rightarrow> moment \<Rightarrow> router \<Rightarrow> request \<Rightarrow> (unit, 'd services) act option" where
  "auth_route W m ro r =
     (case (if rq_Method r = ''GET'' then map_of (auth_gets W m r) (rq_Path r)
            else if rq_Method r = ''POST'' then map_of (auth_posts W m r) (rq_Path r) else None) of
        Some act \<Rightarrow> Some act
      | None \<Rightarrow> oauth_route W m ro r)"

definition dash_gets :: "'d wiring \<Rightarrow> (string \<times> 'd site handler) list" where
  "dash_gets W =
     [(''/dashboard'', DashboardPage (wi_marshal W) (main_dashboard W)), (''/dashboard/grid'', Grid (main_dashboard W)),
      (''/dashboard.json'', DashboardJSON (main_dashboard W)), (''/dashboard/panel/stats'', DetailPanel),
      (''/dashboard/panel/close'', ClosePanel)]"

text \<open>A middleware with a state of its own, as a handler of the larger world.\<close>

definition nest :: "('w handler \<Rightarrow> request \<Rightarrow> 'a \<times> 'w io \<Rightarrow> unit go \<times> 'a \<times> 'w io) \<Rightarrow> 'w handler \<Rightarrow> ('a \<times> 'w) handler" where
  "nest mw next_h r = (\<lambda>((a, w), resp). case mw next_h r (a, w, resp) of (x, a1, w1, resp1) \<Rightarrow> (x, (a1, w1), resp1))"

type_synonym 'd world = "string set \<times> rateLimiter \<times> 'd services"

definition favicon :: "router \<Rightarrow> response \<Rightarrow> response" where
  "favicon ro w = (case ro_favicon ro of Inl e \<Rightarrow> http_Error ''not found'' 404 w
     | Inr b \<Rightarrow> WriteBody (Text b) (SetHeader ''Content-Type'' ''image/svg+xml'' w))"

definition route :: "'d wiring \<Rightarrow> moment \<Rightarrow> router \<Rightarrow> 'd world handler" where
  "route W m ro r s =
     (if HasPrefix (rq_Path r) ''/static/'' then respond (ro_static ro r) s
      else if rq_Method r = ''GET'' \<and> rq_Path r = ''/favicon.ico'' then respond (favicon ro) s
      else if rq_Method r = ''GET'' \<and> rq_Path r = ''/health'' then respond (\<lambda>w. WriteBody (Text ''OK'') (WriteHeader 200 w)) s
      else case auth_route W m ro r of
        Some act \<Rightarrow> nest (CSRF authPublicPaths (mt_csrf m)) (nest (RateLimit [] (mt_rate m))
            (\<lambda>r'. case auth_route W m ro r' of Some act' \<Rightarrow> at_moment W m act' | None \<Rightarrow> respond (ro_missing ro r'))) r s
      | None \<Rightarrow>
          (case (if rq_Method r = ''GET'' then map_of (dash_gets W) (rq_Path r) else None) of
             Some h \<Rightarrow> within (within (within (within
                 (Guard (rt_jwt (mt_rt m)) (rt_env (mt_rt m)) (rt_now (mt_rt m)) (Some (main_users W m)) h r)))) s
           | None \<Rightarrow> respond (ro_missing ro r) s))"

text \<open>The whole handler, with the access log in front; \<open>recoverer\<close> is the router's Recoverer.\<close>

definition serve :: "('d wiring \<Rightarrow> moment \<Rightarrow> router \<Rightarrow> (access_log list \<times> 'd world) handler \<Rightarrow> (access_log list \<times> 'd world) handler)
    \<Rightarrow> 'd wiring \<Rightarrow> moment \<Rightarrow> router \<Rightarrow> (access_log list \<times> 'd world) handler" where
  "serve recoverer W m ro =
     recoverer W m ro (\<lambda>r. nest (RequestID (fst (mt_id m)) (snd (mt_id m))) (SecurityHeaders (route W m ro)) (ro_RealIP ro r))"


section \<open>What stands in front of the routes\<close>

lemma within_eq: "m (w, resp) = (x, w1, resp1) \<Longrightarrow> within m ((s, w), resp) = (x, (s, w1), resp1)"
  by (simp add: within_def)

definition dash_paths :: "string list" where
  "dash_paths = [''/dashboard'', ''/dashboard/grid'', ''/dashboard.json'', ''/dashboard/panel/stats'', ''/dashboard/panel/close'']"

lemma dash_paths_fst: "map fst (dash_gets W) = dash_paths"
  by (simp add: dash_gets_def dash_paths_def)

lemma dash_path_facts:
  assumes "map_of (dash_gets W) p = Some h"
  shows "\<not> HasPrefix p ''/static/''" "p \<noteq> ''/favicon.ico''" "p \<noteq> ''/health''" "\<not> IsPublicPath p"
    "map_of (auth_gets W m r) p = None"
proof -
  have p: "p \<in> set dash_paths"
    using map_of_SomeD [OF assms] unfolding dash_paths_fst [of W, symmetric] by force
  have dash: "HasPrefix p ''/dashboard''"
    using p by (auto simp: dash_paths_def HasPrefix_def)
  then obtain rest where rest: "p = ''/dashboard'' @ rest" by (auto simp: HasPrefix_iff)
  show "\<not> HasPrefix p ''/static/''" "p \<noteq> ''/favicon.ico''" "p \<noteq> ''/health''"
    by (simp_all add: rest HasPrefix_def)
  show "\<not> IsPublicPath p" unfolding IsPublicPath_iff by (simp add: rest PublicPaths_def HasPrefix_def)
  show "map_of (auth_gets W m r) p = None" by (simp add: rest auth_gets_def)
qed

lemma route_dashboard:
  assumes "rq_Method r = ''GET''" and "map_of (dash_gets W) (rq_Path r) = Some h" and "ro_provider ro r = None"
  shows "route W m ro r s = within (within (within (within
    (Guard (rt_jwt (mt_rt m)) (rt_env (mt_rt m)) (rt_now (mt_rt m)) (Some (main_users W m)) h r)))) s"
  using assms dash_path_facts [OF assms(2)] by (simp add: route_def auth_route_def oauth_route_def)

text \<open>C5: Nothing of the dashboard is served without a valid access token: through the routes of the whole
  program, a request for a dashboard path whose cookie is missing or does not validate is answered with a
  redirect to the login page or a 401, and leaves the database, the services, the limiters and the audit
  queue as they were.\<close>

theorem dashboard_guarded:
  assumes "rq_Method r = ''GET''" and "rq_Path r \<in> set dash_paths" and "ro_provider ro r = None"
    and "rt_env (mt_rt m) ''LOXTU_JWT_SECRET'' \<noteq> ''''"
    and "\<forall>v. Cookie r ''loxtu_access'' = Some v \<longrightarrow>
      (\<exists>e. ValidateAccessToken (rt_jwt (mt_rt m)) (rt_env (mt_rt m)) (rt_now (mt_rt m)) v = Ret (Inl e))"
    and "rs_status resp = None"
  shows "\<exists>resp'. route W m ro r (s, resp) = (Ret (), s, resp') \<and>
    rs_status resp' \<in> {Some 303, Some 401} \<and> rs_bodies resp' = rs_bodies resp \<and> rs_cookies resp' = rs_cookies resp"
proof -
  obtain h where h: "map_of (dash_gets W) (rq_Path r) = Some h"
    using assms(2) unfolding dash_paths_fst [of W, symmetric] by (metis list.set_map map_of_eq_None_iff not_Some_eq)
  obtain toks rl os ps w where s: "s = (toks, rl, os, ps, w)" by (metis prod_cases5)
  have "Guard (rt_jwt (mt_rt m)) (rt_env (mt_rt m)) (rt_now (mt_rt m)) (Some (main_users W m)) h r (w, resp)
      = (Ret (), w, unauthorized r resp)"
  proof (cases "Cookie r ''loxtu_access''")
    case None
    then show ?thesis using dash_path_facts(4) [OF h] by (simp add: Guard_def reply_def)
  next
    case (Some v)
    then show ?thesis using assms(5) dash_path_facts(4) [OF h] by (auto simp: Guard_def reply_def)
  qed
  then have "route W m ro r (s, resp) = (Ret (), s, unauthorized r resp)"
    unfolding route_dashboard [OF assms(1) h assms(3)] s by (intro within_eq)
  then show ?thesis using assms(6) by (simp add: unauthorized_def)
qed

text \<open>C22: The CSRF check does not cover sign-in: on every \<open>POST\<close> route of the program but the callback of
  an external provider the middleware runs the handler at once, whatever token the request has, and that
  callback, which a provider posts to from its own site, is refused without one.\<close>

theorem csrf_covers_only_callback:
  "rq_Method r = ''POST'' \<Longrightarrow>
    (rq_Path r \<in> fst ` set (auth_posts W m r) \<longrightarrow> CSRF authPublicPaths rnd next_h r s = run_next next_h r s) \<and>
    (rq_Path r = ''/auth/oauth/apple/callback'' \<and> Cookie r ''loxtu_csrf'' = None \<and>
      HeaderGet r ''X-Requested-With'' \<noteq> ''XMLHttpRequest'' \<and> \<not> HasPrefix (HeaderGet r ''Accept'') ''application/json'' \<longrightarrow>
      CSRF authPublicPaths rnd next_h r s = (Ret (), csrf_reply (http_Error ''CSRF token missing'' 403) s))"
proof (intro conjI impI)
  assume "rq_Path r \<in> fst ` set (auth_posts W m r)"
  then have "rq_Path r \<in> set authPublicPaths" by (auto simp: auth_posts_def authPublicPaths_def)
  then have "any_prefix authPublicPaths (rq_Path r)"
    unfolding any_prefix_iff using HasPrefix_append [of "rq_Path r" "[]"] by auto
  then show "CSRF authPublicPaths rnd next_h r s = run_next next_h r s" by (simp add: CSRF_def)
next
  assume m: "rq_Method r = ''POST''"
    and r: "rq_Path r = ''/auth/oauth/apple/callback'' \<and> Cookie r ''loxtu_csrf'' = None \<and>
      HeaderGet r ''X-Requested-With'' \<noteq> ''XMLHttpRequest'' \<and> \<not> HasPrefix (HeaderGet r ''Accept'') ''application/json''"
  then have "\<not> any_prefix authPublicPaths (rq_Path r)"
    by (simp add: authPublicPaths_def HasPrefix_def)
  with m r show "CSRF authPublicPaths rnd next_h r s = (Ret (), csrf_reply (http_Error ''CSRF token missing'' 403) s)"
    by (simp add: CSRF_def)
qed


text \<open>C6: From the issue of a token to the page: the access token of a session that \<open>IssueSession\<close> gave to the
  user \<open>u\<close> of the tenant \<open>t\<close> opens the dashboard until it expires, and what it shows is the tenant \<open>t\<close> with
  the features stored for it, for every \<open>r\<close> with that cookie: nothing else of the request can change the tenant.\<close>

theorem issued_token_opens_dashboard:
  assumes "jwt_ok (rt_jwt (mt_rt m))" and "rt_env (mt_rt m) ''LOXTU_JWT_SECRET'' \<noteq> ''''" and "sha_ok L"
    and "IssueSession L (rt_jwt (mt_rt m)) (rt_env (mt_rt m)) svc c ir u t role perms w0 = (Ret (pair, None), w0')" and "t \<noteq> ''''"
    and "rt_now (mt_rt m) < whole_second (ir_access ir + sas_accessTTL svc)"
    and "rq_Method r = ''GET''" and "rq_Path r = ''/dashboard.json''" and "ro_provider ro r = None"
    and "Cookie r ''loxtu_access'' = Some (tp_AccessToken pair)" and "GetTenantID (rq_Context r) = ''''"
    and "user_lookup (main_users W m) users" and "\<And>c. main_tenant_by_id W c t w = (Inr (Some tenant), w)"
  shows "\<exists>resp'. route W m ro r ((toks, rl, os, ps, w), resp) = (Ret (), (toks, rl, os, ps, w), resp') \<and>
    rs_bodies resp' = rs_bodies resp @ [Value (AMap [(''@context'', AStr ''https://schema.org''), (''@type'', AStr ''Dashboard''),
      (''name'', AStr ''Loxtu Dashboard''), (''tenant_id'', AStr t), (''features'', AList (map AStr (t_Features tenant))),
      (''cards'', AList (map card_json (map feature_card (t_Features tenant) @ [quick_actions])))])]"
proof -
  have h: "map_of (dash_gets W) (rq_Path r) = Some (DashboardJSON (main_dashboard W))"
    by (simp add: assms(8) dash_gets_def)
  obtain cl where cl: "ValidateAccessToken (rt_jwt (mt_rt m)) (rt_env (mt_rt m)) (rt_now (mt_rt m)) (tp_AccessToken pair) = Ret (Inr cl)"
    and t: "ac_TenantID cl = t" and u: "ac_UserIDHash cl \<noteq> ''''"
  proof -
    have "Issue L (rt_jwt (mt_rt m)) (rt_env (mt_rt m)) svc ir u t role perms = Ret (Inr pair)"
      using assms(4) by (auto simp: IssueSession_def split: go.splits sum.splits option.splits prod.splits)
    from validate_issued [OF assms(1,2) Issue_Ret(1) [OF this] assms(6)] show ?thesis
      using that assms(3,5) sha_hex_nonempty by simp
  qed
  define r' where "r' = WithContext r (guard_context cl (found_id (users (rq_Context r) w) cl) (rq_Context r))"
  have t': "GetTenantID (rq_Context r') = t" by (simp add: r'_def WithContext_def GetTenantID_guard t assms(5))
  obtain resp' where resp': "DashboardJSON (main_dashboard W) r' (w, no_cache (log_tenant t resp)) = (Ret (), w, resp')"
    and body: "rs_bodies resp' = rs_bodies (no_cache (log_tenant t resp)) @ [Value (AMap [(''@context'', AStr ''https://schema.org''),
      (''@type'', AStr ''Dashboard''), (''name'', AStr ''Loxtu Dashboard''), (''tenant_id'', AStr t),
      (''features'', AList (map AStr (t_Features tenant))),
      (''cards'', AList (map card_json (map feature_card (t_Features tenant) @ [quick_actions])))])]"
    using dashboard_of_tenant [OF t' assms(5), of "main_dashboard W" "main_tenant_by_id W" w tenant w "no_cache (log_tenant t resp)"] assms(13)
    by (auto simp: main_dashboard_def NewDashboardHandlerWithTenant_def)
  have "Guard (rt_jwt (mt_rt m)) (rt_env (mt_rt m)) (rt_now (mt_rt m)) (Some (main_users W m)) (DashboardJSON (main_dashboard W)) r (w, resp)
      = (Ret (), w, resp')"
    unfolding Guard_accepts [OF assms(12) dash_path_facts(4) [OF h] assms(10) cl u assms(11)] t r'_def [symmetric] by (rule resp')
  then have "route W m ro r ((toks, rl, os, ps, w), resp) = (Ret (), (toks, rl, os, ps, w), resp')"
    unfolding route_dashboard [OF assms(7) h assms(9)] by (intro within_eq)
  moreover have "rs_bodies (no_cache (log_tenant t resp)) = rs_bodies resp"
    by (simp add: no_cache_def log_tenant_def split: option.split)
  ultimately show ?thesis using body by auto
qed


section \<open>Closed examples\<close>

text \<open>A site whose database has one tenant and no users, with libraries that refuse everything.\<close>

definition refusing_wa :: "'w webauthn" where
  "refusing_wa = \<lparr>wa_BeginRegistration = (\<lambda>u w. (Inl ''refused'', w)), wa_BeginLogin = (\<lambda>u w. (Inl ''refused'', w)),
     wa_BeginDiscoverableLogin = (\<lambda>w. (Inl ''refused'', w)), wa_CreateCredential = (\<lambda>u s a. Inl ''refused''),
     wa_ValidateLogin = (\<lambda>u s a. Inl ''refused''), wa_ValidateDiscoverableLogin = (\<lambda>f s a v. (Inl ''refused'', v))\<rparr>"

definition demo_wiring :: "row list wiring" where
  "demo_wiring = \<lparr>wi_env = demo_env, wi_pepper = '''', wi_db = tenant_db, wi_mail = (\<lambda>c n. None), wi_wa = refusing_wa,
     wi_http = (\<lambda>c q w. (Inl ''no network'', w)), wi_marshal = (\<lambda>v. ''''),
     wi_parsers = \<lparr>pp_creation = (\<lambda>r. Inl ''''), pp_assertion = (\<lambda>r. Inl '''')\<rparr>\<rparr>"

definition demo_moment :: moment where
  "demo_moment = \<lparr>mt_rt = web_rt, mt_users = demo_reads, mt_pick = True, mt_link = 0, mt_id = (0, \<lambda>n. Inl ''''), mt_csrf = (\<lambda>n. Inl ''''),
     mt_rate = (0, 0), mt_handle = (\<lambda>n. Inl ''''), mt_state1 = (\<lambda>n. Inl ''''), mt_state2 = (\<lambda>n. Inl '''')\<rparr>"

definition demo_router :: router where
  "demo_router = \<lparr>ro_provider = (\<lambda>r. None), ro_missing = (\<lambda>r. http_Error ''not found'' 404), ro_static = (\<lambda>r w. w),
     ro_favicon = Inl ''missing'', ro_RealIP = id\<rparr>"

definition acme :: row where
  "acme = [(''tenant_id'', AStr ''acme''), (''features'', AList [AStr ''crew''])]"

definition demo_site :: "row list site" where
  "demo_site = \<lparr>si_db = [acme], si_limits = NewMemoryRateLimiter, si_audit = NewAuditRepo, si_outbox = []\<rparr>"

definition demo_services :: "row list world" where
  "demo_services = ({}, newRateLimiter, oauth_service demo_wiring demo_moment, passkey_service demo_wiring demo_moment, demo_site)"

lemma demo_server_simps [simp]:
  "mt_rt demo_moment = web_rt" "wi_db demo_wiring = tenant_db" "ro_provider demo_router r = None" "rt_now web_rt = 0"
  by (simp_all add: demo_moment_def demo_wiring_def demo_router_def web_rt_def)

lemma dashboard_guarded_witness:
  "\<exists>resp'. route demo_wiring demo_moment demo_router (a_request\<lparr>rq_Path := ''/dashboard/grid''\<rparr>) (demo_services, fresh_response)
     = (Ret (), demo_services, resp') \<and> rs_bodies resp' = []"
  using dashboard_guarded [of "a_request\<lparr>rq_Path := ''/dashboard/grid''\<rparr>" demo_router demo_moment fresh_response demo_wiring demo_services]
  by (auto simp: a_request_def dash_paths_def Cookie_def)

lemma csrf_covers_only_callback_witness:
  "CSRF authPublicPaths (\<lambda>n. Inl '''') (\<lambda>r. reply (Render ''x'' [])) (a_request\<lparr>rq_Method := ''POST'', rq_Path := ''/auth/logout''\<rparr>)
     ({}, (0::nat), fresh_response) = (Ret (), {}, 0, Render ''x'' [] fresh_response) \<and>
   CSRF authPublicPaths (\<lambda>n. Inl '''') (\<lambda>r. reply (Render ''x'' [])) (a_request\<lparr>rq_Method := ''POST'', rq_Path := ''/auth/oauth/apple/callback''\<rparr>)
     ({}, (0::nat), fresh_response) = (Ret (), {}, 0, http_Error ''CSRF token missing'' 403 fresh_response)"
proof -
  let ?r = "\<lambda>p. a_request\<lparr>rq_Method := ''POST'', rq_Path := p\<rparr>"
  have "''/auth/logout'' \<in> fst ` set (auth_posts demo_wiring demo_moment (?r ''/auth/logout''))"
    by (simp add: auth_posts_def)
  then show ?thesis
    using csrf_covers_only_callback [of "?r ''/auth/logout''" demo_wiring demo_moment "\<lambda>n. Inl ''''" "\<lambda>r. reply (Render ''x'' [])"
        "({}, (0::nat), fresh_response)"]
      csrf_covers_only_callback [of "?r ''/auth/oauth/apple/callback''" demo_wiring demo_moment "\<lambda>n. Inl ''''" "\<lambda>r. reply (Render ''x'' [])"
        "({}, (0::nat), fresh_response)"]
    by (simp add: a_request_def run_next_def reply_def csrf_reply_def Cookie_def HeaderGet_def HasPrefix_def)
qed

lemma demo_no_users: "user_lookup (main_users demo_wiring demo_moment) (\<lambda>c w. [])"
proof -
  have "user_lookup (UserRepository L rd (Some tenant_db)) (\<lambda>c w. [])" for L rd
    by unfold_locales
      (simp_all add: UserRepository_def user_FindByUserID_def user_FindByEmailHash_def user_FindByUserIDHash_def user_find_def
        tenant_Query_def tenant_db_def sql_user_by_id_def sql_user_by_email_def sql_user_by_hash_def
        sql_tenant_by_id_def sql_tenant_by_domain_def)
  from db_part.lookup_part [OF this] show ?thesis by (simp add: main_users_def)
qed

lemma demo_tenant: "main_tenant_by_id demo_wiring c ''acme'' demo_site = (Inr (Some (mapTenantRow acme)), demo_site)"
proof -
  have "find (\<lambda>rm. get rm ''tenant_id'' = AStr ''acme'') [acme] = Some acme" by (simp add: acme_def)
  then show ?thesis
    using tenant_db.get_tenant [of c "''acme''" "[acme]"]
    by (simp add: main_tenant_by_id_def on_part_def demo_site_def put_db_def)
qed

lemma issued_token_opens_dashboard_witness:
  "\<exists>(pair :: TokenPair) resp'. route demo_wiring demo_moment demo_router (a_request\<lparr>rq_Path := ''/dashboard.json'',
       rq_Cookies := [(''loxtu_access'', tp_AccessToken pair)]\<rparr>) (demo_services, fresh_response) = (Ret (), demo_services, resp') \<and>
     length (rs_bodies resp') = 1"
proof -
  obtain pair :: TokenPair and w0' where iss: "IssueSession demo demo_jwt demo_env demo_svc Background demo_issue ''u1'' ''acme'' ''worker'' [] demo_world
      = (Ret (pair, None), w0')"
    by (rule session_store.issue_ok [OF web_service(2) demo_svc_simps(1) jwt_ok_demo _ demo_issue_rand, where env = demo_env
          and w = demo_world and c = Background and L = demo and u = "''u1''" and t = "''acme''" and r = "''worker''" and ps = "[]"])
      simp_all
  define r where "r = a_request\<lparr>rq_Path := ''/dashboard.json'', rq_Cookies := [(''loxtu_access'', tp_AccessToken pair)]\<rparr>"
  have r: "rq_Method r = ''GET''" "rq_Path r = ''/dashboard.json''" "Cookie r ''loxtu_access'' = Some (tp_AccessToken pair)"
    "GetTenantID (rq_Context r) = ''''" by (simp_all add: r_def a_request_def Cookie_def)
  have ttl: "rt_now (mt_rt demo_moment) < whole_second (ir_access demo_issue + sas_accessTTL demo_svc)"
    by (simp add: demo_issue_def demo_svc_def NewTokenService_def NewSessionAuthService_def AccessTokenTTL_def whole_second_def dur_defs)
  have "\<exists>resp'. route demo_wiring demo_moment demo_router r (demo_services, fresh_response) = (Ret (), demo_services, resp') \<and>
     rs_bodies resp' = rs_bodies fresh_response @ [Value (AMap [(''@context'', AStr ''https://schema.org''), (''@type'', AStr ''Dashboard''),
      (''name'', AStr ''Loxtu Dashboard''), (''tenant_id'', AStr ''acme''), (''features'', AList (map AStr (t_Features (mapTenantRow acme)))),
      (''cards'', AList (map card_json (map feature_card (t_Features (mapTenantRow acme)) @ [quick_actions])))])]"
    unfolding demo_services_def
    by (rule issued_token_opens_dashboard [where L = demo and c = Background and svc = demo_svc and ir = demo_issue and u = "''u1''"
          and role = "''worker''" and perms = "[]" and ?w0.0 = demo_world and pair = pair and ?w0' = w0' and users = "\<lambda>c w. []"])
      (simp_all add: iss r ttl [simplified] demo_no_users demo_tenant)
  then show ?thesis unfolding r_def by (intro exI [of _ pair]) auto
qed


section \<open>Who sets a session cookie\<close>

text \<open>The access cookies that an answer sets, those that clear the cookie apart.\<close>

definition granted :: "response \<Rightarrow> cookie list" where
  "granted w = filter (\<lambda>c. ck_Name c = ''loxtu_access'' \<and> 0 < ck_MaxAge c) (rs_cookies w)"

definition same_granted :: "response \<Rightarrow> response \<Rightarrow> bool" where
  "same_granted w w' \<longleftrightarrow> granted w' = granted w"

lemma no_cookie_no_grant: "keeps same_cookies m \<Longrightarrow> keeps same_granted m"
  by (simp add: keeps_def same_cookies_def same_granted_def granted_def)

lemma keeps_within: "keeps R m \<Longrightarrow> keeps R (within m)"
  unfolding keeps_def within_def by (clarsimp split: prod.splits) (metis snd_conv)

lemma keeps_on_site: "keeps R m \<Longrightarrow> keeps R (on_site m)"
  unfolding on_site_def by (intro keeps_within)

lemma keeps_on_passkeys: "keeps R m \<Longrightarrow> keeps R (on_passkeys m)"
  unfolding on_passkeys_def by (rule keeps_within)

lemma keeps_on_oauth: "keeps R m \<Longrightarrow> keeps R (on_oauth m)"
  unfolding keeps_def on_oauth_def by (clarsimp split: prod.splits) (metis snd_conv)

lemma keeps_at_moment: "keeps R m \<Longrightarrow> keeps R (at_moment W mt m)"
  by (force simp: keeps_def at_moment_def split: prod.splits)

lemma grant_cookie:
  "granted (SetCookie (csrf_cookie t) w) = granted w" "granted (SetCookie (state_cookie t) w) = granted w"
  "granted (SetCookie (auth_cookie n v (- 1) b) w) = granted w"
  by (simp_all add: granted_def csrf_cookie_def state_cookie_def auth_cookie_def)

lemma grant_simps [simp]:
  "granted (SetHeader k v w) = granted w" "granted (WriteHeader n w) = granted w" "granted (WriteBody b w) = granted w"
  "granted (http_Error e n w) = granted w" "granted (Redirect u n w) = granted w" "granted (Render t as w) = granted w"
  "granted (WriteJSON n b w) = granted w" "granted (log_tenant t w) = granted w" "granted (no_cache w) = granted w"
  "granted (unauthorized r w) = granted w"
  by (simp_all add: granted_def no_cache_def log_tenant_def unauthorized_def split: option.splits)

text \<open>
  A relation between answers that survives what the middleware does to them; then it survives the middleware
  and the whole tree of routes when it survives the handlers.
\<close>

locale answers_kept = kept R for R +
  assumes header: "R w (SetHeader k v w)" and status: "R w (WriteHeader n w)" and plain_text: "R w (WriteBody (Text x) w)"
    and token: "R w (SetCookie (csrf_cookie c) w)" and logged: "R w (log_tenant t w)"
begin

lemma error: "R w (http_Error e n w)"
  unfolding http_Error_def by (blast intro: trans header status plain_text)

lemma redirect: "R w (Redirect u n w)"
  unfolding Redirect_def by (blast intro: trans header status)

lemma refused: "R w (unauthorized r w)"
  unfolding unauthorized_def using redirect trans [OF header status] by simp

lemma uncached: "R w (no_cache w)"
  unfolding no_cache_def by (blast intro: trans header)

lemma kept_next: "keeps R m \<Longrightarrow> R p (snd (snd (m (w, p))))"
  unfolding keeps_def by (metis snd_conv)

lemma csrf_kept:
  assumes "keeps R (next_h r)"
  shows "keeps R (nest (CSRF ps rnd) next_h r)"
proof -
  note h = kept_next [OF assms]
  have "R p (snd (snd (next_h r (w, SetCookie (csrf_cookie c) p))))" for w p c by (rule trans [OF token h])
  then have "R p (snd (snd (snd (CSRF ps rnd next_h r (toks, w, p)))))" for toks w p
    using h error by (simp add: CSRF_def run_next_def csrf_reply_def Let_def split_beta split: option.split)
  then show ?thesis by (simp add: keeps_def nest_def split_beta)
qed

lemma rate_limit_kept:
  fixes next_h :: "'w handler"
  assumes "keeps R (next_h r)"
  shows "keeps R (nest (RateLimit rules nows) next_h r)"
proof -
  note h = kept_next [OF assms]
  have t: "R p (snd (snd (snd (too_many d (rl, w, p)))))" for d rl and w :: 'w and p
    using refl trans [OF header error] by (simp add: too_many_def split: go.split)
  then have g: "R p (snd (snd (snd (general_limit now next_h r (rl, w, p)))))" for now rl w p
    using h refl by (simp add: general_limit_def split_beta split: prod.split go.split)
  have "R p (snd (snd (snd (RateLimit rules nows next_h r (rl, w, p)))))" for rl w p
    using t g refl by (simp add: RateLimit_def split: option.split prod.split go.split)
  then show ?thesis by (simp add: keeps_def nest_def split_beta)
qed

lemma guard_kept:
  assumes "\<And>r. keeps R (next_h r)"
  shows "keeps R (Guard J env now users next_h r)"
proof -
  have h: "R p (snd (snd (next_h r' (w, p))))" for r' w p by (rule kept_next [OF assms])
  have "R p (snd (snd (next_h r' (w, no_cache (log_tenant t p)))))" for r' w t p
    by (rule trans [OF trans [OF logged uncached] h])
  then show ?thesis
    using h refused error refl
    by (simp add: keeps_def Guard_def reply_def Let_def split_beta split: option.split go.split sum.split)
qed

lemma route_kept:
  assumes "\<And>act. auth_route W m ro r = Some act \<Longrightarrow> keeps R act" and "\<And>p h r. map_of (dash_gets W) p = Some h \<Longrightarrow> keeps R (h r)"
    and "\<And>r w. R w (ro_static ro r w) \<and> R w (ro_missing ro r w)"
  shows "keeps R (route W m ro r)"
proof -
  have act: "keeps R (case auth_route W m ro r of Some act' \<Rightarrow> at_moment W m act' | None \<Rightarrow> respond (ro_missing ro r))"
    using assms(1,3) by (auto simp: kept_respond keeps_at_moment split: option.split)
  let ?next = "\<lambda>r'. case auth_route W m ro r' of Some act' \<Rightarrow> at_moment W m act' | None \<Rightarrow> respond (ro_missing ro r')"
  have "keeps R (nest (RateLimit [] (mt_rate m)) ?next r)" by (rule rate_limit_kept) (rule act)
  then have group: "keeps R (nest (CSRF authPublicPaths (mt_csrf m)) (nest (RateLimit [] (mt_rate m)) ?next) r)"
    by (rule csrf_kept)
  have dash: "keeps R (within (within (within (within
      (Guard (rt_jwt (mt_rt m)) (rt_env (mt_rt m)) (rt_now (mt_rt m)) (Some (main_users W m)) h r)))))"
    if "map_of (dash_gets W) p = Some h" for p h
    by (intro keeps_within guard_kept assms(2) [OF that])
  have fav: "R w (favicon ro w)" for w
    using error trans [OF header plain_text] by (simp add: favicon_def split: sum.split)
  show ?thesis
    unfolding keeps_def
  proof
    fix s
    have k: "R (snd s) (snd (snd (k s)))" if "keeps R k" for k :: "(unit, 'a world) act"
      using that unfolding keeps_def by blast
    show "R (snd s) (snd (snd (route W m ro r s)))"
      using assms(3) fav k [OF group] k [OF dash] trans [OF status plain_text]
      by (simp add: route_def split: option.split)
  qed
qed

end

interpretation no_grant: answers_kept same_granted
  by unfold_locales (simp_all add: same_granted_def grant_cookie)

lemma respond_no_grant: "(\<And>w. granted (g w) = granted w) \<Longrightarrow> keeps same_granted (respond g)"
  by (rule no_grant.kept_respond) (simp add: same_granted_def)

lemmas quiet_rules = no_cookie.kept_rules respond_no_cookie audit_no_cookie steps_no_cookie SetLogEmail_no_cookie

lemma auth_handlers_quiet:
  "keeps same_cookies (LoginPage r)" "keeps same_cookies (ConsentPage r)" "keeps same_cookies (SendOTP rt h r)"
  "keeps same_cookies (VerifyOTP rt h r)"
proof -
  show "keeps same_cookies (LoginPage r)" unfolding LoginPage_def Let_def by (rule quiet_rules)+
  show "keeps same_cookies (ConsentPage r)" unfolding ConsentPage_def Let_def by (rule quiet_rules)+
  show "keeps same_cookies (SendOTP rt h r)" unfolding SendOTP_def Let_def by (rule quiet_rules)+
  show "keeps same_cookies (VerifyOTP rt h r)"
    unfolding VerifyOTP_def Let_def consentGranted_def if_False by (rule quiet_rules)+
qed

lemma passkey_handlers_quiet:
  "keeps same_cookies (pkh_RegisterPage r)" "keeps same_cookies (pkh_BeginRegistration rnd r)"
  "keeps same_cookies (pkh_BeginLogin rt h r)"
proof -
  show "keeps same_cookies (pkh_RegisterPage r)" unfolding pkh_RegisterPage_def Let_def by (rule quiet_rules)+
  show "keeps same_cookies (pkh_BeginRegistration rnd r)"
    unfolding pkh_BeginRegistration_def Let_def json_error_def by (rule quiet_rules)+
  show "keeps same_cookies (pkh_BeginLogin rt h r)"
    unfolding pkh_BeginLogin_def Let_def no_credentials_def by (rule quiet_rules keeps_within)+
qed

lemma logout_no_grant: "keeps same_granted (Logout rt h r)"
proof -
  have clear: "keeps same_granted (respond clearAuthCookies)"
    by (rule respond_no_grant) (simp add: clearAuthCookies_def grant_cookie)
  have page: "keeps same_granted (respond (Redirect u n))" "keeps same_granted (respond (SetHeader k v))" for u n k v
    by (rule respond_no_grant, simp)+
  show ?thesis unfolding Logout_def Let_def
    by (rule no_grant.kept_rules clear page no_cookie_no_grant [OF audit_no_cookie(2)] no_cookie_no_grant [OF steps_no_cookie(6)])+
qed

lemma begin_auth_no_grant: "keeps same_granted (oh_BeginAuth r1 r2 now p r)"
proof -
  have "keeps same_granted (respond (SetCookie (state_cookie t)))" "keeps same_granted (respond (http_Error e n))"
    "keeps same_granted (respond (Redirect u n))" for t e n u
    by (rule respond_no_grant, simp add: grant_cookie)+
  then show ?thesis unfolding oh_BeginAuth_def Let_def by (intro no_grant.kept_rules)
qed

lemma dash_no_grant:
  assumes "map_of (dash_gets W) p = Some h"
  shows "keeps same_granted (h r)"
proof -
  have json: "keeps same_granted (dash_json dh r)" for dh :: "'d site DashboardHandler"
    unfolding dash_json_def by (rule no_grant.kept_rules respond_no_grant | simp)+
  have "h \<in> snd ` set (dash_gets W)" using map_of_SomeD [OF assms] by force
  then consider "h = DashboardPage (wi_marshal W) (main_dashboard W)" | "h = Grid (main_dashboard W)"
    | "h = DashboardJSON (main_dashboard W)" | "h = DetailPanel" | "h = ClosePanel" by (auto simp: dash_gets_def)
  then show ?thesis
  proof cases
    case 1
    show ?thesis unfolding 1 DashboardPage_def Let_def by (rule no_grant.kept_rules respond_no_grant | simp)+
  next
    case 2
    show ?thesis unfolding 2 Grid_def by (rule no_grant.kept_if json respond_no_grant | simp)+
  next
    case 3
    show ?thesis unfolding 3 DashboardJSON_def by (rule json)
  next
    case 4
    show ?thesis unfolding 4 DetailPanel_def Let_def by (rule no_grant.kept_if respond_no_grant | simp)+
  next
    case 5
    show ?thesis unfolding 5 ClosePanel_def by (rule respond_no_grant) simp
  qed
qed


definition sign_in_paths :: "string list" where
  "sign_in_paths = [''/auth/consent'', ''/auth/refresh'', ''/auth/passkey/finish'', ''/auth/passkey/skip'', ''/auth/passkey/login/finish'']"

lemma auth_route_no_grant:
  assumes "auth_route W m ro r = Some act"
    and "rq_Method r = ''POST'' \<Longrightarrow> rq_Path r \<notin> set sign_in_paths" and "\<And>p. ro_provider ro r \<noteq> Some (p, True)"
  shows "keeps same_granted act"
proof -
  note quiet = auth_handlers_quiet [THEN no_cookie_no_grant] passkey_handlers_quiet [THEN no_cookie_no_grant]
    logout_no_grant begin_auth_no_grant
  have gets: "keeps same_granted a" if "map_of (auth_gets W m r) p = Some a" for p a
    using map_of_SomeD [OF that] by (auto simp: auth_gets_def intro!: keeps_on_site keeps_on_passkeys quiet)
  have posts: "keeps same_granted a" if "map_of (auth_posts W m r) p = Some a" "p \<notin> set sign_in_paths" for p a
    using map_of_SomeD [OF that(1)] that(2)
    by (auto simp: auth_posts_def sign_in_paths_def intro!: keeps_on_site keeps_on_passkeys quiet)
  have oauth: "keeps same_granted a" if "oauth_route W m ro r = Some a" for a
    using that assms(3)
    by (auto simp: oauth_route_def intro!: keeps_on_oauth quiet split: option.splits if_splits)
  show ?thesis
    using assms(1,2) gets posts oauth by (auto simp: auth_route_def split: option.splits if_splits)
qed

text \<open>C10: Only five routes and the callback of an external provider ever sign anyone in.  Whatever the request
  and the state of the program, on every other route the answer grants no access cookie that the router
  did not put there; in particular asking for a one-time password and presenting the right one does not.\<close>

theorem only_sign_in_routes_grant:
  assumes "\<not> (rq_Method r = ''POST'' \<and> rq_Path r \<in> set sign_in_paths)" and "\<And>p. ro_provider ro r \<noteq> Some (p, True)"
    and "\<And>r w. granted (ro_static ro r w) = granted w \<and> granted (ro_missing ro r w) = granted w"
  shows "granted (snd (snd (route W m ro r (s, resp)))) = granted resp"
proof -
  have "keeps same_granted (route W m ro r)"
  proof (rule no_grant.route_kept)
    show "keeps same_granted act" if "auth_route W m ro r = Some act" for act
      by (rule auth_route_no_grant [OF that _ assms(2)]) (use assms(1) in blast)
    show "keeps same_granted (h r)" if "map_of (dash_gets W) p = Some h" for p h r by (rule dash_no_grant [OF that])
  qed (use assms(3) in \<open>simp add: same_granted_def\<close>)
  then show ?thesis unfolding keeps_def same_granted_def by (metis snd_conv)
qed

lemma only_sign_in_routes_grant_witness:
  "granted (snd (snd (route demo_wiring demo_moment demo_router (a_request\<lparr>rq_Method := ''POST'', rq_Path := ''/auth/otp/verify'',
     rq_Form := [(''user_id_hash'', ''0123456789''), (''code'', ''123456'')]\<rparr>) (demo_services, fresh_response)))) = []"
  by (subst only_sign_in_routes_grant) (simp_all add: sign_in_paths_def demo_router_def, simp add: granted_def)

end
