(* ===== verification/Routes.thy ===== *)
theory Routes
  imports Server
begin

text \<open>
  The sign-in handlers seen through the routes of the whole program (theory Server): what the middleware
  lets through reaches the handler, and the properties of the handlers become properties of requests.
\<close>

section \<open>From a request to its handler\<close>

text \<open>The general limit of the program, 100 requests a minute for an address, lets the request through.\<close>

definition admitted_now :: "moment \<Rightarrow> request \<Rightarrow> rateLimiter \<Rightarrow> bool" where
  "admitted_now m r rl \<longleftrightarrow> (\<exists>d. fst (rl_allow (snd (mt_rate m)) (''ip:'' @ rq_RemoteAddr r) 100 minute rl) = Ret (True, d))"

lemma auth_posts_path:
  assumes "map_of (auth_posts W m r) p = Some act"
  shows "p \<in> set authPublicPaths" "\<not> HasPrefix p ''/static/''"
  using map_of_SomeD [OF assms] by (auto simp: auth_posts_def authPublicPaths_def HasPrefix_def)

lemma route_post:
  assumes "rq_Method r = ''POST''" and "map_of (auth_posts W m r) (rq_Path r) = Some act"
  shows "route W m ro r ((toks, rl, s), resp) =
    (case RateLimit [] (mt_rate m) (\<lambda>r'. case auth_route W m ro r' of Some act' \<Rightarrow> at_moment W m act' | None \<Rightarrow> respond (ro_missing ro r'))
       r (rl, s, resp) of (x, rl1, s1, resp1) \<Rightarrow> (x, (toks, rl1, s1), resp1))"
proof -
  have "auth_route W m ro r = Some act" by (simp add: auth_route_def assms)
  moreover have "any_prefix authPublicPaths (rq_Path r)"
    unfolding any_prefix_iff using auth_posts_path(1) [OF assms(2)] HasPrefix_append [of "rq_Path r" "[]"] by auto
  ultimately show ?thesis
    using assms(1) auth_posts_path(2) [OF assms(2)]
    by (simp add: route_def nest_def CSRF_def run_next_def split: prod.splits)
qed

lemma route_post_admitted:
  assumes "rq_Method r = ''POST''" and "map_of (auth_posts W m r) (rq_Path r) = Some act" and "admitted_now m r rl"
    and "at_moment W m act (s, resp) = (x, s1, resp1)"
  obtains rl1 where "route W m ro r ((toks, rl, s), resp) = (x, (toks, rl1, s1), resp1)"
proof -
  obtain d rl1 where rl: "rl_allow (snd (mt_rate m)) (''ip:'' @ rq_RemoteAddr r) 100 minute rl = (Ret (True, d), rl1)"
    using assms(3) by (auto simp: admitted_now_def fst_def split: prod.splits)
  have "auth_route W m ro r = Some act" by (simp add: auth_route_def assms(1,2))
  then show ?thesis using that [of rl1] unfolding route_post [OF assms(1,2)]
    by (simp add: RateLimit_def general_limit_def rl [simplified] assms(4))
qed

lemma route_post_refused:
  assumes "rq_Method r = ''POST''" and "map_of (auth_posts W m r) (rq_Path r) = Some act" and "\<not> admitted_now m r rl"
  shows "\<exists>x rl1 resp1. route W m ro r ((toks, rl, s), resp) = (x, (toks, rl1, s), resp1) \<and> granted resp1 = granted resp"
proof -
  have quiet: "\<exists>x resp1. too_many d (rl1, s, resp) = (x, rl1, s, resp1) \<and> granted resp1 = granted resp" for d rl1
    by (simp add: too_many_def split: go.split)
  show ?thesis
  proof (cases "rl_allow (snd (mt_rate m)) (''ip:'' @ rq_RemoteAddr r) 100 minute rl")
    case (Pair a rl1)
    show ?thesis
    proof (cases a)
      case (Panic p)
      then show ?thesis unfolding route_post [OF assms(1,2)] by (simp add: RateLimit_def general_limit_def Pair [simplified] Panic)
    next
      case (Ret b)
      then obtain d where d: "a = Ret (False, d)" using assms(3) Pair by (cases b) (auto simp: admitted_now_def)
      from quiet [of d rl1] obtain x resp1 where "too_many d (rl1, s, resp) = (x, rl1, s, resp1)" "granted resp1 = granted resp" by blast
      then show ?thesis unfolding route_post [OF assms(1,2)] by (simp add: RateLimit_def general_limit_def Pair [simplified] d)
    qed
  qed
qed

section \<open>Signing in and refreshing\<close>

lemma main_handler_simps [simp]:
  "ph_tokens (main_passkey W m) = main_tokens W m" "ah_tokens (main_auth W m) = main_tokens W m"
  "sas_sessions (main_tokens W m) = Some (main_sessions W m)" "sas_users (main_tokens W m) = Some (main_users W m)"
  "sas_accessTTL (main_tokens W m) = AccessTokenTTL"
  by (simp_all add: main_passkey_def main_auth_def main_tokens_def NewTokenService_def NewSessionAuthService_def)

text \<open>C8: The \<open>user_id_hash\<close> of a user is all that is needed to become that user.  A \<open>POST\<close> of it to
  /auth/passkey/skip passes the CSRF check without a token and, while the address is below its limit, is
  answered with a session for the user: no code, no passkey and no cookie is asked for.\<close>

theorem skip_route_signs_in:
  assumes "user_lookup (main_users W m) users" and "session_store (main_sessions W m) view"
    and "jwt_ok (rt_jwt (mt_rt m))" and "rt_env (mt_rt m) ''LOXTU_JWT_SECRET'' \<noteq> ''''" and "ir_rand (rt_issue (mt_rt m)) 32 = Inr b"
    and "view (rq_Context r) w (HashToken (rt_lib (mt_rt m)) (hex_EncodeToString b)) = None"
    and "rq_Method r = ''POST''" and "rq_Path r = ''/auth/passkey/skip''" and "admitted_now m r rl"
    and "rq_FormErr r = None" and "8 \<le> length (FormValue r ''user_id_hash'')"
    and "find (\<lambda>u. u_UserIDHash u = FormValue r ''user_id_hash'') (users (rq_Context r) w) = Some u" and "u_UserID u \<noteq> ''''"
  shows "\<exists>rl1 os1 ps1 w' resp'. route W m ro r ((toks, rl, os, ps, w), resp) = (Ret (), (toks, rl1, os1, ps1, w'), resp') \<and>
    signs_in (mt_rt m) AccessTokenTTL resp resp' (u_UserID u) (or_public (GetTenantID (rq_Context r))) \<and>
    (\<exists>k y. view (rq_Context r) w' k = Some y \<and> se_UserID y = u_UserID u)"
proof -
  let ?os = "os\<lparr>ox_accounts := main_accounts W m, ox_users := Some (main_users W m)\<rparr>"
  let ?ps = "ps\<lparr>pk_users := main_users W m, pk_creds := main_creds W m\<rparr>"
  have users: "user_lookup (pk_users ?ps) users" using assms(1) by simp
  have tokens: "sas_sessions (ph_tokens (main_passkey W m)) = Some (main_sessions W m)" by simp
  obtain w' resp' where skip: "Skip (mt_rt m) (main_passkey W m) r ((?ps, w), resp) = (Ret (), (?ps, w'), resp')"
    and good: "signs_in (mt_rt m) AccessTokenTTL resp resp' (u_UserID u) (or_public (GetTenantID (rq_Context r)))"
      "\<exists>k y. view (rq_Context r) w' k = Some y \<and> se_UserID y = u_UserID u"
    using skip_signs_in [OF users assms(2) tokens assms(3-6) assms(10-13), of resp] by auto
  have post: "map_of (auth_posts W m r) (rq_Path r) = Some (on_passkeys (Skip (mt_rt m) (main_passkey W m) r))"
    by (simp add: auth_posts_def assms(8))
  have "at_moment W m (on_passkeys (Skip (mt_rt m) (main_passkey W m) r)) ((os, ps, w), resp) = (Ret (), (?os, ?ps, w'), resp')"
    by (simp add: at_moment_def on_passkeys_def within_def skip)
  from route_post_admitted [OF assms(7) post assms(9) this] show ?thesis using good by meson
qed

text \<open>C2: A refresh cookie is good for one request.  Once /auth/refresh has handled a request with it, granted or
  refused, every later request of the same tenant with the same cookie signs nobody in and changes nothing in
  the database, the audit queue or the outbox, at whatever time, and whatever the limiter says about it.  The
  hypotheses are that the user and the session store keep their contract at both moments, that SHA-256
  gives 32 bytes, and that the fresh random bytes do not hash to the old token.\<close>

theorem refresh_replay_refused:
  assumes "token_service (main_users W m) users (main_sessions W m) view"
    and "token_service (main_users W m2) users (main_sessions W m2) view" and "rt_lib (mt_rt m2) = rt_lib (mt_rt m)"
    and "sha_ok (rt_lib (mt_rt m))"
    and "\<And>b. ir_rand (rt_issue (mt_rt m)) 32 = Inr b \<Longrightarrow> HashToken (rt_lib (mt_rt m)) (hex_EncodeToString b) \<noteq> HashToken (rt_lib (mt_rt m)) v"
    and "rq_Method r = ''POST''" and "rq_Path r = ''/auth/refresh''" and "Cookie r ''loxtu_refresh'' = Some v" and "admitted_now m r rl"
    and "route W m ro r ((toks, rl, os, ps, w), resp) = (Ret (), (toks1, rl1, os1, ps1, w1), resp1)"
    and "rq_Method r2 = ''POST''" and "rq_Path r2 = ''/auth/refresh''" and "Cookie r2 ''loxtu_refresh'' = Some v"
    and "rq_Context r2 = rq_Context r"
  shows "\<exists>x rl3 os3 ps3 resp3. route W m2 ro r2 ((toks2, rl2, os2, ps2, w1), resp2) = (x, (toks2, rl3, os3, ps3, w1), resp3) \<and>
    granted resp3 = granted resp2"
proof -
  let ?act = "\<lambda>m r. on_site (Refresh (mt_rt m) (main_auth W m) r)"
  have post: "map_of (auth_posts W m r) (rq_Path r) = Some (?act m r)" if "rq_Path r = ''/auth/refresh''" for m r
    by (simp add: auth_posts_def that)
  obtain x s' resp' where run: "at_moment W m (?act m r) ((os, ps, w), resp) = (x, s', resp')" by (metis prod_cases3)
  from route_post_admitted [OF assms(6) post [OF assms(7)] assms(9) this] assms(10)
  have "x = Ret ()" "s' = (os1, ps1, w1)" by (metis prod.inject)+
  with run have first: "Refresh (mt_rt m) (main_auth W m) r (w, resp) = (Ret (), w1, resp')"
    by (auto simp: at_moment_def on_site_def within_def split: prod.splits)
  have svc: "sas_sessions (ah_tokens (main_auth W m)) = Some (main_sessions W m)"
    "sas_users (ah_tokens (main_auth W m)) = Some (main_users W m)" for m by simp_all
  have again: "Refresh (mt_rt m2) (main_auth W m2) r2 (w1, resp2) = (Ret (), w1, http_Error ''unauthorized'' 401 resp2)"
    by (rule refresh_cookie_once [OF assms(1) svc assms(4,5,8) first assms(2) svc assms(13,14,3)])
  show ?thesis
  proof (cases "admitted_now m2 r2 rl2")
    case True
    obtain os3 ps3 where "at_moment W m2 (?act m2 r2) ((os2, ps2, w1), resp2)
        = (Ret (), (os3, ps3, w1), http_Error ''unauthorized'' 401 resp2)"
      by (simp add: at_moment_def on_site_def within_def again)
    from route_post_admitted [OF assms(11) post [OF assms(12)] True this] show ?thesis by (metis grant_simps)
  next
    case False
    from route_post_refused [OF assms(11) post [OF assms(12)] this] show ?thesis by metis
  qed
qed



section \<open>Asking for a code\<close>

text \<open>A SELECT for the tenant of a domain, which writes nothing.\<close>

definition tenants_read_only :: "'d db \<Rightarrow> bool" where
  "tenants_read_only db \<longleftrightarrow> (\<forall>c ns dbn vs d. snd (db_Query db c ns dbn sql_tenant_by_domain vs d) = d)"

lemma main_tenants_frame:
  assumes "tenants_read_only (wi_db W)"
  shows "snd (main_tenants W m c domain w) = w"
proof -
  have "snd (ResolveByDomain L (NewTenantRepo (Some (wi_db W))) c domain d) = d" for L d
    using assms by (auto simp: ResolveByDomain_def NewTenantRepo_def tenants_read_only_def Let_def split: sum.splits option.splits prod.splits)
      (metis snd_conv)+
  then show ?thesis by (simp add: main_tenants_def on_part_def)
qed

lemma main_tenant_or:
  assumes "tenants_read_only (wi_db W)"
  obtains t where "\<And>resp. tenant_or L (Some (main_tenants W m)) r email fb (w, resp) = (Ret t, w, resp)"
proof -
  have "snd (ResolveTenantByEmail L (Some (main_tenants W m)) c email w) = w" for c
    using main_tenants_frame [OF assms, of m c "extractDomain L email" w]
    by (auto simp: ResolveTenantByEmail_def Let_def split: prod.splits sum.splits)
  then show ?thesis using that by (simp add: tenant_or_def)
qed

lemma main_audit_open:
  assumes "\<not> au_closed (si_audit w)"
  obtains w' where "\<And>resp. audit_with (Some (main_audit m)) r ev (w, resp) = (Ret (), w', resp)"
proof -
  have "\<exists>e. fst (LogSecurityEvent (mt_pick m) (rq_Context r) ev (si_audit w)) = Ret e"
    using assms by (simp add: LogSecurityEvent_def Let_def)
  then obtain e where "fst (LogSecurityEvent (mt_pick m) (rq_Context r) ev (si_audit w)) = Ret e" by blast
  then show ?thesis using that by (simp add: audit_with_def main_audit_def on_part_def bind_act_def world_go_def)
qed

lemma main_send_code:
  assumes "GenerateCode (rt_digits rt) = Inr code"
    and "fst (os_Save (SurrealOTPRepo (rt_lib (mt_rt m)) (Some (wi_db W))) (rq_Context r) k
      (sha256Hex (rt_lib rt) code) (rt_now rt + otpLifetime) (si_db w)) = None"
    and "wi_mail W (rq_Context r) \<lparr>on_RecipientID = email, on_Code = code, on_Expiry = otpLifetime\<rparr> = None"
  obtains w' where "\<And>resp. send_code rt (main_auth W m) r email k (w, resp) = (Ret None, w', resp)" and "si_audit w' = si_audit w"
  using that assms
  by (simp add: send_code_def main_auth_def main_otp_def Send_def Let_def on_part_def put_db_def split_beta)

text \<open>C9: Whoever knows an e-mail address can read its \<open>user_id_hash\<close>: the page that asks for the code, sent by
  /auth/otp/send to the client that typed the address, carries it in clear.  The request is one the two
  limiters let through in the present state, the database takes the code, the mail server takes the
  mail, and the program is not shutting down.\<close>

theorem send_otp_reveals_hash:
  assumes "user_lookup (main_users W m) users" and "tenants_read_only (wi_db W)"
    and "rq_Method r = ''POST''" and "rq_Path r = ''/auth/otp/send''" and "rq_FormErr r = None"
    and "email = TrimSpace (FormValue r ''email'')" and "Contains email ''@''" and "\<not> HasPrefix email ''@''"
    and "admitted_now m r rl" and "snd (fst (Allow (rt_rate (mt_rt m)) (RateKeyOTPSend email) PolicyOTP (si_limits w)))"
    and "find (\<lambda>u. u_EmailHash u = HashEmail (rt_lib (mt_rt m)) email (wi_pepper W)) (users (rq_Context r) w) = Some u"
    and "\<And>l. users (rq_Context r) (put_limits l w) = users (rq_Context r) w" and "u_UserID u \<noteq> ''''"
    and "GenerateCode (rt_digits (mt_rt m)) = Inr code"
    and "fst (os_Save (SurrealOTPRepo (rt_lib (mt_rt m)) (Some (wi_db W))) (rq_Context r) (u_UserIDHash u)
      (sha256Hex (rt_lib (mt_rt m)) code) (rt_now (mt_rt m) + otpLifetime) (si_db w)) = None"
    and "wi_mail W (rq_Context r) \<lparr>on_RecipientID = email, on_Code = code, on_Expiry = otpLifetime\<rparr> = None"
    and "\<not> au_closed (si_audit w)"
  shows "\<exists>rl1 os1 ps1 w' resp'. route W m ro r ((toks, rl, os, ps, w), resp) = (Ret (), (toks, rl1, os1, ps1, w'), resp') \<and>
    rs_bodies resp' = rs_bodies resp @ [Template ''OTPFormPartial'' [email, u_UserIDHash u]]"
proof -
  let ?rt = "mt_rt m" and ?h = "main_auth W m"
  have h: "ah_users ?h = Some (main_users W m)" "ah_pepper ?h = wi_pepper W" "ah_audit ?h = Some (main_audit m)"
    "ah_tenantResolver ?h = Some (main_tenants W m)" "ah_rl ?h = Some main_limiter" by (simp_all add: main_auth_def)
  define w1 where "w1 = put_limits (snd (Allow (rt_rate ?rt) (RateKeyOTPSend email) PolicyOTP (si_limits w))) w"
  have w1: "rate_ok ?rt ?h r (RateKeyOTPSend email) (w, resp) = (Ret True, w1, resp)" for resp
    using assms(10) by (simp add: rate_ok_def h main_limiter_def on_part_def w1_def split_beta)
  have db: "si_db w1 = si_db w" "si_audit w1 = si_audit w" by (simp_all add: w1_def put_limits_def)
  obtain t where t: "\<And>resp. tenant_or (rt_lib ?rt) (ah_tenantResolver ?h) r email ''public'' (w1, resp) = (Ret t, w1, resp)"
    unfolding h by (rule main_tenant_or [OF assms(2), of "rt_lib ?rt" m r email "''public''" w1]) blast
  have found: "find_or_create ?rt ?h r email t (w1, resp) = (Ret (Inr (u_UserID u, u_UserIDHash u)), w1, resp)" for resp
    by (rule find_or_create_found [OF assms(1) h(1) _ assms(13)]) (use assms(11,12) in \<open>simp add: h w1_def\<close>)
  obtain w2 where w2: "\<And>resp. send_code ?rt ?h r email (u_UserIDHash u) (w1, resp) = (Ret None, w2, resp)" "si_audit w2 = si_audit w1"
    by (rule main_send_code [OF assms(14) _ assms(16), of m "u_UserIDHash u" w1]) (use assms(15) in \<open>simp_all add: db\<close>)
  obtain w3 where w3: "\<And>resp. logSecurity ?h r (security_event r (u_UserID u) t (MaskEmail email) ''auth.otp.send'' ''success'') (w2, resp)
      = (Ret (), w3, resp)"
    unfolding logSecurity_def h
    by (rule main_audit_open [of w2 m r "security_event r (u_UserID u) t (MaskEmail email) ''auth.otp.send'' ''success''"])
      (use assms(17) db w2(2) in \<open>simp, blast\<close>)
  obtain resp' where run: "SendOTP ?rt ?h r (w, resp) = (Ret (), w3, resp')"
    and body: "rs_bodies resp' = rs_bodies resp @ [Template ''OTPFormPartial'' [email, u_UserIDHash u]]"
    using SendOTP_known [OF assms(5,7,8,6) w1 t found w2(1) w3] by blast
  have post: "map_of (auth_posts W m r) (rq_Path r) = Some (on_site (SendOTP ?rt ?h r))"
    by (simp add: auth_posts_def assms(4))
  obtain os1 ps1 where "at_moment W m (on_site (SendOTP ?rt ?h r)) ((os, ps, w), resp) = (Ret (), (os1, ps1, w3), resp')"
    by (simp add: at_moment_def on_site_def within_def run)
  from route_post_admitted [OF assms(3) post assms(9) this] show ?thesis using body by meson
qed


section \<open>Closed examples\<close>

text \<open>The user u1 of acme and the refresh token ''old'', in the small database behind the whole program.\<close>

definition web_wiring :: "mini wiring" where
  "web_wiring = \<lparr>wi_env = demo_env, wi_pepper = '''', wi_db = mini_db, wi_mail = (\<lambda>c n. None), wi_wa = refusing_wa,
     wi_http = (\<lambda>c q w. (Inl ''no network'', w)), wi_marshal = (\<lambda>v. ''''),
     wi_parsers = \<lparr>pp_creation = (\<lambda>r. Inl ''''), pp_assertion = (\<lambda>r. Inl '''')\<rparr>\<rparr>"

definition web_site :: "mini site" where
  "web_site = \<lparr>si_db = web_world, si_limits = NewMemoryRateLimiter, si_audit = NewAuditRepo, si_outbox = []\<rparr>"

definition web_services :: "mini world" where
  "web_services = ({}, newRateLimiter, oauth_service web_wiring demo_moment, passkey_service web_wiring demo_moment, web_site)"

lemma web_site_service:
  "token_service (main_users web_wiring demo_moment) (\<lambda>c w. web_list c (si_db w))
     (main_sessions web_wiring demo_moment) (\<lambda>c w. web_view c (si_db w))"
  using db_part.service_part [OF mini.is_service [where L = demo and rd = demo_reads]]
  by (simp add: main_users_def main_sessions_def web_wiring_def demo_moment_def)

lemma web_admitted: "admitted_now demo_moment r newRateLimiter"
  by (simp add: admitted_now_def rl_allow_def newRateLimiter_def demo_moment_def minute_def)

lemma skip_route_signs_in_witness:
  "\<exists>s' resp'. route web_wiring demo_moment demo_router (a_request\<lparr>rq_Method := ''POST'', rq_Path := ''/auth/passkey/skip'',
       rq_Form := [(''user_id_hash'', web_hash)]\<rparr>) (web_services, fresh_response) = (Ret (), s', resp') \<and>
     signs_in web_rt AccessTokenTTL fresh_response resp' ''u1'' ''public''"
proof -
  define r where "r = a_request\<lparr>rq_Method := ''POST'', rq_Path := ''/auth/passkey/skip'', rq_Form := [(''user_id_hash'', web_hash)]\<rparr>"
  have r: "FormValue r ''user_id_hash'' = web_hash" "rq_FormErr r = None" "rq_Context r = Background"
    "rq_Method r = ''POST''" "rq_Path r = ''/auth/passkey/skip''"
    by (simp_all add: FormValue_def r_def a_request_def)
  have len: "8 \<le> length web_hash" by (simp add: web_hash_def sha_hex_length)
  note svc = token_service.axioms(1,2) [OF web_site_service]
  show ?thesis
    unfolding r_def [symmetric] web_services_def
    using skip_route_signs_in [OF svc, where b = "replicate 32 CHR ''q''" and r = r and w = web_site and u = "mapUserRowV2 web_row"
        and rl = newRateLimiter and toks = "{}" and ro = demo_router and os = "oauth_service web_wiring demo_moment"
        and ps = "passkey_service web_wiring demo_moment" and resp = fresh_response]
    by (auto simp: r len web_admitted web_site_def web_views web_found demo_issue_rand or_public_def GetTenantID_def)
qed

text \<open>Two databases side by side: the users and the sessions, and the one-time passwords.\<close>

definition otp_sql :: "string \<Rightarrow> bool" where
  "otp_sql sql \<longleftrightarrow> sql \<in> {sql_otp_delete, sql_otp_create, sql_otp_select, sql_otp_increment}"

definition both_db :: "(mini \<times> otp_docs) db" where
  "both_db = \<lparr>db_Query = (\<lambda>c ns dbn sql vs (d, k). if otp_sql sql
       then (case db_Query (otp_db (\<lambda>n. AFloat n 0)) c ns dbn sql vs k of (res, k1) \<Rightarrow> (res, d, k1))
       else (case db_Query mini_db c ns dbn sql vs d of (res, d1) \<Rightarrow> (res, d1, k))), db_defaultNS = ''public''\<rparr>"

definition both_wiring :: "(mini \<times> otp_docs) wiring" where
  "both_wiring = \<lparr>wi_env = demo_env, wi_pepper = '''', wi_db = both_db, wi_mail = (\<lambda>c n. None), wi_wa = refusing_wa,
     wi_http = (\<lambda>c q w. (Inl ''no network'', w)), wi_marshal = (\<lambda>v. ''''),
     wi_parsers = \<lparr>pp_creation = (\<lambda>r. Inl ''''), pp_assertion = (\<lambda>r. Inl '''')\<rparr>\<rparr>"

definition both_site :: "(mini \<times> otp_docs) site" where
  "both_site = \<lparr>si_db = (web_world, \<lambda>_ _. None), si_limits = NewMemoryRateLimiter, si_audit = NewAuditRepo, si_outbox = []\<rparr>"

lemma both_users: "user_lookup (main_users both_wiring demo_moment) (\<lambda>c w. web_list c (fst (si_db w)))"
proof -
  have sql: "\<not> otp_sql sql_user_by_id" "\<not> otp_sql sql_user_by_email" "\<not> otp_sql sql_user_by_hash"
    by (simp_all add: otp_sql_def sql_user_defs sql_otp_delete_def sql_otp_create_def sql_otp_select_def sql_otp_increment_def)
  have ns: "ns_of both_db c = ns_of mini_db c" for c by (simp add: ns_of_def both_db_def)
  have q: "tenant_Query both_db c s vs d = (fst (tenant_Query mini_db c s vs (fst d)), snd (tenant_Query mini_db c s vs (fst d)), snd d)"
    if "\<not> otp_sql s" for c s vs d using that by (cases d) (simp add: tenant_Query_def ns, simp add: both_db_def split_beta)
  have find_eq: "user_find s k (Some both_db) c i d = (fst (user_find s k (Some mini_db) c i (fst d)), snd (user_find s k (Some mini_db) c i (fst d)), snd d)"
    if "\<not> otp_sql s" for s k c i d
    by (simp add: user_find_def q [OF that] split_beta split: sum.split option.split)
  let ?us = "UserRepository demo demo_reads (Some both_db)"
  have "user_lookup ?us (\<lambda>c d. web_list c (fst d))"
  proof
    fix c h and d :: "mini \<times> otp_docs"
    note L = fst_part.lookup_part [OF web_service(1)]
    show "\<exists>r. us_FindByUserID ?us c h d = (r, d) \<and> (r = Inr (find (\<lambda>u. u_UserID u = h) (web_list c (fst d))) \<or>
        (find (\<lambda>u. u_UserID u = h) (web_list c (fst d)) = None \<and> (\<exists>e. r = Inl e)))"
      using user_lookup.find_id [OF L, of c h d]
      by (simp add: UserRepository_def user_FindByUserID_def find_eq sql part_users_def on_part_def)
    show "\<exists>r. us_FindByUserIDHash ?us c h d = (r, d) \<and> (r = Inr (find (\<lambda>u. u_UserIDHash u = h) (web_list c (fst d))) \<or>
        (find (\<lambda>u. u_UserIDHash u = h) (web_list c (fst d)) = None \<and> (\<exists>e. r = Inl e)))"
      using user_lookup.find_hash [OF L, of c h d]
      by (simp add: UserRepository_def user_FindByUserIDHash_def find_eq sql part_users_def on_part_def)
    show "\<exists>r. us_FindByEmailHash ?us c h d = (r, d) \<and> (r = Inr (find (\<lambda>u. u_EmailHash u = h) (web_list c (fst d))) \<or>
        (find (\<lambda>u. u_EmailHash u = h) (web_list c (fst d)) = None \<and> (\<exists>e. r = Inl e)))"
      using user_lookup.find_email [OF L, of c h d]
      by (simp add: UserRepository_def user_FindByEmailHash_def find_eq sql part_users_def on_part_def)
  qed
  from db_part.lookup_part [OF this] show ?thesis by (simp add: main_users_def both_wiring_def demo_moment_def)
qed

lemma send_otp_reveals_hash_witness:
  "\<exists>s' resp'. route both_wiring demo_moment demo_router (a_request\<lparr>rq_Method := ''POST'', rq_Path := ''/auth/otp/send'',
       rq_Form := [(''email'', web_mail)]\<rparr>)
     (({}, newRateLimiter, oauth_service both_wiring demo_moment, passkey_service both_wiring demo_moment, both_site), fresh_response)
     = (Ret (), s', resp') \<and> rs_bodies resp' = [Template ''OTPFormPartial'' [web_mail, web_hash]]"
proof -
  define r where "r = a_request\<lparr>rq_Method := ''POST'', rq_Path := ''/auth/otp/send'', rq_Form := [(''email'', web_mail)]\<rparr>"
  have r: "web_mail = TrimSpace (FormValue r ''email'')" "rq_FormErr r = None" "rq_Context r = Background"
    "rq_Method r = ''POST''" "rq_Path r = ''/auth/otp/send''"
    by (simp_all add: FormValue_def r_def a_request_def web_mail_simps)
  have select: "tenants_read_only (wi_db both_wiring)"
  proof -
    have "\<not> otp_sql sql_tenant_by_domain"
      by (simp add: otp_sql_def sql_tenant_by_domain_def sql_otp_delete_def sql_otp_create_def sql_otp_select_def sql_otp_increment_def)
    moreover have "parse_update sql_tenant_by_domain = None" unfolding sql_tenant_by_domain_def by code_simp
    then have "db_Query mini_db c ns dbn sql_tenant_by_domain vs d = (Inl ''unknown statement'', d)" for c ns dbn vs d
      by (simp add: mini_db_def mini_update_def) (simp add: sql_tenant_by_domain_def sql_user_defs sql_session_defs)
    ultimately show ?thesis by (simp add: tenants_read_only_def both_wiring_def both_db_def split_beta)
  qed
  have code: "GenerateCode (rt_digits (mt_rt demo_moment)) = Inr (replicate 6 (byte 55))"
    by (simp add: GenerateCode_def demo_moment_def web_rt_def otpLength_def eval_nat_numeral(2,3))
  have save: "fst (os_Save (SurrealOTPRepo L (Some (wi_db both_wiring))) c k h t (d, \<lambda>_ _. None)) = None" for L c k h t d
    by (simp add: SurrealOTPRepo_def otp_Save_def tenant_Query_def both_wiring_def both_db_def otp_sql_def otp_db_def split_beta)
  have "\<exists>rl1 os1 ps1 w' resp'. route both_wiring demo_moment demo_router r
      (({}, newRateLimiter, oauth_service both_wiring demo_moment, passkey_service both_wiring demo_moment, both_site), fresh_response)
      = (Ret (), ({}, rl1, os1, ps1, w'), resp') \<and>
    rs_bodies resp' = rs_bodies fresh_response @ [Template ''OTPFormPartial'' [web_mail, u_UserIDHash (mapUserRowV2 web_row)]]"
    by (rule send_otp_reveals_hash [OF both_users select r(4,5,2,1) web_mail_simps(1,2) web_admitted _ _ _ _ code])
      (simp_all add: web_rows both_site_def save r(3) put_limits_def, simp_all add: both_wiring_def demo_moment_def NewMemoryRateLimiter_def
        Allow_def PolicyOTP_def NewAuditRepo_def Start_def getOrCreate_def rollWindow_def RateKeyOTPSend_def Let_def)
  then show ?thesis unfolding r_def by auto
qed

lemma refresh_replay_refused_witness:
  "\<exists>s' resp' x s2 resp2. (let r = a_request\<lparr>rq_Method := ''POST'', rq_Path := ''/auth/refresh'', rq_Cookies := [(''loxtu_refresh'', ''old'')]\<rparr>
     in route web_wiring demo_moment demo_router r (web_services, fresh_response) = (Ret (), s', resp') \<and> granted resp' \<noteq> [] \<and>
        route web_wiring demo_moment demo_router r (s', fresh_response) = (x, s2, resp2) \<and> granted resp2 = [])"
proof -
  define r where "r = a_request\<lparr>rq_Method := ''POST'', rq_Path := ''/auth/refresh'', rq_Cookies := [(''loxtu_refresh'', ''old'')]\<rparr>"
  have r: "Cookie r ''loxtu_refresh'' = Some ''old''" "rq_Context r = Background" "rq_Method r = ''POST''" "rq_Path r = ''/auth/refresh''"
    by (simp_all add: Cookie_def r_def a_request_def)
  let ?h = "main_auth web_wiring demo_moment" and ?os = "oauth_service web_wiring demo_moment" and ?ps = "passkey_service web_wiring demo_moment"
  have svc: "sas_sessions (ah_tokens ?h) = Some (main_sessions web_wiring demo_moment)"
    "sas_users (ah_tokens ?h) = Some (main_users web_wiring demo_moment)" by simp_all
  obtain pair w' where rot: "Rotate demo demo_jwt demo_env (ah_tokens ?h) Background demo_issue ''old'' web_site = (Ret (pair, None), w')"
    using token_service.rotate_ok [OF web_site_service svc jwt_ok_demo _ demo_issue_rand, where env = demo_env and L = demo and p = "''old''"
        and c = Background and w = web_site and x = "mapUserRowV2 web_row" and y = demo_old]
    by (auto simp: web_rows web_views web_site_def)
  then have run: "Refresh web_rt ?h r (web_site, fresh_response) = (Ret (), w', WriteHeader 204 (setAuthCookies pair fresh_response))"
    by (simp add: Refresh_def r bind_act_def world_go_def)
  have post: "map_of (auth_posts web_wiring demo_moment r) (rq_Path r) = Some (on_site (Refresh web_rt ?h r))"
    by (simp add: auth_posts_def r)
  obtain os1 ps1 where moment: "at_moment web_wiring demo_moment (on_site (Refresh web_rt ?h r)) ((?os, ?ps, web_site), fresh_response)
      = (Ret (), (os1, ps1, w'), WriteHeader 204 (setAuthCookies pair fresh_response))"
    by (simp add: at_moment_def on_site_def within_def run)
  obtain rl1 where first: "route web_wiring demo_moment demo_router r (({}, newRateLimiter, ?os, ?ps, web_site), fresh_response)
      = (Ret (), ({}, rl1, os1, ps1, w'), WriteHeader 204 (setAuthCookies pair fresh_response))"
    by (rule route_post_admitted [OF r(3) post web_admitted moment])
  have "\<exists>x rl3 os3 ps3 resp3. route web_wiring demo_moment demo_router r (({}, rl1, os1, ps1, w'), fresh_response)
      = (x, ({}, rl3, os3, ps3, w'), resp3) \<and> granted resp3 = granted fresh_response"
    by (rule refresh_replay_refused [OF web_site_service web_site_service _ _ _ r(3,4,1) web_admitted first r(3,4,1)])
      (auto simp: demo_issue_rand)
  then obtain x s2 resp2 where "route web_wiring demo_moment demo_router r (({}, rl1, os1, ps1, w'), fresh_response) = (x, s2, resp2)"
    and "granted resp2 = []" by (auto simp: granted_def)
  moreover have "granted (WriteHeader 204 (setAuthCookies pair fresh_response)) \<noteq> []"
    by (simp add: granted_def setAuthCookies_def auth_cookie_def)
  ultimately show ?thesis
    unfolding Let_def r_def [symmetric] web_services_def using first by blast
qed

end
