(* ===== verification/Templ.thy ===== *)
theory Templ
  imports GoVal
begin

text \<open>
  What the generated templates (internal/interfaces/templates) do when they are rendered.  A template is a
  function from its arguments to a list of nodes, one node for each call that its generated code makes on
  the buffer; \<open>render\<close> runs the calls, the first error ends it.  The library templ is not under src/: its
  pure functions are the record \<open>templ\<close>, its buffer is the record \<open>twriter\<close> over a state of its own.
  The lemmas say that a page is written in full, or as far as the first failing write.
\<close>

section \<open>The library\<close>

text \<open>An item of a class list, \<open>templ.KV\<close> with its condition.\<close>

datatype css = Class string | KV string bool

record templ =
  tm_EscapeString :: "string \<Rightarrow> string"
  tm_JoinStringErrs :: "string \<Rightarrow> goerr + string"
  tm_JoinURLErrs :: "string \<Rightarrow> goerr + string"
  tm_ResolveAttributeValue :: "any \<Rightarrow> goerr + string"
  tm_CSSClasses :: "css list \<Rightarrow> string"
  tm_URL :: "string \<Rightarrow> string"
  tm_Error :: "goerr \<Rightarrow> string \<Rightarrow> nat \<Rightarrow> nat \<Rightarrow> goerr"

record 'b twriter =
  tw_CtxErr :: "'b \<Rightarrow> goerr option"
  tw_Static :: "nat \<Rightarrow> string \<Rightarrow> 'b \<Rightarrow> goerr option \<times> 'b"
  tw_WriteString :: "string \<Rightarrow> 'b \<Rightarrow> goerr option \<times> 'b"
  tw_RenderCSSItems :: "css list \<Rightarrow> 'b \<Rightarrow> goerr option \<times> 'b"
  tw_GetBuffer :: "'b \<Rightarrow> bool \<times> 'b"
  tw_ReleaseBuffer :: "'b \<Rightarrow> goerr option \<times> 'b"

text \<open>\<open>html.EscapeString\<close> of the standard library.\<close>

definition escape_char :: "char \<Rightarrow> string" where
  "escape_char c =
     (if c = CHR ''&'' then ''&amp;'' else if c = CHR 0x27 then ''&#39;'' else if c = CHR ''<'' then ''&lt;''
      else if c = CHR ''>'' then ''&gt;'' else if c = CHR 0x22 then ''&#34;'' else [c])"

definition html_escape :: "string \<Rightarrow> string" where
  "html_escape s = concat (map escape_char s)"

fun attr_text :: "any \<Rightarrow> string" where
  "attr_text (AStr s) = html_escape s"
| "attr_text (ABool b) = (if b then ''true'' else ''false'')"
| "attr_text _ = []"

text \<open>The documented behaviour: text and attribute values are escaped, joining one string gives it back.\<close>

definition templ_ok :: "templ \<Rightarrow> bool" where
  "templ_ok L \<longleftrightarrow> (\<forall>s. tm_EscapeString L s = html_escape s \<and> tm_JoinStringErrs L s = Inr s \<and> tm_JoinURLErrs L s = Inr s \<and>
     tm_ResolveAttributeValue L (AStr s) = Inr (html_escape s)) \<and>
     (\<forall>b. tm_ResolveAttributeValue L (ABool b) = Inr (attr_text (ABool b)))"

text \<open>The characters of the templates that are not ASCII, in UTF-8, and the backslash.\<close>

definition em_dash :: string where "em_dash = [CHR 0xE2, CHR 0x80, CHR 0x94]"
definition mid_dot :: string where "mid_dot = [CHR 0xC2, CHR 0xB7]"
definition cross_mark :: string where "cross_mark = [CHR 0xE2, CHR 0x9C, CHR 0x95]"
definition degree :: string where "degree = [CHR 0xC2, CHR 0xB0]"
definition backslash :: string where "backslash = [CHR 0x5C]"

section \<open>Nodes\<close>

text \<open>
  A place in a .templ file, which the error of a placeholder names.  \<open>Lit\<close> is \<open>templruntime.WriteString\<close>,
  \<open>TextV\<close>, \<open>AttrV\<close>, \<open>ClassV\<close> and \<open>UrlV\<close> are the placeholders, \<open>CssItems\<close> is
  \<open>templ.RenderCSSItems\<close>, \<open>Sub\<close> runs the whole component of a template, and \<open>Inner\<close> the children that a
  template was given, which are written to its buffer.
\<close>

type_synonym place = "string \<times> nat \<times> nat"

datatype node =
    Lit nat string
  | TextV place string
  | AttrV place any
  | ClassV place "css list"
  | UrlV place string
  | CssItems "css list"
  | Sub "node list"
  | Inner "node list"

definition place_error :: "templ \<Rightarrow> place \<Rightarrow> goerr \<Rightarrow> goerr" where
  "place_error L p e = (case p of (f, l, c) \<Rightarrow> tm_Error L e f l c)"

text \<open>A placeholder: its value, or the error at its place; then the value is written.\<close>

definition put :: "templ \<Rightarrow> 'b twriter \<Rightarrow> place \<Rightarrow> goerr + string \<Rightarrow> (string \<Rightarrow> string) \<Rightarrow> 'b \<Rightarrow> goerr option \<times> 'b" where
  "put L W p v f b = (case v of Inl e \<Rightarrow> (Some (place_error L p e), b) | Inr s \<Rightarrow> tw_WriteString W (f s) b)"

text \<open>
  A component looks at the context, and gets a buffer around the writer unless the writer is one, as it is for a
  component inside another.  A buffer of its own is released at the end, also after an error; the error of the
  release, which flushes, counts when there was none before.
\<close>

definition released :: "'b twriter \<Rightarrow> bool \<Rightarrow> goerr option \<times> 'b \<Rightarrow> goerr option \<times> 'b" where
  "released W isBuffer r =
     (if isBuffer then r
      else case tw_ReleaseBuffer W (snd r) of (bufErr, b) \<Rightarrow> (if fst r = None then bufErr else fst r, b))"

fun render :: "templ \<Rightarrow> 'b twriter \<Rightarrow> node list \<Rightarrow> 'b \<Rightarrow> goerr option \<times> 'b"
and render_node :: "templ \<Rightarrow> 'b twriter \<Rightarrow> node \<Rightarrow> 'b \<Rightarrow> goerr option \<times> 'b" where
  "render L W [] b = (None, b)"
| "render L W (n # ns) b =
     (case render_node L W n b of (Some e, b1) \<Rightarrow> (Some e, b1) | (None, b1) \<Rightarrow> render L W ns b1)"
| "render_node L W (Lit i s) b = tw_Static W i s b"
| "render_node L W (TextV p s) b = put L W p (tm_JoinStringErrs L s) (tm_EscapeString L) b"
| "render_node L W (AttrV p v) b = put L W p (tm_ResolveAttributeValue L v) id b"
| "render_node L W (ClassV p cs) b = put L W p (tm_ResolveAttributeValue L (AStr (tm_CSSClasses L cs))) id b"
| "render_node L W (UrlV p s) b = put L W p (tm_JoinURLErrs L s) (tm_EscapeString L) b"
| "render_node L W (CssItems cs) b = tw_RenderCSSItems W cs b"
| "render_node L W (Sub ns) b = (case tw_CtxErr W b of Some e \<Rightarrow> (Some e, b)
     | None \<Rightarrow> released W (fst (tw_GetBuffer W b)) (render L W ns (snd (tw_GetBuffer W b))))"
| "render_node L W (Inner ns) b = render L W ns b"

section \<open>The text of a page\<close>

text \<open>What a page consists of when nothing fails.\<close>

fun html :: "templ \<Rightarrow> node list \<Rightarrow> string" and html_node :: "templ \<Rightarrow> node \<Rightarrow> string" where
  "html L [] = []"
| "html L (n # ns) = html_node L n @ html L ns"
| "html_node L (Lit i s) = s"
| "html_node L (TextV p s) = html_escape s"
| "html_node L (AttrV p v) = attr_text v"
| "html_node L (ClassV p cs) = html_escape (tm_CSSClasses L cs)"
| "html_node L (UrlV p s) = html_escape s"
| "html_node L (CssItems cs) = []"
| "html_node L (Sub ns) = html L ns"
| "html_node L (Inner ns) = html L ns"

lemma html_append [simp]: "html L (ns @ ms) = html L ns @ html L ms"
  by (induction ns) simp_all

text \<open>The attribute values of the templates are strings and truth values.\<close>

fun plain :: "node list \<Rightarrow> bool" and plain_node :: "node \<Rightarrow> bool" where
  "plain [] = True"
| "plain (n # ns) = (plain_node n \<and> plain ns)"
| "plain_node (AttrV p v) = (case v of AStr s \<Rightarrow> True | ABool b \<Rightarrow> True | _ \<Rightarrow> False)"
| "plain_node (Sub ns) = plain ns"
| "plain_node (Inner ns) = plain ns"
| "plain_node _ = True"

section \<open>Writing a page\<close>

text \<open>A buffer that appends, \<open>view\<close> being all it has taken so far; a write that fails has appended a part.\<close>

definition appends :: "('b \<Rightarrow> string) \<Rightarrow> string \<Rightarrow> goerr option \<times> 'b \<Rightarrow> 'b \<Rightarrow> bool" where
  "appends view s res b =
     (case fst res of None \<Rightarrow> view (snd res) = view b @ s
      | Some e \<Rightarrow> \<exists>p q. s = p @ q \<and> view (snd res) = view b @ p)"

lemma appends_idle [simp]: "appends view [] (None, b) b" "appends view s (Some e, b) b"
  by (auto simp: appends_def)

lemma appends_then:
  assumes "appends view s (None, b1) b" and "appends view t res b1"
  shows "appends view (s @ t) res b"
proof (cases "fst res")
  case None
  with assms show ?thesis by (simp add: appends_def)
next
  case (Some e)
  with assms obtain p q where "view b1 = view b @ s" "t = p @ q" "view (snd res) = view b1 @ p"
    by (auto simp: appends_def)
  with Some show ?thesis unfolding appends_def by (intro iffD2 [OF option.case_eq_if]) (auto intro!: exI [of _ "s @ p"])
qed

lemma appends_stop:
  assumes "appends view s (Some e, b1) b"
  shows "appends view (s @ t) (Some e, b1) b"
proof -
  from assms obtain p q where "s = p @ q" "view b1 = view b @ p" by (auto simp: appends_def)
  then show ?thesis by (auto simp: appends_def intro!: exI [of _ p] exI [of _ "q @ t"])
qed

locale templ_writer =
  fixes W :: "'b twriter" and view :: "'b \<Rightarrow> string"
  assumes writes_static: "appends view s (tw_Static W i s b) b"
    and writes_string: "appends view s (tw_WriteString W s b) b"
    and writes_css: "appends view [] (tw_RenderCSSItems W cs b) b"
    and gets_buffer: "view (snd (tw_GetBuffer W b)) = view b"
    and releases_buffer: "view (snd (tw_ReleaseBuffer W b)) = view b"
begin

lemmas writes = writes_static writes_string writes_css

lemma released_appends:
  assumes "appends view s r (snd (tw_GetBuffer W b))"
  shows "appends view s (released W isb r) b"
proof -
  obtain e b1 where r: "r = (e, b1)" by (rule prod.exhaust)
  obtain be b2 where rel: "tw_ReleaseBuffer W b1 = (be, b2)" by (rule prod.exhaust)
  then have "view b2 = view b1" using releases_buffer [of b1] by simp
  with assms show ?thesis
    by (cases e; cases be) (auto simp: r rel released_def appends_def gets_buffer)
qed

lemma render_appends:
  assumes "templ_ok L"
  shows "plain ns \<Longrightarrow> appends view (html L ns) (render L W ns b) b"
    and "plain_node n \<Longrightarrow> appends view (html_node L n) (render_node L W n b) b"
proof (induction ns and n arbitrary: b and b rule: plain_plain_node.induct)
  case (2 n ns)
  show ?case
  proof (cases "render_node L W n b")
    case (Pair r b1)
    have n: "appends view (html_node L n) (r, b1) b" using 2 Pair by (metis plain.simps(2))
    show ?thesis
    proof (cases r)
      case None
      then show ?thesis using appends_then [OF n [unfolded None] "2.IH"(2)] 2(3) Pair by simp
    next
      case (Some e)
      then show ?thesis using appends_stop [OF n [unfolded Some]] Pair by simp
    qed
  qed
qed (use assms in \<open>auto simp: templ_ok_def put_def writes released_appends split: any.splits option.splits\<close>)

end

end
