(* ===== verification/Components.thy ===== *)
theory Components
  imports Templ
begin

text \<open>
  The design system (internal/interfaces/templates/shared/components): one definition for each template,
  the list of the calls its generated code makes, with the helpers that choose its classes.  A template that
  has children takes them as its last argument.
\<close>

definition f_typography :: string where "f_typography = ''internal/interfaces/templates/shared/components/typography.templ''"

definition textVariant :: "string \<Rightarrow> string" where
  "textVariant v = (if v \<in> {''muted'', ''secondary'', ''bold''} then v else ''body'')"

definition Heading1 :: "string \<Rightarrow> node list" where
  "Heading1 text =
    [Lit 1 ''<h1 class=\"ds-heading-1\">'', TextV (f_typography, 4, 32) text,
       Lit 2 ''</h1>'']"

definition Heading2 :: "string \<Rightarrow> node list" where
  "Heading2 text =
    [Lit 3 ''<h2 class=\"ds-heading-2\">'', TextV (f_typography, 7, 32) text,
       Lit 4 ''</h2>'']"

definition Heading3 :: "string \<Rightarrow> node list" where
  "Heading3 text =
    [Lit 5 ''<h3 class=\"ds-heading-3\">'', TextV (f_typography, 10, 32) text,
       Lit 6 ''</h3>'']"

definition Heading4 :: "string \<Rightarrow> node list" where
  "Heading4 text =
    [Lit 7 ''<h4 class=\"ds-heading-4 bento-title\">'', TextV (f_typography, 13, 44) text,
       Lit 8 ''</h4>'']"

definition Heading5 :: "string \<Rightarrow> node list" where
  "Heading5 text =
    [Lit 9 ''<h5 class=\"ds-heading-5\">'', TextV (f_typography, 16, 32) text,
       Lit 10 ''</h5>'']"

definition Heading6 :: "string \<Rightarrow> node list" where
  "Heading6 text =
    [Lit 11 ''<h6 class=\"ds-heading-6\">'', TextV (f_typography, 19, 32) text,
       Lit 12 ''</h6>'']"

definition ui_Text :: "string \<Rightarrow> string \<Rightarrow> node list" where
  "ui_Text variant text =
    (if variant = ''code'' then [Lit 13 ''<code class=\"ds-text ds-text--code\">'',
       TextV (f_typography, 25, 44) text, Lit 14 ''</code>''] else (let cs15 = [Class ''ds-text'',
       Class (''ds-text--'' @ textVariant variant)] in
      [CssItems cs15, Lit 15 ''<p class=\"'', ClassV (f_typography, 1, 0) cs15, Lit 16 ''\">'',
       TextV (f_typography, 27, 65) text, Lit 17 ''</p>'']))"


definition f_badge :: string where "f_badge = ''internal/interfaces/templates/shared/components/badge.templ''"

definition resolveBadge :: "string \<Rightarrow> string" where
  "resolveBadge v =
     (if v \<in> {''success'', ''emerald''} then ''emerald'' else if v \<in> {''warning'', ''gold''} then ''gold''
      else if v = ''error'' then ''error'' else if v = ''info'' then ''info'' else ''neutral'')"

definition Badge :: "string \<Rightarrow> string \<Rightarrow> node list" where
  "Badge variant text =
    (let cs2 = [Class ''badge'', Class (''badge-'' @ resolveBadge variant)] in
      [CssItems cs2, Lit 1 ''<span class=\"'', ClassV (f_badge, 1, 0) cs2, Lit 2 ''\">'',
       TextV (f_badge, 5, 63) text, Lit 3 ''</span>''])"


definition f_badge_backdrop :: string where "f_badge_backdrop = ''internal/interfaces/templates/shared/components/badge_backdrop.templ''"

definition BadgeBackdrop :: "string \<Rightarrow> node list \<Rightarrow> node list" where
  "BadgeBackdrop variant children =
    (let cs2 = [Class ''ds-badge-backdrop'',
       Class (''ds-badge-backdrop--'' @ resolveBadge variant)] in
      [CssItems cs2, Lit 1 ''<div class=\"'', ClassV (f_badge_backdrop, 1, 0) cs2, Lit 2 ''\">'', Inner children,
       Lit 3 ''</div>''])"


definition f_toast :: string where "f_toast = ''internal/interfaces/templates/shared/components/toast.templ''"

definition toastVariant :: "string \<Rightarrow> string" where
  "toastVariant v = (if v \<in> {''success'', ''error'', ''info'', ''warning''} then v else ''info'')"

definition Toast :: "string \<Rightarrow> string \<Rightarrow> string \<Rightarrow> node list" where
  "Toast ident variant message =
    (let cs2 = [Class ''ds-toast'', Class (''ds-toast--'' @ toastVariant variant)] in
      [CssItems cs2, Lit 1 ''<div id=\"'', AttrV (f_toast, 5, 13) (AStr ident), Lit 2 ''\" class=\"'',
       ClassV (f_toast, 1, 0) cs2, Lit 3 ''\" role=\"status\"><span class=\"ds-toast__msg\">'',
       TextV (f_toast, 6, 39) message,
       Lit 4 ''</span> <button type=\"button\" class=\"ds-toast__close\" data-toast-dismiss=\"'',
       AttrV (f_toast, 7, 71) (AStr ident),
       Lit 5 (''\" aria-label=\"Dismiss\">'' @ cross_mark @ ''</button></div>'')])"


definition f_alert :: string where "f_alert = ''internal/interfaces/templates/shared/components/alert.templ''"

definition Alert :: "string \<Rightarrow> string \<Rightarrow> string \<Rightarrow> node list" where
  "Alert variant title message =
    (let cs2 = [Class ''ds-alert'', Class (''ds-alert--'' @ toastVariant variant)] in
      ([CssItems cs2, Lit 1 ''<div class=\"'', ClassV (f_alert, 1, 0) cs2,
       Lit 2 ''\" role=\"alert\">''] @
     (if title \<noteq> '''' then [Lit 3 ''<strong class=\"ds-alert__title\">'', TextV (f_alert, 7, 42) title,
       Lit 4 ''</strong>''] else []) @
     [Lit 5 ''<p class=\"ds-alert__msg\">'', TextV (f_alert, 9, 36) message, Lit 6 ''</p></div>'']))"


definition f_avatar :: string where "f_avatar = ''internal/interfaces/templates/shared/components/avatar.templ''"

definition avatarSize :: "string \<Rightarrow> string" where
  "avatarSize s = (if s \<in> {''sm'', ''lg''} then s else ''md'')"

definition Avatar :: "string \<Rightarrow> string \<Rightarrow> string \<Rightarrow> node list" where
  "Avatar src initials sz =
    (let cs2 = [Class ''ds-avatar'', Class (''ds-avatar--'' @ avatarSize sz)] in
      ([CssItems cs2, Lit 1 ''<span class=\"'', ClassV (f_avatar, 1, 0) cs2, Lit 2 ''\" aria-hidden=\"'',
       AttrV (f_avatar, 5, 102) (ABool (src = '''' \<and> initials = '''')),
       Lit 3 ''\">''] @
     (if src \<noteq> '''' then [Lit 4 ''<img src=\"'', AttrV (f_avatar, 7, 17) (AStr src),
       Lit 5 ''\" alt=\"\" class=\"ds-avatar__img\">''] else [Lit 6 ''<span class=\"ds-avatar__initials\">'',
       TextV (f_avatar, 9, 47) initials, Lit 7 ''</span>'']) @
     [Lit 8 ''</span>'']))"


definition f_bento :: string where "f_bento = ''internal/interfaces/templates/shared/components/bento.templ''"

definition BentoGrid :: "node list \<Rightarrow> node list" where
  "BentoGrid children =
    [Lit 1 ''<div class=\"bento-grid\" id=\"dashboard-grid\">'', Inner children,
       Lit 2 ''</div>'']"

definition BentoItem :: "string \<Rightarrow> bool \<Rightarrow> node list \<Rightarrow> node list" where
  "BentoItem area clickable children =
    (let cs3 = [Class ''bento-item'', Class ''fade-in-up'', Class ''flex-col'',
       KV (''bento-card-'' @ area) (area \<noteq> ''''),
       KV ''bento-item--static'' (\<not> clickable)] in
      [CssItems cs3, Lit 3 ''<div class=\"'', ClassV (f_bento, 1, 0) cs3, Lit 4 ''\">'', Inner children,
       Lit 5 ''</div>''])"


definition f_breadcrumb :: string where "f_breadcrumb = ''internal/interfaces/templates/shared/components/breadcrumb.templ''"

record BreadcrumbItem =
  bi_Label :: string
  bi_Href :: string

definition Breadcrumb :: "BreadcrumbItem list \<Rightarrow> node list" where
  "Breadcrumb items =
    ([Lit 1 ''<nav class=\"ds-breadcrumb\" aria-label=\"Breadcrumb\"><ol class=\"ds-breadcrumb__list\">''] @
     concat (map (\<lambda>(i, it). ([Lit 2 ''<li class=\"ds-breadcrumb__item\">''] @
     (if bi_Href it \<noteq> '''' \<and> int i < int (length items) - 1 then [Lit 3 ''<a href=\"'',
       UrlV (f_breadcrumb, 16, 38) (bi_Href it), Lit 4 ''\" class=\"ds-link ds-link--muted\">'',
       TextV (f_breadcrumb, 16, 82) (bi_Label it), Lit 5 ''</a> ''] else [Lit 6 ''<span aria-current=\"page\">'',
       TextV (f_breadcrumb, 18, 42) (bi_Label it),
       Lit 7 ''</span> '']) @
     (if int i < int (length items) - 1 then [Lit 8 ''<span class=\"ds-breadcrumb__sep\" aria-hidden=\"true\">/</span>''] else []) @
     [Lit 9 ''</li>''])) (enumerate 0 items)) @
     [Lit 10 ''</ol></nav>''])"


definition f_button :: string where "f_button = ''internal/interfaces/templates/shared/components/button.templ''"

definition buttonType :: "string \<Rightarrow> string" where
  "buttonType t = (if t = [] then ''button'' else t)"

definition buttonVariant :: "string \<Rightarrow> string" where
  "buttonVariant v =
     (if v \<in> {''primary'', ''secondary'', ''gold''} then v else if v = ''ghost'' then ''secondary''
      else if v = ''danger'' then ''danger'' else ''primary'')"

definition Button :: "string \<Rightarrow> string \<Rightarrow> bool \<Rightarrow> bool \<Rightarrow> bool \<Rightarrow> node list \<Rightarrow> node list" where
  "Button variant typeAttr disabled loading fullWidth children =
    (let cs2 = [Class ''btn'', Class (''btn-'' @ buttonVariant variant), KV ''w-full'' fullWidth,
       KV ''btn--loading'' loading, KV ''btn--disabled'' disabled] in
      ([CssItems cs2, Lit 1 ''<button type=\"'', AttrV (f_button, 7, 29) (AStr (buttonType typeAttr)),
       Lit 2 ''\" class=\"'', ClassV (f_button, 1, 0) cs2,
       Lit 3 ''\"''] @
     (if disabled \<or> loading then [Lit 4 '' disabled''] else []) @
     [Lit 5 '' hx-disable=\"true\">''] @
     (if loading then [Lit 6 ''<span class=\"ds-spinner ds-spinner--sm\" aria-hidden=\"true\"></span>''] else []) @
     [Inner children, Lit 7 ''</button>'']))"

definition ButtonLink :: "string \<Rightarrow> string \<Rightarrow> bool \<Rightarrow> node list \<Rightarrow> node list" where
  "ButtonLink variant href fullWidth children =
    (let cs6 = [Class ''btn'', Class (''btn-'' @ buttonVariant variant),
       KV ''w-full'' fullWidth] in
      [CssItems cs6, Lit 8 ''<a href=\"'', UrlV (f_button, 28, 28) href, Lit 9 ''\" class=\"'',
       ClassV (f_button, 1, 0) cs6, Lit 10 ''\">'', Inner children, Lit 11 ''</a>''])"


definition f_card :: string where "f_card = ''internal/interfaces/templates/shared/components/card.templ''"

definition Card :: "string \<Rightarrow> bool \<Rightarrow> node list \<Rightarrow> node list" where
  "Card elevation hover children =
    (let cs2 = [Class ''card-glass'', KV ''glass-light'' (elevation = ''light''),
       KV ''glass-heavy'' (elevation = ''heavy''),
       KV ''card-glass--no-hover'' (\<not> hover)] in
      [CssItems cs2, Lit 1 ''<div class=\"'', ClassV (f_card, 1, 0) cs2, Lit 2 ''\">'', Inner children,
       Lit 3 ''</div>''])"

definition CardAuth :: "node list \<Rightarrow> node list" where
  "CardAuth children =
    [Lit 4 ''<div id=\"auth-container\" class=\"card-glass card-auth fade-in-up ds-w-full\">'', Inner children,
       Lit 5 ''</div>'']"


definition f_checkbox :: string where "f_checkbox = ''internal/interfaces/templates/shared/components/checkbox.templ''"

definition Checkbox :: "string \<Rightarrow> string \<Rightarrow> string \<Rightarrow> string \<Rightarrow> bool \<Rightarrow> bool \<Rightarrow> node list" where
  "Checkbox ident name title description checked required =
    ([Lit 1 ''<label for=\"'', AttrV (f_checkbox, 5, 16) (AStr ident),
       Lit 2 ''\" class=\"ds-checkbox\"><input type=\"checkbox\" id=\"'', AttrV (f_checkbox, 8, 10) (AStr ident),
       Lit 3 ''\" name=\"'', AttrV (f_checkbox, 9, 14) (AStr name),
       Lit 4 ''\" class=\"consent-checkbox ds-checkbox__input\"''] @
     (if checked then [Lit 5 '' checked''] else []) @
     (if required then [Lit 6 '' required''] else []) @
     [Lit 7 ''> <span class=\"ds-checkbox__body\"><span class=\"ds-checkbox__title\">'',
       TextV (f_checkbox, 15, 43) title,
       Lit 8 ''</span> ''] @
     (if description \<noteq> '''' then [Lit 9 ''<span class=\"ds-checkbox__desc\">'',
       TextV (f_checkbox, 17, 49) description,
       Lit 10 ''</span>''] else []) @
     [Lit 11 ''</span></label>''])"


definition f_container :: string where "f_container = ''internal/interfaces/templates/shared/components/container.templ''"

definition Container :: "string \<Rightarrow> node list \<Rightarrow> node list" where
  "Container sz children =
    (let cs2 = [Class ''ds-container'', Class (''ds-container--'' @ sz)] in
      [CssItems cs2, Lit 1 ''<div class=\"'', ClassV (f_container, 1, 0) cs2, Lit 2 ''\">'', Inner children,
       Lit 3 ''</div>''])"


definition f_divider :: string where "f_divider = ''internal/interfaces/templates/shared/components/divider.templ''"

definition Divider :: "string \<Rightarrow> node list" where
  "Divider orientation =
    (if orientation = ''vertical'' then [Lit 1 ''<div class=\"ds-divider ds-divider--vertical\" role=\"separator\" aria-orientation=\"vertical\"></div>''] else [Lit 2 ''<hr class=\"ds-divider ds-divider--horizontal\" role=\"separator\">''])"


definition f_empty_state :: string where "f_empty_state = ''internal/interfaces/templates/shared/components/empty_state.templ''"

definition EmptyState :: "string \<Rightarrow> string \<Rightarrow> node list \<Rightarrow> node list" where
  "EmptyState title message children =
    [Lit 1 ''<div class=\"ds-empty\">'', Sub (Heading3 title), Sub (ui_Text ''muted'' message), Inner children,
       Lit 2 ''</div>'']"


definition f_icon :: string where "f_icon = ''internal/interfaces/templates/shared/components/icon.templ''"

definition altOrDefault :: "string \<Rightarrow> string \<Rightarrow> string" where
  "altOrDefault alt name = (if alt \<noteq> [] then alt else name)"

definition iconSize :: "string \<Rightarrow> string" where
  "iconSize s = (if s \<in> {''sm'', ''lg''} then s else ''md'')"

definition iconPx :: "string \<Rightarrow> string" where
  "iconPx s = (if s = ''sm'' then ''16'' else if s = ''lg'' then ''32'' else ''24'')"

definition Icon :: "string \<Rightarrow> string \<Rightarrow> string \<Rightarrow> node list" where
  "Icon name sz alt =
    (let cs2 = [Class ''ds-icon'', Class (''ds-icon--'' @ iconSize sz)] in
      [CssItems cs2, Lit 1 ''<img src=\"'', AttrV (f_icon, 6, 40) (AStr (''/static/icons/'' @ name @ ''.svg'')),
       Lit 2 ''\" alt=\"'', AttrV (f_icon, 7, 31) (AStr (altOrDefault alt name)), Lit 3 ''\" class=\"'',
       ClassV (f_icon, 1, 0) cs2, Lit 4 ''\" width=\"'', AttrV (f_icon, 9, 22) (AStr (iconPx sz)),
       Lit 5 ''\" height=\"'', AttrV (f_icon, 10, 23) (AStr (iconPx sz)), Lit 6 ''\">''])"


definition f_input :: string where "f_input = ''internal/interfaces/templates/shared/components/input.templ''"

definition inputTypeOrText :: "string \<Rightarrow> string" where
  "inputTypeOrText t = (if t = [] then ''text'' else t)"

definition InputField :: "string \<Rightarrow> string \<Rightarrow> string \<Rightarrow> string \<Rightarrow> string \<Rightarrow> string \<Rightarrow> bool \<Rightarrow> string \<Rightarrow> string \<Rightarrow> bool \<Rightarrow> node list" where
  "InputField name inputType label placeholder value errMsg disabled helper autocomplete autofocus =
    ([Lit 1 ''<div class=\"ds-field\">''] @
     (if label \<noteq> '''' then [Lit 2 ''<label class=\"ds-label\" for=\"'',
       AttrV (f_input, 7, 37) (AStr name), Lit 3 ''\">'', TextV (f_input, 7, 47) label,
       Lit 4 ''</label> ''] else []) @
     (let cs4 = [Class ''input-glass'', Class ''input-auth'',
       KV ''input-error'' (errMsg \<noteq> '''')] in
      ([CssItems cs4, Lit 5 ''<input id=\"'', AttrV (f_input, 10, 12) (AStr name), Lit 6 ''\" name=\"'',
       AttrV (f_input, 11, 14) (AStr name), Lit 7 ''\" type=\"'',
       AttrV (f_input, 12, 36) (AStr (inputTypeOrText inputType)), Lit 8 ''\" class=\"'',
       ClassV (f_input, 1, 0) cs4, Lit 9 ''\" placeholder=\"'', AttrV (f_input, 14, 28) (AStr placeholder),
       Lit 10 ''\" value=\"'', AttrV (f_input, 15, 16) (AStr value),
       Lit 11 ''\"''] @
     (if disabled then [Lit 12 '' disabled''] else []) @
     (if autocomplete \<noteq> '''' then [Lit 13 '' autocomplete=\"'',
       AttrV (f_input, 18, 31) (AStr autocomplete),
       Lit 14 ''\"''] else []) @
     (if autofocus then [Lit 15 '' autofocus''] else []) @
     [Lit 16 ''> ''] @
     (if errMsg \<noteq> '''' then [Lit 17 ''<p class=\"ds-field-error\">'', TextV (f_input, 25, 37) errMsg,
       Lit 18 ''</p>''] else (if helper \<noteq> '''' then [Lit 19 ''<p class=\"ds-field-helper\">'',
       TextV (f_input, 27, 38) helper, Lit 20 ''</p>''] else [])) @
     [Lit 21 ''</div>''])))"


definition f_label :: string where "f_label = ''internal/interfaces/templates/shared/components/label.templ''"

definition labelVariant :: "string \<Rightarrow> string" where
  "labelVariant v = (if v \<in> {''warning'', ''error'', ''success'', ''info'', ''muted''} then v else ''default'')"

definition LabelText :: "string \<Rightarrow> string \<Rightarrow> node list" where
  "LabelText variant text =
    (let cs2 = [Class ''ds-label-text'',
       Class (''ds-label-text--'' @ labelVariant variant)] in
      [CssItems cs2, Lit 1 ''<span class=\"'', ClassV (f_label, 1, 0) cs2, Lit 2 ''\">'',
       TextV (f_label, 5, 80) text, Lit 3 ''</span>''])"


definition f_link :: string where "f_link = ''internal/interfaces/templates/shared/components/link.templ''"

definition linkVariant :: "string \<Rightarrow> string" where
  "linkVariant v = (if v \<in> {''muted'', ''danger''} then v else ''primary'')"

definition Link :: "string \<Rightarrow> string \<Rightarrow> string \<Rightarrow> node list" where
  "Link href variant text =
    (let cs2 = [Class ''ds-link'', Class (''ds-link--'' @ linkVariant variant)] in
      [CssItems cs2, Lit 1 ''<a href=\"'', UrlV (f_link, 5, 30) href, Lit 2 ''\" class=\"'',
       ClassV (f_link, 1, 0) cs2, Lit 3 ''\">'', TextV (f_link, 5, 93) text, Lit 4 ''</a>''])"


definition f_modal :: string where "f_modal = ''internal/interfaces/templates/shared/components/modal.templ''"

definition Modal :: "string \<Rightarrow> string \<Rightarrow> node list \<Rightarrow> node list" where
  "Modal ident title children =
    [Lit 1 ''<div id=\"'', AttrV (f_modal, 5, 13) (AStr ident),
       Lit 2 ''\" class=\"ds-modal\" role=\"dialog\" aria-modal=\"true\" aria-labelledby=\"'',
       AttrV (f_modal, 5, 94) (AStr (ident @ ''-title'')),
       Lit 3 ''\" hidden><div class=\"ds-modal__overlay\" data-modal-close=\"'',
       AttrV (f_modal, 6, 54) (AStr ident),
       Lit 4 ''\"></div><div class=\"ds-modal__panel glass-heavy\"><div class=\"ds-modal__header\"><h3 id=\"'',
       AttrV (f_modal, 9, 24) (AStr (ident @ ''-title'')), Lit 5 ''\" class=\"ds-heading-3\">'',
       TextV (f_modal, 9, 55) title,
       Lit 6 ''</h3><button type=\"button\" class=\"ds-modal__close close-btn\" data-modal-close=\"'',
       AttrV (f_modal, 10, 81) (AStr ident),
       Lit 7 (''\" aria-label=\"Close\">'' @ cross_mark @ ''</button></div><div class=\"ds-modal__body\">''),
       Inner children, Lit 8 ''</div></div></div>'']"


definition f_select :: string where "f_select = ''internal/interfaces/templates/shared/components/select.templ''"

record SelectOption =
  so_Value :: string
  so_Label :: string

definition SelectField :: "string \<Rightarrow> string \<Rightarrow> SelectOption list \<Rightarrow> string \<Rightarrow> bool \<Rightarrow> node list" where
  "SelectField name label options selected disabled =
    ([Lit 1 ''<div class=\"ds-field\">''] @
     (if label \<noteq> '''' then [Lit 2 ''<label class=\"ds-label\" for=\"'',
       AttrV (f_select, 13, 37) (AStr name), Lit 3 ''\">'', TextV (f_select, 13, 47) label,
       Lit 4 ''</label> ''] else []) @
     [Lit 5 ''<select id=\"'', AttrV (f_select, 15, 19) (AStr name), Lit 6 ''\" name=\"'',
       AttrV (f_select, 15, 33) (AStr name),
       Lit 7 ''\" class=\"input-glass ds-select\"''] @
     (if disabled then [Lit 8 '' disabled''] else []) @
     [Lit 9 ''>''] @
     concat (map (\<lambda>opt. ([Lit 10 ''<option value=\"'', AttrV (f_select, 17, 29) (AStr (so_Value opt)),
       Lit 11 ''\"''] @
     (if so_Value opt = selected then [Lit 12 '' selected''] else []) @
     [Lit 13 ''>'', TextV (f_select, 17, 79) (so_Label opt),
       Lit 14 ''</option>''])) options) @
     [Lit 15 ''</select></div>''])"


definition f_skeleton :: string where "f_skeleton = ''internal/interfaces/templates/shared/components/skeleton.templ''"

definition skeletonLines :: "int \<Rightarrow> int" where
  "skeletonLines n = (if n < 1 then 3 else if n > 6 then 6 else n)"

definition Skeleton :: "int \<Rightarrow> node list" where
  "Skeleton lines =
    ([Lit 1 ''<div class=\"ds-skeleton\" aria-busy=\"true\" aria-label=\"Loading\">''] @
     concat (map (\<lambda>i. [Lit 2 ''<div class=\"ds-skeleton__line\"></div>'']) [0..<nat (skeletonLines lines)]) @
     [Lit 3 ''</div>''])"


definition f_spinner :: string where "f_spinner = ''internal/interfaces/templates/shared/components/spinner.templ''"

definition spinnerSize :: "string \<Rightarrow> string" where
  "spinnerSize s = (if s \<in> {''sm'', ''lg''} then s else ''md'')"

definition Spinner :: "string \<Rightarrow> node list" where
  "Spinner sz =
    (let cs2 = [Class ''ds-spinner'', Class (''ds-spinner--'' @ spinnerSize sz)] in
      [CssItems cs2, Lit 1 ''<span class=\"'', ClassV (f_spinner, 1, 0) cs2,
       Lit 2 ''\" role=\"status\" aria-label=\"Loading\"></span>''])"


definition f_switch :: string where "f_switch = ''internal/interfaces/templates/shared/components/switch.templ''"

definition Switch :: "string \<Rightarrow> string \<Rightarrow> string \<Rightarrow> bool \<Rightarrow> bool \<Rightarrow> node list" where
  "Switch ident name label checked disabled =
    ([Lit 1 ''<label class=\"ds-switch\" for=\"'', AttrV (f_switch, 5, 34) (AStr ident),
       Lit 2 ''\"><input type=\"checkbox\" id=\"'', AttrV (f_switch, 8, 10) (AStr ident), Lit 3 ''\" name=\"'',
       AttrV (f_switch, 9, 14) (AStr name),
       Lit 4 ''\" class=\"ds-switch__input\" role=\"switch\"''] @
     (if checked then [Lit 5 '' checked''] else []) @
     (if disabled then [Lit 6 '' disabled''] else []) @
     [Lit 7 ''> <span class=\"ds-switch__track\" aria-hidden=\"true\"></span> ''] @
     (if label \<noteq> '''' then [Lit 8 ''<span class=\"ds-switch__label\">'', TextV (f_switch, 17, 41) label,
       Lit 9 ''</span>''] else []) @
     [Lit 10 ''</label>''])"


definition f_table :: string where "f_table = ''internal/interfaces/templates/shared/components/table.templ''"

record TableColumn =
  tc_Key :: string
  tc_Label :: string

type_synonym TableRow = "string \<rightharpoonup> string"

text \<open>Reading a Go map: the empty string without the key.\<close>

definition cell :: "TableRow \<Rightarrow> string \<Rightarrow> string" where
  "cell row k = (case row k of None \<Rightarrow> [] | Some v \<Rightarrow> v)"

definition Table :: "TableColumn list \<Rightarrow> TableRow list \<Rightarrow> string \<Rightarrow> node list" where
  "Table cols nrows caption =
    ([Lit 1 ''<div class=\"ds-table-wrap\"><table class=\"ds-table\">''] @
     (if caption \<noteq> '''' then [Lit 2 ''<caption class=\"ds-table__caption\">'',
       TextV (f_table, 17, 48) caption,
       Lit 3 ''</caption> ''] else []) @
     [Lit 4 ''<thead><tr>''] @
     concat (map (\<lambda>c. [Lit 5 ''<th scope=\"col\" data-sort-key=\"'',
       AttrV (f_table, 22, 43) (AStr (tc_Key c)), Lit 6 ''\">'', TextV (f_table, 22, 55) (tc_Label c),
       Lit 7 ''</th>'']) cols) @
     [Lit 8 ''</tr></thead> <tbody>''] @
     concat (map (\<lambda>row. ([Lit 9 ''<tr>''] @
     concat (map (\<lambda>c. [Lit 10 ''<td>'', TextV (f_table, 30, 23) (cell row (tc_Key c)),
       Lit 11 ''</td>'']) cols) @
     [Lit 12 ''</tr>''])) nrows) @
     [Lit 13 ''</tbody></table></div>''])"


definition f_tabs :: string where "f_tabs = ''internal/interfaces/templates/shared/components/tabs.templ''"

record TabItem =
  ti_ID :: string
  ti_Label :: string
  ti_Href :: string

definition tabHref :: "TabItem \<Rightarrow> string" where
  "tabHref t = (if ti_Href t \<noteq> [] then ti_Href t else ''#'' @ ti_ID t)"

definition Tabs :: "TabItem list \<Rightarrow> string \<Rightarrow> node list" where
  "Tabs items activeID =
    ([Lit 1 ''<nav class=\"ds-tabs\" role=\"tablist\">''] @
     concat (map (\<lambda>t. (let cs2 = [Class ''ds-tabs__item'',
       KV ''ds-tabs__item--active'' (ti_ID t = activeID)] in
      [CssItems cs2, Lit 2 ''<a href=\"'', UrlV (f_tabs, 15, 36) (tabHref t), Lit 3 ''\" class=\"'',
       ClassV (f_tabs, 1, 0) cs2, Lit 4 ''\" role=\"tab\" aria-selected=\"'',
       AttrV (f_tabs, 18, 36) (ABool (ti_ID t = activeID)), Lit 5 ''\">'', TextV (f_tabs, 19, 13) (ti_Label t),
       Lit 6 ''</a>''])) items) @
     [Lit 7 ''</nav>''])"


definition f_textarea :: string where "f_textarea = ''internal/interfaces/templates/shared/components/textarea.templ''"

definition rowsOrDefault :: "int \<Rightarrow> string" where
  "rowsOrDefault r = (if r \<le> 0 then ''4'' else show_int r)"

definition TextareaField :: "string \<Rightarrow> string \<Rightarrow> string \<Rightarrow> string \<Rightarrow> int \<Rightarrow> string \<Rightarrow> bool \<Rightarrow> node list" where
  "TextareaField name label placeholder value nrows errMsg disabled =
    ([Lit 1 ''<div class=\"ds-field\">''] @
     (if label \<noteq> '''' then [Lit 2 ''<label class=\"ds-label\" for=\"'',
       AttrV (f_textarea, 9, 37) (AStr name), Lit 3 ''\">'', TextV (f_textarea, 9, 47) label,
       Lit 4 ''</label> ''] else []) @
     (let cs4 = [Class ''input-glass'', Class ''ds-textarea'',
       KV ''input-error'' (errMsg \<noteq> '''')] in
      ([CssItems cs4, Lit 5 ''<textarea id=\"'', AttrV (f_textarea, 12, 12) (AStr name), Lit 6 ''\" name=\"'',
       AttrV (f_textarea, 13, 14) (AStr name), Lit 7 ''\" class=\"'', ClassV (f_textarea, 1, 0) cs4,
       Lit 8 ''\" placeholder=\"'', AttrV (f_textarea, 15, 28) (AStr placeholder), Lit 9 ''\" rows=\"'',
       AttrV (f_textarea, 16, 29) (AStr (rowsOrDefault nrows)),
       Lit 10 ''\"''] @
     (if disabled then [Lit 11 '' disabled''] else []) @
     [Lit 12 ''>'', TextV (f_textarea, 18, 10) value,
       Lit 13 ''</textarea> ''] @
     (if errMsg \<noteq> '''' then [Lit 14 ''<p class=\"ds-field-error\">'', TextV (f_textarea, 20, 37) errMsg,
       Lit 15 ''</p>''] else []) @
     [Lit 16 ''</div>''])))"


definition f_tooltip :: string where "f_tooltip = ''internal/interfaces/templates/shared/components/tooltip.templ''"

definition Tooltip :: "string \<Rightarrow> node list \<Rightarrow> node list" where
  "Tooltip text children =
    [Lit 1 ''<span class=\"ds-tooltip\" data-tooltip=\"'', AttrV (f_tooltip, 5, 45) (AStr text), Lit 2 ''\">'',
       Inner children, Lit 3 ''</span>'']"


end
