(* ===== verification/Pages.thy ===== *)
theory Pages
  imports Components
begin

text \<open>
  The document, the pages and partial pages of sign-in, and the dashboard with its widgets
  (internal/interfaces/templates/layouts, auth and dashboard).
\<close>

definition f_base :: string where "f_base = ''internal/interfaces/templates/layouts/base.templ''"

definition Base :: "string \<Rightarrow> node list \<Rightarrow> node list" where
  "Base pageTitle body =
    [Lit 1 ''<!doctype html><html lang=\"en\"><head><meta charset=\"UTF-8\"><meta name=\"viewport\" content=\"width=device-width, initial-scale=1.0\"><title>'',
       TextV (f_base, 10, 21) pageTitle,
       Lit 2 (''</title><link rel=\"preconnect\" href=\"https://fonts.googleapis.com\"><link rel=\"preconnect\" href=\"https://fonts.gstatic.com\" crossorigin><link href=\"https://api.fontshare.com/v2/css?f[]=clash-display@200,400,700&f[]=satoshi@400,500,700&display=swap\" rel=\"stylesheet\"><link href=\"https://fonts.googleapis.com/css2?family=Space+Grotesk:wght@400;700&family=JetBrains+Mono:wght@400;500&display=swap\" rel=\"stylesheet\"><link rel=\"stylesheet\" href=\"/static/css/app.css\"><script src=\"/static/js/htmx.min.js\"></script><script>
				// HTMX CSRF configuration '' @ em_dash @ '' read token from cookie
				document.addEventListener('htmx:configRequest', function(e) {
					var csrf = document.cookie.replace(/(?:(?:^|.*;'' @ backslash @ ''s*)loxtu_csrf'' @ backslash @ ''s*'' @ backslash @ ''='' @ backslash @ ''s*([^;]*).*$)|^.*$/, '$1');
					if (csrf) {
						e.detail.headers['X-CSRF-Token'] = csrf;
					}
				});
			</script><script defer src=\"/static/js/aurora.js\"></script><script defer src=\"/static/js/theme.js\"></script><script defer src=\"/static/js/otp.js\"></script></head><body><div id=\"aurora-background\"></div>''),
       Sub body, Lit 3 ''</body></html>'']"


definition f_login :: string where "f_login = ''internal/interfaces/templates/auth/login.templ''"

definition LoginFormPartial :: "node list" where
  "LoginFormPartial =
    [Lit 3 ''<script src=\"/static/js/passkey.js\" defer></script>'',
       Sub (CardAuth [Lit 4 ''<div class=\"ds-auth-header\">'', Sub (Heading1 ''Authorisation required''),
       Sub (ui_Text ''secondary'' ''Enter your email to receive a verification code''),
       Lit 5 ''</div><form hx-post=\"/auth/otp/send\" hx-target=\"#auth-container\" hx-swap=\"outerHTML\" class=\"ds-auth-form\"><div class=\"ds-auth-form-body\">'',
       Sub (InputField ''email'' ''email'' '''' ''you@airline.com'' '''' '''' False '''' ''username webauthn'' True),
       Lit 6 ''<div class=\"ds-auth-row\">'',
       Sub (Button ''primary'' ''submit'' False False False [Lit 7 ''Send verification code'']),
       Lit 8 ''<button type=\"button\" class=\"btn-passkey-icon js-signin-passkey\" id=\"passkey-signin-btn\" title=\"Sign in with passkey\" hidden>'',
       Sub (Icon ''passkey'' ''md'' ''Passkey''),
       Lit 9 ''</button></div></div></form>''])]"

definition loginPage :: "node list" where
  "loginPage =
    [Lit 1 ''<header class=\"site-header\"><div class=\"loxtu-logo\">LOXTU</div><button class=\"theme-toggle-btn\" id=\"theme-toggle-header\" title=\"Toggle theme\" aria-label=\"Toggle theme\"><img src=\"/static/icons/moon.svg\" alt=\"\" width=\"20\" height=\"20\"></button></header><div class=\"login-body\">'',
       Sub LoginFormPartial, Lit 2 ''</div>'']"

definition LoginShell :: "node list" where
  "LoginShell =
    [Sub (Base (''LOXTU '' @ em_dash @ '' Sign in'') loginPage)]"

definition OTPHeader :: "string \<Rightarrow> node list" where
  "OTPHeader email =
    [Lit 12 ''<div class=\"ds-auth-header\">'', Sub (Heading1 ''Check your email''),
       Lit 13 ''<p class=\"ds-text ds-text--secondary\">We sent a code to <strong class=\"ds-text--body\">'',
       TextV (f_login, 82, 58) email,
       Lit 14 ''</strong></p></div>'']"

definition OTPBody :: "string \<Rightarrow> string \<Rightarrow> string \<Rightarrow> node list" where
  "OTPBody email userIDHash boxClass =
    ([Lit 17 ''<form id=\"otp-form\" hx-post=\"/auth/otp/verify\" hx-target=\"#auth-container\" hx-swap=\"outerHTML\" class=\"ds-auth-form\"><input type=\"hidden\" name=\"user_id_hash\" value=\"'',
       AttrV (f_login, 101, 61) (AStr userIDHash),
       Lit 18 ''\"><div class=\"ds-auth-form-body\"><div class=\"otp-boxes\" role=\"group\" aria-label=\"One-time code\">''] @
     concat (map (\<lambda>i. (let cs15 = [KV ''otp-box'' True,
       KV boxClass (boxClass \<noteq> '''')] in
      ([CssItems cs15, Lit 19 ''<input type=\"text\" name=\"code\" class=\"'', ClassV (f_login, 1, 0) cs15,
       Lit 20 ''\" inputmode=\"numeric\" pattern=\"[0-9]\" maxlength=\"1\" autocomplete=\"one-time-code\" required''] @
     (if int i = 0 then [Lit 21 '' autofocus''] else []) @
     [Lit 22 '' data-index=\"'', AttrV (f_login, 115, 39) (AStr (show_int (int i))),
       Lit 23 ''\">'']))) [0..<6]) @
     [Lit 24 ''</div></div>'', Sub (Button ''primary'' ''submit'' False False True [Lit 25 ''Verify'']),
       Lit 26 ''<button type=\"button\" class=\"btn btn-secondary w-full\" hx-post=\"/auth/otp/send\" hx-target=\"#auth-container\" hx-swap=\"outerHTML\" hx-vals=\"'',
       AttrV (f_login, 129, 49) (AStr (''{\"email\":\"'' @ email @ ''\"}'')),
       Lit 27 ''\" hx-disable=\"true\">Resend code</button></form>''])"

definition OTPFormPartial :: "string \<Rightarrow> string \<Rightarrow> node list" where
  "OTPFormPartial email userIDHash =
    [Sub (CardAuth [Sub (OTPHeader email), Lit 10 '' '',
       Sub (OTPBody email userIDHash '''')])]"

definition OTPErrorHeader :: "string \<Rightarrow> node list" where
  "OTPErrorHeader message =
    [Lit 15 ''<div class=\"ds-auth-header\">'', Sub (Alert ''error'' '''' message),
       Lit 16 ''</div>'']"

definition OTPErrorPartial :: "string \<Rightarrow> string \<Rightarrow> string \<Rightarrow> node list" where
  "OTPErrorPartial email userIDHash message =
    [Sub (CardAuth [Sub (OTPErrorHeader message), Lit 11 '' '',
       Sub (OTPBody email userIDHash ''otp-box-error'')])]"


definition f_consent :: string where "f_consent = ''internal/interfaces/templates/auth/consent.templ''"

definition consentBody :: "string \<Rightarrow> node list" where
  "consentBody email =
    [Lit 1 ''<header class=\"site-header\"><div class=\"loxtu-logo\">LOXTU</div><button class=\"theme-toggle-btn\" id=\"theme-toggle-header\" title=\"Toggle theme\" aria-label=\"Toggle theme\"><img src=\"/static/icons/moon.svg\" alt=\"\" width=\"20\" height=\"20\"></button></header><div class=\"ds-consent-page\">'',
       Sub (Container ''sm'' [Sub (Card ''default'' False [Lit 2 ''<div class=\"ds-auth-header\" style=\"text-align:center;\">'',
       Sub (Heading1 ''LOXTU''), Lit 3 ''<p class=\"ds-text ds-text--secondary\">Welcome, '',
       TextV (f_consent, 25, 59) email, Lit 4 ''</p></div>'', Sub (Heading4 ''Consent Required''), Lit 5 '' '',
       Sub (ui_Text ''muted'' ''Please review and accept the following policies to continue.''), Lit 6 '' '',
       Sub (Alert ''info'' ''Compliance'' (''GDPR '' @ mid_dot @ '' NIS2 '' @ mid_dot @ '' SOC2 '' @ em_dash @ '' required before first session.'')),
       Lit 7 '' <form id=\"consent-form\" hx-post=\"/auth/consent\" hx-target=\"#consent-container\" hx-swap=\"outerHTML\" class=\"ds-consent-stack\"><input type=\"hidden\" name=\"email\" value=\"'',
       AttrV (f_consent, 37, 52) (AStr email),
       Lit 8 ''\"><div id=\"consent-container\" class=\"ds-consent-stack\">'',
       Sub (Checkbox ''gdpr'' ''gdpr'' (''GDPR '' @ em_dash @ '' Personal Data Processing'') ''I consent to the processing of my personal data for authentication and operational purposes.'' False True),
       Sub (Checkbox ''nis2'' ''nis2'' (''NIS2 '' @ em_dash @ '' Security Monitoring'') ''I acknowledge that my activity is monitored for security and incident response, as required by NIS2.'' False True),
       Sub (Checkbox ''soc2'' ''soc2'' (''SOC2 '' @ em_dash @ '' Audit & Information Security'') ''I understand that system logs and audit trails are retained for compliance with SOC2 policies.'' False True),
       Lit 9 ''<script>
							document.getElementById('consent-form').addEventListener('change', function () {
								var all = document.querySelectorAll('.consent-checkbox:checked').length === 3;
								document.getElementById('accept-btn').disabled = !all;
							});
						</script><button id=\"accept-btn\" type=\"submit\" class=\"btn btn-primary w-full\" disabled hx-disable=\"true\">Accept All</button></div></form>''])]),
       Lit 10 ''</div>'']"

definition ConsentPage_templ :: "string \<Rightarrow> node list" where
  "ConsentPage_templ email =
    [Sub (Base (''LOXTU '' @ em_dash @ '' Consent'') (consentBody email))]"


definition f_consent_partial :: string where "f_consent_partial = ''internal/interfaces/templates/auth/consent_partial.templ''"

definition ConsentPartial :: "string \<Rightarrow> node list" where
  "ConsentPartial userIDHash =
    [Sub (CardAuth [Lit 1 ''<div class=\"ds-auth-header\" style=\"text-align:center;\">'',
       Sub (Heading1 ''LOXTU''),
       Lit 2 ''<p class=\"ds-text ds-text--secondary\">Welcome! Please consent to continue</p></div>'',
       Sub (Heading4 ''Consent Required''), Lit 3 '' '',
       Sub (ui_Text ''muted'' ''Please review and accept the following policies to continue.''), Lit 4 '' '',
       Sub (Alert ''info'' ''Compliance'' (''GDPR '' @ mid_dot @ '' NIS2 '' @ mid_dot @ '' SOC2 '' @ em_dash @ '' required before first session.'')),
       Lit 5 '' <form id=\"consent-form\" hx-post=\"/auth/consent\" hx-target=\"#auth-container\" hx-swap=\"outerHTML\" class=\"ds-consent-stack\"><input type=\"hidden\" name=\"user_id_hash\" value=\"'',
       AttrV (f_consent_partial, 24, 62) (AStr userIDHash), Lit 6 ''\"><div class=\"ds-consent-stack\">'',
       Sub (Checkbox ''gdpr'' ''gdpr'' (''GDPR '' @ em_dash @ '' Personal Data Processing'') ''I consent to the processing of my personal data for authentication and operational purposes.'' False True),
       Sub (Checkbox ''nis2'' ''nis2'' (''NIS2 '' @ em_dash @ '' Security Monitoring'') ''I acknowledge that my activity is monitored for security and incident response, as required by NIS2.'' False True),
       Sub (Checkbox ''soc2'' ''soc2'' (''SOC2 '' @ em_dash @ '' Audit & Information Security'') ''I understand that system logs and audit trails are retained for compliance with SOC2 policies.'' False True),
       Lit 7 ''<script>
					document.getElementById('consent-form').addEventListener('change', function () {
						var all = document.querySelectorAll('.consent-checkbox:checked').length === 3;
						document.getElementById('accept-btn').disabled = !all;
					});
				</script><button id=\"accept-btn\" type=\"submit\" class=\"btn btn-primary w-full\" disabled hx-disable=\"true\">Accept All</button></div></form>''])]"


definition f_register :: string where "f_register = ''internal/interfaces/templates/auth/register.templ''"

definition pageBody :: "string \<Rightarrow> node list" where
  "pageBody email =
    [Lit 1 ''<header class=\"site-header\"><div class=\"loxtu-logo\">LOXTU</div><button class=\"theme-toggle-btn\" id=\"theme-toggle-header\" title=\"Toggle theme\" aria-label=\"Toggle theme\"><img src=\"/static/icons/moon.svg\" alt=\"\" width=\"20\" height=\"20\"></button></header><script src=\"/static/js/passkey.js\" defer></script><div class=\"login-body\">'',
       Sub (CardAuth [Lit 2 ''<div class=\"ds-auth-header\">'', Sub (Heading1 ''Set up passkey''),
       Sub (ui_Text ''secondary'' ''Use Face ID, Touch ID, or your device PIN for faster sign-in next time.''),
       Lit 3 ''</div><form class=\"ds-auth-form\"><input type=\"hidden\" name=\"email\" value=\"'',
       AttrV (f_register, 28, 51) (AStr email),
       Lit 4 ''\"><div class=\"ds-auth-form-body\"><button type=\"button\" class=\"btn btn-primary btn-auth js-register-passkey\" data-email=\"'',
       AttrV (f_register, 30, 98) (AStr email),
       Lit 5 ''\">Register passkey</button> <button type=\"button\" class=\"btn btn-secondary js-skip-passkey\" data-email=\"'',
       AttrV (f_register, 33, 87) (AStr email),
       Lit 6 ''\" hx-post=\"/auth/passkey/skip\" hx-target=\"#auth-container\" hx-swap=\"outerHTML\" hx-vals=\"'',
       AttrV (f_register, 37, 42) (AStr (''{\"email\":\"'' @ email @ ''\"}'')),
       Lit 7 ''\">Skip for now</button></div></form>'']),
       Lit 8 ''</div>'']"

definition RegisterPage :: "string \<Rightarrow> node list" where
  "RegisterPage email =
    [Sub (Base (''LOXTU '' @ em_dash @ '' Set up passkey'') (pageBody email))]"


definition f_register_partial :: string where "f_register_partial = ''internal/interfaces/templates/auth/register_partial.templ''"

definition RegisterPartial :: "string \<Rightarrow> node list" where
  "RegisterPartial userIDHash =
    [Sub (CardAuth [Lit 1 ''<div class=\"ds-auth-header\">'', Sub (Heading1 ''Set up passkey''),
       Sub (ui_Text ''secondary'' ''Use Face ID, Touch ID, or your device PIN for faster sign-in next time.''),
       Lit 2 ''</div><form class=\"ds-auth-form\"><input type=\"hidden\" name=\"user_id_hash\" value=\"'',
       AttrV (f_register_partial, 15, 62) (AStr userIDHash),
       Lit 3 ''\"><div class=\"ds-auth-form-body\"><button type=\"button\" class=\"btn btn-primary btn-auth js-register-passkey\" data-user-id-hash=\"'',
       AttrV (f_register_partial, 17, 109) (AStr userIDHash),
       Lit 4 ''\">Register passkey</button> <button type=\"button\" class=\"btn btn-secondary js-skip-passkey\" data-user-id-hash=\"'',
       AttrV (f_register_partial, 23, 35) (AStr userIDHash),
       Lit 5 ''\" hx-post=\"/auth/passkey/skip\" hx-target=\"#auth-container\" hx-swap=\"outerHTML\" hx-vals=\"'',
       AttrV (f_register_partial, 27, 54) (AStr (''{\"user_id_hash\":\"'' @ userIDHash @ ''\"}'')),
       Lit 6 ''\">Skip for now</button></div></form>''])]"


definition f_actions :: string where "f_actions = ''internal/interfaces/templates/dashboard/widgets/actions.templ''"

definition ActionsWidget :: "node list" where
  "ActionsWidget =
    [Sub (BentoItem ''actions'' False [Lit 1 ''<div class=\"ds-widget-header\">'',
       Sub (Heading4 ''Quick Actions''), Lit 2 ''</div><div class=\"ds-actions-stack\">'',
       Sub (ButtonLink ''primary'' ''#'' True [Lit 3 ''Delay Report'']),
       Sub (ButtonLink ''secondary'' ''#'' True [Lit 4 ''Ramp Check'']),
       Sub (ButtonLink ''gold'' ''#'' True [Lit 5 ''Fuel Order'']), Lit 6 ''</div>''])]"


definition f_fact :: string where "f_fact = ''internal/interfaces/templates/dashboard/widgets/fact.templ''"

definition FactWidget :: "string \<Rightarrow> string \<Rightarrow> node list" where
  "FactWidget title text =
    [Sub (BentoItem ''fact'' False [Lit 1 ''<div class=\"ds-widget-header\">'', Sub (Heading4 title),
       Lit 2 ''</div>'', Sub (ui_Text ''secondary'' text)])]"


definition f_gantt :: string where "f_gantt = ''internal/interfaces/templates/dashboard/widgets/gantt.templ''"

definition GanttWidget :: "node list" where
  "GanttWidget =
    [Sub (BentoItem ''fact'' False [Lit 1 ''<div class=\"ds-widget-header\">'',
       Sub (Heading4 ''Turnaround Gantt''), Sub (Badge ''neutral'' ''soon''), Lit 2 ''</div>'',
       Sub (EmptyState ''No active turnarounds'' ''Flight timeline widgets ship in Phase 2.'' [Sub (ButtonLink ''secondary'' ''#'' False [Lit 3 ''View flights''])])])]"


definition f_roster :: string where "f_roster = ''internal/interfaces/templates/dashboard/widgets/roster.templ''"

definition RosterWidget :: "node list" where
  "RosterWidget =
    [Sub (BentoItem ''stats4'' True [Lit 1 ''<div class=\"ds-widget-header\">'', Sub (Heading4 ''Roster''),
       Sub (Badge ''info'' ''preview''), Lit 2 ''</div>'', Sub (Skeleton 4), Lit 3 '' '',
       Sub (ui_Text ''muted'' ''Crew assignments load with operations module.'')])]"


definition f_stats :: string where "f_stats = ''internal/interfaces/templates/dashboard/widgets/stats.templ''"

definition StatsWidget :: "templ \<Rightarrow> string \<Rightarrow> string \<Rightarrow> string \<Rightarrow> string \<Rightarrow> node list" where
  "StatsWidget L title value label area =
    (let cs2 = [Class ''bento-item'', Class ''fade-in-up'', Class ''flex-col'',
       KV (''bento-card-'' @ area) (area \<noteq> '''')] in
      [CssItems cs2, Lit 1 ''<div class=\"'', ClassV (f_stats, 1, 0) cs2,
       Lit 2 ''\" itemscope itemtype=\"https://schema.org/StructuredData\" hx-get=\"'',
       AttrV (f_stats, 14, 123) (AStr (''/dashboard/panel/stats?title='' @ tm_URL L title @ ''&value='' @ tm_URL L value @ ''&label='' @ tm_URL L label)),
       Lit 3 ''\" hx-target=\"#detail-panel-content\" hx-swap=\"innerHTML transition:true\" hx-trigger=\"click\"><div class=\"ds-widget-header\">'',
       Sub (Heading4 title), Sub (Badge ''success'' ''live''),
       Lit 4 ''</div><div class=\"ds-widget-body\"><data class=\"dashboard-stats-value\" itemprop=\"value\" value=\"'',
       AttrV (f_stats, 24, 69) (AStr value), Lit 5 ''\">'', TextV (f_stats, 24, 79) value,
       Lit 6 ''</data><p class=\"dashboard-stats-label bento-secondary\">'', TextV (f_stats, 25, 59) label,
       Lit 7 ''</p></div><meta itemprop=\"name\" content=\"'', AttrV (f_stats, 27, 39) (AStr title),
       Lit 8 ''\"></div>''])"


definition f_weather :: string where "f_weather = ''internal/interfaces/templates/dashboard/widgets/weather.templ''"

definition WeatherWidget :: "node list" where
  "WeatherWidget =
    [Sub (BentoItem ''stats5'' True [Lit 1 ''<div class=\"ds-widget-header\">'', Sub (Heading4 ''Weather''),
       Sub (Badge ''warning'' ''METAR''), Lit 2 ''</div><div class=\"ds-widget-body\">'',
       Sub (Heading2 (''12'' @ degree @ ''C'')),
       Sub (ui_Text ''secondary'' (''Wind 240'' @ degree @ ''/12 kt '' @ mid_dot @ '' Visibility 10 km'')),
       Lit 3 ''</div>''])]"


definition f_shell :: string where "f_shell = ''internal/interfaces/templates/dashboard/shell.templ''"

definition DashboardHeader :: "string \<Rightarrow> node list" where
  "DashboardHeader email =
    [Lit 5 ''<div class=\"dash-sub-header\"><p class=\"dashboard-subtitle\">Signed in as <strong class=\"ds-text--body\">'',
       TextV (f_shell, 42, 53) email, Lit 6 ''</strong>'', Sub (Badge ''success'' ''authenticated''),
       Lit 7 ''</p><form action=\"/auth/logout\" method=\"POST\">'',
       Sub (Button ''secondary'' ''submit'' False False False [Lit 8 ''Sign out'']),
       Lit 9 ''</form></div>'']"

definition dashboardBody :: "string \<Rightarrow> string \<Rightarrow> node list" where
  "dashboardBody email jsonLD =
    [Lit 1 ''<header class=\"site-header\"><div class=\"loxtu-logo\">LOXTU</div><button class=\"theme-toggle-btn\" id=\"theme-toggle-header\" title=\"Toggle theme\" aria-label=\"Toggle theme\"><img src=\"/static/icons/moon.svg\" alt=\"\" width=\"20\" height=\"20\"></button></header><script type=\"application/ld+json\">{ jsonLD }</script>'',
       Sub (Container ''full'' [Sub (DashboardHeader email),
       Lit 2 '' <div id=\"dashboard-grid\" class=\"bento-grid\" hx-get=\"/dashboard/grid\" hx-trigger=\"load\" hx-swap=\"innerHTML\"><div class=\"bento-item bento-item--static\" style=\"grid-column:1/-1;\">'',
       Sub (Spinner ''md''), Sub (ui_Text ''muted'' ''Loading dashboard...''), Lit 3 ''</div></div>'']),
       Lit 4 (''<!-- Detail Panel Overlay --><div id=\"detail-overlay\" class=\"detail-overlay\"></div><div id=\"detail-panel\" class=\"glass-heavy detail-panel\"><button class=\"close-btn\" type=\"button\">'' @ cross_mark @ ''</button><div id=\"detail-panel-content\"></div></div>'')]"

definition DashboardShell :: "string \<Rightarrow> string \<Rightarrow> node list" where
  "DashboardShell email jsonLD =
    [Sub (Base (''LOXTU '' @ em_dash @ '' Dashboard'') (dashboardBody email jsonLD))]"

definition DashboardGrid :: "templ \<Rightarrow> node list" where
  "DashboardGrid L =
    [Sub (StatsWidget L ''Active Flights'' ''12'' ''currently in operation'' ''stats1''),
       Sub (StatsWidget L ''Gate Utilisation'' ''87%'' ''+3% vs yesterday'' ''stats2''),
       Sub (StatsWidget L ''On-Time Rate'' ''94%'' ''above target'' ''stats3''),
       Sub (FactWidget ''Crew Briefing'' ''3 crew schedule changes in the next hour. Review at 14:00.''),
       Sub ActionsWidget, Sub (StatsWidget L ''Messages'' ''5'' ''2 urgent'' ''stats4''),
       Sub (StatsWidget L ''Departures'' ''8'' ''all on schedule'' ''stats5'')]"

definition DetailPanelContent :: "string \<Rightarrow> string \<Rightarrow> string \<Rightarrow> string \<Rightarrow> node list" where
  "DetailPanelContent title value label detail =
    [Lit 10 ''<div class=\"ds-widget-body\"><div class=\"dashboard-stats-value\">'',
       TextV (f_shell, 67, 44) value, Lit 11 ''</div>'', Sub (Heading3 title), Sub (ui_Text ''secondary'' label),
       Sub (Divider ''horizontal''), Sub (Heading4 ''Details''), Sub (ui_Text ''secondary'' detail),
       Lit 12 ''</div>'']"


end
