(* ===== verification/Markup.thy ===== *)
theory Markup
  imports Pages
begin

text \<open>
  How a browser reads the pages: the tags of a document with their attributes, and the controls of its
  forms.  A page keeps the discipline of its placeholders, text where text is read and attribute values
  between quotes; so its tags do not depend on the data in it, and the data is read back as it was put in.
\<close>

section \<open>Reading a document\<close>

text \<open>
  A scanner for the markup that the templates produce: a tag is the list of its name and its attributes with
  their raw values, and every value stands between double quotes.  Scripts contain no \<open><\<close>.  What \<open>emit\<close> finds in
  a tag is collected.
\<close>

type_synonym tag = "(string \<times> string) list"

datatype mode = InText | InTag string tag | InValue string tag string

fun scan_char :: "(tag \<Rightarrow> 'a list) \<Rightarrow> mode \<times> 'a list \<Rightarrow> char \<Rightarrow> mode \<times> 'a list" where
  "scan_char emit (InText, ts) c = (if c = CHR ''<'' then (InTag [] [], ts) else (InText, ts))"
| "scan_char emit (InTag w as, ts) c =
     (if c = CHR 0x22 then (InValue w as [], ts)
      else if c = CHR ''>'' then
        (let t = (if w = [] then as else as @ [(w, [])]) in (InText, ts @ emit t))
      else if c = CHR '' '' then (InTag [] (if w = [] then as else as @ [(w, [])]), ts)
      else if c = CHR ''='' then (InTag w as, ts)
      else (InTag (w @ [c]) as, ts))"
| "scan_char emit (InValue w as v, ts) c =
     (if c = CHR 0x22 then (InTag [] (as @ [(w, v)]), ts) else (InValue w as (v @ [c]), ts))"

definition scan :: "(tag \<Rightarrow> 'a list) \<Rightarrow> string \<Rightarrow> mode \<times> 'a list \<Rightarrow> mode \<times> 'a list" where
  "scan emit s st = foldl (scan_char emit) st s"

definition html_tags :: "string \<Rightarrow> tag list" where
  "html_tags s = snd (scan (\<lambda>t. [t]) s (InText, []))"

text \<open>The names of the tags and of their attributes, without the values.\<close>

definition shape :: "string \<Rightarrow> string list list" where
  "shape s = map (map fst) (html_tags s)"

text \<open>The character references that \<open>html.EscapeString\<close> writes, read back.\<close>

fun html_unescape :: "string \<Rightarrow> string" where
  "html_unescape [] = []"
| "html_unescape (c # s) =
     (if c \<noteq> CHR ''&'' then c # html_unescape s
      else if take 4 s = ''amp;'' then CHR ''&'' # html_unescape (drop 4 s)
      else if take 4 s = ''#39;'' then CHR 0x27 # html_unescape (drop 4 s)
      else if take 3 s = ''lt;'' then CHR ''<'' # html_unescape (drop 3 s)
      else if take 3 s = ''gt;'' then CHR ''>'' # html_unescape (drop 3 s)
      else if take 4 s = ''#34;'' then CHR 0x22 # html_unescape (drop 4 s)
      else c # html_unescape s)"

text \<open>The named \<open>input\<close> elements of a document, in order, with the values they start from.\<close>

definition control :: "tag \<Rightarrow> (string \<times> string) list" where
  "control t =
     (if t = [] \<or> fst (hd t) \<noteq> ''input'' then []
      else case map_of t ''name'' of None \<Rightarrow> []
      | Some n \<Rightarrow> [(html_unescape n, case map_of t ''value'' of None \<Rightarrow> [] | Some v \<Rightarrow> html_unescape v)])"

definition controls :: "string \<Rightarrow> (string \<times> string) list" where
  "controls s = snd (scan control s (InText, []))"

section \<open>Escaped text\<close>

lemma html_escape_simps [simp]:
  "html_escape [] = []" "html_escape (c # s) = escape_char c @ html_escape s"
  by (simp_all add: html_escape_def)

lemma escape_char_safe: "CHR ''<'' \<notin> set (escape_char c)" "CHR 0x22 \<notin> set (escape_char c)"
  by (simp_all add: escape_char_def)

lemma html_escape_safe: "CHR ''<'' \<notin> set (html_escape s)" "CHR 0x22 \<notin> set (html_escape s)"
  by (induction s) (use escape_char_safe in auto)

lemma attr_text_safe: "CHR 0x22 \<notin> set (attr_text v)"
  by (cases v) (simp_all add: html_escape_safe)

lemma unescape_escape_char: "html_unescape (escape_char c @ s) = c # html_unescape s"
  by (simp add: escape_char_def)

lemma html_unescape_escape [simp]: "html_unescape (html_escape s) = s"
  by (induction s) (simp_all add: unescape_escape_char)

lemma scan_simps [simp]:
  "scan k [] st = st" "scan k (c # s) st = scan k s (scan_char k st c)" "scan k (s @ t) st = scan k t (scan k s st)"
  by (simp_all add: scan_def)

lemma scan_text: "CHR ''<'' \<notin> set s \<Longrightarrow> scan k s (InText, ts) = (InText, ts)"
  by (induction s) auto

lemma scan_value: "CHR 0x22 \<notin> set s \<Longrightarrow> scan k s (InValue w as v, ts) = (InValue w as (v @ s), ts)"
  by (induction s arbitrary: v) auto

lemmas scan_holes [simp] = scan_text [OF html_escape_safe(1)] scan_value [OF html_escape_safe(2)]
  scan_value [OF attr_text_safe]

end
