(* ===== verification/Holes.thy ===== *)
theory Holes
  imports Markup
begin

text \<open>
  The discipline of the placeholders: text stands where text is read, an attribute value between the quotes
  of an attribute.  \<open>spots\<close> checks it by running through the nodes; the tags of a page that keeps it are the
  same whatever its placeholders hold.
\<close>

section \<open>The check\<close>

datatype spot = TextSpot | TagSpot | ValueSpot

fun spot_char :: "spot \<Rightarrow> char \<Rightarrow> spot" where
  "spot_char TextSpot c = (if c = CHR ''<'' then TagSpot else TextSpot)"
| "spot_char TagSpot c = (if c = CHR 0x22 then ValueSpot else if c = CHR ''>'' then TextSpot else TagSpot)"
| "spot_char ValueSpot c = (if c = CHR 0x22 then TagSpot else ValueSpot)"

fun spot_string :: "string \<Rightarrow> spot \<Rightarrow> spot" where
  "spot_string [] p = p"
| "spot_string (c # s) p = spot_string s (spot_char p c)"

fun spots :: "node list \<Rightarrow> spot \<Rightarrow> spot option" and spots_node :: "node \<Rightarrow> spot \<Rightarrow> spot option" where
  "spots [] p = Some p"
| "spots (n # ns) p = (case spots_node n p of None \<Rightarrow> None | Some q \<Rightarrow> spots ns q)"
| "spots_node (Lit i s) p = Some (spot_string s p)"
| "spots_node (TextV pl s) p = (if p = TextSpot then Some p else None)"
| "spots_node (AttrV pl v) p = (if p = ValueSpot then Some p else None)"
| "spots_node (ClassV pl cs) p = (if p = ValueSpot then Some p else None)"
| "spots_node (UrlV pl s) p = (if p = ValueSpot then Some p else None)"
| "spots_node (CssItems cs) p = (if p = TextSpot then Some p else None)"
| "spots_node (Sub ns) p = spots ns p"
| "spots_node (Inner ns) p = spots ns p"

text \<open>A template that begins and ends in text, with every placeholder in its spot.\<close>

definition well_placed :: "node list \<Rightarrow> bool" where
  "well_placed ns \<longleftrightarrow> spots ns TextSpot = Some TextSpot"

text \<open>A page without its data.\<close>

fun blank :: "node list \<Rightarrow> node list" and blank_node :: "node \<Rightarrow> node" where
  "blank [] = []"
| "blank (n # ns) = blank_node n # blank ns"
| "blank_node (TextV p s) = TextV p []"
| "blank_node (AttrV p v) = AttrV p (AStr [])"
| "blank_node (UrlV p s) = UrlV p []"
| "blank_node (Sub ns) = Sub (blank ns)"
| "blank_node (Inner ns) = Inner (blank ns)"
| "blank_node n = n"

section \<open>What the check gives\<close>

fun spot_of :: "mode \<Rightarrow> spot" where
  "spot_of InText = TextSpot" | "spot_of (InTag w as) = TagSpot" | "spot_of (InValue w as v) = ValueSpot"

text \<open>Two states of the scanner that differ in attribute values only.\<close>

fun alike_mode :: "mode \<Rightarrow> mode \<Rightarrow> bool" where
  "alike_mode InText InText = True"
| "alike_mode (InTag w as) (InTag w' bs) = (w = w' \<and> map fst as = map fst bs)"
| "alike_mode (InValue w as v) (InValue w' bs v') = (w = w' \<and> map fst as = map fst bs)"
| "alike_mode _ _ = False"

definition alike :: "mode \<times> tag list \<Rightarrow> mode \<times> tag list \<Rightarrow> bool" where
  "alike s t \<longleftrightarrow> alike_mode (fst s) (fst t) \<and> map (map fst) (snd s) = map (map fst) (snd t)"

abbreviation scan_all :: "string \<Rightarrow> mode \<times> tag list \<Rightarrow> mode \<times> tag list" where
  "scan_all \<equiv> scan (\<lambda>t. [t])"

lemma alike_char: "alike s t \<Longrightarrow> alike (scan_char (\<lambda>t. [t]) s c) (scan_char (\<lambda>t. [t]) t c)"
  by (cases s rule: prod.exhaust; cases t rule: prod.exhaust)
    (auto simp: alike_def Let_def elim!: alike_mode.elims)

lemma alike_string: "alike s t \<Longrightarrow> alike (scan_all x s) (scan_all x t)"
  by (induction x arbitrary: s t) (simp_all add: alike_char)

lemma spot_scan_char: "spot_of (fst (scan_char k s c)) = spot_char (spot_of (fst s)) c"
  by (cases s; cases "fst s") (auto simp: Let_def)

lemma spot_scan: "spot_of (fst (scan k x s)) = spot_string x (spot_of (fst s))"
  by (induction x arbitrary: s) (simp_all add: spot_scan_char)

lemma spot_alike: "alike s t \<Longrightarrow> spot_of (fst t) = spot_of (fst s)"
  by (auto simp: alike_def elim: alike_mode.elims)

text \<open>A placeholder in its spot leaves the state of the scanner as it is, up to a value.\<close>

lemma text_hole:
  assumes "alike s t" and "spot_of (fst s) = TextSpot"
  shows "scan_all (html_escape x) s = s"
  using assms(2) by (cases s; cases "fst s") auto

lemma value_hole:
  assumes "alike s t" and "spot_of (fst s) = ValueSpot" and "CHR 0x22 \<notin> set x"
  shows "alike (scan_all x s) t" "spot_of (fst (scan_all x s)) = ValueSpot"
proof -
  obtain w as v ts where s: "s = (InValue w as v, ts)" using assms(2) by (cases s; cases "fst s") auto
  obtain bs v' ts' where t: "t = (InValue w bs v', ts')"
    using assms(1) unfolding s alike_def by (cases t; cases "fst t") auto
  show "alike (scan_all x s) t" "spot_of (fst (scan_all x s)) = ValueSpot"
    using assms(1) by (simp_all add: s t alike_def scan_value [OF assms(3)])
qed

lemma blank_alike:
  "\<lbrakk>spots ns p = Some q; alike s t; spot_of (fst s) = p\<rbrakk> \<Longrightarrow>
     alike (scan_all (html L ns) s) (scan_all (html L (blank ns)) t) \<and> spot_of (fst (scan_all (html L ns) s)) = q"
  "\<lbrakk>spots_node n p = Some q; alike s t; spot_of (fst s) = p\<rbrakk> \<Longrightarrow>
     alike (scan_all (html_node L n) s) (scan_all (html_node L (blank_node n)) t) \<and>
     spot_of (fst (scan_all (html_node L n) s)) = q"
proof (induction ns p and n p arbitrary: q s t and q s t rule: spots_spots_node.induct)
  case (2 n ns p)
  then obtain p1 where "spots_node n p = Some p1" "spots ns p1 = Some q" by (auto split: option.splits)
  with 2 show ?case by simp blast
qed (use value_hole attr_text_safe html_escape_safe in
  \<open>auto simp: alike_string text_hole spot_scan [of _ _ "(_, _)", simplified] split: if_splits\<close>)

text \<open>The tags of a page and the names of their attributes do not depend on its data.\<close>

lemma shape_blank:
  assumes "well_placed ns"
  shows "shape (html L ns) = shape (html L (blank ns))"
proof -
  have "alike (InText, []) (InText, [])" by (simp add: alike_def)
  from blank_alike(1) [OF assms [unfolded well_placed_def] this] show ?thesis
    by (simp add: shape_def html_tags_def alike_def)
qed

end
