(* ===== verification/Placed.thy ===== *)
theory Placed
  imports Holes
begin

text \<open>
  Every template of the design system and every page keeps the discipline of the placeholders, whatever its
  arguments; a template that has children keeps it when they do.
\<close>

named_theorems placed \<open>templates with their placeholders in place\<close>

lemma spots_append [simp]:
  "spots (ns @ ms) p = (case spots ns p of None \<Rightarrow> None | Some q \<Rightarrow> spots ms q)"
  by (induction ns arbitrary: p) (simp_all split: option.split)

lemma spots_if [simp]: "spots (if b then ns else ms) p = (if b then spots ns p else spots ms p)"
  by simp

lemma spots_concat:
  assumes "\<And>x. x \<in> set xs \<Longrightarrow> spots (f x) p = Some p"
  shows "spots (concat (map f xs)) p = Some p"
  using assms by (induction xs) simp_all

lemma spots_map:
  assumes "\<And>x. x \<in> set xs \<Longrightarrow> spots_node (f x) p = Some p"
  shows "spots (map f xs) p = Some p"
  using assms by (induction xs) simp_all

lemmas utf8_defs = em_dash_def mid_dot_def cross_mark_def degree_def backslash_def

section \<open>The design system\<close>

lemma Heading1_placed [placed]: "spots (Heading1 text) TextSpot = Some TextSpot"
  by (simp add: Heading1_def Let_def utf8_defs placed spots_concat)

lemma Heading2_placed [placed]: "spots (Heading2 text) TextSpot = Some TextSpot"
  by (simp add: Heading2_def Let_def utf8_defs placed spots_concat)

lemma Heading3_placed [placed]: "spots (Heading3 text) TextSpot = Some TextSpot"
  by (simp add: Heading3_def Let_def utf8_defs placed spots_concat)

lemma Heading4_placed [placed]: "spots (Heading4 text) TextSpot = Some TextSpot"
  by (simp add: Heading4_def Let_def utf8_defs placed spots_concat)

lemma Heading5_placed [placed]: "spots (Heading5 text) TextSpot = Some TextSpot"
  by (simp add: Heading5_def Let_def utf8_defs placed spots_concat)

lemma Heading6_placed [placed]: "spots (Heading6 text) TextSpot = Some TextSpot"
  by (simp add: Heading6_def Let_def utf8_defs placed spots_concat)

lemma ui_Text_placed [placed]: "spots (ui_Text variant text) TextSpot = Some TextSpot"
  by (simp add: ui_Text_def Let_def utf8_defs placed spots_concat)

lemma Badge_placed [placed]: "spots (Badge variant text) TextSpot = Some TextSpot"
  by (simp add: Badge_def Let_def utf8_defs placed spots_concat)

lemma BadgeBackdrop_placed [placed]: "spots children TextSpot = Some TextSpot \<Longrightarrow> spots (BadgeBackdrop variant children) TextSpot = Some TextSpot"
  by (simp add: BadgeBackdrop_def Let_def utf8_defs placed spots_concat)

lemma Toast_placed [placed]: "spots (Toast ident variant message) TextSpot = Some TextSpot"
  by (simp add: Toast_def Let_def utf8_defs placed spots_concat)

lemma Alert_placed [placed]: "spots (Alert variant title message) TextSpot = Some TextSpot"
  by (simp add: Alert_def Let_def utf8_defs placed spots_concat)

lemma Avatar_placed [placed]: "spots (Avatar src initials sz) TextSpot = Some TextSpot"
  by (simp add: Avatar_def Let_def utf8_defs placed spots_concat)

lemma BentoGrid_placed [placed]: "spots children TextSpot = Some TextSpot \<Longrightarrow> spots (BentoGrid children) TextSpot = Some TextSpot"
  by (simp add: BentoGrid_def Let_def utf8_defs placed spots_concat)

lemma BentoItem_placed [placed]: "spots children TextSpot = Some TextSpot \<Longrightarrow> spots (BentoItem area clickable children) TextSpot = Some TextSpot"
  by (simp add: BentoItem_def Let_def utf8_defs placed spots_concat)

lemma Breadcrumb_placed [placed]: "spots (Breadcrumb items) TextSpot = Some TextSpot"
  by (simp add: Breadcrumb_def Let_def utf8_defs placed spots_concat case_prod_beta')

lemma Button_placed [placed]: "spots children TextSpot = Some TextSpot \<Longrightarrow> spots (Button variant typeAttr disabled loading fullWidth children) TextSpot = Some TextSpot"
  by (simp add: Button_def Let_def utf8_defs placed spots_concat)

lemma ButtonLink_placed [placed]: "spots children TextSpot = Some TextSpot \<Longrightarrow> spots (ButtonLink variant href fullWidth children) TextSpot = Some TextSpot"
  by (simp add: ButtonLink_def Let_def utf8_defs placed spots_concat)

lemma Card_placed [placed]: "spots children TextSpot = Some TextSpot \<Longrightarrow> spots (Card elevation hover children) TextSpot = Some TextSpot"
  by (simp add: Card_def Let_def utf8_defs placed spots_concat)

lemma CardAuth_placed [placed]: "spots children TextSpot = Some TextSpot \<Longrightarrow> spots (CardAuth children) TextSpot = Some TextSpot"
  by (simp add: CardAuth_def Let_def utf8_defs placed spots_concat)

lemma Checkbox_placed [placed]: "spots (Checkbox ident name title description checked required) TextSpot = Some TextSpot"
  by (simp add: Checkbox_def Let_def utf8_defs placed spots_concat)

lemma Container_placed [placed]: "spots children TextSpot = Some TextSpot \<Longrightarrow> spots (Container sz children) TextSpot = Some TextSpot"
  by (simp add: Container_def Let_def utf8_defs placed spots_concat)

lemma Divider_placed [placed]: "spots (Divider orientation) TextSpot = Some TextSpot"
  by (simp add: Divider_def Let_def utf8_defs placed spots_concat)

lemma EmptyState_placed [placed]: "spots children TextSpot = Some TextSpot \<Longrightarrow> spots (EmptyState title message children) TextSpot = Some TextSpot"
  by (simp add: EmptyState_def Let_def utf8_defs placed spots_concat)

lemma Icon_placed [placed]: "spots (Icon name sz alt) TextSpot = Some TextSpot"
  by (simp add: Icon_def Let_def utf8_defs placed spots_concat)

lemma InputField_placed [placed]: "spots (InputField name inputType label placeholder value errMsg disabled helper autocomplete autofocus) TextSpot = Some TextSpot"
  by (simp add: InputField_def Let_def utf8_defs placed spots_concat)

lemma LabelText_placed [placed]: "spots (LabelText variant text) TextSpot = Some TextSpot"
  by (simp add: LabelText_def Let_def utf8_defs placed spots_concat)

lemma Link_placed [placed]: "spots (Link href variant text) TextSpot = Some TextSpot"
  by (simp add: Link_def Let_def utf8_defs placed spots_concat)

lemma Modal_placed [placed]: "spots children TextSpot = Some TextSpot \<Longrightarrow> spots (Modal ident title children) TextSpot = Some TextSpot"
  by (simp add: Modal_def Let_def utf8_defs placed spots_concat)

lemma SelectField_placed [placed]: "spots (SelectField name label options selected disabled) TextSpot = Some TextSpot"
  by (simp add: SelectField_def Let_def utf8_defs placed spots_concat)

lemma Skeleton_placed [placed]: "spots (Skeleton lines) TextSpot = Some TextSpot"
  by (simp add: Skeleton_def Let_def utf8_defs placed spots_concat spots_map)

lemma Spinner_placed [placed]: "spots (Spinner sz) TextSpot = Some TextSpot"
  by (simp add: Spinner_def Let_def utf8_defs placed spots_concat)

lemma Switch_placed [placed]: "spots (Switch ident name label checked disabled) TextSpot = Some TextSpot"
  by (simp add: Switch_def Let_def utf8_defs placed spots_concat)

lemma Table_placed [placed]: "spots (Table cols nrows caption) TextSpot = Some TextSpot"
  by (simp add: Table_def Let_def utf8_defs placed spots_concat)

lemma Tabs_placed [placed]: "spots (Tabs items activeID) TextSpot = Some TextSpot"
  by (simp add: Tabs_def Let_def utf8_defs placed spots_concat)

lemma TextareaField_placed [placed]: "spots (TextareaField name label placeholder value nrows errMsg disabled) TextSpot = Some TextSpot"
  by (simp add: TextareaField_def Let_def utf8_defs placed spots_concat)

lemma Tooltip_placed [placed]: "spots children TextSpot = Some TextSpot \<Longrightarrow> spots (Tooltip text children) TextSpot = Some TextSpot"
  by (simp add: Tooltip_def Let_def utf8_defs placed spots_concat)

section \<open>The pages\<close>

lemma Base_placed [placed]: "spots body TextSpot = Some TextSpot \<Longrightarrow> spots (Base pageTitle body) TextSpot = Some TextSpot"
  by (simp add: Base_def Let_def utf8_defs placed spots_concat)

lemma LoginFormPartial_placed [placed]: "spots LoginFormPartial TextSpot = Some TextSpot"
  by (simp add: LoginFormPartial_def Let_def utf8_defs placed spots_concat)

lemma loginPage_placed [placed]: "spots loginPage TextSpot = Some TextSpot"
  by (simp add: loginPage_def Let_def utf8_defs placed spots_concat)

lemma LoginShell_placed [placed]: "spots LoginShell TextSpot = Some TextSpot"
  by (simp add: LoginShell_def Let_def utf8_defs placed spots_concat)

lemma OTPHeader_placed [placed]: "spots (OTPHeader email) TextSpot = Some TextSpot"
  by (simp add: OTPHeader_def Let_def utf8_defs placed spots_concat)

lemma OTPBody_placed [placed]: "spots (OTPBody email userIDHash boxClass) TextSpot = Some TextSpot"
  by (simp add: OTPBody_def Let_def utf8_defs placed spots_concat)

lemma OTPFormPartial_placed [placed]: "spots (OTPFormPartial email userIDHash) TextSpot = Some TextSpot"
  by (simp add: OTPFormPartial_def Let_def utf8_defs placed spots_concat)

lemma OTPErrorHeader_placed [placed]: "spots (OTPErrorHeader message) TextSpot = Some TextSpot"
  by (simp add: OTPErrorHeader_def Let_def utf8_defs placed spots_concat)

lemma OTPErrorPartial_placed [placed]: "spots (OTPErrorPartial email userIDHash message) TextSpot = Some TextSpot"
  by (simp add: OTPErrorPartial_def Let_def utf8_defs placed spots_concat)

lemma consentBody_placed [placed]: "spots (consentBody email) TextSpot = Some TextSpot"
  by (simp add: consentBody_def Let_def utf8_defs placed spots_concat)

lemma ConsentPage_templ_placed [placed]: "spots (ConsentPage_templ email) TextSpot = Some TextSpot"
  by (simp add: ConsentPage_templ_def Let_def utf8_defs placed spots_concat)

lemma ConsentPartial_placed [placed]: "spots (ConsentPartial userIDHash) TextSpot = Some TextSpot"
  by (simp add: ConsentPartial_def Let_def utf8_defs placed spots_concat)

lemma pageBody_placed [placed]: "spots (pageBody email) TextSpot = Some TextSpot"
  by (simp add: pageBody_def Let_def utf8_defs placed spots_concat)

lemma RegisterPage_placed [placed]: "spots (RegisterPage email) TextSpot = Some TextSpot"
  by (simp add: RegisterPage_def Let_def utf8_defs placed spots_concat)

lemma RegisterPartial_placed [placed]: "spots (RegisterPartial userIDHash) TextSpot = Some TextSpot"
  by (simp add: RegisterPartial_def Let_def utf8_defs placed spots_concat)

lemma ActionsWidget_placed [placed]: "spots ActionsWidget TextSpot = Some TextSpot"
  by (simp add: ActionsWidget_def Let_def utf8_defs placed spots_concat)

lemma FactWidget_placed [placed]: "spots (FactWidget title text) TextSpot = Some TextSpot"
  by (simp add: FactWidget_def Let_def utf8_defs placed spots_concat)

lemma GanttWidget_placed [placed]: "spots GanttWidget TextSpot = Some TextSpot"
  by (simp add: GanttWidget_def Let_def utf8_defs placed spots_concat)

lemma RosterWidget_placed [placed]: "spots RosterWidget TextSpot = Some TextSpot"
  by (simp add: RosterWidget_def Let_def utf8_defs placed spots_concat)

lemma StatsWidget_placed [placed]: "spots (StatsWidget L title value label area) TextSpot = Some TextSpot"
  by (simp add: StatsWidget_def Let_def utf8_defs placed spots_concat)

lemma WeatherWidget_placed [placed]: "spots WeatherWidget TextSpot = Some TextSpot"
  by (simp add: WeatherWidget_def Let_def utf8_defs placed spots_concat)

lemma DashboardHeader_placed [placed]: "spots (DashboardHeader email) TextSpot = Some TextSpot"
  by (simp add: DashboardHeader_def Let_def utf8_defs placed spots_concat)

lemma dashboardBody_placed [placed]: "spots (dashboardBody email jsonLD) TextSpot = Some TextSpot"
  by (simp add: dashboardBody_def Let_def utf8_defs placed spots_concat)

lemma DashboardShell_placed [placed]: "spots (DashboardShell email jsonLD) TextSpot = Some TextSpot"
  by (simp add: DashboardShell_def Let_def utf8_defs placed spots_concat)

lemma DashboardGrid_placed [placed]: "spots (DashboardGrid L) TextSpot = Some TextSpot"
  by (simp add: DashboardGrid_def Let_def utf8_defs placed spots_concat)

lemma DetailPanelContent_placed [placed]: "spots (DetailPanelContent title value label detail) TextSpot = Some TextSpot"
  by (simp add: DetailPanelContent_def Let_def utf8_defs placed spots_concat)

end
