(* ===== verification/Screens.thy ===== *)
theory Screens
  imports Placed
begin

text \<open>
  The pages that the handlers answer with (theories AuthHandler to Dashboard keep a page as the name and the
  arguments of its template) are the templates of theory Pages; here the two are put together.
\<close>

section \<open>The templates that are answered\<close>

definition page_of :: "templ \<Rightarrow> string \<Rightarrow> string list \<Rightarrow> node list option" where
  "page_of L t as =
     (case as of
        [] \<Rightarrow> (if t = ''LoginShell'' then Some LoginShell else if t = ''LoginFormPartial'' then Some LoginFormPartial
              else if t = ''DashboardGrid'' then Some (DashboardGrid L) else None)
      | [a] \<Rightarrow> (if t = ''ConsentPartial'' then Some (ConsentPartial a) else if t = ''RegisterPage'' then Some (RegisterPage a)
               else if t = ''RegisterPartial'' then Some (RegisterPartial a) else None)
      | [a, b] \<Rightarrow> (if t = ''OTPFormPartial'' then Some (OTPFormPartial a b)
                  else if t = ''DashboardShell'' then Some (DashboardShell a b) else None)
      | [a, b, c] \<Rightarrow> (if t = ''OTPErrorPartial'' then Some (OTPErrorPartial a b c) else None)
      | [a, b, c, d] \<Rightarrow> (if t = ''DetailPanelContent'' then Some (DetailPanelContent a b c d) else None)
      | _ \<Rightarrow> None)"

lemma page_cases:
  assumes "page_of L t as = Some ns"
  obtains "t = ''LoginShell'' \<and> as = [] \<and> ns = LoginShell" | "t = ''LoginFormPartial'' \<and> as = [] \<and> ns = LoginFormPartial"
  | "t = ''DashboardGrid'' \<and> as = [] \<and> ns = DashboardGrid L"
  | a where "t = ''ConsentPartial'' \<and> as = [a] \<and> ns = ConsentPartial a"
  | a where "t = ''RegisterPage'' \<and> as = [a] \<and> ns = RegisterPage a"
  | a where "t = ''RegisterPartial'' \<and> as = [a] \<and> ns = RegisterPartial a"
  | a b where "t = ''OTPFormPartial'' \<and> as = [a, b] \<and> ns = OTPFormPartial a b"
  | a b where "t = ''DashboardShell'' \<and> as = [a, b] \<and> ns = DashboardShell a b"
  | a b c where "t = ''OTPErrorPartial'' \<and> as = [a, b, c] \<and> ns = OTPErrorPartial a b c"
  | a b c d where "t = ''DetailPanelContent'' \<and> as = [a, b, c, d] \<and> ns = DetailPanelContent a b c d"
  using assms unfolding page_of_def by (auto split: list.splits if_splits)

lemma page_placed: "page_of L t as = Some ns \<Longrightarrow> well_placed ns"
  by (erule page_cases) (simp_all add: well_placed_def placed)

text \<open>C38: Every page keeps the discipline of its placeholders, whatever data it is given: it begins and
  ends in text, text is put where a browser reads text and attribute values between the quotes of an attribute.\<close>

theorem pages_well_placed:
  assumes "page_of L t as = Some ns"
  shows "well_placed ns"
  by (rule page_placed [OF assms])

lemma blank_append [simp]: "blank (ns @ ms) = blank ns @ blank ms"
  by (induction ns) simp_all

lemma blank_concat [simp]: "blank (concat (map f xs)) = concat (map (\<lambda>x. blank (f x)) xs)"
  by (induction xs) simp_all

lemmas data_defs = Heading3_def ui_Text_def Alert_def Let_def CardAuth_def Base_def Container_def
  ConsentPartial_def RegisterPage_def pageBody_def RegisterPartial_def OTPFormPartial_def OTPErrorPartial_def OTPHeader_def
  OTPErrorHeader_def OTPBody_def DashboardShell_def dashboardBody_def DashboardHeader_def DetailPanelContent_def

text \<open>Without their data, two pages of one template are the same.\<close>

lemma blank_page:
  assumes "page_of L t as = Some ns" and "page_of L t bs = Some ms"
  shows "blank ms = blank ns"
proof -
  have eqs: "blank (ConsentPartial a) = blank (ConsentPartial b)" "blank (RegisterPage a) = blank (RegisterPage b)"
    "blank (RegisterPartial a) = blank (RegisterPartial b)" "blank (OTPFormPartial a c) = blank (OTPFormPartial b d)"
    "blank (DashboardShell a c) = blank (DashboardShell b d)" "blank (OTPErrorPartial a c e) = blank (OTPErrorPartial b d f)"
    "blank (DetailPanelContent a c e g) = blank (DetailPanelContent b d f h)" for a b c d e f g h
    by (simp_all add: data_defs)
  show ?thesis
    using assms(1)
  proof (rule page_cases)
  qed (use assms(2) eqs in \<open>auto simp: page_of_def split: list.splits\<close>)
qed

text \<open>No data can change the markup of a page: two pages of one template have the same tags with the same
  attributes in the same order.\<close>

lemma same_shape:
  assumes "page_of L t as = Some ns" and "page_of L t bs = Some ms"
  shows "shape (html L ns) = shape (html L ms)"
  using shape_blank [OF page_placed [OF assms(1)]] shape_blank [OF page_placed [OF assms(2)]] blank_page [OF assms] by simp

section \<open>What the forms of the pages carry\<close>

text \<open>A template that begins and ends in text, with the controls \<open>cs\<close>.\<close>

definition carries :: "templ \<Rightarrow> node list \<Rightarrow> (string \<times> string) list \<Rightarrow> bool" where
  "carries L ns cs \<longleftrightarrow> (\<forall>ts. scan control (html L ns) (InText, ts) = (InText, ts @ cs))"

lemma carries_scan: "carries L ns cs \<Longrightarrow> scan control (html L ns) (InText, ts) = (InText, ts @ cs)"
  by (simp add: carries_def)

lemma carries_controls: "carries L ns cs \<Longrightarrow> controls (html L ns) = cs"
  by (simp add: carries_def controls_def)

lemma carries_Sub: "carries L ns cs \<Longrightarrow> carries L [Sub ns] cs"
  by (simp add: carries_def)

lemma carries_concat:
  assumes "\<And>x. x \<in> set xs \<Longrightarrow> carries L (f x) (g x)"
  shows "carries L (concat (map f xs)) (concat (map g xs))"
  using assms by (induction xs) (simp_all add: carries_def)

lemmas read_defs = carries_def Let_def control_def utf8_defs

lemmas read_del = html_escape_simps(2)

lemma Heading1_carries: "carries L (Heading1 t) []"
  by (simp add: read_defs Heading1_def del: read_del)

lemma Heading4_carries: "carries L (Heading4 t) []"
  by (simp add: read_defs Heading4_def del: read_del)

lemma ui_Text_carries: "carries L (ui_Text v t) []"
  by (cases "v = ''code''") (simp_all add: read_defs ui_Text_def del: read_del)

lemma Alert_carries: "carries L (Alert v t m) []"
  by (cases "t = []") (simp_all add: read_defs Alert_def del: read_del)

lemma Button_carries: "carries L children cs \<Longrightarrow> carries L (Button v ty d l f children) cs"
  by (cases d; cases l) (simp_all add: read_defs Button_def del: read_del)

lemma CardAuth_carries: "carries L children cs \<Longrightarrow> carries L (CardAuth children) cs"
  by (simp add: read_defs CardAuth_def del: read_del)

lemma Checkbox_carries: "carries L (Checkbox i n t d c r) [(n, [])]"
  by (cases c; cases r; cases "d = []") (simp_all add: read_defs Checkbox_def del: read_del)

lemma Base_carries: "carries L body cs \<Longrightarrow> carries L (Base t body) cs"
  by (simp add: read_defs Base_def del: read_del)

lemma carries_append: "carries L ns cs \<Longrightarrow> carries L ms ds \<Longrightarrow> carries L (ns @ ms) (cs @ ds)"
  by (simp add: carries_def)

lemma html_if [simp]: "html L (if b then ns else ms) = (if b then html L ns else html L ms)"
  by simp

lemma Icon_carries: "carries L (Icon n s a) []"
  by (simp add: read_defs Icon_def del: read_del)

lemma InputField_carries: "carries L (InputField n ty [] pl v [] False [] ac af) [(n, v)]"
  by (simp add: read_defs InputField_def del: read_del)

lemmas carried = Heading1_carries [THEN carries_scan] Heading4_carries [THEN carries_scan] ui_Text_carries [THEN carries_scan]
  Alert_carries [THEN carries_scan] Checkbox_carries [THEN carries_scan] Icon_carries [THEN carries_scan]
  InputField_carries [THEN carries_scan]

lemma Button_carried: "carries L (Button v ty d l f [Lit k ''Verify'']) []" "carries L (Button v ty d l f [Lit k ''Send verification code'']) []"
  by (rule Button_carries, simp add: read_defs)+

lemmas button_carried = Button_carried [THEN carries_scan]

lemma OTPBody_carries: "carries L (OTPBody e h bc) ((''user_id_hash'', h) # replicate 6 (''code'', []))"
proof -
  have "carries L (OTPBody e h bc) ([(''user_id_hash'', h)] @ concat (map (\<lambda>i. [(''code'', [])]) [0..<6]) @ [])"
    unfolding OTPBody_def
    by (intro carries_append carries_concat) (simp_all add: read_defs button_carried del: read_del split: if_split)
  moreover have "concat (map (\<lambda>i. [(''code'', [])]) [0..<6]) = replicate 6 (''code'', [] :: string)"
    by (simp add: map_replicate_const)
  ultimately show ?thesis by simp
qed

lemma LoginFormPartial_carries: "carries L LoginFormPartial [(''email'', [])]"
  unfolding LoginFormPartial_def
  by (simp add: read_defs carried button_carried CardAuth_def del: read_del)

lemma OTPFormPartial_carries: "carries L (OTPFormPartial e h) ((''user_id_hash'', h) # replicate 6 (''code'', []))"
  unfolding OTPFormPartial_def
  by (intro carries_Sub CardAuth_carries)
    (simp add: carries_def carries_scan [OF OTPBody_carries] OTPHeader_def carried control_def del: read_del)

lemma OTPErrorPartial_carries: "carries L (OTPErrorPartial e h m) ((''user_id_hash'', h) # replicate 6 (''code'', []))"
  unfolding OTPErrorPartial_def
  by (intro carries_Sub CardAuth_carries)
    (simp add: carries_def carries_scan [OF OTPBody_carries] OTPErrorHeader_def carried control_def del: read_del)

lemma ConsentPartial_carries:
  "carries L (ConsentPartial h) [(''user_id_hash'', h), (''gdpr'', []), (''nis2'', []), (''soc2'', [])]"
  unfolding ConsentPartial_def
  by (intro carries_Sub CardAuth_carries) (simp add: read_defs carried del: read_del)

lemma RegisterPartial_carries: "carries L (RegisterPartial h) [(''user_id_hash'', h)]"
  unfolding RegisterPartial_def
  by (intro carries_Sub CardAuth_carries) (simp add: read_defs carried del: read_del)

lemma RegisterPage_carries: "carries L (RegisterPage e) [(''email'', e)]"
proof -
  have "carries L (pageBody e) [(''email'', e)]"
    unfolding pageBody_def by (simp add: read_defs carried CardAuth_def del: read_del)
  then show ?thesis unfolding RegisterPage_def by (intro carries_Sub Base_carries)
qed

section \<open>Writing a page to the buffer\<close>

lemma plain_append [simp]: "plain (ns @ ms) = (plain ns \<and> plain ms)"
  by (induction ns) simp_all

lemma plain_concat [simp]: "plain (concat (map f xs)) = (\<forall>x \<in> set xs. plain (f x))"
  by (induction xs) simp_all

lemmas part_defs = Heading1_def Heading2_def Heading4_def Badge_def Button_def ButtonLink_def BentoItem_def Card_def Checkbox_def
  Divider_def Icon_def InputField_def Spinner_def StatsWidget_def FactWidget_def ActionsWidget_def LoginShell_def loginPage_def
  LoginFormPartial_def DashboardGrid_def

lemma page_plain: "page_of L t as = Some ns \<Longrightarrow> plain ns"
  by (erule page_cases) (simp_all add: data_defs part_defs)

text \<open>Rendering a page implements its text.  Over every buffer that appends, the calls that the generated
  code makes either all succeed, and the buffer has got the whole page, or there is an error, of a call or of the
  release of the buffer, and the buffer has got a beginning of the page; when the context is already cancelled
  nothing is written.\<close>

theorem page_written:
  assumes "templ_writer W view" and "templ_ok L" and "page_of L t as = Some ns"
  shows "case render L W [Sub ns] b of
      (None, b') \<Rightarrow> view b' = view b @ html L ns \<and> tw_CtxErr W b = None
    | (Some e, b') \<Rightarrow> (\<exists>p q. html L ns = p @ q \<and> view b' = view b @ p) \<and> (tw_CtxErr W b \<noteq> None \<longrightarrow> tw_CtxErr W b = Some e \<and> b' = b)"
proof (cases "tw_CtxErr W b")
  case (Some e)
  then show ?thesis by simp
next
  case None
  have "appends view (html L [Sub ns]) (render L W [Sub ns] b) b"
    by (rule templ_writer.render_appends(1) [OF assms(1,2)]) (simp add: page_plain [OF assms(3)])
  then show ?thesis using None by (auto simp: appends_def split: option.splits prod.splits)
qed

text \<open>A buffer of fixed size: a write that does not fit leaves what fits and fails.\<close>

definition fit :: "nat \<Rightarrow> string \<Rightarrow> string \<Rightarrow> goerr option \<times> string" where
  "fit n s b = (if length b + length s \<le> n then (None, b @ s) else (Some ''short write'', b @ take (n - length b) s))"

definition sized :: "nat \<Rightarrow> string twriter" where
  "sized n = \<lparr>tw_CtxErr = (\<lambda>b. None), tw_Static = (\<lambda>i. fit n), tw_WriteString = fit n, tw_RenderCSSItems = (\<lambda>cs b. (None, b)),
     tw_GetBuffer = (\<lambda>b. (False, b)), tw_ReleaseBuffer = (\<lambda>b. (None, b))\<rparr>"

lemma fit_appends: "appends (\<lambda>b. b) s (fit n s b) b"
  by (auto simp: appends_def fit_def intro!: exI [of _ "take (n - length b) s"] exI [of _ "drop (n - length b) s"])

interpretation sized: templ_writer "sized n" "\<lambda>b. b"
  by unfold_locales (simp_all add: sized_def fit_appends)

text \<open>The library by its documentation.\<close>

definition plain_templ :: templ where
  "plain_templ = \<lparr>tm_EscapeString = html_escape, tm_JoinStringErrs = Inr, tm_JoinURLErrs = Inr,
     tm_ResolveAttributeValue = (\<lambda>v. Inr (attr_text v)),
     tm_CSSClasses = (\<lambda>cs. concat (map (\<lambda>c. case c of Class s \<Rightarrow> s @ '' '' | KV s b \<Rightarrow> if b then s @ '' '' else []) cs)),
     tm_URL = id, tm_Error = (\<lambda>e f l c. e)\<rparr>"

lemma plain_templ_ok: "templ_ok plain_templ"
  by (simp add: templ_ok_def plain_templ_def)

lemma pages_well_placed_witness: "well_placed (OTPErrorPartial [] [] ''<script>alert(1)</script>'')"
  by (rule pages_well_placed [of plain_templ "''OTPErrorPartial''" "[[], [], ''<script>alert(1)</script>'']"]) (simp add: page_of_def)

lemma page_written_witness:
  "case render plain_templ (sized 100) [Sub (RegisterPartial ''h'')] [] of
      (None, b) \<Rightarrow> b = html plain_templ (RegisterPartial ''h'')
    | (Some e, b) \<Rightarrow> \<exists>p q. html plain_templ (RegisterPartial ''h'') = p @ q \<and> b = p"
  using page_written [OF sized.templ_writer_axioms [of 100] plain_templ_ok, of "''RegisterPartial''" "[''h'']" "RegisterPartial ''h''" "[]"]
  by (auto simp: page_of_def split: option.splits prod.splits)

end
