(* ===== verification/Answers.thy ===== *)
theory Answers
  imports Routes Screens
begin

text \<open>
  From an answer to the next request: which pages the program answers with, what their forms send back, and
  what the handlers make of it.
\<close>

section \<open>The pages of the whole program\<close>

text \<open>Every body that is added to the answer satisfies \<open>P\<close>.\<close>

definition adds :: "(body \<Rightarrow> bool) \<Rightarrow> response \<Rightarrow> response \<Rightarrow> bool" where
  "adds P w w' \<longleftrightarrow> (\<exists>bs. rs_bodies w' = rs_bodies w @ bs \<and> list_all P bs)"

lemma adds_none: "rs_bodies w' = rs_bodies w \<Longrightarrow> adds P w w'"
  by (simp add: adds_def)

lemma adds_one: "rs_bodies w' = rs_bodies w @ [b] \<Longrightarrow> P b \<Longrightarrow> adds P w w'"
  by (simp add: adds_def)

locale answers_kind =
  fixes P :: "body \<Rightarrow> bool"
  assumes texts: "P (Text x)" "P (json kvs)" "P (Value v)"

sublocale answers_kind \<subseteq> ans: answers_kept "adds P"
proof
  show "adds P w w" for w by (rule adds_none) simp
  show "adds P u w" if "adds P u v" "adds P v w" for u v w
  proof -
    obtain bs cs where "rs_bodies v = rs_bodies u @ bs" "rs_bodies w = rs_bodies v @ cs" "list_all P bs" "list_all P cs"
      using \<open>adds P u v\<close> \<open>adds P v w\<close> by (auto simp: adds_def)
    then show ?thesis unfolding adds_def by (intro exI [of _ "bs @ cs"]) simp
  qed
  show "adds P w (SetHeader k v w)" "adds P w (WriteHeader n w)" "adds P w (SetCookie (csrf_cookie c) w)" "adds P w (log_tenant t w)"
    for w k v n c t by (rule adds_none, simp add: log_tenant_def split: option.split)+
  show "adds P w (WriteBody (Text x) w)" for w x by (rule adds_one [where b = "Text x"]) (simp, rule texts)
qed

context answers_kind
begin

lemma silent: "(\<And>w. rs_bodies (g w) = rs_bodies w) \<Longrightarrow> keeps (adds P) (respond g)"
  by (rule ans.kept_respond) (simp add: adds_none)

lemma one_body: "(\<And>w. rs_bodies (g w) = rs_bodies w @ [b]) \<Longrightarrow> P b \<Longrightarrow> keeps (adds P) (respond g)"
  by (rule ans.kept_respond) (rule adds_one)

lemma answers_kept:
  "keeps (adds P) (respond (http_Error m n))" "keeps (adds P) (respond (WriteJSON n (json kvs)))"
  "keeps (adds P) (respond (WriteJSON n (Value v)))" "keeps (adds P) (respond (Redirect u n))"
  "keeps (adds P) (respond (\<lambda>w. WriteHeader n (SetHeader k x w)))" "keeps (adds P) (respond (SetHeader k x))"
  "keeps (adds P) (respond (SetCookie c))" "keeps (adds P) (respond (setAuthCookies pair))"
  "keeps (adds P) (respond clearAuthCookies)" "keeps (adds P) (respond json_done)" "keeps (adds P) (respond no_credentials)"
  by ((rule silent, simp add: setAuthCookies_def clearAuthCookies_def json_done_def no_credentials_def; fail)
    | (rule one_body, simp add: json_done_def no_credentials_def, simp add: texts; fail))+

lemma page_kept: "P (Template t as) \<Longrightarrow> keeps (adds P) (respond (Render t as))"
  by (rule one_body) simp_all

lemma SetLogEmail_kept: "keeps (adds P) (respond_go (SetLogEmail e))"
  by (rule ans.kept_respond_go) (rule adds_none, simp add: SetLogEmail_frame)

lemma audit_kept: "keeps (adds P) (audit_with st r ev)" "keeps (adds P) (logSecurity h r ev)"
  unfolding audit_with_def logSecurity_def by (rule ans.kept_rules)+

lemma steps_kept:
  "keeps (adds P) (tenant_or res L r e fb)" "keeps (adds P) (find_or_create rt h r e t)"
  "keeps (adds P) (send_code rt h r e i)" "keeps (adds P) (rate_ok rt h r key)"
  "keeps (adds P) (reset_limits h r i)" "keeps (adds P) (user_by_hash h r i)" "keeps (adds P) (issue_worker rt tok r u tn)"
  "keeps (adds P) (json_error n m)"
  unfolding tenant_or_def find_or_create_def send_code_def rate_ok_def reset_limits_def user_by_hash_def issue_worker_def
    json_error_def Let_def
  by (rule ans.kept_rules answers_kept)+

lemma issue_kept: "keeps (adds P) (issueCookies rt h r u t a)"
  unfolding issueCookies_def by (rule ans.kept_rules answers_kept audit_kept)+

lemmas kept_steps = ans.kept_rules answers_kept SetLogEmail_kept audit_kept steps_kept issue_kept keeps_within

lemma LoginPage_kept: "P (Template ''LoginShell'' []) \<Longrightarrow> keeps (adds P) (LoginPage r)"
  unfolding LoginPage_def by (intro kept_steps page_kept)

lemma SendOTP_kept:
  assumes "P (Template ''LoginFormPartial'' [])" and "\<And>e h m. P (Template ''OTPErrorPartial'' [e, h, m])"
    and "\<And>e h. P (Template ''OTPFormPartial'' [e, h])"
  shows "keeps (adds P) (SendOTP rt h r)"
  unfolding SendOTP_def Let_def by (intro kept_steps page_kept assms)

lemma VerifyOTP_kept:
  assumes "\<And>m. P (Template ''OTPErrorPartial'' [[], [], m])" and "\<And>i. P (Template ''ConsentPartial'' [i])"
  shows "keeps (adds P) (VerifyOTP rt h r)"
  unfolding VerifyOTP_def Let_def by (intro kept_steps page_kept assms)

lemma consent_kept:
  assumes "\<And>i. P (Template ''ConsentPartial'' [i])" and "\<And>i. P (Template ''RegisterPartial'' [i])"
  shows "keeps (adds P) (ConsentPage r)" "keeps (adds P) (ConsentAccept rt h r)"
  unfolding ConsentPage_def ConsentAccept_def Let_def by (intro kept_steps page_kept assms)+

lemma session_kept: "keeps (adds P) (Refresh rt h r)" "keeps (adds P) (Logout rt h r)"
  unfolding Refresh_def Logout_def Let_def
  by (intro kept_steps | rule silent, simp add: setAuthCookies_def)+

lemma passkey_kept:
  "keeps (adds P) (pkh_BeginRegistration rnd r)" "keeps (adds P) (pkh_FinishRegistration rt pp ph r)"
  "keeps (adds P) (Skip rt ph r)" "keeps (adds P) (pkh_BeginLogin rt ph r)" "keeps (adds P) (pkh_FinishLogin rt pp ph r)"
  unfolding pkh_BeginRegistration_def pkh_FinishRegistration_def Skip_def pkh_BeginLogin_def pkh_FinishLogin_def Let_def
  by (intro kept_steps)+

lemma RegisterPage_kept: "(\<And>e. P (Template ''RegisterPage'' [e])) \<Longrightarrow> keeps (adds P) (pkh_RegisterPage r)"
  unfolding pkh_RegisterPage_def Let_def by (intro kept_steps page_kept)

lemma oauth_kept: "keeps (adds P) (oh_BeginAuth r1 r2 now p r)" "keeps (adds P) (oh_Callback rt oh p r)"
  unfolding oh_BeginAuth_def oh_Callback_def Let_def by (intro kept_steps)+

lemma dash_kept:
  assumes "map_of (dash_gets W) p = Some h" and "\<And>a b. P (Template ''DashboardShell'' [a, b])" and "P (Template ''DashboardGrid'' [])"
    and "\<And>a b c d. P (Template ''DetailPanelContent'' [a, b, c, d])"
  shows "keeps (adds P) (h r)"
proof -
  have json: "keeps (adds P) (dash_json dh r)" for dh :: "'d site DashboardHandler"
    unfolding dash_json_def by (intro kept_steps)
  have panel: "keeps (adds P) (respond (\<lambda>w. Render ''DetailPanelContent'' as (SetHeader k v w)))" if "length as = 4" for as k v
    by (rule one_body) (use that assms(4) in \<open>auto simp: numeral_eq_Suc length_Suc_conv\<close>)
  have close: "keeps (adds P) (respond (\<lambda>w. WriteBody (Text x) (SetHeader k v w)))" for x k v
    by (rule one_body [where b = "Text x"]) (simp, rule texts)
  have "h \<in> snd ` set (dash_gets W)" using map_of_SomeD [OF assms(1)] by force
  then consider "h = DashboardPage (wi_marshal W) (main_dashboard W)" | "h = Grid (main_dashboard W)"
    | "h = DashboardJSON (main_dashboard W)" | "h = DetailPanel" | "h = ClosePanel" by (auto simp: dash_gets_def)
  then show ?thesis
    by cases (simp only: DashboardPage_def Grid_def DashboardJSON_def DetailPanel_def ClosePanel_def Let_def,
      intro kept_steps page_kept json panel close assms, (simp; fail)?)+
qed

end

text \<open>A page that is answered is one of the templates of theory Screens.\<close>

definition served :: "body \<Rightarrow> bool" where
  "served b = (case b of Template t as \<Rightarrow> page_of plain_templ t as \<noteq> None | _ \<Rightarrow> True)"

interpretation shown: answers_kind served
  by unfold_locales (simp_all add: served_def json_def)

lemma page_of_lib: "page_of L t as = None \<longleftrightarrow> page_of M t as = None"
  by (simp add: page_of_def split: list.split)

lemma route_serves:
  assumes "\<And>r w. adds served w (ro_static ro r w) \<and> adds served w (ro_missing ro r w)"
  shows "keeps (adds served) (route W m ro r)"
proof (rule shown.ans.route_kept)
  note page = served_def page_of_def
  have gets: "keeps (adds served) a" if "map_of (auth_gets W m r) p = Some a" for p a
    using map_of_SomeD [OF that]
    by (auto simp: auth_gets_def page intro!: keeps_on_site keeps_on_passkeys shown.LoginPage_kept shown.consent_kept
        shown.RegisterPage_kept shown.passkey_kept)
  have posts: "keeps (adds served) a" if "map_of (auth_posts W m r) p = Some a" for p a
    using map_of_SomeD [OF that]
    by (auto simp: auth_posts_def page intro!: keeps_on_site keeps_on_passkeys shown.SendOTP_kept shown.VerifyOTP_kept
        shown.consent_kept shown.session_kept shown.passkey_kept)
  have oauth: "keeps (adds served) a" if "oauth_route W m ro r = Some a" for a
    using that by (auto simp: oauth_route_def intro!: keeps_on_oauth shown.oauth_kept split: option.splits if_splits)
  show "keeps (adds served) act" if "auth_route W m ro r = Some act" for act
    using that gets posts oauth by (auto simp: auth_route_def split: option.splits if_splits)
  show "keeps (adds served) (h r)" if "map_of (dash_gets W) p = Some h" for p h r
    by (rule shown.dash_kept [OF that]) (simp_all add: page)
qed (use assms in blast)

text \<open>C11: Nothing that a client sends, and nothing that the database holds, changes the markup of a page.
  Whatever the request and the state, every page that the routes of the program answer with is one of its
  ten templates, and has the same tags with the same attributes as the same template with any other data;
  this covers the panel of the dashboard, which shows its query parameters.\<close>

theorem answered_pages_inert:
  assumes "\<And>r w. adds served w (ro_static ro r w) \<and> adds served w (ro_missing ro r w)"
    and "Template t as \<in> set (rs_bodies (snd (snd (route W m ro r (s, resp)))))" and "Template t as \<notin> set (rs_bodies resp)"
  shows "\<exists>ns. page_of L t as = Some ns \<and> (\<forall>bs ms. page_of L t bs = Some ms \<longrightarrow> shape (html L ns) = shape (html L ms))"
proof -
  have "adds served resp (snd (snd (route W m ro r (s, resp))))"
    using route_serves [OF assms(1), of W m r] unfolding keeps_def by (metis snd_conv)
  then have "served (Template t as)" using assms(2,3) by (auto simp: adds_def list_all_iff)
  then obtain ns where ns: "page_of L t as = Some ns" using page_of_lib [of L t as plain_templ] by (auto simp: served_def)
  with same_shape [OF this] show ?thesis by blast
qed


section \<open>What the forms send back\<close>

text \<open>A user fills the boxes of the code: one character in each control named \<open>code\<close>, in order.\<close>

fun fill :: "(string \<times> string) list \<Rightarrow> string \<Rightarrow> (string \<times> string) list" where
  "fill [] typed = []"
| "fill ((n, v) # cs) typed =
     (if n = ''code'' then (case typed of [] \<Rightarrow> (n, v) # fill cs [] | c # rest \<Rightarrow> (n, [c]) # fill cs rest)
      else (n, v) # fill cs typed)"

lemma Join_singles: "Join (map (\<lambda>c. [c]) s) [] = s"
  by (induction s rule: induct_list012) simp_all

lemma fill_boxes: "length typed = n \<Longrightarrow> fill (replicate n (''code'', [])) typed = map (\<lambda>c. (''code'', [c])) typed"
  by (induction typed arbitrary: n) auto

text \<open>C12: The page that asks for the code closes the circle.  The form that it sends back when a user types six
  characters carries the \<open>user_id_hash\<close> the page was made for, whatever characters are in it, and
  \<open>VerifyOTP\<close> reads exactly the typed code out of the six boxes.\<close>

theorem otp_form_roundtrip:
  assumes "page_of L ''OTPFormPartial'' [email, h] = Some ns" and "rq_Form r = fill (controls (html L ns)) typed"
    and "length typed = 6" and "list_all visible typed"
  shows "FormValue r ''user_id_hash'' = h \<and> TrimSpace (Join (all_values (rq_Form r) ''code'') '''') = typed"
proof -
  have ns: "ns = OTPFormPartial email h" using assms(1) by (simp add: page_of_def)
  have form: "rq_Form r = (''user_id_hash'', h) # map (\<lambda>c. (''code'', [c])) typed"
    using assms(2) carries_controls [OF OTPFormPartial_carries] fill_boxes [OF assms(3)] by (simp add: ns)
  then have "all_values (rq_Form r) ''code'' = map (\<lambda>c. [c]) typed"
    by (simp add: all_values_def filter_map comp_def filter_True)
  moreover have "TrimSpace typed = typed"
  proof (rule TrimSpace_visible)
    show "typed \<noteq> []" using assms(3) by auto
    then show "visible (hd typed)" "visible (last typed)" using assms(4) by (simp_all add: list_all_iff)
  qed
  ultimately show ?thesis using form by (simp add: FormValue_def first_value_def Join_singles)
qed

text \<open>The page that \<open>VerifyOTP\<close> answers with for a wrong code has neither an address nor a hash.\<close>

definition bare_error :: "body \<Rightarrow> bool" where
  "bare_error b = (case b of Template t as \<Rightarrow> t = ''OTPErrorPartial'' \<longrightarrow> take 2 as = [[], []] \<and> length as = 3 | _ \<Rightarrow> True)"

interpretation bare: answers_kind bare_error
  by unfold_locales (simp_all add: bare_error_def json_def)

text \<open>C13: The page after a wrong code is a dead end.  Its form has lost the \<open>user_id_hash\<close>: whatever is typed
  into it, \<open>VerifyOTP\<close> answers 400 without looking at the code, so the attempts that the policy leaves
  cannot be made from it.\<close>

theorem retry_form_is_dead:
  assumes "Template ''OTPErrorPartial'' as \<in> set (rs_bodies (snd (snd (VerifyOTP rt h r (w, resp)))))"
    and "Template ''OTPErrorPartial'' as \<notin> set (rs_bodies resp)" and "page_of L ''OTPErrorPartial'' as = Some ns"
    and "rq_Form r2 = fill (controls (html L ns)) typed"
  shows "VerifyOTP rt2 h2 r2 (w2, resp2) = (Ret (), w2, http_Error ''bad request'' 400 resp2)"
proof -
  have "keeps (adds bare_error) (VerifyOTP rt h r)"
    by (rule bare.VerifyOTP_kept) (simp_all add: bare_error_def)
  then have "adds bare_error resp (snd (snd (VerifyOTP rt h r (w, resp))))" unfolding keeps_def by (metis snd_conv)
  then have "bare_error (Template ''OTPErrorPartial'' as)" using assms(1,2) by (auto simp: adds_def list_all_iff)
  then obtain m where "as = [[], [], m]" by (auto simp: bare_error_def numeral_eq_Suc length_Suc_conv)
  then have "ns = OTPErrorPartial [] [] m" using assms(3) by (simp add: page_of_def)
  then have "FormValue r2 ''user_id_hash'' = []"
    using assms(4) carries_controls [OF OTPErrorPartial_carries] by (simp add: FormValue_def first_value_def)
  then show ?thesis by (simp add: VerifyOTP_def Let_def)
qed

text \<open>C31: The page of GET /auth/passkey/register cannot be skipped or used: its form and its Skip button send
  the address only, and every handler behind them asks for a \<open>user_id_hash\<close>; Skip sends the user back to the
  login page, signed in nowhere, and the ceremony is refused.\<close>

theorem register_page_is_dead:
  assumes "page_of L ''RegisterPage'' [email] = Some ns" and "rq_Form r = controls (html L ns) @ [(''email'', email)]"
    and "rq_FormErr r = None"
  shows "Skip rt ph r (s, resp) = (Ret (), s, Redirect ''/'' 303 resp) \<and>
    pkh_BeginRegistration rnd r (s, resp) = (Ret (), s, WriteJSON 400 (json [(''error'', ''user_id_hash required'')]) resp)"
proof -
  have "ns = RegisterPage email" using assms(1) by (simp add: page_of_def)
  then have "FormValue r ''user_id_hash'' = []"
    using assms(2) carries_controls [OF RegisterPage_carries] by (simp add: FormValue_def first_value_def)
  with assms(3) show ?thesis
    by (simp add: Skip_def pkh_BeginRegistration_def json_error_def Let_def)
qed

section \<open>Closed examples\<close>

lemma otp_form_roundtrip_witness:
  "\<exists>r. rq_Form r = fill (controls (html plain_templ (OTPFormPartial ''a@b.c'' ''h\"1'' ))) ''123456'' \<and>
     FormValue r ''user_id_hash'' = ''h\"1'' \<and> TrimSpace (Join (all_values (rq_Form r) ''code'') '''') = ''123456''"
proof -
  let ?r = "a_request\<lparr>rq_Form := fill (controls (html plain_templ (OTPFormPartial ''a@b.c'' ''h\"1''))) ''123456''\<rparr>"
  have "FormValue ?r ''user_id_hash'' = ''h\"1'' \<and> TrimSpace (Join (all_values (rq_Form ?r) ''code'') '''') = ''123456''"
    by (rule otp_form_roundtrip [where L = plain_templ and email = "''a@b.c''"]) (simp_all add: page_of_def visible_def)
  then show ?thesis by (intro exI [of _ ?r]) simp
qed

lemma retry_form_is_dead_witness:
  "\<exists>ns. (let r = a_request\<lparr>rq_Form := [(''user_id_hash'', web_hash), (''code'', ''000000'')]\<rparr>;
       again = a_request\<lparr>rq_Form := fill (controls (html plain_templ ns)) ''123456''\<rparr>;
       as = [[], [], ''Invalid or expired code. Try again.''] in
     page_of plain_templ ''OTPErrorPartial'' as = Some ns \<and>
     VerifyOTP web_rt web_auth r (web_world, fresh_response) = (Ret (), web_world, Render ''OTPErrorPartial'' as fresh_response) \<and>
     VerifyOTP web_rt web_auth again (web_world, fresh_response) = (Ret (), web_world, http_Error ''bad request'' 400 fresh_response))"
proof -
  define r where "r = a_request\<lparr>rq_Form := [(''user_id_hash'', web_hash), (''code'', ''000000'')]\<rparr>"
  have r: "FormValue r ''user_id_hash'' = web_hash" "rq_FormErr r = None"
    and code: "Join (all_values (rq_Form r) ''code'') '''' = ''000000''"
    by (simp_all add: r_def a_request_def FormValue_def all_values_def)
  have trim: "TrimSpace ''000000'' = ''000000''" by (rule TrimSpace_visible) (simp_all add: visible_def)
  have len: "web_hash \<noteq> []" by (simp add: web_hash_def sha_hex_length flip: length_0_conv)
  let ?as = "[[], [], ''Invalid or expired code. Try again.'']"
  have run: "VerifyOTP web_rt web_auth r (web_world, fresh_response)
      = (Ret (), web_world, Render ''OTPErrorPartial'' ?as fresh_response)"
    by (simp add: VerifyOTP_def Let_def r code trim len rate_ok_def Verify_def web_auth_def logSecurity_def audit_with_def
        after_def bind_act_def respond_go_def reply_def world_go_def ret_def SetLogEmail_def fresh_response_def)
  let ?again = "a_request\<lparr>rq_Form := fill (controls (html plain_templ (OTPErrorPartial [] [] (?as ! 2)))) ''123456''\<rparr>"
  have "VerifyOTP web_rt web_auth ?again (web_world, fresh_response) = (Ret (), web_world, http_Error ''bad request'' 400 fresh_response)"
    by (rule retry_form_is_dead [where as = ?as and rt = web_rt and h = web_auth and r = r and w = web_world and resp = fresh_response
        and L = plain_templ and typed = "''123456''"])
      (simp_all add: run page_of_def)
  then show ?thesis unfolding Let_def r_def [symmetric] using run by (auto simp: page_of_def)
qed

lemma register_page_is_dead_witness:
  "\<exists>r. rq_Form r = controls (html plain_templ (RegisterPage web_mail)) @ [(''email'', web_mail)] \<and>
     Skip web_rt web_pkh r ((web_pk, web_world), fresh_response) = (Ret (), (web_pk, web_world), Redirect ''/'' 303 fresh_response)"
proof -
  let ?r = "a_request\<lparr>rq_Form := controls (html plain_templ (RegisterPage web_mail)) @ [(''email'', web_mail)]\<rparr>"
  have "Skip web_rt web_pkh ?r ((web_pk, web_world), fresh_response) = (Ret (), (web_pk, web_world), Redirect ''/'' 303 fresh_response)"
    using register_page_is_dead [of plain_templ web_mail "RegisterPage web_mail" ?r web_rt web_pkh
        "(web_pk, web_world)" fresh_response "\<lambda>n. Inl ''''"]
    by (simp add: page_of_def a_request_def)
  then show ?thesis by (intro exI [of _ ?r]) simp
qed

text \<open>A script sent as \<open>user_id_hash\<close> comes back in the consent page, and adds no tag to it.\<close>

lemma answered_pages_inert_witness:
  "\<exists>s' resp' ns. route web_wiring demo_moment demo_router (a_request\<lparr>rq_Method := ''POST'', rq_Path := ''/auth/consent'',
       rq_Form := [(''user_id_hash'', ''<script>alert(1)</script>'')]\<rparr>) (web_services, fresh_response) = (Ret (), s', resp') \<and>
     rs_bodies resp' = [Template ''ConsentPartial'' [''<script>alert(1)</script>'']] \<and>
     page_of plain_templ ''ConsentPartial'' [''<script>alert(1)</script>''] = Some ns \<and>
     shape (html plain_templ ns) = shape (html plain_templ (ConsentPartial ''0123''))"
proof -
  define r where "r = a_request\<lparr>rq_Method := ''POST'', rq_Path := ''/auth/consent'', rq_Form := [(''user_id_hash'', ''<script>alert(1)</script>'')]\<rparr>"
  let ?as = "[''<script>alert(1)</script>'']"
  have r: "rq_Method r = ''POST''" "rq_Path r = ''/auth/consent''" "FormValue r ''user_id_hash'' = hd ?as" "FormValue r ''gdpr'' = []"
    by (simp_all add: r_def a_request_def FormValue_def)
  have run: "ConsentAccept web_rt (main_auth web_wiring demo_moment) r (w, resp) = (Ret (), w, Render ''ConsentPartial'' ?as resp)" for w resp
    by (simp add: ConsentAccept_def Let_def r log8_def slice_to_def after_def bind_act_def must_def reply_def)
  have post: "map_of (auth_posts web_wiring demo_moment r) (rq_Path r)
      = Some (on_site (ConsentAccept web_rt (main_auth web_wiring demo_moment) r))" by (simp add: auth_posts_def r)
  obtain os ps where moment: "at_moment web_wiring demo_moment (on_site (ConsentAccept web_rt (main_auth web_wiring demo_moment) r))
      ((oauth_service web_wiring demo_moment, passkey_service web_wiring demo_moment, web_site), fresh_response)
      = (Ret (), (os, ps, web_site), Render ''ConsentPartial'' ?as fresh_response)"
    by (simp add: at_moment_def on_site_def within_def run)
  obtain rl1 where served: "route web_wiring demo_moment demo_router r (web_services, fresh_response)
      = (Ret (), ({}, rl1, os, ps, web_site), Render ''ConsentPartial'' ?as fresh_response)"
    unfolding web_services_def by (rule route_post_admitted [OF r(1) post web_admitted moment])
  have quiet: "\<And>r w. adds served w (ro_static demo_router r w) \<and> adds served w (ro_missing demo_router r w)"
    by (simp add: demo_router_def adds_def served_def)
  have "\<exists>ns. page_of plain_templ ''ConsentPartial'' ?as = Some ns \<and>
      (\<forall>bs ms. page_of plain_templ ''ConsentPartial'' bs = Some ms \<longrightarrow> shape (html plain_templ ns) = shape (html plain_templ ms))"
    by (rule answered_pages_inert [OF quiet, where W = web_wiring and m = demo_moment and r = r and s = web_services
        and resp = fresh_response]) (simp_all add: served)
  then obtain ns where "page_of plain_templ ''ConsentPartial'' ?as = Some ns"
    and shape: "\<And>bs ms. page_of plain_templ ''ConsentPartial'' bs = Some ms \<Longrightarrow> shape (html plain_templ ns) = shape (html plain_templ ms)"
    by blast
  moreover have "shape (html plain_templ ns) = shape (html plain_templ (ConsentPartial ''0123''))"
    by (rule shape [of "[''0123'']"]) (simp add: page_of_def)
  moreover have "rs_bodies (Render ''ConsentPartial'' ?as fresh_response) = [Template ''ConsentPartial'' ?as]"
    by (simp add: fresh_response_def)
  ultimately show ?thesis unfolding r_def [symmetric] using served by blast
qed

end
