(* ===== verification/Lifecycle.thy ===== *)
theory Lifecycle
  imports AuditLog
begin

text \<open>
  The life of the process (the end of \<open>main\<close> in cmd/server/main.go): the server, the signal that stops it, the
  requests in flight, the workers of the audit queue, and the deferred calls that stop the queue and close the
  pool.  The steps of all of them interleave.  The server itself (net/http) is not under src/; what is used of
  it is documented: it starts a goroutine for each request, \<open>Shutdown\<close> makes \<open>ListenAndServe\<close> return at once, and
  nothing but the caller of \<open>Shutdown\<close> waits for the requests in flight.
\<close>

section \<open>States and steps\<close>

text \<open>
  \<open>Serving\<close>: \<open>main\<close> is in \<open>ListenAndServe\<close>.  \<open>Returning\<close>: it has returned \<open>ErrServerClosed\<close>.  \<open>Stopping\<close>: \<open>main\<close> is in the
  deferred \<open>auditR.Stop\<close>, which closed the queue and waits for the workers.  \<open>Closed\<close>: the deferred
  \<open>pool.Close\<close> is over.  With the end of \<open>main\<close> the process exits, whatever the other goroutines do; \<open>log.Fatalf\<close>
  exits without the deferred calls.
\<close>

datatype phase = Serving | Returning | Stopping | Closed | Exited nat

record ('d, 'c) life =
  lf_phase :: phase
  lf_run :: "'d audit_run"
  lf_pool :: "Pool \<times> 'c"
  lf_requests :: nat
  lf_panics :: nat

definition live :: "('d, 'c) life \<Rightarrow> bool" where
  "live s \<longleftrightarrow> (case lf_phase s of Exited _ \<Rightarrow> False | _ \<Rightarrow> True)"

definition life0 :: "Pool \<Rightarrow> 'c \<Rightarrow> 'd \<Rightarrow> ('d, 'c) life" where
  "life0 p c d = \<lparr>lf_phase = Serving, lf_run = run0 d, lf_pool = (p, c), lf_requests = 0, lf_panics = 0\<rparr>"

text \<open>A request that panics ends; the Recoverer keeps the process alive.\<close>

inductive life_step :: "golib \<Rightarrow> 'd db option \<Rightarrow> 'c driver \<Rightarrow> ('d, 'c) life \<Rightarrow> ('d, 'c) life \<Rightarrow> bool"
  for L :: golib and db :: "'d db option" and D :: "'c driver" where
  request: "lf_phase s = Serving \<Longrightarrow> life_step L db D s (s\<lparr>lf_requests := lf_requests s + 1\<rparr>)"
| audit_call: "live s \<Longrightarrow> lf_requests s \<noteq> 0 \<Longrightarrow> LogSecurityEvent pick c e (ru_repo (lf_run s)) = (res, r') \<Longrightarrow>
    life_step L db D s (s\<lparr>
      lf_run := (lf_run s)\<lparr>ru_repo := r', ru_accepted := ru_accepted (lf_run s) @ (if res = Ret None then [e] else [])\<rparr>,
      lf_requests := lf_requests s - (if is_panic res then 1 else 0),
      lf_panics := lf_panics s + (if is_panic res then 1 else 0)\<rparr>)"
| query: "live s \<Longrightarrow> snd (Query D picks now c ns dbn sql vs (lf_pool s)) = pd \<Longrightarrow> life_step L db D s (s\<lparr>lf_pool := pd\<rparr>)"
| answer: "live s \<Longrightarrow> lf_requests s \<noteq> 0 \<Longrightarrow> life_step L db D s (s\<lparr>lf_requests := lf_requests s - 1\<rparr>)"
| worker: "live s \<Longrightarrow> drain_step L db (lf_run s) r \<Longrightarrow> life_step L db D s (s\<lparr>lf_run := r\<rparr>)"
| signal: "lf_phase s = Serving \<Longrightarrow> life_step L db D s (s\<lparr>lf_phase := Returning\<rparr>)"
| fatal: "lf_phase s = Serving \<Longrightarrow> life_step L db D s (s\<lparr>lf_phase := Exited 1\<rparr>)"
| stop: "lf_phase s = Returning \<Longrightarrow>
    life_step L db D s (s\<lparr>lf_phase := Stopping, lf_run := (lf_run s)\<lparr>ru_repo := Shutdown (ru_repo (lf_run s))\<rparr>\<rparr>)"
| close_pool: "lf_phase s = Stopping \<Longrightarrow> au_workers (ru_repo (lf_run s)) = 0 \<Longrightarrow>
    life_step L db D s (s\<lparr>lf_phase := Closed, lf_pool := Close D (lf_pool s)\<rparr>)"
| exit: "lf_phase s = Closed \<Longrightarrow> life_step L db D s (s\<lparr>lf_phase := Exited 0\<rparr>)"

abbreviation life_steps :: "golib \<Rightarrow> 'd db option \<Rightarrow> 'c driver \<Rightarrow> ('d, 'c) life \<Rightarrow> ('d, 'c) life \<Rightarrow> bool" where
  "life_steps L db D \<equiv> (life_step L db D)\<^sup>*\<^sup>*"

inductive_cases life_stepE: "life_step L db D s s'"

section \<open>What every life keeps\<close>

text \<open>No call of the pool but \<open>Close\<close> changes whether the pool is closed.\<close>

definition closed_is :: "bool \<Rightarrow> Pool \<times> 'c \<Rightarrow> bool" where
  "closed_is b s \<longleftrightarrow> po_closed (fst s) = b"

lemma closed_is_simps [simp]: "closed_is b (p, d) \<longleftrightarrow> po_closed p = b"
  by (simp add: closed_is_def)

lemma borrow_closed: "closed_is b (snd (lift_pool (borrow pick c p) d)) \<longleftrightarrow> po_closed p = b"
  by (auto simp: lift_pool_def borrow_def split: list.split option.split)

lemma chan_send_closed: "chan_send cn p = (r, p1) \<Longrightarrow> po_closed p1 = po_closed p"
  by (auto simp: chan_send_def split: if_splits)

lemma returnConn_closed: "po_closed p = b \<Longrightarrow> closed_is b (snd (returnConn D cn (p, d)))"
  by (auto simp: returnConn_def closed_is_def split: prod.split dest: chan_send_closed)

lemma reconnect_closed: "po_closed p = b \<Longrightarrow> closed_is b (snd (reconnect D c cn (p, d)))"
  by (auto simp: reconnect_def closed_is_def split: prod.split sum.split dest: chan_send_closed)

lemma andThen_closed:
  assumes "closed_is b (snd m)" and "\<And>x p d. po_closed p = b \<Longrightarrow> closed_is b (snd (k x (p, d)))"
  shows "closed_is b (snd (andThen m k))"
proof -
  obtain out p d where "m = (out, p, d)" by (metis prod_cases3)
  with assms show ?thesis by (cases out) (simp_all add: andThen_def)
qed

lemma Query_closed: "closed_is (po_closed (fst s)) (snd (Query D picks now c ns dbn sql vs s))"
  unfolding Query_def Let_def
  by (rule andThen_closed, simp add: borrow_closed)
    (auto simp: borrow_closed split: sum.split prod.split option.split intro!: andThen_closed returnConn_closed reconnect_closed)

definition ended :: "phase \<Rightarrow> bool" where
  "ended ph \<longleftrightarrow> ph = Closed \<or> ph = Exited 0"

definition life_inv :: "('d, 'c) life \<Rightarrow> bool" where
  "life_inv s \<longleftrightarrow>
     audit_inv (lf_run s) \<and>
     (lf_phase s = Stopping \<or> ended (lf_phase s) \<longrightarrow> au_closed (ru_repo (lf_run s))) \<and>
     (ended (lf_phase s) \<longrightarrow> au_workers (ru_repo (lf_run s)) = 0) \<and>
     (po_closed (fst (lf_pool s)) \<longleftrightarrow> ended (lf_phase s))"

lemma drain_frame: "drain_step L db r r' \<Longrightarrow> au_workers (ru_repo r) = 0 \<Longrightarrow> audit_inv r \<Longrightarrow> False"
  by (induction rule: drain_step.induct) (auto simp: audit_inv_def)

lemma Close_closed [simp]: "po_closed (fst (Close D pd))"
  by (simp add: Close_def split: prod.split)

lemma life_step_inv:
  assumes "life_step L db D s s'" and "life_inv s"
  shows "life_inv s'"
  using assms(1)
proof cases
  case (audit_call pick c e res r')
  have "audit_inv ((lf_run s)\<lparr>ru_repo := r', ru_accepted := ru_accepted (lf_run s) @ (if res = Ret None then [e] else [])\<rparr>)"
    by (rule audit_step_inv [OF audit_step.submit [where L = L and pool = db, OF audit_call(4)]])
      (use assms(2) in \<open>simp add: life_inv_def\<close>)
  with audit_call(1) assms(2) LogSecurityEvent_cases [OF audit_call(4)] show ?thesis by (auto simp: life_inv_def)
next
  case (query picks now c ns dbn sql vs pd)
  with assms(2) Query_closed [of "lf_pool s" D picks now c ns dbn sql vs] show ?thesis by (auto simp: life_inv_def closed_is_def)
next
  case (worker r)
  have r: "audit_inv r" "au_closed (ru_repo (lf_run s)) \<longrightarrow> au_closed (ru_repo r)"
    using audit_step_inv [OF drain_step_is_step [OF worker(3)]] drain_step_effect [OF worker(3)] assms(2)
    by (simp_all add: life_inv_def)
  have "au_workers (ru_repo (lf_run s)) \<noteq> 0" using drain_frame [OF worker(3)] assms(2) by (auto simp: life_inv_def)
  with r worker(1) assms(2) show ?thesis by (auto simp: life_inv_def)
next
  case stop
  have "audit_inv ((lf_run s)\<lparr>ru_repo := Shutdown (ru_repo (lf_run s))\<rparr>)"
    by (rule audit_step_inv [OF audit_step.close [where L = L and pool = db]]) (use assms(2) in \<open>simp add: life_inv_def\<close>)
  with stop assms(2) show ?thesis by (auto simp: life_inv_def ended_def Shutdown_def)
qed (use assms(2) in \<open>auto simp: life_inv_def ended_def\<close>)

lemma life_inv0:
  assumes "NewPool D c cfg d0 = (Inr p, d1)"
  shows "life_inv (life0 p d1 d)"
proof -
  have "audit_inv (run0 d)" using audit_reach_inv [OF audit_reach.start] .
  moreover have "\<not> po_closed p" using NewPool_open(1) [OF assms] by (simp add: pool_open_def)
  ultimately show ?thesis by (simp add: life_inv_def life0_def ended_def)
qed

lemma life_steps_inv: "life_steps L db D s s' \<Longrightarrow> life_inv s \<Longrightarrow> life_inv s'"
  by (induction rule: rtranclp_induct) (auto intro: life_step_inv)

text \<open>The audit trail of a life.\<close>

lemma life_step_trail:
  assumes "\<And>q. db = Some q \<Longrightarrow> runs_creates q ''security_audit'' rows" and "life_step L db D s s'"
    and "trail_kept db rows d (lf_run s)"
  shows "trail_kept db rows d (lf_run s')"
  using assms(2)
proof cases
  case (audit_call pick c e res r')
  with trail_kept_step [OF assms(1) audit_step.submit [OF audit_call(4), where L = L and pool = db] assms(3)] show ?thesis by simp
next
  case (worker r)
  with trail_kept_step [OF assms(1) drain_step_is_step [OF worker(3)] assms(3)] show ?thesis by simp
next
  case stop
  with trail_kept_step [OF assms(1) audit_step.close [where L = L and pool = db] assms(3)] show ?thesis by simp
qed (use assms(3) in simp_all)

lemma life_trail:
  assumes "\<And>q. db = Some q \<Longrightarrow> runs_creates q ''security_audit'' rows" and "life_steps L db D (life0 p c d) s"
  shows "trail_kept db rows d (lf_run s)"
  using assms(2)
proof (induction rule: rtranclp_induct)
  case base
  show ?case by (simp add: life0_def trail_kept0)
next
  case (step s s')
  show ?case by (rule life_step_trail [OF assms(1) step.hyps(2) step.IH])
qed

lemma life_dropped:
  assumes "takes_events q" and "life_steps L (Some q) D (life0 p c d) s"
  shows "ru_dropped (lf_run s) = []"
  using assms(2)
proof (induction rule: rtranclp_induct)
  case base
  show ?case by (simp add: life0_def run0_def)
next
  case (step s s')
  from step.hyps(2) show ?case
  proof cases
    case (worker r)
    with audit_step_dropped [OF assms(1) drain_step_is_step [OF worker(3)]] step.IH show ?thesis by simp
  qed (use step.IH in simp_all)
qed

section \<open>The end of a life\<close>

lemma life_drains:
  assumes "(drain_step L db)\<^sup>*\<^sup>* (lf_run s) r" and "live s"
  shows "life_steps L db D s (s\<lparr>lf_run := r\<rparr>)"
  using assms
proof (induction rule: rtranclp_induct)
  case (step r1 r2)
  have "life_step L db D (s\<lparr>lf_run := r1\<rparr>) (s\<lparr>lf_run := r1\<rparr>\<lparr>lf_run := r2\<rparr>)"
    by (rule life_step.worker) (use step in \<open>simp_all add: live_def\<close>)
  with step show ?case by simp
qed simp

text \<open>C26: What was accepted for the audit trail is in the database, or was dropped with a line in the log, before
  the program lets go of its pool.  In every state that the program can reach, with any number of requests, if
  the pool is closed then the queue is empty, no worker is left, every accepted event was written or dropped, and
  the table of each tenant holds, after what it held at the start, exactly its written events in the order of
  the writes; nothing is dropped by a database that takes every event; and the program does not exit with
  status 0 before that.\<close>

theorem pool_closes_last:
  assumes "\<And>q. db = Some q \<Longrightarrow> runs_creates q ''security_audit'' rows"
    and "NewPool D c cfg d0 = (Inr p, d1)" and "life_steps L db D (life0 p d1 d) s"
    and "po_closed (fst (lf_pool s)) \<or> lf_phase s = Exited 0"
  defines "run \<equiv> lf_run s"
  shows "po_closed (fst (lf_pool s)) \<and> au_ch (ru_repo run) = [] \<and> au_workers (ru_repo run) = 0 \<and>
    mset (ru_written run) + mset (ru_dropped run) = mset (ru_accepted run) \<and>
    (\<forall>t. map mapAuditRow (rows ''audit'' t (ru_db run)) = map mapAuditRow (rows ''audit'' t d) @
       map (\<lambda>e. e\<lparr>sv_TenantID := t\<rparr>) (filter (\<lambda>e. audit_db e = t) (ru_written run))) \<and>
    (case db of None \<Rightarrow> ru_written run = [] | Some q \<Rightarrow> takes_events q \<longrightarrow> ru_dropped run = [])"
proof -
  have inv: "life_inv s" by (rule life_steps_inv [OF assms(3) life_inv0 [OF assms(2)]])
  with assms(4) have "ended (lf_phase s)" by (auto simp: life_inv_def ended_def)
  with inv have "po_closed (fst (lf_pool s)) \<and> au_ch (ru_repo run) = [] \<and> au_workers (ru_repo run) = 0 \<and>
    mset (ru_written run) + mset (ru_dropped run) = mset (ru_accepted run)"
    by (auto simp: life_inv_def audit_inv_def auditWorkerCount_def run_def)
  moreover have "trail rows d run" "db = None \<longrightarrow> ru_written run = []"
    using life_trail [OF assms(1,3)] by (simp_all add: trail_kept_def run_def)
  moreover have "\<forall>q. db = Some q \<longrightarrow> takes_events q \<longrightarrow> ru_dropped run = []"
    using life_dropped assms(3) unfolding run_def by metis
  ultimately show ?thesis by (auto simp: trail_def split: option.split)
qed

text \<open>C27: The shutdown does not wait for the requests that it interrupts.  From every state in which the
  program serves, it can receive the signal and exit with status 0 while the same number of requests is still in
  flight; and a request that is in flight then can hit the closed queue and panic when it logs an event.\<close>

theorem shutdown_abandons_requests:
  assumes "NewPool D c cfg d0 = (Inr p, d1)" and "life_steps L db D (life0 p d1 d) s"
    and "lf_phase s = Serving" and "lf_requests s \<noteq> 0"
  shows "(\<exists>s'. life_steps L db D s s' \<and> lf_phase s' = Exited 0 \<and> lf_requests s' = lf_requests s) \<and>
    (\<exists>s'. life_steps L db D s s' \<and> lf_phase s' = Stopping \<and> lf_panics s' = lf_panics s + 1)"
proof -
  let ?r = "(lf_run s)\<lparr>ru_repo := Shutdown (ru_repo (lf_run s))\<rparr>"
  let ?t = "s\<lparr>lf_phase := Stopping, lf_run := ?r\<rparr>"
  have "life_inv s" by (rule life_steps_inv [OF assms(2) life_inv0 [OF assms(1)]])
  have "life_step L db D (s\<lparr>lf_phase := Returning\<rparr>) ?t" using life_step.stop [of "s\<lparr>lf_phase := Returning\<rparr>" L db D] by simp
  with life_step.signal [OF assms(3)] have t: "life_steps L db D s ?t" by (meson r_into_rtranclp rtranclp.rtrancl_into_rtrancl)
  from life_steps_inv [OF t \<open>life_inv s\<close>] have "audit_inv ?r" "au_closed (ru_repo ?r)" by (simp_all add: life_inv_def)
  then obtain r where r: "(drain_step L db)\<^sup>*\<^sup>* ?r r" "au_workers (ru_repo r) = 0" using drains by blast
  let ?u = "?t\<lparr>lf_run := r\<rparr>"
  let ?v = "?u\<lparr>lf_phase := Closed, lf_pool := Close D (lf_pool ?u)\<rparr>"
  have u: "life_steps L db D ?t ?u" by (rule life_drains) (use r in \<open>simp_all add: live_def\<close>)
  have "life_step L db D ?u ?v" by (rule life_step.close_pool) (use r in simp_all)
  moreover have "life_step L db D ?v (?v\<lparr>lf_phase := Exited 0\<rparr>)" by (rule life_step.exit) simp
  ultimately have exit: "life_steps L db D s (?v\<lparr>lf_phase := Exited 0\<rparr>)" using t u by (meson rtranclp_trans r_into_rtranclp)
  have "LogSecurityEvent True Background no_event (ru_repo (lf_run ?t)) = (Panic ''send on closed channel'', ru_repo (lf_run ?t))"
    using \<open>au_closed (ru_repo ?r)\<close> by (simp add: LogSecurityEvent_def Let_def)
  from life_step.audit_call [where L = L and db = db and D = D, OF _ _ this] assms(4)
  have "\<exists>s'. life_step L db D ?t s' \<and> lf_phase s' = Stopping \<and> lf_panics s' = lf_panics s + 1"
    by (fastforce simp: live_def)
  then obtain s' where "life_step L db D ?t s'" "lf_phase s' = Stopping \<and> lf_panics s' = lf_panics s + 1" by blast
  with t have "\<exists>s'. life_steps L db D s s' \<and> lf_phase s' = Stopping \<and> lf_panics s' = lf_panics s + 1"
    by (meson rtranclp.rtrancl_into_rtrancl)
  moreover have "\<exists>s'. life_steps L db D s s' \<and> lf_phase s' = Exited 0 \<and> lf_requests s' = lf_requests s"
    using exit by (intro exI [of _ "?v\<lparr>lf_phase := Exited 0\<rparr>"]) simp
  ultimately show ?thesis by blast
qed

section \<open>Closed examples\<close>

lemma shutdown_abandons_requests_witness:
  "\<exists>s s'. life_steps demo (None :: nat db option) demo_driver (life0 demo_pool 2 0) s \<and> lf_requests s = 1 \<and>
     life_steps demo (None :: nat db option) demo_driver s s' \<and> lf_phase s' = Exited 0 \<and> lf_requests s' = 1"
proof -
  let ?s0 = "life0 demo_pool (2 :: nat) (0 :: nat)"
  have "life_step demo None demo_driver ?s0 (?s0\<lparr>lf_requests := lf_requests ?s0 + 1\<rparr>)"
    by (rule life_step.request) (simp add: life0_def)
  then have s: "life_steps demo None demo_driver ?s0 (?s0\<lparr>lf_requests := 1\<rparr>)" by (simp add: life0_def)
  have "lf_phase (?s0\<lparr>lf_requests := 1\<rparr>) = Serving" "lf_requests (?s0\<lparr>lf_requests := 1\<rparr>) \<noteq> 0" by (simp_all add: life0_def)
  from shutdown_abandons_requests [OF demo_NewPool s this] obtain s'
    where "life_steps demo None demo_driver (?s0\<lparr>lf_requests := 1\<rparr>) s'" "lf_phase s' = Exited 0" "lf_requests s' = 1" by auto
  with s show ?thesis by (intro exI [of _ "?s0\<lparr>lf_requests := 1\<rparr>"] exI [of _ s']) simp
qed

lemma pool_closes_last_witness:
  "\<exists>s. life_steps demo (Some event_db) demo_driver (life0 demo_pool 2 (\<lambda>_ _. [])) s \<and> po_closed (fst (lf_pool s)) \<and>
     map mapAuditRow (ru_db (lf_run s) ''audit'' ''public'') = [no_event\<lparr>sv_TenantID := ''public''\<rparr>]"
proof -
  let ?s0 = "life0 demo_pool (2 :: nat) (\<lambda>_ _. []) :: (event_tables, nat) life"
  let ?s1 = "?s0\<lparr>lf_requests := 1\<rparr>"
  let ?repo = "NewAuditRepo\<lparr>au_ch := [no_event]\<rparr>"
  let ?s2 = "?s1\<lparr>lf_run := (lf_run ?s1)\<lparr>ru_repo := ?repo, ru_accepted := [no_event]\<rparr>\<rparr>"
  let ?s3 = "?s2\<lparr>lf_phase := Returning\<rparr>"
  let ?s4 = "?s3\<lparr>lf_phase := Stopping, lf_run := (lf_run ?s3)\<lparr>ru_repo := Shutdown ?repo\<rparr>\<rparr>"
  have one: "lf_run ?s4 = one_event" by (simp add: one_event_def life0_def)
  have s1: "life_step demo (Some event_db) demo_driver ?s0 ?s1"
    using life_step.request [of ?s0 demo "Some event_db" demo_driver] by (simp add: life0_def)
  have "LogSecurityEvent True Background no_event (ru_repo (lf_run ?s1)) = (Ret None, ?repo)"
    by (simp add: LogSecurityEvent_def life0_def run0_def NewAuditRepo_def Start_def auditQueueSize_def Background_def)
  from life_step.audit_call [OF _ _ this, of demo "Some event_db" demo_driver]
  have s2: "life_step demo (Some event_db) demo_driver ?s1 ?s2" by (simp add: life0_def live_def run0_def)
  have s3: "life_step demo (Some event_db) demo_driver ?s2 ?s3" by (rule life_step.signal) (simp add: life0_def)
  have s4: "life_step demo (Some event_db) demo_driver ?s3 ?s4"
    using life_step.stop [of ?s3 demo "Some event_db" demo_driver] by simp
  have "audit_inv one_event" "au_closed (ru_repo one_event)"
    using audit_reach_inv [OF one_event_reach] by (simp_all add: one_event_def Shutdown_def)
  then obtain r where r: "(drain_step demo (Some event_db))\<^sup>*\<^sup>* (lf_run ?s4) r" "au_workers (ru_repo r) = 0"
    "ru_accepted r = [no_event]" using drains [of one_event demo "Some event_db"] drains_accepted [of demo "Some event_db" one_event]
    unfolding one by (metis one_event_accepted)
  let ?s5 = "?s4\<lparr>lf_run := r\<rparr>"
  have s5: "life_steps demo (Some event_db) demo_driver ?s4 ?s5" by (rule life_drains) (use r in \<open>simp_all add: live_def\<close>)
  let ?s6 = "?s5\<lparr>lf_phase := Closed, lf_pool := Close demo_driver (lf_pool ?s5)\<rparr>"
  have s6: "life_step demo (Some event_db) demo_driver ?s5 ?s6" by (rule life_step.close_pool) (use r in simp_all)
  have run: "life_steps demo (Some event_db) demo_driver ?s0 ?s6" using s1 s2 s3 s4 s5 s6 by (meson rtranclp_trans r_into_rtranclp)
  have closed: "po_closed (fst (lf_pool ?s6)) \<or> lf_phase ?s6 = Exited 0" by simp
  have t: "mset (ru_written r) + mset (ru_dropped r) = mset [no_event]" "ru_dropped r = []"
    "map mapAuditRow (ru_db r ''audit'' ''public'') = map (\<lambda>e. e\<lparr>sv_TenantID := ''public''\<rparr>) (filter (\<lambda>e. audit_db e = ''public'') (ru_written r))"
    using pool_closes_last [OF _ demo_NewPool run closed, where rows = "\<lambda>ns dbn d. d ns dbn"] event_db_creates event_db_takes r(3)
    by auto
  then have "ru_written r = [no_event]" by simp
  with t(3) have "map mapAuditRow (ru_db (lf_run ?s6) ''audit'' ''public'') = [no_event\<lparr>sv_TenantID := ''public''\<rparr>]"
    by (simp add: audit_db_def no_event_def)
  moreover have "po_closed (fst (lf_pool ?s6))" by simp
  ultimately show ?thesis using run by (intro exI [of _ ?s6] conjI)
qed

end
