(* ===== verification/PoolRuns.thy ===== *)
theory PoolRuns
  imports Pool "HOL-Library.Multiset"
begin

text \<open>
  The connections of the pool (pool.go) over any interleaving of its callers.  Here the calls of theory Pool are
  taken apart where another goroutine can come between: \<open>returnConn\<close> reads the flag under the mutex and sends
  afterwards, \<open>reconnect\<close> dials and sends afterwards, \<open>Close\<close> sets the flag under the mutex, then takes the idle
  connections one by one, and closes the channel when it finds it empty.  Which connections are open is read from
  the driver.  The lemmas say that no connection is lost or handed out twice, that a send never waits, and when
  it panics.
\<close>

section \<open>The driver\<close>

text \<open>A new connection is not one of the open ones, \<open>Close\<close> closes it, and no other call opens or closes any.\<close>

locale conn_driver =
  fixes D :: "'d driver" and opened :: "'d \<Rightarrow> conn set"
  assumes dr_New: "dr_New D ep d = (r, d') \<Longrightarrow>
      (case r of Inl e \<Rightarrow> opened d' = opened d | Inr cn \<Rightarrow> cn \<notin> opened d \<and> opened d' = insert cn (opened d))"
    and dr_calls: "opened (snd (dr_SignIn D c u pw cn d)) = opened d" "opened (snd (dr_Use D c ns db cn d)) = opened d"
      "opened (snd (dr_Query D c cn sql vs d)) = opened d" "opened (snd (dr_Create D c cn tb dat d)) = opened d"
    and dr_Close: "opened (dr_Close D cn d) = opened d - {cn}"
begin

lemma newConn_opened:
  assumes "newConn D p c d = (r, d')"
  shows "case r of Inl e \<Rightarrow> opened d' = opened d | Inr cn \<Rightarrow> cn \<notin> opened d \<and> opened d' = insert cn (opened d)"
proof -
  obtain r1 d1 where new: "dr_New D (po_endpoint p) d = (r1, d1)" by (rule prod.exhaust)
  show ?thesis
  proof (cases r1)
    case (Inl e)
    with assms new dr_New [OF new] show ?thesis by (auto simp: newConn_def)
  next
    case (Inr cn)
    obtain r2 d2 where sign: "dr_SignIn D c (po_username p) (po_password p) cn d1 = (r2, d2)" by (rule prod.exhaust)
    obtain r3 d3 where uses: "dr_Use D c (po_defaultNS p) (po_defaultDB p) cn d2 = (r3, d3)" by (rule prod.exhaust)
    have "opened d2 = opened d1" "opened d3 = opened d2" using dr_calls sign uses by (metis snd_conv)+
    with assms new Inr sign uses dr_New [OF new] show ?thesis
      by (auto simp: newConn_def dr_Close split: option.splits)
  qed
qed

lemma fill_opened:
  assumes "fill_pool D c n i (p, d) = (None, p', d')" and "opened d = set (po_conns p)" and "distinct (po_conns p)"
  shows "opened d' = set (po_conns p') \<and> distinct (po_conns p')"
  using assms
proof (induction n arbitrary: i p d)
  case (Suc n)
  obtain r d1 where new: "newConn D p c d = (r, d1)" by (rule prod.exhaust)
  with Suc.prems(1) obtain cn where cn: "r = Inr cn" by (cases r) auto
  let ?p = "p\<lparr>po_conns := po_conns p @ [cn]\<rparr>"
  have fill: "fill_pool D c n (Suc i) (?p, d1) = (None, p', d')" using Suc.prems(1) new cn by simp
  have "opened d1 = set (po_conns ?p)" "distinct (po_conns ?p)"
    using newConn_opened [OF new] cn Suc.prems(2,3) by auto
  from Suc.IH [OF fill this] show ?case .
qed simp

end

section \<open>States and steps\<close>

text \<open>
  \<open>pr_held\<close> are the connections that callers use, \<open>pr_sending\<close> those of callers that stand before the send,
  \<open>pr_stuck\<close> those of callers whose send panicked; \<open>pr_closing\<close> says that a call of \<open>Close\<close> is under way.
\<close>

record 'd pool_run =
  pr_pool :: Pool
  pr_drv :: 'd
  pr_held :: "conn list"
  pr_sending :: "conn list"
  pr_stuck :: "conn list"
  pr_closing :: bool

definition pool_run0 :: "Pool \<Rightarrow> 'd \<Rightarrow> 'd pool_run" where
  "pool_run0 p d = \<lparr>pr_pool = p, pr_drv = d, pr_held = [], pr_sending = [], pr_stuck = [], pr_closing = False\<rparr>"

inductive pool_step :: "'d driver \<Rightarrow> 'd pool_run \<Rightarrow> 'd pool_run \<Rightarrow> bool" for D :: "'d driver" where
  take: "borrow pick c (pr_pool s) = (Done (Inr cn), p') \<Longrightarrow>
    pool_step D s (s\<lparr>pr_pool := p', pr_held := cn # pr_held s\<rparr>)"
| work: "cn \<in> set (pr_held s) \<Longrightarrow>
    d' \<in> {snd (dr_Use D c ns db cn (pr_drv s)), snd (dr_Query D c cn sql vs (pr_drv s)), snd (dr_Create D c cn tb dat (pr_drv s))} \<Longrightarrow>
    pool_step D s (s\<lparr>pr_drv := d'\<rparr>)"
| return_open: "cn \<in> set (pr_held s) \<Longrightarrow> \<not> po_closed (pr_pool s) \<Longrightarrow>
    pool_step D s (s\<lparr>pr_held := remove1 cn (pr_held s), pr_sending := cn # pr_sending s\<rparr>)"
| return_closed: "cn \<in> set (pr_held s) \<Longrightarrow> po_closed (pr_pool s) \<Longrightarrow>
    pool_step D s (s\<lparr>pr_held := remove1 cn (pr_held s), pr_drv := dr_Close D cn (pr_drv s)\<rparr>)"
| redial: "cn \<in> set (pr_held s) \<Longrightarrow> newConn D (pr_pool s) c (dr_Close D cn (pr_drv s)) = (Inr cn', d') \<Longrightarrow>
    pool_step D s (s\<lparr>pr_held := remove1 cn (pr_held s), pr_sending := cn' # pr_sending s, pr_drv := d'\<rparr>)"
| discard: "cn \<in> set (pr_held s) \<Longrightarrow> newConn D (pr_pool s) c (dr_Close D cn (pr_drv s)) = (Inl e, d') \<Longrightarrow>
    pool_step D s (s\<lparr>pr_held := remove1 cn (pr_held s), pr_drv := d'\<rparr>)"
| send: "cn \<in> set (pr_sending s) \<Longrightarrow> chan_send cn (pr_pool s) = (Done (), p') \<Longrightarrow>
    pool_step D s (s\<lparr>pr_sending := remove1 cn (pr_sending s), pr_pool := p'\<rparr>)"
| send_panic: "cn \<in> set (pr_sending s) \<Longrightarrow> chan_send cn (pr_pool s) = (Crash e, p') \<Longrightarrow>
    pool_step D s (s\<lparr>pr_sending := remove1 cn (pr_sending s), pr_stuck := cn # pr_stuck s\<rparr>)"
| close_mark: "\<not> po_closed (pr_pool s) \<Longrightarrow>
    pool_step D s (s\<lparr>pr_pool := (pr_pool s)\<lparr>po_closed := True\<rparr>, pr_closing := True\<rparr>)"
| close_drain: "pr_closing s \<Longrightarrow> po_conns (pr_pool s) = cn # rest \<Longrightarrow>
    pool_step D s (s\<lparr>pr_pool := (pr_pool s)\<lparr>po_conns := rest\<rparr>, pr_drv := dr_Close D cn (pr_drv s)\<rparr>)"
| close_chan: "pr_closing s \<Longrightarrow> po_conns (pr_pool s) = [] \<Longrightarrow>
    pool_step D s (s\<lparr>pr_pool := (pr_pool s)\<lparr>po_chan_closed := True\<rparr>, pr_closing := False\<rparr>)"

abbreviation pool_steps :: "'d driver \<Rightarrow> 'd pool_run \<Rightarrow> 'd pool_run \<Rightarrow> bool" where
  "pool_steps D \<equiv> (pool_step D)\<^sup>*\<^sup>*"

text \<open>With no other caller in between, the steps of a call make up the call.\<close>

lemma close_steps:
  assumes "pr_closing s"
  shows "pool_steps D s (s\<lparr>pr_pool := (pr_pool s)\<lparr>po_conns := [], po_chan_closed := True\<rparr>,
    pr_drv := fold (dr_Close D) (po_conns (pr_pool s)) (pr_drv s), pr_closing := False\<rparr>)"
  using assms
proof (induction "po_conns (pr_pool s)" arbitrary: s)
  case Nil
  from pool_step.close_chan [OF Nil(2) Nil(1) [symmetric], of D] Nil(1) [symmetric]
  show ?case by (cases s; cases "pr_pool s") (auto intro: r_into_rtranclp)
next
  case (Cons cn rest)
  let ?t = "s\<lparr>pr_pool := (pr_pool s)\<lparr>po_conns := rest\<rparr>, pr_drv := dr_Close D cn (pr_drv s)\<rparr>"
  have "pool_step D s ?t" by (rule pool_step.close_drain [OF Cons(3) Cons(2) [symmetric]])
  moreover have "rest = po_conns (pr_pool ?t)" "pr_closing ?t" using Cons(3) by simp_all
  note Cons(1) [OF this]
  ultimately show ?case using Cons(2) [symmetric] by (simp add: converse_rtranclp_into_rtranclp)
qed

lemma Close_is_its_steps:
  assumes "Close D (pr_pool s, pr_drv s) = (p', d')" and "\<not> po_closed (pr_pool s)"
  shows "pool_steps D s (s\<lparr>pr_pool := p', pr_drv := d', pr_closing := False\<rparr>)"
proof -
  have mark: "pool_step D s (s\<lparr>pr_pool := (pr_pool s)\<lparr>po_closed := True\<rparr>, pr_closing := True\<rparr>)"
    by (rule pool_step.close_mark [OF assms(2)])
  from converse_rtranclp_into_rtranclp [OF this close_steps] assms show ?thesis by (auto simp: Close_def)
qed

lemma returnConn_is_its_steps:
  assumes "returnConn D cn (pr_pool s, pr_drv s) = (Done (), p', d')" and "cn \<in> set (pr_held s)"
  shows "pool_steps D s (s\<lparr>pr_held := remove1 cn (pr_held s), pr_pool := p', pr_drv := d'\<rparr>)"
proof (cases "po_closed (pr_pool s)")
  case True
  with assms(1) have d: "d' = dr_Close D cn (pr_drv s)" and p: "p' = pr_pool s" by (auto simp: returnConn_def)
  have "s\<lparr>pr_held := remove1 cn (pr_held s), pr_pool := p', pr_drv := d'\<rparr> = s\<lparr>pr_held := remove1 cn (pr_held s), pr_drv := d'\<rparr>"
    using p by (cases s) simp
  with pool_step.return_closed [OF assms(2) True, of D] d show ?thesis by auto
next
  case False
  let ?t = "s\<lparr>pr_held := remove1 cn (pr_held s), pr_sending := cn # pr_sending s\<rparr>"
  have send: "chan_send cn (pr_pool ?t) = (Done (), p')" and d: "d' = pr_drv s"
    using assms(1) False by (auto simp: returnConn_def split: prod.splits)
  have "?t\<lparr>pr_sending := remove1 cn (pr_sending ?t), pr_pool := p'\<rparr> = s\<lparr>pr_held := remove1 cn (pr_held s), pr_pool := p', pr_drv := d'\<rparr>"
    using d by (cases s) simp
  with pool_step.send [OF _ send, of D] pool_step.return_open [OF assms(2) False, of D] show ?thesis
    by (simp add: converse_rtranclp_into_rtranclp)
qed

section \<open>The books of the pool\<close>

definition conns_of :: "'d pool_run \<Rightarrow> conn list" where
  "conns_of s = po_conns (pr_pool s) @ pr_held s @ pr_sending s @ pr_stuck s"

lemma conns_of_mset [simp]:
  "mset (conns_of s) = mset (po_conns (pr_pool s)) + mset (pr_held s) + mset (pr_sending s) + mset (pr_stuck s)"
  by (simp add: conns_of_def)

definition accounted :: "('d \<Rightarrow> conn set) \<Rightarrow> 'd pool_run \<Rightarrow> bool" where
  "accounted opened s \<longleftrightarrow>
     distinct (conns_of s) \<and> opened (pr_drv s) = set (conns_of s) \<and>
     int (length (conns_of s)) \<le> po_maxConns (pr_pool s) \<and>
     (pr_closing s \<or> po_chan_closed (pr_pool s) \<longrightarrow> po_closed (pr_pool s)) \<and>
     (\<not> po_chan_closed (pr_pool s) \<longrightarrow> pr_stuck s = [])"

text \<open>The three ways in which a step changes the connections: it moves one, closes one, or replaces one.\<close>

lemma accounted_move:
  assumes "accounted opened s" and "mset (conns_of t) = mset (conns_of s)" and "opened (pr_drv t) = opened (pr_drv s)"
    and "po_maxConns (pr_pool t) = po_maxConns (pr_pool s)" and "pr_closing t \<or> po_chan_closed (pr_pool t) \<longrightarrow> po_closed (pr_pool t)"
    and "\<not> po_chan_closed (pr_pool t) \<longrightarrow> pr_stuck t = []"
  shows "accounted opened t"
  using assms mset_eq_imp_distinct_iff [OF assms(2)] mset_eq_setD [OF assms(2)] mset_eq_length [OF assms(2)]
  by (simp add: accounted_def del: conns_of_mset)

lemma accounted_close:
  assumes "accounted opened s" and "cn \<in> set (conns_of s)" and "mset (conns_of t) = mset (remove1 cn (conns_of s))"
    and "opened (pr_drv t) = opened (pr_drv s) - {cn}"
    and "po_maxConns (pr_pool t) = po_maxConns (pr_pool s)" and "pr_closing t \<or> po_chan_closed (pr_pool t) \<longrightarrow> po_closed (pr_pool t)"
    and "\<not> po_chan_closed (pr_pool t) \<longrightarrow> pr_stuck t = []"
  shows "accounted opened t"
proof -
  have same: "distinct (conns_of t) \<longleftrightarrow> distinct (remove1 cn (conns_of s))" "set (conns_of t) = set (remove1 cn (conns_of s))"
    "length (conns_of t) = length (remove1 cn (conns_of s))"
    using mset_eq_imp_distinct_iff mset_eq_setD mset_eq_length assms(3) by blast+
  have "distinct (conns_of s)" using assms(1) by (simp add: accounted_def)
  then have "distinct (conns_of t)" "set (conns_of t) = set (conns_of s) - {cn}" using same by simp_all
  moreover have "length (conns_of t) \<le> length (conns_of s)" using same(3) by (simp add: length_remove1)
  ultimately show ?thesis using assms(1,4-7) by (simp add: accounted_def del: conns_of_mset)
qed

lemma accounted_replace:
  assumes "accounted opened s" and "cn \<in> set (conns_of s)" and "mset (conns_of t) = mset (cn' # remove1 cn (conns_of s))"
    and "cn' \<notin> opened (pr_drv s) - {cn}" and "opened (pr_drv t) = insert cn' (opened (pr_drv s) - {cn})"
    and "po_maxConns (pr_pool t) = po_maxConns (pr_pool s)" and "pr_closing t \<or> po_chan_closed (pr_pool t) \<longrightarrow> po_closed (pr_pool t)"
    and "\<not> po_chan_closed (pr_pool t) \<longrightarrow> pr_stuck t = []"
  shows "accounted opened t"
proof -
  let ?xs = "cn' # remove1 cn (conns_of s)"
  have same: "distinct (conns_of t) \<longleftrightarrow> distinct ?xs" "set (conns_of t) = set ?xs" "length (conns_of t) = length ?xs"
    using mset_eq_imp_distinct_iff mset_eq_setD mset_eq_length assms(3) by blast+
  have s: "distinct (conns_of s)" "opened (pr_drv s) = set (conns_of s)" using assms(1) by (simp_all add: accounted_def)
  then have "set (remove1 cn (conns_of s)) = set (conns_of s) - {cn}" by simp
  then have "distinct (conns_of t)" "set (conns_of t) = insert cn' (set (conns_of s) - {cn})" using same s assms(4) by simp_all
  moreover have "length (conns_of t) = length (conns_of s)"
    using same(3) length_pos_if_in_set [OF assms(2)] assms(2) by (simp add: length_remove1)
  ultimately show ?thesis using assms(1,5-8) s by (simp add: accounted_def del: conns_of_mset)
qed

lemma borrow_Some:
  "borrow pick c p = (Done (Inr conn), p') \<Longrightarrow> \<exists>rest. po_conns p = conn # rest \<and> p' = p\<lparr>po_conns := rest\<rparr>"
  by (auto simp: borrow_def split: list.splits option.splits if_splits)

lemma chan_send_cases:
  assumes "chan_send cn p = (r, p')"
  shows "po_chan_closed p \<and> r = Crash ''send on closed channel'' \<and> p' = p \<or>
    \<not> po_chan_closed p \<and> po_maxConns p \<le> int (length (po_conns p)) \<and> r = Block \<and> p' = p \<or>
    \<not> po_chan_closed p \<and> r = Done () \<and> p' = p\<lparr>po_conns := po_conns p @ [cn]\<rparr>"
  using assms by (auto simp: chan_send_def split: if_splits)

context conn_driver
begin

lemma step_accounted:
  assumes "pool_step D s t" and "accounted opened s"
  shows "accounted opened t"
  using assms(1)
proof cases
  case (take pick c cn p')
  from borrow_Some [OF take(2)] obtain rest where "po_conns (pr_pool s) = cn # rest" "p' = (pr_pool s)\<lparr>po_conns := rest\<rparr>" by blast
  with take(1) assms(2) show ?thesis by (intro accounted_move [OF assms(2)]) (auto simp: accounted_def)
next
  case (work cn d' c ns db sql vs tb dat)
  have "opened d' = opened (pr_drv s)" using work(3) by (auto simp: dr_calls)
  with work(1) assms(2) show ?thesis by (intro accounted_move [OF assms(2)]) (auto simp: accounted_def)
next
  case (return_open cn)
  then show ?thesis using assms(2) by (intro accounted_move [OF assms(2)]) (auto simp: accounted_def)
next
  case (return_closed cn)
  then show ?thesis using assms(2)
    by (intro accounted_close [OF assms(2), of cn]) (auto simp: accounted_def dr_Close conns_of_def)
next
  case (redial cn c cn' d')
  from newConn_opened [OF redial(3)] have "cn' \<notin> opened (pr_drv s) - {cn}" "opened d' = insert cn' (opened (pr_drv s) - {cn})"
    by (simp_all add: dr_Close)
  with redial assms(2) show ?thesis
    by (intro accounted_replace [OF assms(2), of cn _ cn']) (auto simp: accounted_def conns_of_def)
next
  case (discard cn c e d')
  from newConn_opened [OF discard(3)] have "opened d' = opened (pr_drv s) - {cn}" by (simp add: dr_Close)
  with discard assms(2) show ?thesis
    by (intro accounted_close [OF assms(2), of cn]) (auto simp: accounted_def conns_of_def)
next
  case (send cn p')
  from chan_send_cases [OF send(3)] have "\<not> po_chan_closed (pr_pool s)" "p' = (pr_pool s)\<lparr>po_conns := po_conns (pr_pool s) @ [cn]\<rparr>"
    by auto
  with send assms(2) show ?thesis by (intro accounted_move [OF assms(2)]) (auto simp: accounted_def)
next
  case (send_panic cn e p')
  from chan_send_cases [OF send_panic(3)] have "po_chan_closed (pr_pool s)" by auto
  with send_panic assms(2) show ?thesis by (intro accounted_move [OF assms(2)]) (auto simp: accounted_def)
next
  case close_mark
  with assms(2) show ?thesis by (intro accounted_move [OF assms(2)]) (auto simp: accounted_def)
next
  case (close_drain cn rest)
  with assms(2) show ?thesis
    by (intro accounted_close [OF assms(2), of cn]) (auto simp: accounted_def dr_Close conns_of_def)
next
  case close_chan
  with assms(2) show ?thesis by (intro accounted_move [OF assms(2)]) (auto simp: accounted_def)
qed

lemma steps_accounted: "pool_steps D s t \<Longrightarrow> accounted opened s \<Longrightarrow> accounted opened t"
  by (induction rule: rtranclp_induct) (auto intro: step_accounted)

lemma new_accounted:
  assumes "NewPool D c cfg d = (Inr p, d')" and "opened d = {}"
  shows "accounted opened (pool_run0 p d')"
proof -
  let ?m = "if cf_MaxConns cfg \<le> 0 then 10 else cf_MaxConns cfg"
  obtain p0 where "fill_pool D c (nat ?m) 0 (p0, d) = (None, p, d')" "po_conns p0 = []"
    using assms(1) by (auto simp: NewPool_def Let_def split: if_splits option.splits prod.splits)
  from fill_opened [OF this(1)] this(2) assms(2) NewPool_open [OF assms(1)]
  show ?thesis by (simp add: accounted_def pool_run0_def conns_of_def pool_open_def)
qed

end

section \<open>Properties\<close>

text \<open>C19: The pool keeps its books over any interleaving of its callers.  From a new pool, whatever the callers do
  and whenever \<open>Close\<close> is called: the connections that the driver has open are exactly those that wait in the
  channel, that callers use, that callers are about to send, or that were in a send that panicked; no connection
  is in two places, so it is never handed to two callers; and until \<open>Close\<close> closes the channel no send
  panics and none has to wait.\<close>

theorem pool_accounted:
  assumes "conn_driver D opened" and "NewPool D c cfg d = (Inr p, d')" and "opened d = {}"
    and "pool_steps D (pool_run0 p d') s"
  shows "distinct (po_conns (pr_pool s) @ pr_held s @ pr_sending s @ pr_stuck s) \<and>
    opened (pr_drv s) = set (po_conns (pr_pool s) @ pr_held s @ pr_sending s @ pr_stuck s) \<and>
    (\<not> po_chan_closed (pr_pool s) \<longrightarrow> pr_stuck s = [] \<and>
      (\<forall>cn \<in> set (pr_sending s). \<exists>p'. chan_send cn (pr_pool s) = (Done (), p')))"
proof -
  have acc: "accounted opened s"
    by (rule conn_driver.steps_accounted [OF assms(1,4) conn_driver.new_accounted [OF assms(1-3)]])
  have "\<exists>p'. chan_send cn (pr_pool s) = (Done (), p')" if "cn \<in> set (pr_sending s)" "\<not> po_chan_closed (pr_pool s)" for cn
  proof -
    have "int (length (po_conns (pr_pool s))) + int (length (pr_sending s)) \<le> po_maxConns (pr_pool s)"
      using acc by (simp add: accounted_def conns_of_def)
    moreover have "0 < int (length (pr_sending s))" using length_pos_if_in_set [OF that(1)] by simp
    ultimately have "\<not> po_maxConns (pr_pool s) \<le> int (length (po_conns (pr_pool s)))" by linarith
    with that(2) show ?thesis by (simp add: chan_send_def)
  qed
  with acc show ?thesis by (auto simp: accounted_def conns_of_def)
qed

text \<open>C20: Returning a connection races with \<open>Close\<close>.  Whoever uses a connection while the pool is open can have read
  that it is open, and be overtaken by a whole \<open>Close\<close>: then the send panics.\<close>

theorem return_races_close:
  assumes "conn_driver D opened" and "NewPool D c cfg d = (Inr p, d')" and "opened d = {}"
    and "pool_steps D (pool_run0 p d') s" and "cn \<in> set (pr_held s)" and "\<not> po_closed (pr_pool s)"
  shows "\<exists>t. pool_steps D s t \<and> cn \<in> set (pr_sending t) \<and>
    chan_send cn (pr_pool t) = (Crash ''send on closed channel'', pr_pool t)"
proof -
  let ?a = "s\<lparr>pr_held := remove1 cn (pr_held s), pr_sending := cn # pr_sending s\<rparr>"
  have a: "pool_step D s ?a" by (rule pool_step.return_open [OF assms(5,6)])
  obtain p1 d1 where close: "Close D (pr_pool ?a, pr_drv ?a) = (p1, d1)" by (rule prod.exhaust)
  from Close_is_its_steps [OF this] assms(6) have "pool_steps D ?a (?a\<lparr>pr_pool := p1, pr_drv := d1, pr_closing := False\<rparr>)" by simp
  with a have "pool_steps D s (?a\<lparr>pr_pool := p1, pr_drv := d1, pr_closing := False\<rparr>)" by (rule converse_rtranclp_into_rtranclp)
  moreover have "po_chan_closed p1" using close assms(6) by (auto simp: Close_def)
  ultimately show ?thesis by (intro exI [of _ "?a\<lparr>pr_pool := p1, pr_drv := d1, pr_closing := False\<rparr>"]) (simp add: chan_send_def)
qed

section \<open>A closed driver\<close>

text \<open>The driver has the number of the next connection and the connections it has made and not closed.\<close>

definition conn_table :: "(nat \<times> conn list) driver" where
  "conn_table = \<lparr>dr_New = (\<lambda>ep d. (Inr (fst d), (Suc (fst d), fst d # snd d))), dr_SignIn = (\<lambda>c u p cn d. (None, d)),
     dr_Use = (\<lambda>c ns db cn d. (None, d)), dr_Query = (\<lambda>c cn sql vs d. (Inr [AList []], d)),
     dr_Create = (\<lambda>c cn t vs d. (Inr [], d)), dr_Close = (\<lambda>cn d. (fst d, removeAll cn (snd d)))\<rparr>"

definition table_opened :: "nat \<times> conn list \<Rightarrow> conn set" where
  "table_opened d = {cn \<in> set (snd d). cn < fst d}"

interpretation table: conn_driver conn_table table_opened
  by unfold_locales (auto simp: conn_table_def table_opened_def)

lemma table_NewPool: "NewPool conn_table Background demo_cfg (0, []) = (Inr demo_pool, (2, [1, 0]))"
  by (simp add: NewPool_def demo_cfg_def conn_table_def demo_pool_def newConn_def numeral_2_eq_2)

lemma table_taken: "pool_steps conn_table (pool_run0 demo_pool (2, [1, 0]))
    ((pool_run0 demo_pool (2, [1, 0]))\<lparr>pr_pool := demo_pool\<lparr>po_conns := [1]\<rparr>, pr_held := [0]\<rparr>)"
proof -
  have "borrow True Background (pr_pool (pool_run0 demo_pool (2, [1, 0]))) = (Done (Inr 0), demo_pool\<lparr>po_conns := [1]\<rparr>)"
    by (simp add: pool_run0_def borrow_def demo_pool_def Background_def)
  from pool_step.take [OF this, of conn_table] show ?thesis by (auto simp: pool_run0_def)
qed

lemma pool_accounted_witness:
  "\<exists>s. pool_steps conn_table (pool_run0 demo_pool (2, [1, 0])) s \<and> pr_held s = [0] \<and>
     table_opened (pr_drv s) = set (po_conns (pr_pool s) @ pr_held s @ pr_sending s @ pr_stuck s)"
proof -
  let ?s = "(pool_run0 demo_pool (2, [1, 0 :: nat]))\<lparr>pr_pool := demo_pool\<lparr>po_conns := [1]\<rparr>, pr_held := [0]\<rparr>"
  have "table_opened (0, []) = {}" by (simp add: table_opened_def)
  from pool_accounted [OF table.conn_driver_axioms table_NewPool this table_taken] table_taken show ?thesis
    by (intro exI [of _ ?s]) simp
qed

lemma return_races_close_witness:
  "\<exists>t. pool_steps conn_table (pool_run0 demo_pool (2, [1, 0])) t \<and>
     chan_send 0 (pr_pool t) = (Crash ''send on closed channel'', pr_pool t)"
proof -
  let ?s = "(pool_run0 demo_pool (2, [1, 0 :: nat]))\<lparr>pr_pool := demo_pool\<lparr>po_conns := [1]\<rparr>, pr_held := [0]\<rparr>"
  have "\<exists>t. pool_steps conn_table ?s t \<and> 0 \<in> set (pr_sending t) \<and> chan_send 0 (pr_pool t) = (Crash ''send on closed channel'', pr_pool t)"
    by (rule return_races_close [OF table.conn_driver_axioms table_NewPool _ table_taken]) (simp_all add: table_opened_def demo_pool_def)
  then show ?thesis using table_taken by (meson rtranclp_trans)
qed

end
