(* ===== verification/Spec2Isabelle.thy ===== *)
theory Spec2Isabelle
  imports IdentityDb OtpRepo Answers Lifecycle PoolRuns
begin

text \<open>
  A verification library for loxtu-go, a multi-tenant sign-in service in Go: one-time passwords by mail,
  passkeys, external identity providers, sessions with rotating refresh tokens, envelope encryption of
  personal data, an audit trail, a dashboard behind a guard, and the pages that it serves.

  The program in a few words.  \<open>main\<close> (cmd/server/main.go) reads the settings, opens a pool of SurrealDB
  connections and puts together repositories, services and handlers; a router runs each request through the
  middleware and one handler.  The handlers of sign-in (internal/interfaces/http/handlers) call the services
  of internal/core, which know the stores, the mail server and the providers as ports only; the adapters
  (internal/adapters) implement the ports.  A handler answers with a status, headers, cookies and a JSON value,
  a text or a template (internal/interfaces/templates); what the user does with the page is the next request.

  How the code is modelled.  A struct is a record and keeps its field names with a prefix, a port is a
  record of operations, a nil port or pointer is \<open>None\<close>.  A method that changes state takes the state and
  returns it; an \<open>(T, error)\<close> is \<open>goerr + 't\<close>, and a function that can panic (a slice out of range, a nil
  map, a send on a closed channel) has a result of type \<open>go\<close>, so that each error and each panic of the
  source is a branch.  A Go string is the list of its bytes.  What a call reads from the clock, the random
  source or the scheduler is an argument.  SQL statements are kept with their text; theory Sql reads the
  assignments of CREATE and UPDATE off it.  An action of a handler
  is a function on the pair of a state and the response written so far (type \<open>act\<close>, theory Http).

  The theories.
  \<^item> GoLib, GoCodec, GoVal: the prelude, the parts of Go and of its standard library that the program uses:
    errors and panics, slices and strings, decimal and hex and base64 texts, dynamic values and contexts, and
    the record \<open>golib\<close> of hashes, ciphers and parsers.
  \<^item> Email, User: addresses, their hash and mask (security/crypto.go, core/identity/user.go,
    shared/httputil/http.go, handlers/tenant_resolver.go); users, tenants, handles and context keys
    (core/identity/user.go, tenant.go, context.go).
  \<^item> Crypto, Settings: security/crypto.go, security/keymanager.go, config/security.go, config/env.go: the
    envelope of a data key, what the readers of the settings accept, and the checks that \<open>main\<close> makes before it
    serves, the construction of the WebAuthn library included.
  \<^item> Stores, Otp, Jwt, Session, Passkey, OAuth: the ports and services of core/identity (store.go,
    otp_service.go, session.go, token_service.go, passkey_service.go, oauth_service.go, oauth_manager.go).
    The locales \<open>otp_store\<close>, \<open>user_lookup\<close>, \<open>session_store\<close> and \<open>token_service\<close> are the contracts that the
    services rely on.
  \<^item> Pool, PoolRuns: surrealdb/pool.go.  In Pool a call runs from its start to its end, as one caller sees it; in
    PoolRuns the calls are taken apart where another goroutine can come between (the mutex is released before the
    send, \<open>Close\<close> drains the channel one connection at a time) and their steps interleave.
  \<^item> Surreal, Sql, UserRepo, SessionRepo, OtpRepo, CredRepo, TenantRepo, OAuthRepo, IdentityDb: the
    repositories of adapters/persistence/surrealdb.  The locales \<open>surreal_...\<close> state what the
    statements do to their tables; sublocales show that the repositories then keep the contracts of the
    services, and small databases in closed form satisfy the locales.
  \<^item> RateLimit, AuditLog, Smtp, Providers: adapters/ratelimit/memory.go with core/identity/rate_limit.go,
    core/audit with audit_repo.go and the Telegram publisher, adapters/messaging/smtp, adapters/oauth.
  \<^item> Http, Middleware, Csrf, SlidingWindow, Guard: requests, responses and actions; request ids, the log
    line, the security headers, the CSRF check and the limiter of interfaces/http/middleware, and the guard
    (handlers/auth_guard.go).
  \<^item> AuthHandler, PasskeyHandler, OAuthHandler, Dashboard: the handlers of the same names.
  \<^item> Worlds, Server, Routes: cmd/server/main.go.  \<open>site\<close> is the state that the adapters share, \<open>wiring\<close> what
    \<open>main\<close> has when it wires the program, \<open>moment\<close> what one request reads from outside; \<open>route\<close> is the table
    of routes with the middleware in its order, \<open>serve\<close> the whole handler.  Worlds carries the contract of a
    store over to the larger world.  Routes states properties of the handlers as properties of requests.
  \<^item> Lifecycle: the end of \<open>main\<close>, as interleaved steps of the server, the signal, the requests in flight, the
    audit workers and the deferred calls (\<open>life_step\<close>).
  \<^item> Templ, Components, Pages: the compiled templates (interfaces/templates, *_templ.go).  A template is the
    list of its parts in the order of its code: texts with their numbers, placeholders with the file, line
    and column that their error names, conditions, loops, and calls of other templates.  \<open>render\<close> runs the
    list on a buffer as the compiled code does, the release of the buffer included; \<open>html\<close> is the text it writes
    when nothing fails.
  \<^item> Markup, Holes, Placed, Screens, Answers: what a browser makes of the pages: a scanner for their tags and
    the controls of their forms, the discipline of the placeholders, the ten pages that the handlers render,
    and the way from an answer to the next request.

  What the lemmas show.
  \<^item> One-time passwords: when \<open>Verify\<close> accepts (Otp), that over any run of attempts on a code it accepts at most
    once and within three attempts, and when exactly the SurrealDB store keeps the contract this rests on: when
    the driver gives the counter of attempts back as a float64, and without that the limit is void (OtpRepo).
  \<^item> Sessions: access tokens are accepted exactly when signed with the secret under an HMAC method and allowed by
    their dates, those they have; a refresh token is good for one use, also through the routes (Session, IdentityDb, Routes).
  \<^item> Access: nothing of the dashboard is served without a valid token, the token of an issued session opens
    the dashboard of its own tenant, and outside of six routes no answer grants an access cookie (Guard, Server).
  \<^item> Passkeys and providers: a challenge and a state are consumed by their first use; a login without an
    address yields the owner of the credential (Passkey, OAuth, OAuthHandler); an authorization URL says to a
    provider what the service means (Providers).
  \<^item> Data: personal data comes back from its envelope, erasing a user removes what could open it (Crypto,
    UserRepo); in any interleaving the open connections are those that the pool or its callers have, each once
    (PoolRuns); a shutdown of the audit queue ends, with every accepted event in the table of its tenant or
    dropped with a line in the log, and the pool is closed after that (AuditLog, Lifecycle).
  \<^item> Limits: at most twice the quota passes within a window of the fixed-window limiter, at most the limit
    within any window of the sliding one (RateLimit, SlidingWindow).
  \<^item> Pages: no value in an answer adds or changes markup, whatever the request and the state; the form that asks
    for a code sends back what \<open>VerifyOTP\<close> reads (Screens, Answers).
  \<^item> Where the code does not do what it means to, the theorem states what it does: \<open>skip_route_signs_in\<close>,
    \<open>send_otp_reveals_hash\<close>, \<open>oauth_user_always_empty\<close>, \<open>otp_limit_void\<close>, \<open>save_credential_replaces\<close>,
    \<open>logout_trusts_token\<close>, \<open>retry_form_is_dead\<close>, \<open>register_page_is_dead\<close>, \<open>dead_connections_stay\<close>,
    \<open>return_races_close\<close>, \<open>shutdown_abandons_requests\<close>.

  The answers of a program are followed by frames: an action \<open>keeps\<close> a relation between the responses before
  and after it (locale \<open>kept\<close>, theory Http).  The locale \<open>answers_kept\<close> (Server) lifts a relation that the helpers
  keep through guard, CSRF check, limiter and routes, and \<open>answers_kind\<close> (Answers) does so for a property of
  each body.  The granting of cookies and the pages served are interpretations of them.

  Parameters, and what is assumed of them where a theorem needs it:  SHA-256 gives 32 bytes, AES-GCM opens
  what it sealed (\<open>golib\<close>); the JWT library signs and checks as documented (\<open>jwtlib\<close>, \<open>jwt_ok\<close>); WebAuthn
  (\<open>webauthn\<close>); the HTTP client of the providers; the mail server; the effect of the statements on their tables
  (\<open>db\<close> and the locales \<open>surreal_...\<close>; for the erasure and the audit trail only that the database runs the
  UPDATE and CREATE statements it accepts, \<open>runs_updates\<close> and \<open>runs_creates\<close>); the SurrealDB driver (\<open>driver\<close>, locale \<open>conn_driver\<close>); the router with its Recoverer,
  RealIP, file server and answer for unknown paths (\<open>router\<close>); the templ library (\<open>templ\<close>, \<open>templ_ok\<close>: it escapes as
  html.EscapeString does) and its buffer (\<open>twriter\<close>, locale \<open>templ_writer\<close>: a write appends what it is given
  or a beginning of it).  Every hypothesis holds of a closed instance that the examples use.

  Bounds.  All loops of the program are structural recursions or recursions over lists, so nothing here
  runs on fuel.  The constants are those of the code: three attempts and three minutes for a code, 100
  requests a minute for an address, an audit queue of 1024 events and five workers, 32 random bytes in a token.
  Durations and counters stay far below 64 bits and are unbounded integers; times are nanoseconds.

  Not modelled.  The timeouts of the HTTP server, log output (except for what a log line can do to the
  request: the slices in it that panic; the line of a dropped audit event is kept) and closing deferred by a
  function whose result is ignored are input and output without state of the program.  web/embed.go is a directive and a variable; its file server is a
  parameter.  The migrations are SurrealQL that operators run; the repositories rely on what their statements do,
  which is stated as hypotheses.  Mutexes are not modelled as such: what is done while one is held is one step, and
  where the code goes on after releasing it (the pool) the rest is another.  The
  scripts of the pages are not Go and are kept as texts; the scanner reads the markup that the templates
  contain (values in double quotes, no \<open><\<close> in scripts) and is not a model of HTML at large.
\<close>

end
